(* ===== verification/Go_Prelude.thy ===== *)
theory Go_Prelude
  imports Main "HOL-Library.State_Monad"
begin

text \<open>
  The prelude of the development: the parts of the Go language and of its standard library
  that the operator uses everywhere.

  \<^item> Strings are byte strings: a \<^typ>\<open>string\<close> is a list of 8-bit characters, as a Go
    \<^verbatim>\<open>string\<close> is. \<open>TrimSpace\<close>, \<open>ToLower\<close>, \<open>Split\<close>, \<open>HasPrefix\<close>, \<open>HasSuffix\<close>,
    \<open>Contains\<close>, \<open>TrimPrefix\<close> are the functions of package \<^verbatim>\<open>strings\<close>; \<open>Quote\<close> is the
    \<^verbatim>\<open>%q\<close> verb and \<open>Itoa\<close> the \<^verbatim>\<open>%d\<close> verb of \<^verbatim>\<open>fmt\<close>.
    \<open>TrimSpace\<close> removes every Unicode white-space character (as its UTF-8 bytes). \<open>ToLower\<close>
    lowers the ASCII letters and the two other characters whose lower case is an ASCII letter
    (the Kelvin sign and the dotted capital I); it leaves the remaining bytes unchanged, which is
    enough because the code only compares the result with ASCII strings.
  \<^item> Errors are values: \<open>go_error\<close> keeps the chain of wrapped errors (\<^verbatim>\<open>%w\<close>), so that
    \<open>errors_Is\<close> and the reason tests of the Kubernetes client look through it. A Go function
    that returns \<open>(T, error)\<close> has a result of type \<open>go_error + 'a\<close>, one that returns only
    \<open>error\<close> has type \<open>go_error option\<close>.
  \<^item> Time is a number of nanoseconds; \<open>Unix\<close> is the time in whole seconds.
\<close>

named_theorems go_run "unfolding the programs of the model into runs of the state monad"
named_theorems go_split "case splits for results and objects"

section \<open>Strings\<close>

fun HasPrefix :: "string \<Rightarrow> string \<Rightarrow> bool" where
  "HasPrefix s [] = True"
| "HasPrefix [] (p # ps) = False"
| "HasPrefix (c # s) (p # ps) = (c = p \<and> HasPrefix s ps)"

definition HasSuffix :: "string \<Rightarrow> string \<Rightarrow> bool" where
  "HasSuffix s suf = HasPrefix (rev s) (rev suf)"

fun Contains :: "string \<Rightarrow> string \<Rightarrow> bool" where
  "Contains [] sub = (sub = [])"
| "Contains (c # s) sub = (HasPrefix (c # s) sub \<or> Contains s sub)"

definition TrimPrefix :: "string \<Rightarrow> string \<Rightarrow> string" where
  "TrimPrefix s p = (if HasPrefix s p then drop (length p) s else s)"

text \<open>The UTF-8 encodings of the characters \<^verbatim>\<open>unicode.IsSpace\<close> accepts.\<close>

definition space_runes :: "string list" where
  "space_runes =
     [[CHR 0x20], [CHR 0x09], [CHR 0x0A], [CHR 0x0B], [CHR 0x0C], [CHR 0x0D],
      [CHR 0xC2, CHR 0x85], [CHR 0xC2, CHR 0xA0], [CHR 0xE1, CHR 0x9A, CHR 0x80],
      [CHR 0xE2, CHR 0x80, CHR 0x80], [CHR 0xE2, CHR 0x80, CHR 0x81],
      [CHR 0xE2, CHR 0x80, CHR 0x82], [CHR 0xE2, CHR 0x80, CHR 0x83],
      [CHR 0xE2, CHR 0x80, CHR 0x84], [CHR 0xE2, CHR 0x80, CHR 0x85],
      [CHR 0xE2, CHR 0x80, CHR 0x86], [CHR 0xE2, CHR 0x80, CHR 0x87],
      [CHR 0xE2, CHR 0x80, CHR 0x88], [CHR 0xE2, CHR 0x80, CHR 0x89],
      [CHR 0xE2, CHR 0x80, CHR 0x8A], [CHR 0xE2, CHR 0x80, CHR 0xA8],
      [CHR 0xE2, CHR 0x80, CHR 0xA9], [CHR 0xE2, CHR 0x80, CHR 0xAF],
      [CHR 0xE2, CHR 0x81, CHR 0x9F], [CHR 0xE3, CHR 0x80, CHR 0x80]]"

fun trim_front :: "string list \<Rightarrow> string \<Rightarrow> string" where
  "trim_front qs [] = []"
| "trim_front qs (c # s) =
     (case find (HasPrefix (c # s)) qs of
        None \<Rightarrow> c # s
      | Some q \<Rightarrow> trim_front qs (drop (length q - 1) s))"

definition TrimSpace :: "string \<Rightarrow> string" where
  "TrimSpace s = rev (trim_front (map rev space_runes) (rev (trim_front space_runes s)))"

definition lower_char :: "char \<Rightarrow> char" where
  "lower_char c =
     (case map_of (zip ''ABCDEFGHIJKLMNOPQRSTUVWXYZ'' ''abcdefghijklmnopqrstuvwxyz'') c of
        Some d \<Rightarrow> d
      | None \<Rightarrow> c)"

fun ToLower :: "string \<Rightarrow> string" where
  "ToLower [] = []"
| "ToLower (c # s) =
     (if HasPrefix (c # s) [CHR 0xE2, CHR 0x84, CHR 0xAA] then CHR ''k'' # ToLower (drop 2 s)
      else if HasPrefix (c # s) [CHR 0xC4, CHR 0xB0] then CHR ''i'' # ToLower (drop 1 s)
      else lower_char c # ToLower s)"

text \<open>\<^verbatim>\<open>strings.Split\<close> for a one-character separator.\<close>

fun Split :: "char \<Rightarrow> string \<Rightarrow> string list" where
  "Split sep [] = [[]]"
| "Split sep (c # s) =
     (if c = sep then [] # Split sep s
      else (case Split sep s of p # ps \<Rightarrow> (c # p) # ps | [] \<Rightarrow> [[c]]))"

fun join_with :: "string \<Rightarrow> string list \<Rightarrow> string" where
  "join_with sep [] = []"
| "join_with sep [p] = p"
| "join_with sep (p # q # ps) = p @ sep @ join_with sep (q # ps)"

fun Itoa_nat :: "nat \<Rightarrow> string" where
  "Itoa_nat n =
     (if n < 10 then [''0123456789'' ! n] else Itoa_nat (n div 10) @ [''0123456789'' ! (n mod 10)])"

declare Itoa_nat.simps [simp del]

definition Itoa :: "int \<Rightarrow> string" where
  "Itoa i = (if i < 0 then ''-'' @ Itoa_nat (nat (- i)) else Itoa_nat (nat i))"

text \<open>
  The \<^verbatim>\<open>%q\<close> verb: a double-quoted Go literal. Control characters other than the named
  escapes are written \<^verbatim>\<open>\x..\<close>; bytes of printable characters stay as they are.
\<close>

definition quote_char :: "char \<Rightarrow> string" where
  "quote_char c =
     (if c = CHR 0x22 then [CHR 0x5C, CHR 0x22]
      else if c = CHR 0x5C then [CHR 0x5C, CHR 0x5C]
      else if c = CHR 0x07 then [CHR 0x5C, CHR ''a'']
      else if c = CHR 0x08 then [CHR 0x5C, CHR ''b'']
      else if c = CHR 0x0C then [CHR 0x5C, CHR ''f'']
      else if c = CHR 0x0A then [CHR 0x5C, CHR ''n'']
      else if c = CHR 0x0D then [CHR 0x5C, CHR ''r'']
      else if c = CHR 0x09 then [CHR 0x5C, CHR ''t'']
      else if c = CHR 0x0B then [CHR 0x5C, CHR ''v'']
      else if (of_char c :: nat) < 32 \<or> (of_char c :: nat) = 127
        then [CHR 0x5C, CHR ''x'', ''0123456789abcdef'' ! (of_char c div 16), ''0123456789abcdef'' ! (of_char c mod 16)]
      else [c])"

definition Quote :: "string \<Rightarrow> string" where
  "Quote s = CHR 0x22 # concat (map quote_char s) @ [CHR 0x22]"

section \<open>Errors and time\<close>

text \<open>
  The reasons of Kubernetes API errors that the operator tells apart. \<open>Errorf\<close> is an error
  made by \<^verbatim>\<open>fmt.Errorf\<close> or \<^verbatim>\<open>errors.New\<close> on the spot, \<open>Sentinel\<close> a package-level error
  value, \<open>ApiStatus\<close> an error of the API server and \<open>Wrapf\<close> the result of \<^verbatim>\<open>fmt.Errorf\<close>
  with a \<^verbatim>\<open>%w\<close> verb between two pieces of text.
\<close>

datatype api_reason = NotFound | AlreadyExists | Conflict | Forbidden | OtherReason

datatype go_error =
    Errorf string
  | Sentinel string
  | ApiStatus api_reason string
  | Wrapf string go_error string

fun Error :: "go_error \<Rightarrow> string" where
  "Error (Errorf m) = m"
| "Error (Sentinel m) = m"
| "Error (ApiStatus r m) = m"
| "Error (Wrapf pre e post) = pre @ Error e @ post"

fun errors_Is :: "go_error \<Rightarrow> go_error \<Rightarrow> bool" where
  "errors_Is (Wrapf pre e post) t = (Wrapf pre e post = t \<or> errors_Is e t)"
| "errors_Is e t = (e = t)"

fun ReasonForError :: "go_error \<Rightarrow> api_reason option" where
  "ReasonForError (ApiStatus r m) = Some r"
| "ReasonForError (Wrapf pre e post) = ReasonForError e"
| "ReasonForError _ = None"

definition IsNotFound :: "go_error \<Rightarrow> bool" where
  "IsNotFound e = (ReasonForError e = Some NotFound)"

definition IsConflictErr :: "go_error \<Rightarrow> bool" where
  "IsConflictErr e = (ReasonForError e = Some Conflict)"

definition IsAlreadyExists :: "go_error \<Rightarrow> bool" where
  "IsAlreadyExists e = (ReasonForError e = Some AlreadyExists)"

definition IsForbidden :: "go_error \<Rightarrow> bool" where
  "IsForbidden e = (ReasonForError e = Some Forbidden)"

type_synonym 'a result = "go_error + 'a"
type_synonym time = int

definition seconds :: "int \<Rightarrow> int" where
  "seconds n = n * 1000000000"

definition Unix :: "time \<Rightarrow> int" where
  "Unix t = t div 1000000000"

text \<open>The zero \<^verbatim>\<open>time.Time\<close> is midnight of 1 January of the year 1.\<close>

definition zero_time :: time where
  "zero_time = - 62135596800000000000"

definition IsZero :: "time \<Rightarrow> bool" where
  "IsZero t \<longleftrightarrow> t = zero_time"

text \<open>A \<^verbatim>\<open>map[string]string\<close> read: a missing key gives the empty string.\<close>

definition go_get :: "(string \<rightharpoonup> string) \<Rightarrow> string \<Rightarrow> string" where
  "go_get m k = (case m k of Some v \<Rightarrow> v | None \<Rightarrow> '''')"

text \<open>
  \<open>no_front qs s\<close>: no sequence of \<open>qs\<close> is a prefix of the non-empty string \<open>s\<close>. It is what
  trimming establishes, it is kept by prefixes of the string, and trimming is the identity there.
\<close>

definition no_front :: "string list \<Rightarrow> string \<Rightarrow> bool" where
  "no_front qs s \<longleftrightarrow> s = [] \<or> (\<forall>q \<in> set qs. \<not> HasPrefix s q)"

section \<open>Lemmas on strings\<close>

lemma HasPrefix_iff: "HasPrefix s p \<longleftrightarrow> (\<exists>t. s = p @ t)"
  by (induction s p rule: HasPrefix.induct) auto

lemma HasPrefix_append [simp]: "HasPrefix (p @ t) p"
  by (auto simp: HasPrefix_iff)

lemma HasSuffix_iff: "HasSuffix s suf \<longleftrightarrow> (\<exists>t. s = t @ suf)"
proof -
  have "HasSuffix s suf \<longleftrightarrow> (\<exists>t. rev s = rev suf @ t)"
    by (simp add: HasSuffix_def HasPrefix_iff)
  also have "\<dots> \<longleftrightarrow> (\<exists>t. s = t @ suf)"
    by (metis rev_append rev_rev_ident)
  finally show ?thesis .
qed

lemma Contains_iff: "Contains s sub \<longleftrightarrow> (\<exists>a b. s = a @ sub @ b)"
proof (induction s)
  case Nil
  then show ?case by auto
next
  case (Cons c s)
  have "(\<exists>a b. c # s = a @ sub @ b) \<longleftrightarrow> HasPrefix (c # s) sub \<or> (\<exists>a b. s = a @ sub @ b)"
    by (auto simp: HasPrefix_iff append_eq_Cons_conv Cons_eq_append_conv)
  with Cons show ?case by simp
qed

lemma trim_front_no_front: "no_front qs (trim_front qs s)"
  by (induction qs s rule: trim_front.induct)
    (auto simp: no_front_def find_None_iff split: option.splits)

lemma trim_front_id: "no_front qs s \<Longrightarrow> trim_front qs s = s"
  by (cases s) (auto simp: no_front_def find_Some_iff split: option.split)

lemma no_front_prefix: "no_front qs (s @ t) \<Longrightarrow> no_front qs s"
  unfolding no_front_def HasPrefix_iff by (metis Nil_is_append_conv append.assoc)

lemma trim_front_suffix: "\<exists>t. s = t @ trim_front qs s"
proof (induction qs s rule: trim_front.induct)
  case (1 qs)
  then show ?case by simp
next
  case (2 qs c s)
  show ?case
  proof (cases "find (HasPrefix (c # s)) qs")
    case None
    then show ?thesis by simp
  next
    case (Some q)
    let ?d = "drop (length q - 1) s"
    from 2 Some obtain t where "?d = t @ trim_front qs ?d" by blast
    then have "c # s = (c # take (length q - 1) s @ t) @ trim_front qs ?d"
      by (metis append_Cons append_assoc append_take_drop_id)
    moreover have "trim_front qs (c # s) = trim_front qs ?d"
      using Some by simp
    ultimately show ?thesis by metis
  qed
qed

lemma TrimSpace_idem [simp]: "TrimSpace (TrimSpace s) = TrimSpace s"
proof -
  let ?F = "trim_front space_runes" and ?B = "trim_front (map rev space_runes)"
  let ?x = "?F s" and ?y = "rev (?B (rev (?F s)))"
  obtain t where "rev ?x = t @ ?B (rev ?x)"
    using trim_front_suffix by blast
  then have "?x = ?y @ rev t" by (metis rev_append rev_rev_ident)
  then have "no_front space_runes ?y"
    using trim_front_no_front [of space_runes s] no_front_prefix [of space_runes ?y "rev t"] by simp
  then have "?F ?y = ?y" by (rule trim_front_id)
  moreover have "?B (rev ?y) = rev ?y"
    by (simp add: trim_front_id trim_front_no_front)
  ultimately show ?thesis by (simp add: TrimSpace_def)
qed

lemma TrimSpace_Nil [simp]: "TrimSpace [] = []"
  by (simp add: TrimSpace_def)

text \<open>A string that starts and ends with a visible ASCII character has nothing to trim.\<close>

definition graphic :: "char \<Rightarrow> bool" where
  "graphic c \<longleftrightarrow> 33 \<le> (of_char c :: nat) \<and> (of_char c :: nat) \<le> 126"

lemma no_front_hd: "\<forall>q \<in> set qs. q \<noteq> [] \<and> hd q \<noteq> hd s \<Longrightarrow> no_front qs s"
  by (auto simp: no_front_def HasPrefix_iff)

lemma TrimSpace_id:
  assumes "graphic (hd s)" and "graphic (last s)"
  shows "TrimSpace s = s"
proof (cases "s = []")
  case False
  have "\<forall>q \<in> set space_runes. q \<noteq> [] \<and> \<not> graphic (hd q) \<and> \<not> graphic (last q)"
    by (simp add: space_runes_def graphic_def)
  then have "\<forall>q \<in> set space_runes. q \<noteq> [] \<and> hd q \<noteq> hd s"
    and "\<forall>q \<in> set (map rev space_runes). q \<noteq> [] \<and> hd q \<noteq> hd (rev s)"
    using assms False by (auto simp: hd_rev)
  then have "no_front space_runes s" and "no_front (map rev space_runes) (rev s)"
    by (blast intro: no_front_hd)+
  then show ?thesis by (simp add: TrimSpace_def trim_front_id)
qed simp

lemma Split_ne_Nil [simp]: "Split sep s \<noteq> []"
  by (induction s) (auto split: list.split)

lemma Split_no_sep: "sep \<notin> set p \<Longrightarrow> Split sep p = [p]"
  by (induction p) auto

lemma Split_append: "sep \<notin> set p \<Longrightarrow> Split sep (p @ sep # s) = p # Split sep s"
  by (induction p) auto

text \<open>Splitting a join gives the parts back, when no part contains the separator.\<close>

lemma Split_join_with:
  "ps \<noteq> [] \<Longrightarrow> \<forall>p \<in> set ps. sep \<notin> set p \<Longrightarrow> Split sep (join_with [sep] ps) = ps"
  by (induction "[sep]" ps rule: join_with.induct) (auto simp: Split_no_sep Split_append)

text \<open>Joining a split gives the string back.\<close>

lemma join_with_Split: "join_with [sep] (Split sep s) = s"
proof (induction s)
  case Nil
  then show ?case by simp
next
  case (Cons c s)
  obtain p ps where s: "Split sep s = p # ps"
    using Split_ne_Nil by (cases "Split sep s") auto
  with Cons show ?case by (cases ps) auto
qed

lemma Split_parts_no_sep: "p \<in> set (Split sep s) \<Longrightarrow> sep \<notin> set p"
  by (induction s arbitrary: p) (auto split: if_splits list.splits)

section \<open>Lemmas on lists\<close>

text \<open>The first element of a list with a property.\<close>

lemma find_Some_split:
  "find P xs = Some x \<longleftrightarrow> (\<exists>before after. xs = before @ x # after \<and> (\<forall>y \<in> set before. \<not> P y) \<and> P x)"
proof (induction xs)
  case Nil
  then show ?case by simp
next
  case (Cons a xs)
  show ?case
  proof (cases "P a")
    case True
    then show ?thesis by (auto simp: Cons_eq_append_conv)
  next
    case False
    then have "(\<exists>before after. a # xs = before @ x # after \<and> (\<forall>y \<in> set before. \<not> P y) \<and> P x) \<longleftrightarrow>
        (\<exists>before after. xs = before @ x # after \<and> (\<forall>y \<in> set before. \<not> P y) \<and> P x)"
      by (auto simp: Cons_eq_append_conv) (metis append_Cons set_ConsD)
    with False Cons show ?thesis by simp
  qed
qed

section \<open>Lemmas on errors\<close>

lemma errors_Is_self [simp]: "errors_Is e e"
  by (cases e) auto

lemma errors_Is_Wrapf [simp]: "errors_Is (Wrapf pre e post) (Sentinel m) = errors_Is e (Sentinel m)"
  by simp

lemma IsNotFound_Wrapf [simp]: "IsNotFound (Wrapf pre e post) = IsNotFound e"
  by (simp add: IsNotFound_def)

lemma IsNotFound_simps [simp]:
  "IsNotFound (ApiStatus r m) = (r = NotFound)"
  "IsNotFound (Errorf m) = False"
  "IsNotFound (Sentinel m) = False"
  by (simp_all add: IsNotFound_def)

section \<open>Runs of programs\<close>

text \<open>
  A step of a program that reads or writes the world is a value of type
  \<open>('w, 'a) state\<close> of the library theory State-Monad; the equations below unfold a run.
\<close>

lemmas run_simps [go_run] = Let_def

lemmas result_splits [go_split] = sum.splits option.splits if_splits

end
