(* ===== verification/Go_Json.thy ===== *)
theory Go_Json
  imports Go_Prelude
begin

text \<open>
  JSON documents and what \<^verbatim>\<open>encoding/json\<close> does with them. A document is a tree; the members
  of an object are kept in document order, with duplicates, because decoding into a struct
  processes them in that order. Reading the bytes of a document is
  the subject of theory Go-Json-Text; what is modelled here is the
  decoding of a parsed document:

  \<^item> into \<^verbatim>\<open>any\<close> (\<open>go_any\<close>): a repeated member keeps its last value;
  \<^item> into a struct (\<open>unmarshal_struct\<close>): each member sets the field with its exact name or,
    failing that, with the same name up to case folding; members with no field are ignored;
    \<open>null\<close> leaves a scalar field as it is; a value of the wrong type is an error.

  A Go map with string keys that is iterated over is an association list.
\<close>

datatype json =
    JNull
  | JBool bool
  | JInt int
  | JFloat string
  | JString string
  | JArray "json list"
  | JObject "(string \<times> json) list"

fun last_wins :: "(string \<times> 'a) list \<Rightarrow> (string \<times> 'a) list" where
  "last_wins [] = []"
| "last_wins ((k, v) # kvs) =
     (if k \<in> set (map fst kvs) then last_wins kvs else (k, v) # last_wins kvs)"

fun go_any :: "json \<Rightarrow> json" where
  "go_any (JArray js) = JArray (map go_any js)"
| "go_any (JObject kvs) = JObject (last_wins (map (\<lambda>(k, v). (k, go_any v)) kvs))"
| "go_any j = j"

text \<open>
  Case folding of member names: ASCII letters, and the two characters outside ASCII that fold to
  an ASCII letter (the Kelvin sign and the long s).
\<close>

fun fold_name :: "string \<Rightarrow> string" where
  "fold_name [] = []"
| "fold_name (c # s) =
     (if HasPrefix (c # s) [CHR 0xE2, CHR 0x84, CHR 0xAA] then CHR ''k'' # fold_name (drop 2 s)
      else if HasPrefix (c # s) [CHR 0xC5, CHR 0xBF] then CHR ''s'' # fold_name (drop 1 s)
      else lower_char c # fold_name s)"

definition find_field :: "string list \<Rightarrow> string \<Rightarrow> string option" where
  "find_field names k =
     (if k \<in> set names then Some k else find (\<lambda>n. fold_name n = fold_name k) names)"

type_synonym 'a fields = "(string \<times> (json \<Rightarrow> 'a \<Rightarrow> 'a option)) list"

definition decode_entry :: "'a fields \<Rightarrow> string \<Rightarrow> json \<Rightarrow> 'a \<Rightarrow> 'a option" where
  "decode_entry fs k v a =
     (case find_field (map fst fs) k of
        None \<Rightarrow> Some a
      | Some n \<Rightarrow> (case map_of fs n of None \<Rightarrow> Some a | Some dec \<Rightarrow> dec v a))"

fun decode_entries :: "'a fields \<Rightarrow> (string \<times> json) list \<Rightarrow> 'a \<Rightarrow> 'a option" where
  "decode_entries fs [] a = Some a"
| "decode_entries fs ((k, v) # kvs) a =
     (case decode_entry fs k v a of None \<Rightarrow> None | Some a' \<Rightarrow> decode_entries fs kvs a')"

definition unmarshal_struct :: "'a fields \<Rightarrow> json \<Rightarrow> 'a \<Rightarrow> 'a option" where
  "unmarshal_struct fs j a =
     (case j of JNull \<Rightarrow> Some a | JObject kvs \<Rightarrow> decode_entries fs kvs a | _ \<Rightarrow> None)"

text \<open>Decoders for the field types the operator uses, over a record's update function.\<close>

definition dec_string :: "((string \<Rightarrow> string) \<Rightarrow> 'a \<Rightarrow> 'a) \<Rightarrow> json \<Rightarrow> 'a \<Rightarrow> 'a option" where
  "dec_string upd j a =
     (case j of JString s \<Rightarrow> Some (upd (\<lambda>_. s) a) | JNull \<Rightarrow> Some a | _ \<Rightarrow> None)"

definition dec_bool_ptr :: "((bool option \<Rightarrow> bool option) \<Rightarrow> 'a \<Rightarrow> 'a) \<Rightarrow> json \<Rightarrow> 'a \<Rightarrow> 'a option" where
  "dec_bool_ptr upd j a =
     (case j of JBool b \<Rightarrow> Some (upd (\<lambda>_. Some b) a) | JNull \<Rightarrow> Some (upd (\<lambda>_. None) a) | _ \<Rightarrow> None)"

definition in_width :: "nat \<Rightarrow> int \<Rightarrow> bool" where
  "in_width w i \<longleftrightarrow> - (2 ^ (w - 1)) \<le> i \<and> i < 2 ^ (w - 1)"

definition dec_int :: "nat \<Rightarrow> ((int \<Rightarrow> int) \<Rightarrow> 'a \<Rightarrow> 'a) \<Rightarrow> json \<Rightarrow> 'a \<Rightarrow> 'a option" where
  "dec_int w upd j a =
     (case j of
        JInt i \<Rightarrow> if in_width w i then Some (upd (\<lambda>_. i) a) else None
      | JNull \<Rightarrow> Some a
      | _ \<Rightarrow> None)"

definition dec_int_ptr :: "nat \<Rightarrow> ((int option \<Rightarrow> int option) \<Rightarrow> 'a \<Rightarrow> 'a) \<Rightarrow> json \<Rightarrow> 'a \<Rightarrow> 'a option" where
  "dec_int_ptr w upd j a =
     (case j of
        JInt i \<Rightarrow> if in_width w i then Some (upd (\<lambda>_. Some i) a) else None
      | JNull \<Rightarrow> Some (upd (\<lambda>_. None) a)
      | _ \<Rightarrow> None)"

text \<open>An element of a slice or map of strings: \<open>null\<close> gives the zero value.\<close>

definition elem_string :: "json \<Rightarrow> string option" where
  "elem_string j = (case j of JString s \<Rightarrow> Some s | JNull \<Rightarrow> Some '''' | _ \<Rightarrow> None)"

fun elem_strings :: "json list \<Rightarrow> string list option" where
  "elem_strings [] = Some []"
| "elem_strings (j # js) =
     (case elem_string j of
        None \<Rightarrow> None
      | Some s \<Rightarrow> map_option (\<lambda>ss. s # ss) (elem_strings js))"

definition dec_strings :: "((string list \<Rightarrow> string list) \<Rightarrow> 'a \<Rightarrow> 'a) \<Rightarrow> json \<Rightarrow> 'a \<Rightarrow> 'a option" where
  "dec_strings upd j a =
     (case j of
        JArray js \<Rightarrow> map_option (\<lambda>ss. upd (\<lambda>_. ss) a) (elem_strings js)
      | JNull \<Rightarrow> Some (upd (\<lambda>_. []) a)
      | _ \<Rightarrow> None)"

fun map_put :: "string \<Rightarrow> 'v \<Rightarrow> (string \<times> 'v) list \<Rightarrow> (string \<times> 'v) list" where
  "map_put k v [] = [(k, v)]"
| "map_put k v ((k', v') # m) = (if k = k' then (k, v) # m else (k', v') # map_put k v m)"

fun put_members :: "(string \<times> json) list \<Rightarrow> (string \<times> string) list \<Rightarrow> (string \<times> string) list option" where
  "put_members [] m = Some m"
| "put_members ((k, v) # kvs) m =
     (case elem_string v of None \<Rightarrow> None | Some s \<Rightarrow> put_members kvs (map_put k s m))"

text \<open>
  A \<^verbatim>\<open>map[string]string\<close> field: \<open>None\<close> is the nil map. Decoding an object adds its members to
  the map already there.
\<close>

definition dec_string_map ::
  "(((string \<times> string) list option \<Rightarrow> (string \<times> string) list option) \<Rightarrow> 'a \<Rightarrow> 'a) \<Rightarrow>
   ('a \<Rightarrow> (string \<times> string) list option) \<Rightarrow> json \<Rightarrow> 'a \<Rightarrow> 'a option" where
  "dec_string_map upd sel j a =
     (case j of
        JObject kvs \<Rightarrow>
          map_option (\<lambda>m. upd (\<lambda>_. Some m) a)
            (put_members kvs (case sel a of None \<Rightarrow> [] | Some m \<Rightarrow> m))
      | JNull \<Rightarrow> Some (upd (\<lambda>_. None) a)
      | _ \<Rightarrow> None)"

text \<open>A \<^verbatim>\<open>map[string]any\<close> field, with \<open>[]\<close> for both the nil and the empty map.\<close>

definition dec_any_map ::
  "(((string \<times> json) list \<Rightarrow> (string \<times> json) list) \<Rightarrow> 'a \<Rightarrow> 'a) \<Rightarrow>
   ('a \<Rightarrow> (string \<times> json) list) \<Rightarrow> json \<Rightarrow> 'a \<Rightarrow> 'a option" where
  "dec_any_map upd sel j a =
     (case j of
        JObject kvs \<Rightarrow>
          Some (upd (\<lambda>_. foldl (\<lambda>m (k, v). map_put k (go_any v) m) (sel a) kvs) a)
      | JNull \<Rightarrow> Some (upd (\<lambda>_. []) a)
      | _ \<Rightarrow> None)"

text \<open>\<^verbatim>\<open>json.Unmarshal\<close> into a \<^verbatim>\<open>map[string]any\<close>: \<open>null\<close> gives the nil map.\<close>

definition unmarshal_any_map :: "json \<Rightarrow> (string \<times> json) list option" where
  "unmarshal_any_map j =
     (case j of
        JObject kvs \<Rightarrow> Some (last_wins (map (\<lambda>(k, v). (k, go_any v)) kvs))
      | JNull \<Rightarrow> Some []
      | _ \<Rightarrow> None)"

text \<open>
  The value a string field called \<open>n\<close> ends up with: the last string among the members whose
  name folds to \<open>n\<close>, or the value \<open>d\<close> it had.
\<close>

fun field_string :: "string \<Rightarrow> (string \<times> json) list \<Rightarrow> string \<Rightarrow> string" where
  "field_string n [] d = d"
| "field_string n ((k, v) # kvs) d =
     field_string n kvs
       (if fold_name k = fold_name n then (case v of JString s \<Rightarrow> s | _ \<Rightarrow> d) else d)"

section \<open>Lemmas\<close>

lemma set_last_wins: "set (last_wins kvs) \<subseteq> set kvs"
  by (induction kvs rule: last_wins.induct) auto

lemma keys_last_wins [simp]: "set (map fst (last_wins kvs)) = set (map fst kvs)"
  by (induction kvs rule: last_wins.induct) auto

lemma distinct_last_wins [simp]: "distinct (map fst (last_wins kvs))"
  by (induction kvs rule: last_wins.induct) (use keys_last_wins in auto)

lemma map_of_last_wins: "map_of (last_wins kvs) = map_of (rev kvs)"
proof (induction kvs rule: last_wins.induct)
  case 1
  then show ?case by simp
next
  case (2 k v kvs)
  show ?case
  proof (cases "k \<in> set (map fst kvs)")
    case True
    then have "k \<in> dom (map_of (rev kvs))" by (simp add: dom_map_of_conv_image_fst)
    with 2 True show ?thesis
      by (auto simp: fun_eq_iff map_add_def split: option.split)
  next
    case False
    then have "map_of (rev kvs) k = None"
      by (simp add: map_of_eq_None_iff)
    with 2 False show ?thesis
      by (auto simp: fun_eq_iff map_add_def split: option.split)
  qed
qed

lemma map_of_map_put [simp]: "map_of (map_put k v m) = (map_of m)(k \<mapsto> v)"
  by (induction k v m rule: map_put.induct) auto

lemma keys_map_put [simp]: "fst ` set (map_put k v m) = insert k (fst ` set m)"
  by (induction k v m rule: map_put.induct) auto

lemma distinct_map_put: "distinct (map fst m) \<Longrightarrow> distinct (map fst (map_put k v m))"
  by (induction k v m rule: map_put.induct) auto

lemma distinct_put_members:
  "put_members kvs m = Some m' \<Longrightarrow> distinct (map fst m) \<Longrightarrow> distinct (map fst m')"
  by (induction kvs m rule: put_members.induct) (auto split: option.splits dest: distinct_map_put)

text \<open>
  When no two fields of a struct fold to the same name, a member sets field \<open>n\<close> exactly when its
  name folds to \<open>n\<close>: the choice does not depend on the other fields of the struct.
\<close>

lemma find_field_iff:
  assumes "distinct (map fold_name names)" and "n \<in> set names"
  shows "find_field names k = Some n \<longleftrightarrow> fold_name k = fold_name n"
proof -
  have inj: "fold_name x = fold_name y \<Longrightarrow> x = y" if "x \<in> set names" "y \<in> set names" for x y
    using assms(1) that by (auto simp: distinct_map dest: inj_onD)
  show ?thesis
  proof (cases "k \<in> set names")
    case True
    then show ?thesis using inj assms(2) by (auto simp: find_field_def)
  next
    case False
    show ?thesis
    proof (cases "find (\<lambda>n. fold_name n = fold_name k) names")
      case None
      with assms(2) have "fold_name k \<noteq> fold_name n" by (auto simp: find_None_iff)
      with None False show ?thesis by (simp add: find_field_def)
    next
      case (Some m)
      then have "m \<in> set names" and "fold_name m = fold_name k"
        by (auto simp: find_Some_iff)
      with Some False assms(2) inj show ?thesis by (auto simp: find_field_def)
    qed
  qed
qed

lemma find_field_in: "find_field names k = Some n \<Longrightarrow> n \<in> set names"
  by (auto simp: find_field_def find_Some_iff split: if_splits)

text \<open>
  Decoding a struct gives a string field the value \<open>field_string\<close> describes, whatever the other
  fields are, as long as their decoders leave it alone.
\<close>

lemma decode_entry_string_field:
  assumes "decode_entry fs k v a = Some a'"
    and dist: "distinct (map fold_name (map fst fs))"
    and n: "(n, dec_string upd) \<in> set fs"
    and upd: "\<And>s b. sel (upd (\<lambda>_. s) b) = s"
    and others: "\<And>m dec v b b'. (m, dec) \<in> set fs \<Longrightarrow> m \<noteq> n \<Longrightarrow> dec v b = Some b' \<Longrightarrow> sel b' = sel b"
  shows "sel a' = (if fold_name k = fold_name n then (case v of JString s \<Rightarrow> s | _ \<Rightarrow> sel a) else sel a)"
proof (cases "find_field (map fst fs) k")
  case None
  moreover have "n \<in> set (map fst fs)" using n by force
  ultimately have "fold_name k \<noteq> fold_name n"
    using find_field_iff [OF dist, of n k] by auto
  with None assms(1) show ?thesis by (simp add: decode_entry_def)
next
  case (Some m)
  have dist': "distinct (map fst fs)" using dist unfolding distinct_map [of fold_name] by simp
  have "n \<in> set (map fst fs)" using n by force
  with find_field_iff [OF dist, of n k] Some have m: "m = n \<longleftrightarrow> fold_name k = fold_name n" by auto
  show ?thesis
  proof (cases "m = n")
    case True
    with dist' n have "map_of fs m = Some (dec_string upd)" by simp
    with assms(1) Some m True upd show ?thesis
      by (auto simp: decode_entry_def dec_string_def split: json.splits)
  next
    case False
    with assms(1) Some m others show ?thesis
      by (auto simp: decode_entry_def split: option.splits dest: map_of_SomeD)
  qed
qed

lemma decode_entries_string_field:
  assumes "decode_entries fs kvs a = Some a'"
    and "distinct (map fold_name (map fst fs))"
    and "(n, dec_string upd) \<in> set fs"
    and "\<And>s b. sel (upd (\<lambda>_. s) b) = s"
    and "\<And>m dec v b b'. (m, dec) \<in> set fs \<Longrightarrow> m \<noteq> n \<Longrightarrow> dec v b = Some b' \<Longrightarrow> sel b' = sel b"
  shows "sel a' = field_string n kvs (sel a)"
  using assms(1)
proof (induction kvs arbitrary: a)
  case Nil
  then show ?case by simp
next
  case (Cons e kvs)
  obtain k v where e: "e = (k, v)" by (cases e)
  with Cons.prems obtain b where b: "decode_entry fs k v a = Some b"
    and rest: "decode_entries fs kvs b = Some a'"
    by (auto split: option.splits)
  from decode_entry_string_field [OF b assms(2-5)] Cons.IH [OF rest]
  show ?case by (simp add: e cong: if_cong)
qed

text \<open>A member no decoder accepts makes the decoding of the whole struct fail.\<close>

lemma decode_entries_bad_member:
  "(k, v) \<in> set kvs \<Longrightarrow> (\<And>b. decode_entry fs k v b = None) \<Longrightarrow> decode_entries fs kvs a = None"
  by (induction fs kvs a rule: decode_entries.induct) (auto split: option.splits)

text \<open>The value a string field has after decoding a document.\<close>

definition doc_string :: "string \<Rightarrow> json \<Rightarrow> string" where
  "doc_string n doc = (case doc of JObject kvs \<Rightarrow> field_string n kvs '''' | _ \<Rightarrow> '''')"

lemma unmarshal_struct_string_field:
  assumes "unmarshal_struct fs doc a = Some a'" and "sel a = ''''"
    and "distinct (map fold_name (map fst fs))"
    and "(n, dec_string upd) \<in> set fs"
    and "\<And>s b. sel (upd (\<lambda>_. s) b) = s"
    and "\<And>m dec v b b'. (m, dec) \<in> set fs \<Longrightarrow> m \<noteq> n \<Longrightarrow> dec v b = Some b' \<Longrightarrow> sel b' = sel b"
  shows "sel a' = doc_string n doc"
proof (cases doc)
  case (JObject kvs)
  with assms(1) have "decode_entries fs kvs a = Some a'" by (simp add: unmarshal_struct_def)
  from decode_entries_string_field [OF this assms(3-6)] show ?thesis
    using assms(2) JObject by (simp add: doc_string_def)
qed (use assms in \<open>auto simp: unmarshal_struct_def doc_string_def\<close>)

text \<open>A field none of the members fold to keeps its initial value.\<close>

lemma field_string_absent:
  "\<forall>k \<in> set (map fst kvs). fold_name k \<noteq> fold_name n \<Longrightarrow> field_string n kvs d = d"
  by (induction n kvs d rule: field_string.induct) auto

end
