(* ===== verification/Api_Types.thy ===== *)
theory Api_Types
  imports Go_Json
begin

text \<open>
  The API objects of the operator: \<^verbatim>\<open>api/ops/v1alpha1\<close> (Operation, Cluster) and
  \<^verbatim>\<open>api/apps/v1alpha1\<close> (ApplicationInstance), field by field, with the constants the code names.

  \<^item> The string enumerations of the API stay strings: the code compares them, and a value outside
    the enumeration is a case it handles.
  \<^item> A pointer is an \<open>option\<close>; \<^verbatim>\<open>*runtime.RawExtension\<close> is the bytes it carries.
  \<^item> Of \<^verbatim>\<open>metav1.ObjectMeta\<close> the fields the operator reads or writes are kept. Labels and
    annotations are maps; \<^verbatim>\<open>TypeMeta\<close> is left out, as the code never reads it.
  \<^item> A field whose name is shared by several structs is prefixed by the struct.
\<close>

section \<open>Object metadata\<close>

record OwnerReference =
  or_APIVersion :: string
  or_Kind :: string
  or_Name :: string
  or_UID :: string
  or_Controller :: bool

record ObjectMeta =
  Name :: string
  Namespace :: string
  UID :: string
  Generation :: int
  Labels :: "string \<rightharpoonup> string"
  Annotations :: "string \<rightharpoonup> string"
  Finalizers :: "string list"
  DeletionTimestamp :: "time option"
  OwnerReferences :: "OwnerReference list"

definition meta0 :: ObjectMeta where
  "meta0 = \<lparr>Name = '''', Namespace = '''', UID = '''', Generation = 0, Labels = Map.empty,
     Annotations = Map.empty, Finalizers = [], DeletionTimestamp = None, OwnerReferences = []\<rparr>"

text \<open>\<^verbatim>\<open>metav1.Condition\<close>, with the fields the operator sets.\<close>

record Condition =
  c_Type :: string
  c_Status :: string
  c_Reason :: string
  c_Message :: string
  LastTransitionTime :: time

abbreviation ConditionTrue :: string where "ConditionTrue \<equiv> ''True''"
abbreviation ConditionFalse :: string where "ConditionFalse \<equiv> ''False''"
abbreviation ConditionUnknown :: string where "ConditionUnknown \<equiv> ''Unknown''"

section \<open>Operation\<close>

abbreviation OperationFinalizer :: string where "OperationFinalizer \<equiv> ''ops.vworkspace.io/finalizer''"

abbreviation OperationTypeBackup :: string where "OperationTypeBackup \<equiv> ''Backup''"
abbreviation OperationTypeRestore :: string where "OperationTypeRestore \<equiv> ''Restore''"
abbreviation OperationTypeUpgrade :: string where "OperationTypeUpgrade \<equiv> ''Upgrade''"
abbreviation OperationTypeMigration :: string where "OperationTypeMigration \<equiv> ''Migration''"
abbreviation OperationTypeRunCommand :: string where "OperationTypeRunCommand \<equiv> ''RunCommand''"
abbreviation OperationTypeRunbook :: string where "OperationTypeRunbook \<equiv> ''Runbook''"

abbreviation EngineVelero :: string where "EngineVelero \<equiv> ''velero''"
abbreviation EngineWorkflow :: string where "EngineWorkflow \<equiv> ''workflow''"
abbreviation EngineJob :: string where "EngineJob \<equiv> ''job''"
abbreviation EngineHelm :: string where "EngineHelm \<equiv> ''helm''"
abbreviation EngineVolsync :: string where "EngineVolsync \<equiv> ''volsync''"
abbreviation EngineHelmHookJob :: string where "EngineHelmHookJob \<equiv> ''helmHookJob''"

abbreviation PhasePending :: string where "PhasePending \<equiv> ''Pending''"
abbreviation PhaseRunning :: string where "PhaseRunning \<equiv> ''Running''"
abbreviation PhaseSucceeded :: string where "PhaseSucceeded \<equiv> ''Succeeded''"
abbreviation PhaseFailed :: string where "PhaseFailed \<equiv> ''Failed''"
abbreviation PhaseCancelled :: string where "PhaseCancelled \<equiv> ''Cancelled''"

abbreviation ConditionAccepted :: string where "ConditionAccepted \<equiv> ''Accepted''"
abbreviation ConditionRunning :: string where "ConditionRunning \<equiv> ''Running''"
abbreviation ConditionSucceeded :: string where "ConditionSucceeded \<equiv> ''Succeeded''"
abbreviation ConditionFailed :: string where "ConditionFailed \<equiv> ''Failed''"
abbreviation ConditionCancelled :: string where "ConditionCancelled \<equiv> ''Cancelled''"
abbreviation ConditionBlocked :: string where "ConditionBlocked \<equiv> ''Blocked''"

record TargetRef =
  tr_APIVersion :: string
  tr_Kind :: string
  tr_Name :: string

record ApprovalsSpec =
  Required :: bool
  Claim :: string
  ApprovedBy :: string
  ApprovedAt :: string

record OperationSpec =
  os_TargetRef :: TargetRef
  os_Type :: string
  os_Engine :: string
  Parameters :: "string option"
  Approvals :: "ApprovalsSpec option"

record LogsRef =
  lr_Kind :: string
  lr_Name :: string
  lr_Namespace :: string
  lr_URL :: string

record EngineResourceRef =
  er_Kind :: string
  er_Name :: string
  er_Namespace :: string

record OperationStatus =
  ost_Phase :: string
  StartedAt :: "time option"
  FinishedAt :: "time option"
  ost_EngineRef :: "EngineResourceRef option"
  ost_Conditions :: "Condition list"
  Outputs :: string
  ost_LogsRef :: "LogsRef option"

record Operation =
  op_meta :: ObjectMeta
  op_Spec :: OperationSpec
  op_Status :: OperationStatus

section \<open>Cluster\<close>

abbreviation ConditionConnected :: string where "ConditionConnected \<equiv> ''Connected''"
abbreviation ConditionDisconnected :: string where "ConditionDisconnected \<equiv> ''Disconnected''"
abbreviation ConditionAuthenticated :: string where "ConditionAuthenticated \<equiv> ''Authenticated''"
abbreviation ConditionControllersHealthy :: string where
  "ConditionControllersHealthy \<equiv> ''ControllersHealthy''"
abbreviation ConditionBufferOverflow :: string where "ConditionBufferOverflow \<equiv> ''BufferOverflow''"

abbreviation ClusterFinalizer :: string where "ClusterFinalizer \<equiv> ''ops.vworkspace.io/cluster-cleanup''"
abbreviation DefaultRegistrationTokenKey :: string where
  "DefaultRegistrationTokenKey \<equiv> ''registrationToken''"
abbreviation ClusterReRegisterAnnotation :: string where
  "ClusterReRegisterAnnotation \<equiv> ''ops.vworkspace.io/reregister''"

abbreviation ClusterPhasePending :: string where "ClusterPhasePending \<equiv> ''Pending''"
abbreviation ClusterPhaseRegistering :: string where "ClusterPhaseRegistering \<equiv> ''Registering''"
abbreviation ClusterPhaseConnected :: string where "ClusterPhaseConnected \<equiv> ''Connected''"
abbreviation ClusterPhaseDisconnected :: string where "ClusterPhaseDisconnected \<equiv> ''Disconnected''"
abbreviation ClusterPhaseError :: string where "ClusterPhaseError \<equiv> ''Error''"
abbreviation ClusterPhaseTerminating :: string where "ClusterPhaseTerminating \<equiv> ''Terminating''"

record SecretKeyRef =
  skr_Name :: string
  skr_Key :: string

record SecretReference =
  sr_Name :: string
  sr_Namespace :: string

record ClusterCapabilities =
  Flux :: "bool option"
  Velero :: "bool option"

record ClusterSpec =
  cs_ClusterID :: string
  ControlPlaneEndpoint :: string
  ControlPlaneBaseURL :: string
  RegistrationTokenSecretRef :: "SecretKeyRef option"
  RegistrationToken :: string
  Capabilities :: "ClusterCapabilities option"
  RotateCredentials :: bool

record ClusterCredentialStatus =
  SecretName :: string
  SecretNamespace :: string
  RegisteredAt :: "time option"
  RegistrationTokenConsumed :: bool

record ClusterStatus =
  cst_Phase :: string
  cst_Conditions :: "Condition list"
  LastHeartbeat :: "time option"
  CredentialStatus :: "ClusterCredentialStatus option"
  CredentialsSecretRef :: "SecretReference option"
  ObservedToken :: string

record Cluster =
  cl_meta :: ObjectMeta
  cl_Spec :: ClusterSpec
  cl_Status :: ClusterStatus

section \<open>ApplicationInstance\<close>

abbreviation ApplicationInstanceFinalizer :: string where
  "ApplicationInstanceFinalizer \<equiv> ''apps.vworkspace.io/finalizer''"

abbreviation InstanceModeManaged :: string where "InstanceModeManaged \<equiv> ''managed''"
abbreviation InstanceModePlaceholder :: string where "InstanceModePlaceholder \<equiv> ''placeholder''"

abbreviation ChartSourceOCI :: string where "ChartSourceOCI \<equiv> ''oci''"
abbreviation ChartSourceHelm :: string where "ChartSourceHelm \<equiv> ''helm''"

abbreviation ValuesSourceInline :: string where "ValuesSourceInline \<equiv> ''inline''"
abbreviation ValuesSourceSecretRef :: string where "ValuesSourceSecretRef \<equiv> ''secretRef''"
abbreviation ValuesSourceConfigMapRef :: string where "ValuesSourceConfigMapRef \<equiv> ''configMapRef''"

abbreviation ConditionReady :: string where "ConditionReady \<equiv> ''Ready''"
abbreviation ConditionReconciling :: string where "ConditionReconciling \<equiv> ''Reconciling''"
abbreviation ConditionDegraded :: string where "ConditionDegraded \<equiv> ''Degraded''"
abbreviation ConditionSuspended :: string where "ConditionSuspended \<equiv> ''Suspended''"
abbreviation ConditionDeleting :: string where "ConditionDeleting \<equiv> ''Deleting''"

record AppRef =
  CatalogID :: string

record ChartSpec =
  ch_SourceType :: string
  ch_URL :: string
  ch_Name :: string
  ch_Version :: string

record ReleaseSpec =
  rel_Name :: string
  rel_Namespace :: string

record ObjectKeyRef =
  okr_Name :: string
  okr_Key :: string

record ValuesSpec =
  Source :: string
  Inline :: "string option"
  SecretRef :: "ObjectKeyRef option"
  ConfigMapRef :: "ObjectKeyRef option"

record ExternalSecretsIntegration =
  es_Enabled :: bool

record CertManagerIntegration =
  cm_Enabled :: bool

record IngressIntegration =
  ing_Enabled :: bool
  ing_Host :: string

record IntegrationsSpec =
  ExternalSecrets :: "ExternalSecretsIntegration option"
  CertManager :: "CertManagerIntegration option"
  Ingress :: "IngressIntegration option"

record ApplicationInstanceSpec =
  as_AppRef :: AppRef
  Mode :: string
  as_Chart :: "ChartSpec option"
  as_Release :: "ReleaseSpec option"
  as_Values :: "ValuesSpec option"
  Integrations :: "IntegrationsSpec option"

definition IsPlaceholder :: "ApplicationInstanceSpec \<Rightarrow> bool" where
  "IsPlaceholder s \<longleftrightarrow> Mode s = InstanceModePlaceholder"

record HelmReleaseRef =
  hrr_Name :: string
  hrr_Namespace :: string

record ChartSnapshot =
  sn_SourceType :: string
  sn_URL :: string
  sn_Name :: string
  sn_Version :: string

record EndpointStatus =
  ep_Name :: string
  ep_URL :: string
  ep_Type :: string
  ep_Notes :: string

record ApplicationInstanceStatus =
  ObservedGeneration :: int
  ast_Conditions :: "Condition list"
  ast_HelmReleaseRef :: "HelmReleaseRef option"
  LastAppliedChart :: "ChartSnapshot option"
  LastReconcileTime :: "time option"
  Endpoints :: "EndpointStatus list"

record ApplicationInstance =
  app_meta :: ObjectMeta
  app_Spec :: ApplicationInstanceSpec
  app_Status :: ApplicationInstanceStatus

section \<open>Label keys\<close>

abbreviation ManagedByKey :: string where "ManagedByKey \<equiv> ''app.vworkspace.io/managed-by''"
abbreviation ClusterIDKey :: string where "ClusterIDKey \<equiv> ''app.vworkspace.io/cluster-id''"
abbreviation ApplicationInstanceKey :: string where
  "ApplicationInstanceKey \<equiv> ''app.vworkspace.io/application-instance''"
abbreviation NamespaceGateKey :: string where "NamespaceGateKey \<equiv> ''managed-by''"
abbreviation NamespaceGateValue :: string where "NamespaceGateValue \<equiv> ''vworkspace''"
abbreviation ManagedByControlPlane :: string where "ManagedByControlPlane \<equiv> ''control-plane''"
abbreviation ManagedByOperator :: string where "ManagedByOperator \<equiv> ''vworkspace-operator''"
abbreviation AppliedIntentHashKey :: string where
  "AppliedIntentHashKey \<equiv> ''vworkspace.io/applied-intent-hash''"
abbreviation LastAppliedGenerationKey :: string where
  "LastAppliedGenerationKey \<equiv> ''vworkspace.io/last-applied-generation''"

end
