(* ===== verification/Conditions.thy ===== *)
theory Conditions
  imports Api_Types
begin

text \<open>
  \<^verbatim>\<open>internal/conditions\<close>: the list of status conditions used as a map from the condition type.
  The locale \<open>condition_store\<close> is the contract the controllers rely on: what a lookup returns
  after a write, and after a sequence of writes. \<open>Set\<close> and \<open>Get\<close> are shown to satisfy it.
\<close>

fun Set :: "Condition list \<Rightarrow> string \<Rightarrow> string \<Rightarrow> string \<Rightarrow> string \<Rightarrow> time \<Rightarrow> Condition list" where
  "Set [] t st reason message now =
     [\<lparr>c_Type = t, c_Status = st, c_Reason = reason, c_Message = message,
       LastTransitionTime = now\<rparr>]"
| "Set (c # cs) t st reason message now =
     (if c_Type c = t then
        (if c_Status c = st \<and> c_Reason c = reason \<and> c_Message c = message then c # cs
         else c\<lparr>c_Status := st, c_Reason := reason, c_Message := message,
                LastTransitionTime := now\<rparr> # cs)
      else c # Set cs t st reason message now)"

fun IsTrue :: "Condition list \<Rightarrow> string \<Rightarrow> bool" where
  "IsTrue [] t = False"
| "IsTrue (c # cs) t = (if c_Type c = t then c_Status c = ConditionTrue else IsTrue cs t)"

fun Get :: "Condition list \<Rightarrow> string \<Rightarrow> Condition option" where
  "Get [] t = None"
| "Get (c # cs) t = (if c_Type c = t then Some c else Get cs t)"

section \<open>The contract\<close>

locale condition_store =
  fixes put :: "'c \<Rightarrow> string \<Rightarrow> 'v \<Rightarrow> 'c"
    and look :: "'c \<Rightarrow> string \<Rightarrow> 'v option"
  assumes look_put_same: "look (put c t v) t = Some v"
    and look_put_other: "t' \<noteq> t \<Longrightarrow> look (put c t v) t' = look c t'"
begin

fun put_all :: "'c \<Rightarrow> (string \<times> 'v) list \<Rightarrow> 'c" where
  "put_all c [] = c"
| "put_all c ((t, v) # ws) = put_all (put c t v) ws"

lemma look_put: "look (put c t v) t' = (if t' = t then Some v else look c t')"
  by (simp add: look_put_same look_put_other)

lemma look_put_all:
  "look (put_all c ws) t = (case map_of (rev ws) t of None \<Rightarrow> look c t | Some v \<Rightarrow> Some v)"
  by (induction c ws rule: put_all.induct)
     (auto simp: look_put map_add_def split: option.split)

lemma look_put_commute:
  "t \<noteq> t' \<Longrightarrow> look (put (put c t v) t' v') s = look (put (put c t' v') t v) s"
  by (simp add: look_put)

end

definition cond_put ::
  "time \<Rightarrow> Condition list \<Rightarrow> string \<Rightarrow> string \<times> string \<times> string \<Rightarrow> Condition list" where
  "cond_put now cs t v = (case v of (st, reason, message) \<Rightarrow> Set cs t st reason message now)"

definition cond_look :: "Condition list \<Rightarrow> string \<Rightarrow> (string \<times> string \<times> string) option" where
  "cond_look cs t = map_option (\<lambda>c. (c_Status c, c_Reason c, c_Message c)) (Get cs t)"

section \<open>Lemmas\<close>

lemma Get_Set:
  "Get (Set cs t st reason message now) t' =
     (if t' \<noteq> t then Get cs t'
      else case Get cs t of
        Some c \<Rightarrow>
          Some (if c_Status c = st \<and> c_Reason c = reason \<and> c_Message c = message then c
                else c\<lparr>c_Status := st, c_Reason := reason, c_Message := message,
                       LastTransitionTime := now\<rparr>)
      | None \<Rightarrow>
          Some \<lparr>c_Type = t, c_Status = st, c_Reason = reason, c_Message = message,
                LastTransitionTime = now\<rparr>)"
  by (induction cs) auto

lemma IsTrue_Get: "IsTrue cs t \<longleftrightarrow> (\<exists>c. Get cs t = Some c \<and> c_Status c = ConditionTrue)"
  by (induction cs) auto

lemma types_Set:
  "map c_Type (Set cs t st reason message now) =
     (if t \<in> set (map c_Type cs) then map c_Type cs else map c_Type cs @ [t])"
  by (induction cs) auto

lemma cond_look_Set [simp]:
  "cond_look (Set cs t st reason message now) t' =
     (if t' = t then Some (st, reason, message) else cond_look cs t')"
  by (auto simp: cond_look_def Get_Set split: option.split)

lemma IsTrue_look: "IsTrue cs t \<longleftrightarrow> (\<exists>r m. cond_look cs t = Some (ConditionTrue, r, m))"
  by (auto simp: IsTrue_Get cond_look_def)

lemma IsTrue_Set [simp]:
  "IsTrue (Set cs t st reason message now) t' \<longleftrightarrow> (if t' = t then st = ConditionTrue else IsTrue cs t')"
  by (simp add: IsTrue_look)

interpretation conds: condition_store "cond_put now" cond_look for now
  by unfold_locales (auto simp: cond_put_def)

lemma Set_Set_same: "Set (Set cs t st r m now) t st r m later = Set cs t st r m now"
  by (induction cs) auto

text \<open>Writing the same status, reason and message a second time changes nothing, in
  particular not the transition time.\<close>

theorem Set_idempotent:
  "Set (Set cs t st r m now) t st r m later = Set cs t st r m now"
  by (rule Set_Set_same)

end
