(* ===== verification/Events.thy ===== *)
theory Events
  imports Conditions "HOL-Library.Sublist"
begin

text \<open>
  The outbound side of the agent: the wire types of \<^verbatim>\<open>internal/agent/client.go\<close>, the event buffer
  \<^verbatim>\<open>EventBatcher\<close> of \<^verbatim>\<open>events.go\<close> and the event construction of \<^verbatim>\<open>reporter.go\<close>.

  The batcher's methods hold its mutex, so each is one function on the record \<open>EventBatcher\<close>.
  \<open>Flush\<close> releases the mutex around the HTTP call: it is modelled by the critical sections
  \<open>Flush_extract\<close>, \<open>requeue\<close> and \<open>Flush_finish\<close>, and the inductive relation \<open>buf_step\<close>
  interleaves them with the calls of \<open>Enqueue\<close> other goroutines make in between.
\<close>

section \<open>Wire types\<close>

abbreviation OutcomeSucceeded :: string where "OutcomeSucceeded \<equiv> ''succeeded''"
abbreviation OutcomeFailed :: string where "OutcomeFailed \<equiv> ''failed''"
abbreviation OutcomeNoop :: string where "OutcomeNoop \<equiv> ''noop''"
abbreviation OutcomeConflict :: string where "OutcomeConflict \<equiv> ''conflict''"

record Job =
  j_ID :: string
  j_Kind :: string
  Payload :: string
  IdempotencyKey :: string
  CreatedAt :: time
  ExpiresAt :: time
  Signature :: string

record StatusUpdate =
  su_Phase :: string
  su_Conditions :: "Condition list"
  su_Message :: string
  su_Timestamp :: time

record AppliedRef =
  ar_APIVersion :: string
  ar_Kind :: string
  ar_Namespace :: string
  ar_Name :: string
  ar_UID :: string
  ar_Generation :: int

record JobResult =
  Outcome :: string
  jr_Error :: string
  jr_AppliedRef :: "AppliedRef option"
  jr_Timestamp :: time

record EndpointPayload =
  epp_Name :: string
  epp_URL :: string

record ManagedStoragePayload =
  AccessKeyID :: string
  SecretAccessKey :: string
  BucketName :: string

record EventExtras =
  ex_Endpoints :: "EndpointPayload list"
  ex_ManagedStorage :: "ManagedStoragePayload option"

record Event =
  EventKey :: string
  ev_Kind :: string
  ResourceRef :: AppliedRef
  ev_Conditions :: "Condition list"
  ev_Endpoints :: "EndpointPayload list"
  ManagedStorage :: "ManagedStoragePayload option"
  Timestamp :: time

section \<open>The buffer\<close>

abbreviation defaultMaxBatch :: int where "defaultMaxBatch \<equiv> 100"
abbreviation defaultMaxBuffer :: int where "defaultMaxBuffer \<equiv> 1000"
definition defaultFlushWait :: int where "defaultFlushWait = seconds 1"

record EventBatcher =
  events :: "Event list"
  maxBatch :: int
  maxBuffer :: int
  flushWait :: int
  overflowActive :: bool
  overflowDropped :: int

definition NewEventBatcher :: EventBatcher where
  "NewEventBatcher =
     \<lparr>events = [], maxBatch = defaultMaxBatch, maxBuffer = defaultMaxBuffer,
      flushWait = defaultFlushWait, overflowActive = False, overflowDropped = 0\<rparr>"

definition Len :: "EventBatcher \<Rightarrow> nat" where
  "Len b = length (events b)"

definition HasEventKey :: "EventBatcher \<Rightarrow> string \<Rightarrow> bool" where
  "HasEventKey b key = (if key = '''' then False else list_ex (\<lambda>e. EventKey e = key) (events b))"

definition recordOverflowLocked :: "EventBatcher \<Rightarrow> int \<Rightarrow> EventBatcher" where
  "recordOverflowLocked b dropped =
     (if dropped \<le> 0 then b
      else b\<lparr>overflowActive := True, overflowDropped := overflowDropped b + dropped\<rparr>)"

definition clearOverflowLocked :: "EventBatcher \<Rightarrow> EventBatcher" where
  "clearOverflowLocked b = b\<lparr>overflowActive := False, overflowDropped := 0\<rparr>"

definition bufferCap :: "EventBatcher \<Rightarrow> int" where
  "bufferCap b = (if maxBuffer b \<le> 0 then defaultMaxBuffer else maxBuffer b)"

definition batchCap :: "EventBatcher \<Rightarrow> int" where
  "batchCap b = (if maxBatch b \<le> 0 then defaultMaxBatch else maxBatch b)"

definition Enqueue :: "time \<Rightarrow> Event \<Rightarrow> EventBatcher \<Rightarrow> EventBatcher" where
  "Enqueue now event b =
     (let event = (if IsZero (Timestamp event) then event\<lparr>Timestamp := now\<rparr> else event);
          n = int (length (events b));
          b = (if n \<ge> bufferCap b
               then let dropped = n - bufferCap b + 1
                    in recordOverflowLocked (b\<lparr>events := drop (nat dropped) (events b)\<rparr>) dropped
               else b)
      in b\<lparr>events := events b @ [event]\<rparr>)"

definition OverflowState :: "EventBatcher \<Rightarrow> bool \<times> int" where
  "OverflowState b = (overflowActive b, overflowDropped b)"

definition BufferOverflowMessage :: "int \<Rightarrow> string" where
  "BufferOverflowMessage dropped =
     ''Dropped '' @ Itoa dropped @
     '' outbound event(s) because the buffer is full; verify control plane connectivity and that events are being accepted''"

text \<open>The first critical section of \<open>Flush\<close>: the batch to post, \<open>[]\<close> when nothing is buffered.\<close>

definition Flush_extract :: "EventBatcher \<Rightarrow> Event list \<times> EventBatcher" where
  "Flush_extract b =
     (let n = nat (min (int (length (events b))) (batchCap b))
      in (take n (events b), b\<lparr>events := drop n (events b)\<rparr>))"

definition requeue :: "Event list \<Rightarrow> EventBatcher \<Rightarrow> EventBatcher" where
  "requeue batch b =
     (let combined = batch @ events b; n = int (length combined)
      in if n > bufferCap b
         then let dropped = n - bufferCap b
              in recordOverflowLocked b dropped \<lparr>events := drop (nat dropped) combined\<rparr>
         else b\<lparr>events := combined\<rparr>)"

definition Flush_finish :: "EventBatcher \<Rightarrow> EventBatcher" where
  "Flush_finish b = (if events b = [] then clearOverflowLocked b else b)"

text \<open>
  \<open>Flush\<close> when nothing else touches the buffer meanwhile. \<open>client\<close> is \<open>None\<close> for the nil client,
  otherwise it tells whether \<^verbatim>\<open>PostEvents\<close> accepts a batch.
\<close>

definition Flush :: "(Event list \<Rightarrow> bool) option \<Rightarrow> EventBatcher \<Rightarrow> EventBatcher" where
  "Flush client b =
     (if events b = [] then b
      else case Flush_extract b of (batch, b') \<Rightarrow>
        (case client of
           None \<Rightarrow> b'
         | Some accepts \<Rightarrow> if accepts batch then Flush_finish b' else requeue batch b'))"

section \<open>Event construction\<close>

definition ConditionTransitionEvent :: "time \<Rightarrow> AppliedRef \<Rightarrow> Condition list \<Rightarrow> Event" where
  "ConditionTransitionEvent now ref conditions =
     \<lparr>EventKey = '''', ev_Kind = ''ConditionTransition'', ResourceRef = ref,
      ev_Conditions = conditions, ev_Endpoints = [], ManagedStorage = None, Timestamp = now\<rparr>"

definition ConditionEventKey :: "AppliedRef \<Rightarrow> Condition \<Rightarrow> string" where
  "ConditionEventKey ref condition =
     (let uid = TrimSpace (ar_UID ref); uid = (if uid = '''' then ''_'' else uid);
          namespace = TrimSpace (ar_Namespace ref);
          namespace = (if namespace = '''' then ''_'' else namespace)
      in ''condition/'' @ ar_APIVersion ref @ ''/'' @ ar_Kind ref @ ''/'' @ namespace @ ''/'' @
         ar_Name ref @ ''/'' @ uid @ ''/'' @ c_Type condition @ ''/'' @ c_Status condition @
         ''@'' @ Itoa (ar_Generation ref))"

definition changedConditions :: "Condition list \<Rightarrow> Condition list \<Rightarrow> Condition list" where
  "changedConditions prev next_conds =
     (let prevByType = map_of (rev (map (\<lambda>c. (c_Type c, c)) prev))
      in filter (\<lambda>nc. case prevByType (c_Type nc) of
                   None \<Rightarrow> True
                 | Some pc \<Rightarrow> c_Status pc \<noteq> c_Status nc \<or> c_Reason pc \<noteq> c_Reason nc
                              \<or> c_Message pc \<noteq> c_Message nc) next_conds)"

abbreviation managedStorageEventKeyPrefix :: string where
  "managedStorageEventKeyPrefix \<equiv> ''managedStorage/''"
abbreviation endpointsEventKeyPrefix :: string where
  "endpointsEventKeyPrefix \<equiv> ''endpoints/''"

definition ManagedStorageEventKey :: "AppliedRef \<Rightarrow> Condition \<Rightarrow> string \<Rightarrow> string" where
  "ManagedStorageEventKey ref ready reportKey =
     managedStorageEventKeyPrefix @ ar_Namespace ref @ ''/'' @ ar_Name ref @ ''/'' @
     c_Type ready @ ''/'' @ c_Status ready @ ''/'' @ reportKey"

definition ManagedStorageReportKeyFromEventKey :: "string \<Rightarrow> string option" where
  "ManagedStorageReportKeyFromEventKey eventKey =
     (if \<not> HasPrefix eventKey managedStorageEventKeyPrefix then None
      else let parts = Split (CHR ''/'') eventKey
           in if length parts \<noteq> 6 then None else Some (parts ! 5))"

definition EndpointsReportKeyFromEventKey :: "string \<Rightarrow> string option" where
  "EndpointsReportKeyFromEventKey eventKey =
     (if \<not> HasPrefix eventKey endpointsEventKeyPrefix then None
      else let parts = Split (CHR ''/'') eventKey
           in if length parts \<noteq> 4 then None else Some (parts ! 3))"

definition EndpointsEventKey :: "AppliedRef \<Rightarrow> string \<Rightarrow> string" where
  "EndpointsEventKey ref reportKey =
     endpointsEventKeyPrefix @ ar_Namespace ref @ ''/'' @ ar_Name ref @ ''/'' @ reportKey"

text \<open>
  \<^verbatim>\<open>schema.GroupVersionKind\<close> by its printed group-version and its kind.
\<close>

definition ResourceRefFromMeta :: "string \<times> string \<Rightarrow> ObjectMeta \<Rightarrow> AppliedRef" where
  "ResourceRefFromMeta gvk m =
     \<lparr>ar_APIVersion = fst gvk, ar_Kind = snd gvk, ar_Namespace = Namespace m, ar_Name = Name m,
      ar_UID = UID m, ar_Generation = Generation m\<rparr>"

text \<open>
  The reporter: \<open>None\<close> is the reporter with a nil batcher, which discards events. The clock
  reading is the same for the events of one call.
\<close>

definition transitionEvent ::
  "time \<Rightarrow> AppliedRef \<Rightarrow> (Condition \<Rightarrow> EventExtras) option \<Rightarrow> Condition \<Rightarrow> Event" where
  "transitionEvent now ref enricher condition =
     (let event = (ConditionTransitionEvent now ref [condition])
                    \<lparr>EventKey := ConditionEventKey ref condition\<rparr>
      in case enricher of
           None \<Rightarrow> event
         | Some enrich \<Rightarrow>
             event\<lparr>ev_Endpoints := ex_Endpoints (enrich condition),
                   ManagedStorage := ex_ManagedStorage (enrich condition)\<rparr>)"

definition ReportConditionTransitions ::
  "time \<Rightarrow> AppliedRef \<Rightarrow> Condition list \<Rightarrow> Condition list \<Rightarrow> (Condition \<Rightarrow> EventExtras) option \<Rightarrow>
   EventBatcher option \<Rightarrow> EventBatcher option" where
  "ReportConditionTransitions now ref prev next_conds enricher =
     map_option (fold (\<lambda>c. Enqueue now (transitionEvent now ref enricher c))
                      (changedConditions prev next_conds))"

definition HasPendingEvent :: "EventBatcher option \<Rightarrow> string \<Rightarrow> bool" where
  "HasPendingEvent r eventKey =
     (case r of None \<Rightarrow> False | Some b \<Rightarrow> if eventKey = '''' then False else HasEventKey b eventKey)"

definition ReportSeaweedEndpoints ::
  "time \<Rightarrow> AppliedRef \<Rightarrow> Condition \<Rightarrow> EndpointPayload list \<Rightarrow> string \<Rightarrow>
   EventBatcher option \<Rightarrow> bool \<times> EventBatcher option" where
  "ReportSeaweedEndpoints now ref ready endpoints reportKey r =
     (case r of
        None \<Rightarrow> (False, None)
      | Some b \<Rightarrow>
          if endpoints = [] then (False, r)
          else (True, Some (Enqueue now
                 ((ConditionTransitionEvent now ref [ready])
                    \<lparr>EventKey := EndpointsEventKey ref reportKey, ev_Endpoints := endpoints\<rparr>) b)))"

definition ReportManagedStorageReady ::
  "time \<Rightarrow> AppliedRef \<Rightarrow> Condition \<Rightarrow> EventExtras \<Rightarrow> string \<Rightarrow>
   EventBatcher option \<Rightarrow> bool \<times> EventBatcher option" where
  "ReportManagedStorageReady now ref ready extras reportKey r =
     (case r of
        None \<Rightarrow> (False, None)
      | Some b \<Rightarrow>
          (True, Some (Enqueue now
             ((ConditionTransitionEvent now ref [ready])
                \<lparr>EventKey := ManagedStorageEventKey ref ready reportKey,
                 ev_Endpoints := ex_Endpoints extras,
                 ManagedStorage := ex_ManagedStorage extras\<rparr>) b)))"

definition reportAudit ::
  "time \<Rightarrow> AppliedRef \<Rightarrow> string \<Rightarrow> Condition list \<Rightarrow> string \<Rightarrow>
   EventBatcher option \<Rightarrow> EventBatcher option" where
  "reportAudit now ref kind conditions eventKey =
     map_option (Enqueue now
       \<lparr>EventKey = (if eventKey \<noteq> '''' then eventKey
                    else case conditions of
                      [] \<Rightarrow> ''''
                    | c # _ \<Rightarrow> kind @ ''/'' @ ar_UID ref @ ''/'' @ c_Type c),
        ev_Kind = kind, ResourceRef = ref, ev_Conditions = conditions, ev_Endpoints = [],
        ManagedStorage = None, Timestamp = now\<rparr>)"

definition ReportAudit ::
  "time \<Rightarrow> AppliedRef \<Rightarrow> string \<Rightarrow> Condition list \<Rightarrow> EventBatcher option \<Rightarrow> EventBatcher option" where
  "ReportAudit now ref kind conditions = reportAudit now ref kind conditions ''''"

definition ReportAuditWithEventKey ::
  "time \<Rightarrow> AppliedRef \<Rightarrow> string \<Rightarrow> Condition list \<Rightarrow> string \<Rightarrow>
   EventBatcher option \<Rightarrow> EventBatcher option" where
  "ReportAuditWithEventKey now ref kind conditions eventKey =
     reportAudit now ref kind conditions eventKey"

section \<open>The buffer as a bounded queue that drops its oldest events\<close>

definition keep_last :: "nat \<Rightarrow> 'a list \<Rightarrow> 'a list" where
  "keep_last n xs = drop (length xs - n) xs"

lemma length_keep_last [simp]: "length (keep_last n xs) = min n (length xs)"
  by (auto simp: keep_last_def)

lemma subseq_keep_last [simp]: "subseq (keep_last n xs) xs"
  unfolding keep_last_def by (rule suffix_imp_subseq) (rule suffix_drop)

locale lossy_queue =
  fixes content :: "'b \<Rightarrow> 'e list"
    and capacity :: "'b \<Rightarrow> nat"
    and mark :: "'e \<Rightarrow> 'e"
    and enq :: "'e \<Rightarrow> 'b \<Rightarrow> 'b"
    and take_batch :: "'b \<Rightarrow> 'e list \<times> 'b"
    and putback :: "'e list \<Rightarrow> 'b \<Rightarrow> 'b"
  assumes content_enq: "content (enq e b) = keep_last (capacity b) (content b @ [mark e])"
    and content_putback: "content (putback batch b) = keep_last (capacity b) (batch @ content b)"
    and content_extract: "take_batch b = (batch, b') \<Longrightarrow> content b = batch @ content b'"
    and extract_progress: "take_batch b = ([], b') \<Longrightarrow> content b = []"
    and capacity_kept [simp]:
      "capacity (enq e b) = capacity b" "capacity (putback batch b) = capacity b"
      "capacity (snd (take_batch b)) = capacity b"
begin

lemma enq_bound: "length (content (enq e b)) \<le> capacity b"
  by (simp add: content_enq)

lemma putback_bound: "length (content (putback batch b)) \<le> capacity b"
  by (simp add: content_putback)

lemma extract_bound: "take_batch b = (batch, b') \<Longrightarrow> length (content b') \<le> length (content b)"
  by (simp add: content_extract)

lemma enq_order: "subseq (content (enq e b)) (content b @ [mark e])"
  by (simp add: content_enq)

lemma putback_order: "subseq (content (putback batch b)) (batch @ content b)"
  by (simp add: content_putback)

text \<open>An extraction that is put back into a queue with room leaves the queue as it was.\<close>

lemma extract_putback:
  "take_batch b = (batch, b') \<Longrightarrow> length (content b) \<le> capacity b \<Longrightarrow> capacity b' = capacity b \<Longrightarrow>
   content (putback batch b') = content b"
  by (simp add: content_putback content_extract keep_last_def)

end

definition stamp :: "time \<Rightarrow> Event \<Rightarrow> Event" where
  "stamp now event = (if IsZero (Timestamp event) then event\<lparr>Timestamp := now\<rparr> else event)"

lemma bufferCap_pos [simp]: "bufferCap b > 0"
  by (simp add: bufferCap_def)

lemma batchCap_pos [simp]: "batchCap b > 0"
  by (simp add: batchCap_def)

lemma recordOverflow_simps [simp]:
  "events (recordOverflowLocked b d) = events b"
  "maxBuffer (recordOverflowLocked b d) = maxBuffer b"
  "maxBatch (recordOverflowLocked b d) = maxBatch b"
  "overflowDropped (recordOverflowLocked b d) = overflowDropped b + max d 0"
  "overflowActive (recordOverflowLocked b d) \<longleftrightarrow> overflowActive b \<or> d > 0"
  by (auto simp: recordOverflowLocked_def)

lemma events_Enqueue:
  "events (Enqueue now e b) = keep_last (nat (bufferCap b)) (events b @ [stamp now e])"
proof (cases "int (length (events b)) \<ge> bufferCap b")
  case True
  have "nat (int (length (events b)) - bufferCap b + 1) = length (events b) + 1 - nat (bufferCap b)"
    using True bufferCap_pos [of b] by linarith
  moreover have "length (events b) + 1 - nat (bufferCap b) \<le> length (events b)"
    using bufferCap_pos [of b] by linarith
  ultimately show ?thesis
    using True by (simp add: Enqueue_def Let_def stamp_def keep_last_def)
next
  case False
  then have "length (events b) + 1 - nat (bufferCap b) = 0" by linarith
  with False show ?thesis by (simp add: Enqueue_def Let_def stamp_def keep_last_def)
qed

lemma events_requeue:
  "events (requeue batch b) = keep_last (nat (bufferCap b)) (batch @ events b)"
proof (cases "int (length (batch @ events b)) > bufferCap b")
  case True
  then have "nat (int (length (batch @ events b)) - bufferCap b)
      = length (batch @ events b) - nat (bufferCap b)"
    using bufferCap_pos [of b] by linarith
  with True show ?thesis by (simp add: requeue_def Let_def keep_last_def)
next
  case False
  then have "length (batch @ events b) - nat (bufferCap b) = 0" by linarith
  with False show ?thesis by (simp add: requeue_def Let_def keep_last_def)
qed

lemma caps_kept [simp]:
  "bufferCap (Enqueue now e b) = bufferCap b"
  "bufferCap (requeue batch b) = bufferCap b"
  "bufferCap (snd (Flush_extract b)) = bufferCap b"
  "bufferCap (Flush_finish b) = bufferCap b"
  by (simp_all add: bufferCap_def Enqueue_def requeue_def Flush_extract_def Flush_finish_def
      clearOverflowLocked_def Let_def)

lemma Flush_extract_nonempty: "Flush_extract b = ([], b') \<Longrightarrow> events b = []"
  by (auto simp: Flush_extract_def Let_def min_def split: if_splits)
    (use batchCap_pos [of b] in linarith)

interpretation evq: lossy_queue events "\<lambda>b. nat (bufferCap b)" "stamp now" "Enqueue now"
  Flush_extract requeue for now
proof unfold_locales
  show "events b = batch @ events b'" if "Flush_extract b = (batch, b')" for b batch b'
    using that by (auto simp: Flush_extract_def Let_def)
qed (simp_all add: events_Enqueue events_requeue Flush_extract_nonempty)

lemma overflow_Enqueue:
  "int (length (events (Enqueue now e b))) + overflowDropped (Enqueue now e b)
     = int (length (events b)) + 1 + overflowDropped b"
  by (auto simp: Enqueue_def Let_def) (use bufferCap_pos [of b] in linarith)

lemma overflow_requeue:
  "int (length (events (requeue batch b))) + overflowDropped (requeue batch b)
     = int (length batch) + int (length (events b)) + overflowDropped b"
  by (auto simp: requeue_def Let_def) (use bufferCap_pos [of b] in linarith)

lemma overflow_extract [simp]:
  "overflowDropped (snd (Flush_extract b)) = overflowDropped b"
  by (simp add: Flush_extract_def Let_def)

lemma events_Flush_finish [simp]: "events (Flush_finish b) = events b"
  by (simp add: Flush_finish_def clearOverflowLocked_def)

section \<open>Interleavings\<close>

text \<open>
  The batcher with its single flushing goroutine (\<^verbatim>\<open>EventBatcher.Start\<close>): \<open>inflight\<close> is the batch
  between extraction and the end of the HTTP call, \<open>client_set\<close> tells whether the client is not
  nil. The remaining fields are history: the events enqueued, the events the control plane
  accepted, the events extracted with no client, and the number of events counted as overflow.
\<close>

record bufsys =
  buf :: EventBatcher
  inflight :: "Event list option"
  client_set :: bool
  enqueued :: "Event list"
  sent :: "Event list"
  lost :: "Event list"
  counted :: int

definition inflight_events :: "bufsys \<Rightarrow> Event list" where
  "inflight_events s = (case inflight s of None \<Rightarrow> [] | Some batch \<Rightarrow> batch)"

inductive buf_step :: "bufsys \<Rightarrow> bufsys \<Rightarrow> bool" where
  bs_enqueue:
    "buf_step s (s\<lparr>buf := Enqueue now e (buf s), enqueued := enqueued s @ [stamp now e],
                   counted := counted s + overflowDropped (Enqueue now e (buf s)) - overflowDropped (buf s)\<rparr>)"
| bs_extract:
    "inflight s = None \<Longrightarrow> client_set s \<Longrightarrow> events (buf s) \<noteq> [] \<Longrightarrow>
     Flush_extract (buf s) = (batch, b') \<Longrightarrow>
     buf_step s (s\<lparr>buf := b', inflight := Some batch\<rparr>)"
| bs_extract_no_client:
    "inflight s = None \<Longrightarrow> \<not> client_set s \<Longrightarrow> events (buf s) \<noteq> [] \<Longrightarrow>
     Flush_extract (buf s) = (batch, b') \<Longrightarrow>
     buf_step s (s\<lparr>buf := b', lost := lost s @ batch\<rparr>)"
| bs_accepted:
    "inflight s = Some batch \<Longrightarrow>
     buf_step s (s\<lparr>buf := Flush_finish (buf s), inflight := None, sent := sent s @ batch\<rparr>)"
| bs_refused:
    "inflight s = Some batch \<Longrightarrow>
     buf_step s (s\<lparr>buf := requeue batch (buf s), inflight := None,
                   counted := counted s + overflowDropped (requeue batch (buf s)) - overflowDropped (buf s)\<rparr>)"
| bs_connect: "buf_step s (s\<lparr>client_set := True\<rparr>)"

inductive_cases buf_stepE: "buf_step s s'"

definition buf_init :: "bool \<Rightarrow> bufsys" where
  "buf_init connected =
     \<lparr>buf = NewEventBatcher, inflight = None, client_set = connected, enqueued = [], sent = [],
      lost = [], counted = 0\<rparr>"

inductive buf_reach :: "bool \<Rightarrow> bufsys \<Rightarrow> bool" for connected where
  br_init: "buf_reach connected (buf_init connected)"
| br_step: "buf_reach connected s \<Longrightarrow> buf_step s s' \<Longrightarrow> buf_reach connected s'"

definition buf_inv :: "bufsys \<Rightarrow> bool" where
  "buf_inv s \<longleftrightarrow>
     bufferCap (buf s) = defaultMaxBuffer
     \<and> length (events (buf s)) \<le> nat (bufferCap (buf s))
     \<and> subseq (sent s @ inflight_events s @ events (buf s)) (enqueued s)
     \<and> int (length (enqueued s)) =
         int (length (sent s)) + int (length (inflight_events s)) + int (length (events (buf s)))
         + int (length (lost s)) + counted s
     \<and> counted s \<ge> 0"

lemma subseq_context: "subseq ys zs \<Longrightarrow> subseq (xs @ zs) es \<Longrightarrow> subseq (xs @ ys) es"
  by (meson subseq_append' subseq_order.trans)

lemma buf_inv_enqueue:
  assumes inv: "buf_inv s"
  shows "buf_inv (s\<lparr>buf := Enqueue now e (buf s), enqueued := enqueued s @ [stamp now e],
            counted := counted s + overflowDropped (Enqueue now e (buf s)) - overflowDropped (buf s)\<rparr>)"
proof -
  let ?q = "events (Enqueue now e (buf s))"
  have "subseq (sent s @ inflight_events s @ events (buf s)) (enqueued s)"
    using inv by (simp add: buf_inv_def)
  then have "subseq ((sent s @ inflight_events s @ events (buf s)) @ [stamp now e]) (enqueued s @ [stamp now e])"
    by (simp only: subseq_append)
  then have "subseq (sent s @ inflight_events s @ ?q) (enqueued s @ [stamp now e])"
    using subseq_context [OF evq.enq_order, of "sent s @ inflight_events s"] by simp
  moreover have "counted s + overflowDropped (Enqueue now e (buf s)) - overflowDropped (buf s) \<ge> 0"
    using inv by (auto simp: buf_inv_def Enqueue_def Let_def)
  ultimately show ?thesis
    using inv overflow_Enqueue [of now e "buf s"] evq.enq_bound [of now e "buf s"]
    by (simp add: buf_inv_def inflight_events_def)
qed

lemma buf_inv_refused:
  assumes inv: "buf_inv s" and "inflight s = Some batch"
  shows "buf_inv (s\<lparr>buf := requeue batch (buf s), inflight := None,
            counted := counted s + overflowDropped (requeue batch (buf s)) - overflowDropped (buf s)\<rparr>)"
proof -
  have "subseq (sent s @ batch @ events (buf s)) (enqueued s)"
    using assms by (simp add: buf_inv_def inflight_events_def)
  then have "subseq (sent s @ events (requeue batch (buf s))) (enqueued s)"
    by (rule subseq_context [OF evq.putback_order])
  moreover have "counted s + overflowDropped (requeue batch (buf s)) - overflowDropped (buf s) \<ge> 0"
    using inv by (auto simp: buf_inv_def requeue_def Let_def)
  ultimately show ?thesis
    using assms overflow_requeue [of batch "buf s"] evq.putback_bound [of batch "buf s"]
    by (simp add: buf_inv_def inflight_events_def)
qed

lemma buf_inv_step: "buf_step s s' \<Longrightarrow> buf_inv s \<Longrightarrow> buf_inv s'"
proof (induction rule: buf_step.induct)
  case (bs_enqueue s now e)
  then show ?case by (rule buf_inv_enqueue)
next
  case (bs_extract s batch b')
  then show ?case
    using evq.content_extract [OF bs_extract(4)] evq.capacity_kept(3) [of "buf s"]
    by (auto simp: buf_inv_def inflight_events_def caps_kept(3) [of "buf s", simplified bs_extract(4) snd_conv])
next
  case (bs_extract_no_client s batch b')
  have q: "events (buf s) = batch @ events b'"
    using evq.content_extract [OF bs_extract_no_client(4)] .
  have "subseq (sent s @ events b') (sent s @ batch @ events b')"
    by (simp add: list_emb_append2 subseq_append')
  with bs_extract_no_client q show ?case
    using caps_kept(3) [of "buf s"]
    by (auto simp: buf_inv_def inflight_events_def intro: subseq_order.trans)
next
  case (bs_accepted s batch)
  then show ?case by (auto simp: buf_inv_def inflight_events_def)
next
  case (bs_refused s batch)
  then show ?case by (blast intro: buf_inv_refused)
next
  case (bs_connect s)
  then show ?case by (auto simp: buf_inv_def inflight_events_def)
qed

lemma buf_inv_reach: "buf_reach connected s \<Longrightarrow> buf_inv s"
proof (induction rule: buf_reach.induct)
  case br_init
  then show ?case
    by (simp add: buf_init_def buf_inv_def inflight_events_def NewEventBatcher_def bufferCap_def)
next
  case (br_step s s')
  then show ?case by (blast intro: buf_inv_step)
qed

section \<open>Lemmas on reported conditions\<close>

lemma map_of_rev_distinct:
  "distinct (map fst kvs) \<Longrightarrow> map_of (rev kvs) = map_of kvs"
  by (rule map_of_eqI) (auto simp: distinct_map rev_map [symmetric])

lemma prevByType_Get:
  assumes "distinct (map c_Type cs)"
  shows "map_of (rev (map (\<lambda>c. (c_Type c, c)) cs)) t = Get cs t"
proof -
  have "map_of (map (\<lambda>c. (c_Type c, c)) cs) t = Get cs t"
    by (induction cs) auto
  moreover have "distinct (map fst (map (\<lambda>c. (c_Type c, c)) cs))"
    using assms by (simp add: comp_def)
  ultimately show ?thesis
    by (simp only: map_of_rev_distinct)
qed

lemma changedConditions_Get:
  "distinct (map c_Type prev) \<Longrightarrow>
   changedConditions prev cs = filter (\<lambda>c. cond_look prev (c_Type c) \<noteq>
     Some (c_Status c, c_Reason c, c_Message c)) cs"
  by (auto simp: changedConditions_def prevByType_Get cond_look_def split: option.splits
      intro!: filter_cong)

lemma cond_look_in:
  "distinct (map c_Type cs) \<Longrightarrow> c \<in> set cs \<Longrightarrow>
   cond_look cs (c_Type c) = Some (c_Status c, c_Reason c, c_Message c)"
  by (induction cs) (auto simp: cond_look_def)

lemma filter_changed_Set:
  assumes "distinct (map c_Type cs)"
  shows "filter (\<lambda>c. cond_look cs (c_Type c) \<noteq> Some (c_Status c, c_Reason c, c_Message c))
           (Set cs t st r m now) =
         (if cond_look cs t = Some (st, r, m) then []
          else filter (\<lambda>c. c_Type c = t) (Set cs t st r m now))"
proof -
  have *: "cond_look cs (c_Type c) \<noteq> Some (c_Status c, c_Reason c, c_Message c)
           \<longleftrightarrow> c_Type c = t \<and> cond_look cs t \<noteq> Some (st, r, m)"
    if "c \<in> set (Set cs t st r m now)" for c
  proof -
    have "distinct (map c_Type (Set cs t st r m now))"
      using assms by (simp add: types_Set)
    from cond_look_in [OF this that] show ?thesis by (auto split: if_splits)
  qed
  show ?thesis by (simp add: * cong: filter_cong)
qed

lemma find_type_Set:
  assumes "distinct (map c_Type cs)"
  shows "\<exists>c. filter (\<lambda>c. c_Type c = t) (Set cs t st r m now) = [c] \<and> c_Type c = t
           \<and> (c_Status c, c_Reason c, c_Message c) = (st, r, m)"
  using assms
proof (induction cs)
  case Nil
  then show ?case by simp
next
  case (Cons c cs)
  have "c_Type c = t \<Longrightarrow> filter (\<lambda>c. c_Type c = t) cs = []"
    using Cons.prems by (auto simp: filter_empty_conv rev_image_eqI)
  with Cons show ?case by auto
qed

section \<open>Properties\<close>

text \<open>
  A run used by the witnesses: two events are enqueued, both are extracted, a third arrives while
  the batch is in flight, the post is refused and the batch goes back in front.
\<close>

definition demo_event :: "string \<Rightarrow> Event" where
  "demo_event k =
     \<lparr>EventKey = k, ev_Kind = ''ConditionTransition'',
      ResourceRef = \<lparr>ar_APIVersion = '''', ar_Kind = '''', ar_Namespace = ''ns'', ar_Name = ''app'',
                     ar_UID = '''', ar_Generation = 1\<rparr>,
      ev_Conditions = [], ev_Endpoints = [], ManagedStorage = None, Timestamp = 5\<rparr>"

definition demo_buf :: "Event list \<Rightarrow> EventBatcher" where
  "demo_buf es = NewEventBatcher\<lparr>events := es\<rparr>"

definition demo_sys :: "Event list \<Rightarrow> Event list option \<Rightarrow> Event list \<Rightarrow> bufsys" where
  "demo_sys es fl en =
     \<lparr>buf = demo_buf es, inflight = fl, client_set = True, enqueued = en, sent = [], lost = [],
      counted = 0\<rparr>"

lemmas demo_defs = demo_event_def demo_buf_def demo_sys_def NewEventBatcher_def bufferCap_def
  batchCap_def Enqueue_def Flush_extract_def requeue_def stamp_def IsZero_def zero_time_def Let_def

lemma demo_enqueue:
  "length es < 1000 \<Longrightarrow>
   buf_step (demo_sys es fl en) (demo_sys (es @ [demo_event k]) fl (en @ [demo_event k]))"
  using bs_enqueue [of "demo_sys es fl en" 0 "demo_event k"] by (simp add: demo_defs)

lemma demo_extract:
  "buf_step (demo_sys [demo_event ''a'', demo_event ''b''] None en)
            (demo_sys [] (Some [demo_event ''a'', demo_event ''b'']) en)"
  using bs_extract [of "demo_sys [demo_event ''a'', demo_event ''b''] None en"
    "[demo_event ''a'', demo_event ''b'']" "demo_buf []"]
  by (simp add: demo_defs)

lemma demo_refused:
  "buf_step (demo_sys [demo_event ''c''] (Some [demo_event ''a'', demo_event ''b'']) en)
            (demo_sys [demo_event ''a'', demo_event ''b'', demo_event ''c''] None en)"
  using bs_refused [of "demo_sys [demo_event ''c''] (Some [demo_event ''a'', demo_event ''b'']) en"]
  by (simp add: demo_defs)

definition demo_final :: bufsys where
  "demo_final = (let es = [demo_event ''a'', demo_event ''b'', demo_event ''c''] in demo_sys es None es)"

lemma demo_reach: "buf_reach True demo_final"
proof -
  have "buf_init True = demo_sys [] None []"
    by (simp add: buf_init_def demo_sys_def demo_buf_def NewEventBatcher_def)
  then have "buf_reach True (demo_sys [] None [])"
    using br_init [of True] by simp
  then have "buf_reach True (demo_sys ([] @ [demo_event ''a'']) None ([] @ [demo_event ''a'']))"
    by (rule br_step) (rule demo_enqueue, simp)
  then have "buf_reach True (demo_sys ([demo_event ''a''] @ [demo_event ''b'']) None
      ([demo_event ''a''] @ [demo_event ''b'']))"
    by (intro br_step [OF _ demo_enqueue]) simp_all
  then have "buf_reach True (demo_sys [] (Some [demo_event ''a'', demo_event ''b''])
      [demo_event ''a'', demo_event ''b''])"
    using demo_extract by (auto intro: br_step)
  then have "buf_reach True (demo_sys ([] @ [demo_event ''c''])
      (Some [demo_event ''a'', demo_event ''b'']) ([demo_event ''a'', demo_event ''b''] @ [demo_event ''c'']))"
    by (intro br_step [OF _ demo_enqueue]) simp_all
  then show ?thesis
    using demo_refused by (auto simp: demo_final_def Let_def intro: br_step)
qed

text \<open>In every interleaving of enqueuing with the flush loop the buffer holds at most its
  capacity of 1000 events.\<close>

theorem buffer_bounded:
  assumes "buf_reach connected s"
  shows "Len (buf s) \<le> 1000"
  using buf_inv_reach [OF assms] by (auto simp: buf_inv_def Len_def)

theorem buffer_bounded_witness:
  "buf_reach True demo_final \<and> Len (buf demo_final) \<le> 1000"
  using demo_reach buffer_bounded [OF demo_reach] by simp

text \<open>C34: events reach the control plane in the order they were enqueued and never twice: what
  was accepted, followed by the batch in flight and the buffer, is a subsequence of what was
  enqueued, even when posts fail and batches are put back while other events arrive.\<close>

theorem delivery_in_order:
  assumes "buf_reach connected s"
  shows "subseq (sent s @ inflight_events s @ events (buf s)) (enqueued s)"
  using buf_inv_reach [OF assms] by (simp add: buf_inv_def)

theorem delivery_in_order_witness:
  "buf_reach True demo_final
   \<and> subseq (sent demo_final @ inflight_events demo_final @ events (buf demo_final)) (enqueued demo_final)"
  using demo_reach delivery_in_order [OF demo_reach] by simp

text \<open>C35: no event disappears unaccounted: the number enqueued is the number accepted, in flight,
  buffered, counted as overflow, or extracted while the batcher had no client.\<close>

theorem events_conserved:
  assumes "buf_reach connected s"
  shows "int (length (enqueued s)) =
           int (length (sent s)) + int (length (inflight_events s)) + int (Len (buf s))
           + counted s + int (length (lost s))"
  using buf_inv_reach [OF assms] by (simp add: buf_inv_def Len_def)

theorem events_conserved_witness:
  "buf_reach True demo_final \<and> length (enqueued demo_final) = 3
   \<and> int (length (enqueued demo_final)) =
       int (length (sent demo_final)) + int (length (inflight_events demo_final))
       + int (Len (buf demo_final)) + counted demo_final + int (length (lost demo_final))"
  using demo_reach events_conserved [OF demo_reach]
  by (simp add: demo_final_def demo_sys_def Let_def)

text \<open>A flush without a client removes the oldest batch from the buffer and records nothing
  of it: the overflow state stays as it was.\<close>

theorem flush_without_client_loses_batch:
  "events (Flush None b) = drop (nat (min (int (Len b)) (batchCap b))) (events b)
   \<and> OverflowState (Flush None b) = OverflowState b"
  by (auto simp: Flush_def Flush_extract_def Len_def Let_def OverflowState_def)

text \<open>A refused flush with nothing enqueued meanwhile leaves the buffer exactly as it was.\<close>

theorem refused_flush_keeps_buffer:
  assumes "int (Len b) \<le> bufferCap b" and "\<And>batch. \<not> accepts batch"
  shows "events (Flush (Some accepts) b) = events b
         \<and> OverflowState (Flush (Some accepts) b) = OverflowState b"
proof (cases "events b = []")
  case True
  then show ?thesis by (simp add: Flush_def)
next
  case False
  obtain batch b' where e: "Flush_extract b = (batch, b')" by (cases "Flush_extract b")
  then have len: "int (length (batch @ events b')) \<le> bufferCap b'"
    using assms(1) caps_kept(3) [of b] evq.content_extract [OF e] by (simp add: Len_def)
  have "OverflowState b' = OverflowState b"
    using e by (auto simp: Flush_extract_def Let_def OverflowState_def)
  with False assms(2) e len show ?thesis
    using evq.content_extract [OF e]
    by (simp add: Flush_def requeue_def Let_def OverflowState_def)
qed

theorem refused_flush_keeps_buffer_witness:
  "int (Len (demo_buf [demo_event ''a''])) \<le> bufferCap (demo_buf [demo_event ''a''])
   \<and> events (Flush (Some (\<lambda>_. False)) (demo_buf [demo_event ''a''])) = [demo_event ''a'']"
  using refused_flush_keeps_buffer [of "demo_buf [demo_event ''a'']" "\<lambda>_. False"]
  by (simp add: demo_defs Len_def)

text \<open>Setting a condition is reported exactly when it changes the status, reason or message,
  and then as the one condition that was set.\<close>

theorem changed_after_Set:
  assumes "distinct (map c_Type cs)"
  shows "map (\<lambda>c. (c_Type c, c_Status c, c_Reason c, c_Message c))
           (changedConditions cs (Set cs t st r m now)) =
         (if cond_look cs t = Some (st, r, m) then [] else [(t, st, r, m)])"
  using find_type_Set [OF assms, of t st r m now]
  by (auto simp: changedConditions_Get [OF assms] filter_changed_Set [OF assms])

theorem changed_after_Set_witness:
  "distinct (map c_Type [\<lparr>c_Type = ''Ready'', c_Status = ''False'', c_Reason = ''r'', c_Message = [],
     LastTransitionTime = 0\<rparr>])
   \<and> map (\<lambda>c. (c_Type c, c_Status c, c_Reason c, c_Message c))
       (changedConditions
         [\<lparr>c_Type = ''Ready'', c_Status = ''False'', c_Reason = ''r'', c_Message = [], LastTransitionTime = 0\<rparr>]
         (Set [\<lparr>c_Type = ''Ready'', c_Status = ''False'', c_Reason = ''r'', c_Message = [], LastTransitionTime = 0\<rparr>]
           ''Ready'' ''True'' ''ok'' [] 7)) = [(''Ready'', ''True'', ''ok'', [])]"
  using changed_after_Set [of "[\<lparr>c_Type = ''Ready'', c_Status = ''False'', c_Reason = ''r'',
      c_Message = [], LastTransitionTime = 0\<rparr>]" "''Ready''" "''True''" "''ok''" "[]" 7]
  by (simp add: cond_look_def)

text \<open>The report key put into a managed-storage event key is read back from it, when no part
  of the key contains a slash.\<close>

theorem managed_storage_key_roundtrip:
  assumes "CHR ''/'' \<notin> set (ar_Namespace ref) \<union> set (ar_Name ref) \<union> set (c_Type ready)
             \<union> set (c_Status ready) \<union> set reportKey"
  shows "ManagedStorageReportKeyFromEventKey (ManagedStorageEventKey ref ready reportKey)
           = Some reportKey"
proof -
  have key: "ManagedStorageEventKey ref ready reportKey =
      join_with [CHR ''/''] [''managedStorage'', ar_Namespace ref, ar_Name ref, c_Type ready,
        c_Status ready, reportKey]"
    by (simp add: ManagedStorageEventKey_def)
  have "Split (CHR ''/'') (ManagedStorageEventKey ref ready reportKey) =
      [''managedStorage'', ar_Namespace ref, ar_Name ref, c_Type ready, c_Status ready, reportKey]"
    unfolding key using assms by (intro Split_join_with) auto
  moreover have "HasPrefix (ManagedStorageEventKey ref ready reportKey) managedStorageEventKeyPrefix"
    unfolding ManagedStorageEventKey_def by (rule HasPrefix_append)
  ultimately show ?thesis by (simp add: ManagedStorageReportKeyFromEventKey_def)
qed

theorem managed_storage_key_roundtrip_witness:
  "ManagedStorageReportKeyFromEventKey (ManagedStorageEventKey
     (ResourceRef (demo_event [])) \<lparr>c_Type = ''Ready'', c_Status = ''True'', c_Reason = [], c_Message = [],
       LastTransitionTime = 0\<rparr> ''abc'') = Some ''abc''"
  using managed_storage_key_roundtrip [of "ResourceRef (demo_event [])" "\<lparr>c_Type = ''Ready'',
      c_Status = ''True'', c_Reason = [], c_Message = [], LastTransitionTime = 0\<rparr>" "''abc''"]
  by (simp add: demo_event_def)

end
