(* ===== verification/Go_Json_Text.thy ===== *)
theory Go_Json_Text
  imports Go_Json
begin

text \<open>
  The text side of \<^verbatim>\<open>encoding/json\<close>: reading a document (\<open>json_Unmarshal\<close>) and writing strings and
  integers (\<open>json_string\<close>, \<open>Itoa\<close>). Invalid UTF-8 in a string is replaced by the replacement
  character, as the package does; a number written without fraction and exponent is \<open>JInt\<close>, any
  other number is \<open>JFloat\<close> with its text. The text of a syntax error and the nesting limit of
  10000 levels are not modelled.

  The reader recurses with fuel; \<open>json_Unmarshal_fuel\<close> shows that the fuel \<open>json_Unmarshal\<close>
  passes, one more than twice the length of the text, is as good as any larger amount.
\<close>

section \<open>UTF-8\<close>

abbreviation byte :: "char \<Rightarrow> nat" where "byte c \<equiv> of_char c"

definition cont_byte :: "nat \<Rightarrow> nat \<Rightarrow> string \<Rightarrow> bool" where
  "cont_byte lo hi s = (case s of [] \<Rightarrow> False | c # _ \<Rightarrow> lo \<le> byte c \<and> byte c \<le> hi)"

text \<open>The length of the valid UTF-8 sequence a string starts with, 0 when it starts with none.\<close>

definition rune_size :: "string \<Rightarrow> nat" where
  "rune_size s =
     (case s of
        [] \<Rightarrow> 0
      | c # t \<Rightarrow>
          (let b = byte c; second = (\<lambda>lo hi. cont_byte lo hi t);
               third = cont_byte 128 191 (drop 1 t); fourth = cont_byte 128 191 (drop 2 t)
           in if b < 128 then 1
              else if 194 \<le> b \<and> b \<le> 223 \<and> second 128 191 then 2
              else if third \<and> (b = 224 \<and> second 160 191 \<or> 225 \<le> b \<and> b \<le> 236 \<and> second 128 191
                               \<or> b = 237 \<and> second 128 159 \<or> 238 \<le> b \<and> b \<le> 239 \<and> second 128 191)
                then 3
              else if third \<and> fourth
                      \<and> (b = 240 \<and> second 144 191 \<or> 241 \<le> b \<and> b \<le> 243 \<and> second 128 191
                         \<or> b = 244 \<and> second 128 143)
                then 4
              else 0))"

definition replacement :: string where
  "replacement = [CHR 0xEF, CHR 0xBF, CHR 0xBD]"

definition utf8_encode :: "nat \<Rightarrow> string" where
  "utf8_encode u =
     (if u < 128 then [char_of u]
      else if u < 2048 then [char_of (192 + u div 64), char_of (128 + u mod 64)]
      else if u < 65536
        then [char_of (224 + u div 4096), char_of (128 + u div 64 mod 64), char_of (128 + u mod 64)]
      else [char_of (240 + u div 262144), char_of (128 + u div 4096 mod 64),
            char_of (128 + u div 64 mod 64), char_of (128 + u mod 64)])"

fun valid_utf8 :: "string \<Rightarrow> bool" where
  "valid_utf8 [] = True"
| "valid_utf8 (c # s) =
     (rune_size (c # s) \<noteq> 0 \<and> valid_utf8 (drop (rune_size (c # s) - 1) s))"

section \<open>Reading\<close>

abbreviation quote_mark :: char where "quote_mark \<equiv> CHR 0x22"
abbreviation backslash :: char where "backslash \<equiv> CHR 0x5C"

fun skip_ws :: "string \<Rightarrow> string" where
  "skip_ws [] = []"
| "skip_ws (c # s) =
     (if c = CHR 0x20 \<or> c = CHR 0x09 \<or> c = CHR 0x0A \<or> c = CHR 0x0D then skip_ws s else c # s)"

definition hex_digit :: "char \<Rightarrow> nat option" where
  "hex_digit c =
     (if byte (CHR ''0'') \<le> byte c \<and> byte c \<le> byte (CHR ''9'') then Some (byte c - byte (CHR ''0''))
      else if byte (CHR ''a'') \<le> byte c \<and> byte c \<le> byte (CHR ''f'') then Some (byte c - byte (CHR ''a'') + 10)
      else if byte (CHR ''A'') \<le> byte c \<and> byte c \<le> byte (CHR ''F'') then Some (byte c - byte (CHR ''A'') + 10)
      else None)"

definition hex4 :: "string \<Rightarrow> nat option" where
  "hex4 s =
     (case s of
        a # b # c # d # _ \<Rightarrow>
          (case (hex_digit a, hex_digit b, hex_digit c, hex_digit d) of
             (Some w, Some x, Some y, Some z) \<Rightarrow> Some (w * 4096 + x * 256 + y * 16 + z)
           | _ \<Rightarrow> None)
      | _ \<Rightarrow> None)"

definition escapes :: "(char \<times> char) list" where
  "escapes =
     [(quote_mark, quote_mark), (backslash, backslash), (CHR ''/'', CHR ''/''), (CHR ''b'', CHR 0x08),
      (CHR ''f'', CHR 0x0C), (CHR ''n'', CHR 0x0A), (CHR ''r'', CHR 0x0D), (CHR ''t'', CHR 0x09)]"

text \<open>A high surrogate followed by an escaped low surrogate is one character.\<close>

definition low_surrogate :: "nat \<Rightarrow> string \<Rightarrow> nat option" where
  "low_surrogate u s =
     (if 55296 \<le> u \<and> u < 56320 \<and> HasPrefix s [backslash, CHR ''u''] then
        (case hex4 (drop 2 s) of
           Some v \<Rightarrow> if 56320 \<le> v \<and> v < 57344 then Some v else None
         | None \<Rightarrow> None)
      else None)"

definition prepend :: "string \<Rightarrow> (string \<times> string) option \<Rightarrow> (string \<times> string) option" where
  "prepend p r = map_option (\<lambda>(s, rest). (p @ s, rest)) r"

text \<open>The characters of a string literal after its opening quote, up to the closing one.\<close>

function (sequential) parse_string :: "string \<Rightarrow> (string \<times> string) option" where
  "parse_string [] = None"
| "parse_string (c # s) =
     (if c = quote_mark then Some ([], s)
      else if c = backslash then
        (case s of
           [] \<Rightarrow> None
         | e # t \<Rightarrow>
             if e = CHR ''u'' then
               (case hex4 t of
                  None \<Rightarrow> None
                | Some u \<Rightarrow>
                    if 55296 \<le> u \<and> u < 57344 then
                      (case low_surrogate u (drop 4 t) of
                         Some v \<Rightarrow>
                           prepend (utf8_encode ((u - 55296) * 1024 + (v - 56320) + 65536))
                             (parse_string (drop 10 t))
                       | None \<Rightarrow> prepend replacement (parse_string (drop 4 t)))
                    else prepend (utf8_encode u) (parse_string (drop 4 t)))
             else (case map_of escapes e of
                     Some ch \<Rightarrow> prepend [ch] (parse_string t)
                   | None \<Rightarrow> None))
      else if byte c < 32 then None
      else if rune_size (c # s) = 0 then prepend replacement (parse_string s)
      else prepend (take (rune_size (c # s)) (c # s)) (parse_string (drop (rune_size (c # s) - 1) s)))"
  by pat_completeness auto
termination by (relation "measure length") auto

definition is_digit :: "char \<Rightarrow> bool" where
  "is_digit c \<longleftrightarrow> byte (CHR ''0'') \<le> byte c \<and> byte c \<le> byte (CHR ''9'')"

definition digits_value :: "string \<Rightarrow> int" where
  "digits_value ds = foldl (\<lambda>n c. n * 10 + int (byte c - byte (CHR ''0''))) 0 ds"

text \<open>
  A number literal is split into sign, integer digits, fraction and exponent; a part that is
  absent is empty.
\<close>

definition number_frac :: "string \<Rightarrow> string \<times> string" where
  "number_frac s =
     (case s of
        c # t \<Rightarrow>
          if c = CHR ''.'' \<and> takeWhile is_digit t \<noteq> []
          then (c # takeWhile is_digit t, dropWhile is_digit t) else ([], s)
      | [] \<Rightarrow> ([], s))"

definition number_exp :: "string \<Rightarrow> string \<times> string" where
  "number_exp s =
     (case s of
        c # t \<Rightarrow>
          (let sign = (case t of d # _ \<Rightarrow> if d = CHR ''+'' \<or> d = CHR ''-'' then [d] else [] | [] \<Rightarrow> []);
               u = drop (length sign) t
           in if (c = CHR ''e'' \<or> c = CHR ''E'') \<and> takeWhile is_digit u \<noteq> []
              then (c # sign @ takeWhile is_digit u, dropWhile is_digit u) else ([], s))
      | [] \<Rightarrow> ([], s))"

definition number_int :: "string \<Rightarrow> string" where
  "number_int t =
     (case t of c # _ \<Rightarrow> if c = CHR ''0'' then ''0'' else takeWhile is_digit t | [] \<Rightarrow> [])"

definition parse_unsigned :: "bool \<Rightarrow> string \<Rightarrow> (json \<times> string) option" where
  "parse_unsigned neg t =
     (let ds = number_int t
      in case number_frac (drop (length ds) t) of (frac, u) \<Rightarrow>
         case number_exp u of (expo, v) \<Rightarrow>
           if ds = [] then None
           else if frac = [] \<and> expo = []
             then Some (JInt (if neg then - digits_value ds else digits_value ds), v)
           else Some (JFloat ((if neg then ''-'' else []) @ ds @ frac @ expo), v))"

definition parse_number :: "string \<Rightarrow> (json \<times> string) option" where
  "parse_number s =
     (case s of
        c # t \<Rightarrow> if c = CHR ''-'' then parse_unsigned True t else parse_unsigned False s
      | [] \<Rightarrow> None)"

definition literals :: "(string \<times> json) list" where
  "literals = [(''true'', JBool True), (''false'', JBool False), (''null'', JNull)]"

definition parse_scalar :: "string \<Rightarrow> (json \<times> string) option" where
  "parse_scalar s =
     (case find (\<lambda>(w, v). HasPrefix s w) literals of
        Some (w, v) \<Rightarrow> Some (v, drop (length w) s)
      | None \<Rightarrow> parse_number s)"

fun parse_value :: "nat \<Rightarrow> string \<Rightarrow> (json \<times> string) option"
  and parse_members :: "nat \<Rightarrow> string \<Rightarrow> ((string \<times> json) list \<times> string) option"
  and parse_elements :: "nat \<Rightarrow> string \<Rightarrow> (json list \<times> string) option" where
  "parse_value 0 s = None"
| "parse_value (Suc n) s =
     (case skip_ws s of
        [] \<Rightarrow> None
      | c # r \<Rightarrow>
          if c = CHR ''{'' then
            (if HasPrefix (skip_ws r) ''}'' then Some (JObject [], tl (skip_ws r))
             else map_option (\<lambda>(kvs, q). (JObject kvs, q)) (parse_members n r))
          else if c = CHR ''['' then
            (if HasPrefix (skip_ws r) '']'' then Some (JArray [], tl (skip_ws r))
             else map_option (\<lambda>(js, q). (JArray js, q)) (parse_elements n r))
          else if c = quote_mark then map_option (\<lambda>(t, q). (JString t, q)) (parse_string r)
          else parse_scalar (c # r))"
| "parse_members 0 s = None"
| "parse_members (Suc n) s =
     (case skip_ws s of
        [] \<Rightarrow> None
      | c # r \<Rightarrow>
          if c \<noteq> quote_mark then None
          else (case parse_string r of
                  None \<Rightarrow> None
                | Some (k, r1) \<Rightarrow>
                    (case skip_ws r1 of
                       [] \<Rightarrow> None
                     | d # r2 \<Rightarrow>
                         if d \<noteq> CHR '':'' then None
                         else (case parse_value n r2 of
                                 None \<Rightarrow> None
                               | Some (v, r3) \<Rightarrow>
                                   (case skip_ws r3 of
                                      [] \<Rightarrow> None
                                    | e # r4 \<Rightarrow>
                                        if e = CHR '','' then
                                          map_option (\<lambda>(kvs, q). ((k, v) # kvs, q)) (parse_members n r4)
                                        else if e = CHR ''}'' then Some ([(k, v)], r4)
                                        else None)))))"
| "parse_elements 0 s = None"
| "parse_elements (Suc n) s =
     (case parse_value n s of
        None \<Rightarrow> None
      | Some (v, r3) \<Rightarrow>
          (case skip_ws r3 of
             [] \<Rightarrow> None
           | e # r4 \<Rightarrow>
               if e = CHR '','' then map_option (\<lambda>(js, q). (v # js, q)) (parse_elements n r4)
               else if e = CHR '']'' then Some ([v], r4)
               else None))"

definition json_Unmarshal :: "string \<Rightarrow> json option" where
  "json_Unmarshal s =
     (case parse_value (2 * length s + 1) s of
        Some (v, r) \<Rightarrow> if skip_ws r = [] then Some v else None
      | None \<Rightarrow> None)"

text \<open>The error of a text that is not JSON, and of a value that does not fit its Go type.\<close>

definition json_syntax_error :: go_error where
  "json_syntax_error = Sentinel ''invalid JSON text''"

definition json_type_error :: go_error where
  "json_type_error = Sentinel ''json: cannot unmarshal value into Go type''"

section \<open>Writing\<close>

definition json_escape_char :: "char \<Rightarrow> string" where
  "json_escape_char c =
     (if c = quote_mark \<or> c = backslash then [backslash, c]
      else if c = CHR 0x08 then [backslash, CHR ''b'']
      else if c = CHR 0x0C then [backslash, CHR ''f'']
      else if c = CHR 0x0A then [backslash, CHR ''n'']
      else if c = CHR 0x0D then [backslash, CHR ''r'']
      else if c = CHR 0x09 then [backslash, CHR ''t'']
      else if byte c < 32 \<or> c = CHR ''<'' \<or> c = CHR ''>'' \<or> c = CHR ''&''
        then [backslash, CHR ''u'', CHR ''0'', CHR ''0'',
              ''0123456789abcdef'' ! (byte c div 16), ''0123456789abcdef'' ! (byte c mod 16)]
      else [c])"

fun json_escape :: "string \<Rightarrow> string" where
  "json_escape [] = []"
| "json_escape (c # s) =
     (let n = rune_size (c # s)
      in if n = 0 then [backslash] @ ''ufffd'' @ json_escape s
         else if n = 1 then json_escape_char c @ json_escape s
         else if take n (c # s) = [CHR 0xE2, CHR 0x80, CHR 0xA8]
           then [backslash] @ ''u2028'' @ json_escape (drop (n - 1) s)
         else if take n (c # s) = [CHR 0xE2, CHR 0x80, CHR 0xA9]
           then [backslash] @ ''u2029'' @ json_escape (drop (n - 1) s)
         else take n (c # s) @ json_escape (drop (n - 1) s))"

definition json_string :: "string \<Rightarrow> string" where
  "json_string s = quote_mark # json_escape s @ [quote_mark]"

section \<open>The fuel is enough\<close>

lemma length_skip_ws: "length (skip_ws s) \<le> length s"
  by (induction s rule: skip_ws.induct) auto

lemma skip_ws_Cons_length: "skip_ws s = c # r \<Longrightarrow> length r < length s"
  using length_skip_ws [of s] by simp

lemma parse_string_consumes: "parse_string s = Some (t, r) \<Longrightarrow> length r < length s"
proof (induction "length s" arbitrary: s t rule: less_induct)
  case less
  show ?case
  proof (cases s)
    case Nil
    with less.prems show ?thesis by simp
  next
    case (Cons c s')
    have IH: "length r \<le> length s'"
      if "parse_string u = Some (t', r)" and "length u \<le> length s'" for u t'
      using less.hyps [of u t'] that Cons by simp
    from less.prems Cons show ?thesis
      by (auto simp: prepend_def less_Suc_eq_le split: if_splits list.splits option.splits
          dest!: IH)
  qed
qed

lemma dropWhile_shorter: "takeWhile P s \<noteq> [] \<Longrightarrow> length (dropWhile P s) < length s"
  by (cases s) (auto simp: less_Suc_eq_le length_dropWhile_le split: if_splits)

lemma number_frac_length: "number_frac s = (a, r) \<Longrightarrow> length r \<le> length s"
  by (auto simp: number_frac_def length_dropWhile_le le_SucI split: list.splits if_splits)

lemma number_exp_length: "number_exp s = (a, r) \<Longrightarrow> length r \<le> length s"
  by (auto simp: number_exp_def Let_def length_dropWhile_le le_SucI split: list.splits if_splits)

lemma parse_unsigned_consumes:
  assumes "parse_unsigned neg t = Some (v, r)"
  shows "length r < length t"
proof -
  obtain frac u where f: "number_frac (drop (length (number_int t)) t) = (frac, u)" by fastforce
  obtain expo v' where e: "number_exp u = (expo, v')" by fastforce
  have "number_int t \<noteq> []" and "r = v'"
    using assms f e by (auto simp: parse_unsigned_def Let_def split: if_splits)
  moreover have "length (number_int t) \<le> length t"
    by (auto simp: number_int_def length_takeWhile_le split: list.split)
  moreover have "length t > 0" using calculation by (auto simp: number_int_def)
  ultimately show ?thesis
    using number_frac_length [OF f] number_exp_length [OF e]
    by (metis diff_less length_drop length_greater_0_conv order.strict_trans1)
qed

lemma parse_number_consumes: "parse_number s = Some (v, r) \<Longrightarrow> length r < length s"
  by (auto simp: parse_number_def split: list.splits if_splits dest: parse_unsigned_consumes)

lemma parse_scalar_consumes:
  assumes "parse_scalar s = Some (v, r)"
  shows "length r < length s"
proof (cases "find (\<lambda>(w, v). HasPrefix s w) literals")
  case None
  with assms show ?thesis by (simp add: parse_scalar_def parse_number_consumes)
next
  case (Some p)
  obtain w u where p: "p = (w, u)" by (cases p)
  then have "HasPrefix s w" and "(w, u) \<in> set literals"
    using Some by (auto simp: find_Some_iff) (metis nth_mem)
  moreover have "r = drop (length w) s"
    using assms Some p by (simp add: parse_scalar_def)
  ultimately show ?thesis by (auto simp: literals_def HasPrefix_iff)
qed

lemma parse_all_consume:
  "(\<forall>s v r. parse_value n s = Some (v, r) \<longrightarrow> length r < length s)
   \<and> (\<forall>s kvs r. parse_members n s = Some (kvs, r) \<longrightarrow> length r < length s)
   \<and> (\<forall>s js r. parse_elements n s = Some (js, r) \<longrightarrow> length r < length s)"
proof (induction n)
  case 0
  then show ?case by simp
next
  case (Suc n)
  have IH: "parse_value n s = Some (v, r) \<Longrightarrow> length r < length s"
    "parse_members n s = Some (kvs, r) \<Longrightarrow> length r < length s"
    "parse_elements n s = Some (js, r) \<Longrightarrow> length r < length s" for s v kvs js r
    using Suc by blast+
  have "length r < length s" if p: "parse_value (Suc n) s = Some (v, r)" for s v r
  proof -
    obtain c q where q: "skip_ws s = c # q" using p by (cases "skip_ws s") auto
    note len = skip_ws_Cons_length [OF q] length_skip_ws [of q]
    from p q len show ?thesis
      by (auto split: if_splits dest!: IH parse_string_consumes parse_scalar_consumes)
  qed
  moreover have "length r < length s" if "parse_members (Suc n) s = Some (kvs, r)" for s kvs r
    using that
    by (auto split: if_splits list.splits option.splits
        dest!: IH parse_string_consumes skip_ws_Cons_length)
  moreover have "length r < length s" if "parse_elements (Suc n) s = Some (js, r)" for s js r
    using that
    by (auto split: if_splits list.splits option.splits dest!: IH skip_ws_Cons_length)
  ultimately show ?case by blast
qed

lemmas parse_consumes = parse_all_consume [THEN conjunct1, rule_format]
  parse_all_consume [THEN conjunct2, THEN conjunct1, rule_format]
  parse_all_consume [THEN conjunct2, THEN conjunct2, rule_format]

lemma parse_value_cong:
  assumes "\<And>r. length r < length s \<Longrightarrow> parse_members n r = parse_members m r"
    and "\<And>r. length r < length s \<Longrightarrow> parse_elements n r = parse_elements m r"
  shows "parse_value (Suc n) s = parse_value (Suc m) s"
  using assms by (auto split: list.split dest: skip_ws_Cons_length)

lemma parse_elements_cong:
  assumes "parse_value n s = parse_value m s"
    and "\<And>r. length r < length s \<Longrightarrow> parse_elements n r = parse_elements m r"
  shows "parse_elements (Suc n) s = parse_elements (Suc m) s"
proof -
  have "parse_elements n r4 = parse_elements m r4"
    if "parse_value m s = Some (v, r3)" "skip_ws r3 = e # r4" for v r3 e r4
    using assms(2) parse_consumes(1) [OF that(1)] skip_ws_Cons_length [OF that(2)] by simp
  with assms(1) show ?thesis by (auto split: option.split list.split)
qed

lemma parse_members_cong:
  assumes V: "\<And>r. length r < length s \<Longrightarrow> parse_value n r = parse_value m r"
    and M: "\<And>r. length r < length s \<Longrightarrow> parse_members n r = parse_members m r"
  shows "parse_members (Suc n) s = parse_members (Suc m) s"
proof -
  have *: "parse_value n r2 = parse_value m r2 \<and>
      (\<forall>v r3 e r4. parse_value m r2 = Some (v, r3) \<longrightarrow> skip_ws r3 = e # r4 \<longrightarrow>
         parse_members n r4 = parse_members m r4)"
    if "skip_ws s = c # r" "parse_string r = Some (k, r1)" "skip_ws r1 = d # r2" for c r k r1 d r2
  proof -
    have "length r2 < length s"
      using that by (auto dest!: skip_ws_Cons_length parse_string_consumes)
    then show ?thesis
      using V M by (auto dest!: parse_consumes(1) skip_ws_Cons_length)
  qed
  show ?thesis using * by (auto split: option.split list.split)
qed

lemma parse_all_fuel:
  "(\<forall>s m. n > 2 * length s \<longrightarrow> m > 2 * length s \<longrightarrow> parse_value n s = parse_value m s)
   \<and> (\<forall>s m. n > 2 * length s \<longrightarrow> m > 2 * length s \<longrightarrow> parse_members n s = parse_members m s)
   \<and> (\<forall>s m. n > 2 * length s + 1 \<longrightarrow> m > 2 * length s + 1 \<longrightarrow> parse_elements n s = parse_elements m s)"
proof (induction n)
  case 0
  then show ?case by simp
next
  case (Suc n)
  have IH: "2 * length s < n \<Longrightarrow> 2 * length s < m \<Longrightarrow> parse_value n s = parse_value m s"
    "2 * length s < n \<Longrightarrow> 2 * length s < m \<Longrightarrow> parse_members n s = parse_members m s"
    "2 * length s + 1 < n \<Longrightarrow> 2 * length s + 1 < m \<Longrightarrow> parse_elements n s = parse_elements m s" for s m
    using Suc by blast+
  have "parse_value (Suc n) s = parse_value m s" if "2 * length s < Suc n" "2 * length s < m" for s m
    using that by (cases m) (auto simp del: parse_value.simps intro!: parse_value_cong IH)
  moreover have "parse_members (Suc n) s = parse_members m s" if "2 * length s < Suc n" "2 * length s < m" for s m
    using that by (cases m) (auto simp del: parse_members.simps intro!: parse_members_cong IH)
  moreover have "parse_elements (Suc n) s = parse_elements m s"
    if "2 * length s + 1 < Suc n" "2 * length s + 1 < m" for s m
    using that by (cases m) (auto simp del: parse_elements.simps intro!: parse_elements_cong IH)
  ultimately show ?case by blast
qed

lemma json_Unmarshal_fuel:
  "n > 2 * length s \<Longrightarrow>
   json_Unmarshal s =
     (case parse_value n s of
        Some (v, r) \<Rightarrow> if skip_ws r = [] then Some v else None
      | None \<Rightarrow> None)"
  unfolding json_Unmarshal_def
  using parse_all_fuel [of n, THEN conjunct1, rule_format, of s "2 * length s + 1"] by simp

section \<open>Reading back a written string\<close>

lemma hex_digit_nth: "k < 16 \<Longrightarrow> hex_digit (''0123456789abcdef'' ! k) = Some k"
proof -
  have "\<forall>k \<in> set [0..<16]. hex_digit (''0123456789abcdef'' ! k) = Some k"
    by code_simp
  then show "k < 16 \<Longrightarrow> hex_digit (''0123456789abcdef'' ! k) = Some k" by simp
qed

lemma rune_size_prefix: "rune_size s \<noteq> 0 \<Longrightarrow> rune_size (take (rune_size s) s @ t) = rune_size s"
proof (cases s)
  case (Cons c u)
  then show "rune_size s \<noteq> 0 \<Longrightarrow> rune_size (take (rune_size s) s @ t) = rune_size s"
    by (cases u; cases "tl u"; cases "tl (tl u)")
       (auto simp: rune_size_def cont_byte_def Let_def split: if_splits)
qed (simp add: rune_size_def)

lemma rune_size_ascii: "byte c < 128 \<Longrightarrow> rune_size (c # s) = 1"
  by (simp add: rune_size_def)

lemma rune_size_1: "rune_size (c # s) = 1 \<Longrightarrow> byte c < 128"
  by (auto simp: rune_size_def Let_def split: if_splits)

lemma rune_size_multi: "rune_size (c # s) > 1 \<Longrightarrow> byte c \<ge> 194"
  by (auto simp: rune_size_def Let_def split: if_splits)

lemma utf8_seps:
  "utf8_encode 8232 = [CHR 0xE2, CHR 0x80, CHR 0xA8]"
  "utf8_encode 8233 = [CHR 0xE2, CHR 0x80, CHR 0xA9]"
  by (simp_all add: utf8_encode_def char_of_eq_iff take_bit_eq_mod)

lemma hex4_00: "byte c < 128 \<Longrightarrow>
   hex4 (CHR ''0'' # CHR ''0'' # ''0123456789abcdef'' ! (byte c div 16)
     # ''0123456789abcdef'' ! (byte c mod 16) # u) = Some (byte c)"
  using hex_digit_nth [of "byte c div 16"] hex_digit_nth [of "byte c mod 16"] hex_digit_nth [of 0]
  by (simp add: hex4_def)

lemma utf8_encode_ascii: "byte c < 128 \<Longrightarrow> utf8_encode (byte c) = [c]"
  by (simp add: utf8_encode_def)

lemma parse_string_escape_char:
  assumes "byte c < 128"
  shows "parse_string (json_escape_char c @ u) = prepend [c] (parse_string u)"
proof -
  let ?short = "{quote_mark, backslash, CHR 0x08, CHR 0x0C, CHR 0x0A, CHR 0x0D, CHR 0x09}"
  let ?html = "byte c < 32 \<or> c = CHR ''<'' \<or> c = CHR ''>'' \<or> c = CHR ''&''"
  show ?thesis
  proof (cases "c \<in> ?short")
    case True
    then show ?thesis by (auto simp: json_escape_char_def escapes_def)
  next
    case False
    show ?thesis
    proof (cases ?html)
      case True
      define h1 h2 where "h1 = ''0123456789abcdef'' ! (byte c div 16)"
        and "h2 = ''0123456789abcdef'' ! (byte c mod 16)"
      have "json_escape_char c = [backslash, CHR ''u'', CHR ''0'', CHR ''0'', h1, h2]"
        using False True by (simp only: json_escape_char_def h1_def h2_def insert_iff empty_iff
            de_Morgan_disj simp_thms if_False if_True)
      moreover have "hex4 (CHR ''0'' # CHR ''0'' # h1 # h2 # u) = Some (byte c)"
        unfolding h1_def h2_def using assms by (rule hex4_00)
      ultimately show ?thesis using assms by (simp add: utf8_encode_ascii)
    next
      case plain: False
      with False assms show ?thesis by (simp add: json_escape_char_def rune_size_ascii)
    qed
  qed
qed

lemma rune_size_le: "rune_size s \<le> length s"
proof (cases s)
  case (Cons c u)
  then show ?thesis
    by (cases u; cases "tl u"; cases "tl (tl u)")
       (auto simp: rune_size_def cont_byte_def Let_def split: if_splits)
qed (simp add: rune_size_def)

lemma parse_string_rune:
  assumes "rune_size (c # s) > 1"
  shows "parse_string (take (rune_size (c # s)) (c # s) @ u) =
         prepend (take (rune_size (c # s)) (c # s)) (parse_string u)"
proof -
  let ?n = "rune_size (c # s)"
  have c: "byte c \<ge> 194" using rune_size_multi [OF assms] .
  then have c': "c \<noteq> quote_mark" "c \<noteq> backslash" "\<not> byte c < 32" by auto
  define w where "w = take (?n - 1) s @ u"
  have w: "take ?n (c # s) @ u = c # w"
    using assms by (cases ?n) (auto simp: w_def)
  have n: "rune_size (c # w) = ?n"
    using rune_size_prefix [of "c # s" u] assms w by simp
  have "?n - 1 \<le> length s" using rune_size_le [of "c # s"] by simp
  then have "drop (?n - 1) w = u" and "take (?n - 1) w = take (?n - 1) s"
    by (simp_all add: w_def)
  then have "take ?n (c # w) = take ?n (c # s)" and "drop (?n - 1) w = u"
    using assms by (cases ?n; simp)+
  with c' n assms show ?thesis by (simp add: w del: take_Suc_Cons)
qed

lemma valid_utf8_tail: "valid_utf8 (c # s) \<Longrightarrow> valid_utf8 (drop (rune_size (c # s) - 1) s)"
  by simp

lemma parse_string_json_escape:
  "valid_utf8 s \<Longrightarrow> parse_string (json_escape s @ quote_mark # r) = Some (s, r)"
proof (induction "length s" arbitrary: s rule: less_induct)
  case less
  show ?case
  proof (cases s)
    case Nil
    then show ?thesis by simp
  next
    case (Cons c t)
    let ?n = "rune_size (c # t)" and ?u = "drop (rune_size (c # t) - 1) t"
    have n: "?n \<noteq> 0" and IH: "parse_string (json_escape ?u @ quote_mark # r) = Some (?u, r)"
      using less.prems less.hyps [of ?u] Cons by auto
    have split: "c # t = take ?n (c # t) @ ?u"
      using n by (cases ?n) auto
    consider "?n = 1" | "?n > 1" using n by linarith
    then show ?thesis
    proof cases
      case 1
      then show ?thesis
        using IH Cons rune_size_1 [of c t] by (simp add: parse_string_escape_char prepend_def del: parse_string.simps)
    next
      case 2
      have seps: "parse_string (backslash # CHR ''u'' # CHR ''2'' # CHR ''0'' # CHR ''2'' # CHR ''8'' # x)
            = prepend [CHR 0xE2, CHR 0x80, CHR 0xA8] (parse_string x)"
          "parse_string (backslash # CHR ''u'' # CHR ''2'' # CHR ''0'' # CHR ''2'' # CHR ''9'' # x)
            = prepend [CHR 0xE2, CHR 0x80, CHR 0xA9] (parse_string x)" for x
        by (simp_all add: hex4_def hex_digit_def utf8_seps)
      have "parse_string (json_escape (c # t) @ quote_mark # r) =
          prepend (take ?n (c # t)) (parse_string (json_escape ?u @ quote_mark # r))"
        using 2 parse_string_rune [OF 2] seps by (simp add: Let_def del: parse_string.simps)
      then have "parse_string (json_escape (c # t) @ quote_mark # r) = Some (take ?n (c # t) @ ?u, r)"
        by (simp only: IH prepend_def option.map prod.case)
      then show ?thesis by (simp only: Cons split [symmetric])
    qed
  qed
qed

text \<open>What \<^verbatim>\<open>json.Marshal\<close> writes for a valid string is read back as that string.\<close>

lemma parse_json_string:
  assumes "valid_utf8 s"
  shows "parse_value (Suc n) (json_string s @ r) = Some (JString s, r)"
  using parse_string_json_escape [OF assms] by (simp add: json_string_def)

section \<open>Reading back a written integer\<close>

lemma digit_nth:
  assumes "k < 10"
  shows "byte (''0123456789'' ! k) = 48 + k"
proof -
  have "\<forall>k \<in> set [0..<10]. byte (''0123456789'' ! k) = 48 + k" by code_simp
  with assms show ?thesis by simp
qed

lemma is_digit_nth: "k < 10 \<Longrightarrow> is_digit (''0123456789'' ! k)"
  by (simp add: is_digit_def digit_nth del: nth_Cons_numeral)

lemma digits_value_snoc:
  "digits_value (ds @ [c]) = digits_value ds * 10 + int (byte c - 48)"
  by (simp add: digits_value_def)

lemma Itoa_nat_digits:
  "Itoa_nat n \<noteq> [] \<and> list_all is_digit (Itoa_nat n) \<and> digits_value (Itoa_nat n) = int n"
proof (induction n rule: Itoa_nat.induct)
  case (1 n)
  show ?case
  proof (cases "n < 10")
    case True
    then show ?thesis
      using is_digit_nth [OF True] digit_nth [OF True]
      by (subst (1 2 3) Itoa_nat.simps) (simp add: digits_value_def)
  next
    case False
    let ?d = "''0123456789'' ! (n mod 10)"
    have "Itoa_nat n = Itoa_nat (n div 10) @ [?d]" using False by (simp add: Itoa_nat.simps [of n])
    moreover have "int (byte ?d - 48) = int (n mod 10)"
      using digit_nth [of "n mod 10"] by simp
    ultimately show ?thesis
      using 1 [OF False] is_digit_nth [of "n mod 10"]
      by (simp add: digits_value_snoc) (metis div_mult_mod_eq of_nat_add of_nat_mult of_nat_numeral)
  qed
qed

lemma Itoa_nat_hd: "n > 0 \<Longrightarrow> hd (Itoa_nat n) \<noteq> CHR ''0''"
proof (induction n rule: Itoa_nat.induct)
  case (1 n)
  show ?case
  proof (cases "n < 10")
    case True
    then have "Itoa_nat n = [''0123456789'' ! n]" by (simp add: Itoa_nat.simps [of n])
    moreover have "byte (''0123456789'' ! n) \<noteq> byte (CHR ''0'')"
      using digit_nth [OF True] 1 by simp
    ultimately show ?thesis by (metis list.sel(1))
  next
    case False
    then have "Itoa_nat n = Itoa_nat (n div 10) @ [''0123456789'' ! (n mod 10)]"
      by (simp add: Itoa_nat.simps [of n])
    moreover have "hd (Itoa_nat (n div 10)) \<noteq> CHR ''0''"
      using 1(1) [OF False] False by (simp add: div_greater_zero_iff)
    ultimately show ?thesis using Itoa_nat_digits [of "n div 10"] by (simp add: hd_append)
  qed
qed

lemma number_int_Itoa:
  assumes "\<not> is_digit c"
  shows "number_int (Itoa_nat n @ c # r) = Itoa_nat n"
proof (cases "n = 0")
  case True
  then show ?thesis by (simp add: number_int_def Itoa_nat.simps)
next
  case False
  obtain d ds where d: "Itoa_nat n = d # ds" and "list_all is_digit (d # ds)"
    using Itoa_nat_digits [of n] by (cases "Itoa_nat n") auto
  then have "takeWhile is_digit ((d # ds) @ c # r) = d # ds"
    using assms by (auto simp: list_all_iff takeWhile_append)
  with False Itoa_nat_hd [of n] d show ?thesis by (simp add: number_int_def)
qed

lemma parse_unsigned_Itoa:
  assumes "c = CHR '','' \<or> c = CHR ''}''"
  shows "parse_unsigned neg (Itoa_nat n @ c # r) = Some (JInt (if neg then - int n else int n), c # r)"
proof -
  have "\<not> is_digit c" using assms by (auto simp: is_digit_def)
  moreover have "number_frac (c # r) = ([], c # r)" "number_exp (c # r) = ([], c # r)"
    using assms by (auto simp: number_frac_def number_exp_def)
  ultimately show ?thesis
    using Itoa_nat_digits [of n] by (simp add: parse_unsigned_def number_int_Itoa)
qed

lemma digit_not_special:
  "is_digit d \<Longrightarrow> d \<notin> set [CHR 0x20, CHR 0x09, CHR 0x0A, CHR 0x0D, CHR ''{'', CHR ''['', quote_mark,
     CHR ''-'', CHR ''t'', CHR ''f'', CHR ''n'']"
  by (auto simp: is_digit_def)

lemma parse_value_Itoa:
  assumes "c = CHR '','' \<or> c = CHR ''}''"
  shows "parse_value (Suc n) (Itoa i @ c # r) = Some (JInt i, c # r)"
proof (cases "i < 0")
  case True
  then show ?thesis
    using parse_unsigned_Itoa [OF assms, of True "nat (- i)" r]
    by (simp add: Itoa_def parse_scalar_def literals_def parse_number_def)
next
  case False
  obtain d ds where d: "Itoa_nat (nat i) = d # ds" and "is_digit d"
    using Itoa_nat_digits [of "nat i"] by (cases "Itoa_nat (nat i)") auto
  then show ?thesis
    using False digit_not_special [of d] parse_unsigned_Itoa [OF assms, of False "nat i" r]
    by (simp add: Itoa_def parse_scalar_def literals_def parse_number_def)
qed

section \<open>Reading back the members of an object\<close>

lemma skip_ws_quote [simp]: "skip_ws (quote_mark # s) = quote_mark # s"
  by simp

lemma parse_members_more:
  assumes "valid_utf8 k" and "parse_value n (txt @ CHR '','' # rest) = Some (v, CHR '','' # rest)"
  shows "parse_members (Suc n) (json_string k @ CHR '':'' # txt @ CHR '','' # rest) =
         map_option (\<lambda>(kvs, q). ((k, v) # kvs, q)) (parse_members n rest)"
  using assms(2) parse_string_json_escape [OF assms(1)]
  by (simp add: json_string_def del: parse_value.simps parse_string.simps)

lemma parse_members_last:
  assumes "valid_utf8 k" and "parse_value n (txt @ CHR ''}'' # rest) = Some (v, CHR ''}'' # rest)"
  shows "parse_members (Suc n) (json_string k @ CHR '':'' # txt @ CHR ''}'' # rest) = Some ([(k, v)], rest)"
  using assms(2) parse_string_json_escape [OF assms(1)]
  by (simp add: json_string_def del: parse_value.simps parse_string.simps)

end
