(* ===== verification/Templates.thy ===== *)
theory Templates
  imports Api_Types Go_Json_Text
begin

text \<open>
  \<^verbatim>\<open>internal/operations/templates\<close>: the registry of built-in operation templates, the JSON schemas
  of their parameters and the validation of \<^verbatim>\<open>spec.parameters\<close>.

  The schema documents are given as parsed trees. The schema library (\<^verbatim>\<open>santhosh-tekuri/jsonschema\<close>)
  is the parameter \<open>compile\<close>; \<open>schema_sound compile\<close> states what the code relies on: a document a
  compiled schema accepts satisfies the schema's keywords, as \<open>schema_ok\<close> spells them out for the
  keywords the built-in schemas use. The cache of compiled schemas is invisible to callers and is
  left out.
\<close>

section \<open>The registry\<close>

abbreviation CapabilityAnnotationPrefix :: string where
  "CapabilityAnnotationPrefix \<equiv> ''ops.vworkspace.io/''"

record Template =
  Ref :: string
  t_Type :: string
  t_Engine :: string
  CapabilityVerb :: string
  RBACProfile :: string
  RequiresApproval :: bool

abbreviation RefBackupVelero :: string where "RefBackupVelero \<equiv> ''backup.velero''"
abbreviation RefRestoreVelero :: string where "RefRestoreVelero \<equiv> ''restore.velero''"
abbreviation RefUpgradeHelm :: string where "RefUpgradeHelm \<equiv> ''upgrade.helm''"
abbreviation RefMigrationHelmHookJob :: string where "RefMigrationHelmHookJob \<equiv> ''migration.helmHookJob''"
abbreviation RefRunCommandJob :: string where "RefRunCommandJob \<equiv> ''runCommand.job''"
abbreviation RefRunbookWorkflow :: string where "RefRunbookWorkflow \<equiv> ''runbook.workflow''"

definition BuiltinRefs :: "string list" where
  "BuiltinRefs =
     [RefBackupVelero, RefRestoreVelero, RefUpgradeHelm, RefMigrationHelmHookJob, RefRunCommandJob,
      RefRunbookWorkflow]"

definition builtin :: "Template list" where
  "builtin =
     [\<lparr>Ref = RefBackupVelero, t_Type = OperationTypeBackup, t_Engine = EngineVelero,
        CapabilityVerb = ''backup'', RBACProfile = RefBackupVelero, RequiresApproval = False\<rparr>,
      \<lparr>Ref = RefRestoreVelero, t_Type = OperationTypeRestore, t_Engine = EngineVelero,
        CapabilityVerb = ''restore'', RBACProfile = RefRestoreVelero, RequiresApproval = True\<rparr>,
      \<lparr>Ref = RefUpgradeHelm, t_Type = OperationTypeUpgrade, t_Engine = EngineHelm,
        CapabilityVerb = ''upgrade'', RBACProfile = RefUpgradeHelm, RequiresApproval = False\<rparr>,
      \<lparr>Ref = RefMigrationHelmHookJob, t_Type = OperationTypeMigration, t_Engine = EngineHelmHookJob,
        CapabilityVerb = ''migration'', RBACProfile = RefMigrationHelmHookJob, RequiresApproval = False\<rparr>,
      \<lparr>Ref = RefRunCommandJob, t_Type = OperationTypeRunCommand, t_Engine = EngineJob,
        CapabilityVerb = ''runcommand'', RBACProfile = RefRunCommandJob, RequiresApproval = False\<rparr>,
      \<lparr>Ref = RefRunbookWorkflow, t_Type = OperationTypeRunbook, t_Engine = EngineWorkflow,
        CapabilityVerb = ''runbook'', RBACProfile = RefRunbookWorkflow, RequiresApproval = False\<rparr>]"

definition byTypeEngine :: "string \<times> string \<rightharpoonup> Template" where
  "byTypeEngine = foldl (\<lambda>m tpl. m((t_Type tpl, t_Engine tpl) \<mapsto> tpl)) Map.empty builtin"

definition Lookup :: "string \<Rightarrow> string \<Rightarrow> Template option" where
  "Lookup typ engine = byTypeEngine (typ, engine)"

definition CapabilityAnnotationKey :: "string \<Rightarrow> string" where
  "CapabilityAnnotationKey verb = CapabilityAnnotationPrefix @ TrimSpace verb"

section \<open>The schemas\<close>

abbreviation type_of_str :: json where "type_of_str \<equiv> JObject [(''type'', JString ''string'')]"
abbreviation nonempty_str :: json where
  "nonempty_str \<equiv> JObject [(''type'', JString ''string''), (''minLength'', JInt 1)]"
abbreviation str_array :: json where
  "str_array \<equiv> JObject [(''type'', JString ''array''), (''items'', type_of_str)]"
abbreviation at_least :: "int \<Rightarrow> json" where
  "at_least n \<equiv> JObject [(''type'', JString ''integer''), (''minimum'', JInt n)]"
abbreviation schema_uri :: "string \<times> json" where
  "schema_uri \<equiv> (''$schema'', JString ''https://json-schema.org/draft/2020-12/schema'')"

definition schemaBackupVelero :: json where
  "schemaBackupVelero = JObject
     [schema_uri, (''type'', JString ''object''), (''additionalProperties'', JBool False),
      (''properties'', JObject
         [(''retention'', type_of_str), (''ttl'', type_of_str), (''snapshotClassName'', type_of_str),
          (''csiSnapshotClassName'', type_of_str),
          (''snapshotVolumes'', JObject [(''type'', JString ''boolean'')]),
          (''storageLocation'', type_of_str), (''includedResources'', str_array),
          (''excludedResources'', str_array)])]"

definition schemaRestoreVelero :: json where
  "schemaRestoreVelero = JObject
     [schema_uri, (''type'', JString ''object''), (''additionalProperties'', JBool False),
      (''required'', JArray [JString ''backupName'']),
      (''properties'', JObject
         [(''backupName'', nonempty_str),
          (''namespaceMapping'',
             JObject [(''type'', JString ''object''), (''additionalProperties'', type_of_str)]),
          (''restorePVs'', JObject [(''type'', JString ''boolean'')]),
          (''existingResourcePolicy'', type_of_str), (''includedResources'', str_array),
          (''excludedResources'', str_array)])]"

definition schemaUpgradeHelm :: json where
  "schemaUpgradeHelm = JObject
     [schema_uri, (''type'', JString ''object''), (''additionalProperties'', JBool False),
      (''properties'', JObject
         [(''targetVersion'', nonempty_str), (''valuesPatch'', JObject [(''type'', JString ''object'')])])]"

definition schemaMigrationHelmHookJob :: json where
  "schemaMigrationHelmHookJob = JObject
     [schema_uri, (''type'', JString ''object''), (''additionalProperties'', JBool False),
      (''required'', JArray [JString ''hookName'']),
      (''properties'', JObject
         [(''hookName'', nonempty_str), (''activeDeadlineSeconds'', at_least 1),
          (''backoffLimit'', at_least 0)])]"

definition schemaRunCommandEnv :: json where
  "schemaRunCommandEnv = JObject
     [(''type'', JString ''array''),
      (''items'', JObject
         [(''type'', JString ''object''), (''additionalProperties'', JBool False),
          (''required'', JArray [JString ''name'']),
          (''properties'', JObject
             [(''name'', nonempty_str), (''value'', type_of_str),
              (''valueFrom'', JObject [(''type'', JString ''object'')])])])]"

definition schemaRunCommandJob :: json where
  "schemaRunCommandJob = JObject
     [schema_uri, (''type'', JString ''object''), (''additionalProperties'', JBool False),
      (''required'', JArray [JString ''image'']),
      (''properties'', JObject
         [(''image'', nonempty_str), (''command'', str_array), (''args'', str_array),
          (''env'', schemaRunCommandEnv),
          (''activeDeadlineSeconds'', at_least 1), (''timeoutSeconds'', at_least 1),
          (''backoffLimit'', at_least 0), (''serviceAccountName'', nonempty_str)])]"

definition schemaRunbookWorkflow :: json where
  "schemaRunbookWorkflow = JObject
     [schema_uri, (''type'', JString ''object''), (''additionalProperties'', JBool False),
      (''required'', JArray [JString ''template'']),
      (''properties'', JObject
         [(''template'', nonempty_str), (''targetChartVersion'', type_of_str),
          (''snapshotClassName'', type_of_str), (''timeoutSeconds'', at_least 1),
          (''failureAction'', type_of_str)])]"

definition InputSchema :: "string \<Rightarrow> json option" where
  "InputSchema ref =
     map_of [(RefBackupVelero, schemaBackupVelero), (RefRestoreVelero, schemaRestoreVelero),
             (RefUpgradeHelm, schemaUpgradeHelm), (RefMigrationHelmHookJob, schemaMigrationHelmHookJob),
             (RefRunCommandJob, schemaRunCommandJob), (RefRunbookWorkflow, schemaRunbookWorkflow)] ref"

section \<open>Validation\<close>

type_synonym schema_compiler = "string \<Rightarrow> json \<Rightarrow> go_error + (json \<Rightarrow> go_error option)"

definition compiledInputSchema ::
  "schema_compiler \<Rightarrow> string \<Rightarrow> json \<Rightarrow> go_error + (json \<Rightarrow> go_error option)" where
  "compiledInputSchema compile ref schemaDoc =
     (case compile ref schemaDoc of
        Inl err \<Rightarrow> Inl (Wrapf (''compile parameters schema for template '' @ ref @ '': '') err [])
      | Inr schema \<Rightarrow> Inr schema)"

definition ValidateParameters ::
  "schema_compiler \<Rightarrow> string \<Rightarrow> string \<Rightarrow> string \<Rightarrow> go_error option" where
  "ValidateParameters compile typ engine raw =
     (case Lookup typ engine of
        None \<Rightarrow> None
      | Some tpl \<Rightarrow>
          (case InputSchema (Ref tpl) of
             None \<Rightarrow> None
           | Some schemaDoc \<Rightarrow>
               (let raw = (if TrimSpace raw = [] then ''{}'' else raw)
                in case compiledInputSchema compile (Ref tpl) schemaDoc of
                     Inl err \<Rightarrow> Some err
                   | Inr validate \<Rightarrow>
                       (case json_Unmarshal raw of
                          None \<Rightarrow> Some (Wrapf (''decode parameters for template '' @ Ref tpl @ '': '') json_syntax_error [])
                        | Some doc \<Rightarrow>
                            (case validate (go_any doc) of
                               Some err \<Rightarrow> Some (Wrapf (''parameters invalid for template '' @ Ref tpl @ '': '') err [])
                             | None \<Rightarrow> None)))))"

section \<open>What the schema library promises\<close>

definition type_ok :: "string \<Rightarrow> json \<Rightarrow> bool" where
  "type_ok t d =
     (case d of
        JNull \<Rightarrow> t = ''null''
      | JBool _ \<Rightarrow> t = ''boolean''
      | JInt _ \<Rightarrow> t \<in> {''integer'', ''number''}
      | JFloat _ \<Rightarrow> t \<in> {''integer'', ''number''}
      | JString _ \<Rightarrow> t = ''string''
      | JArray _ \<Rightarrow> t = ''array''
      | JObject _ \<Rightarrow> t = ''object'')"

definition scalar_keywords_ok :: "(string \<times> json) list \<Rightarrow> json \<Rightarrow> bool" where
  "scalar_keywords_ok kws d \<longleftrightarrow>
     (case map_of kws ''type'' of Some (JString t) \<Rightarrow> type_ok t d | _ \<Rightarrow> True)
     \<and> (case map_of kws ''minLength'' of Some (JInt n) \<Rightarrow> (n > 0 \<longrightarrow> d \<noteq> JString []) | _ \<Rightarrow> True)
     \<and> (case map_of kws ''minimum'' of
          Some (JInt n) \<Rightarrow> (case d of JInt i \<Rightarrow> n \<le> i | _ \<Rightarrow> True) | _ \<Rightarrow> True)
     \<and> (case map_of kws ''required'' of
          Some (JArray rs) \<Rightarrow>
            (case d of
               JObject kvs \<Rightarrow>
                 list_all (\<lambda>r. case r of JString k \<Rightarrow> k \<in> set (map fst kvs) | _ \<Rightarrow> True) rs
             | _ \<Rightarrow> True)
        | _ \<Rightarrow> True)"

definition sub_schemas :: "(string \<times> json) list \<Rightarrow> (string \<times> json) list" where
  "sub_schemas kws =
     (case map_of kws ''properties'' of Some (JObject ps) \<Rightarrow> ps | _ \<Rightarrow> [])"

lemma size_map_of: "map_of kws k = Some j \<Longrightarrow> size j < size (JObject kws)"
  by (induction kws) (auto split: if_splits)

lemma size_sub_schemas: "(k, j) \<in> set (sub_schemas kws) \<Longrightarrow> size j < size (JObject kws)"
proof -
  assume k: "(k, j) \<in> set (sub_schemas kws)"
  then obtain ps where ps: "map_of kws ''properties'' = Some (JObject ps)" "(k, j) \<in> set ps"
    by (cases "map_of kws ''properties''"; cases "the (map_of kws ''properties'')")
       (auto simp: sub_schemas_def)
  have "size j \<le> size (JObject ps)" using ps(2)
    by (induction ps) (auto split: if_splits)
  with size_map_of [OF ps(1)] show ?thesis by simp
qed

text \<open>
  The necessary conditions a schema puts on a document: the built-in keywords, with nothing said
  about numbers that are not written as integers.
\<close>

function (sequential) schema_ok :: "json \<Rightarrow> json \<Rightarrow> bool" where
  "schema_ok (JBool b) d = b"
| "schema_ok (JObject kws) d =
     (scalar_keywords_ok kws d
      \<and> (case d of
           JObject kvs \<Rightarrow>
             list_all (\<lambda>(k, sub). case map_of kvs k of Some v \<Rightarrow> schema_ok sub v | None \<Rightarrow> True)
               (sub_schemas kws)
             \<and> (case map_of kws ''additionalProperties'' of
                  None \<Rightarrow> True
                | Some ap \<Rightarrow>
                    list_all (\<lambda>(k, v). k \<in> set (map fst (sub_schemas kws)) \<or> schema_ok ap v) kvs)
         | JArray js \<Rightarrow>
             (case map_of kws ''items'' of
                None \<Rightarrow> True
              | Some it \<Rightarrow> list_all (\<lambda>j. schema_ok it j) js)
         | _ \<Rightarrow> True))"
| "schema_ok s d = True"
  by pat_completeness auto
termination
  by (relation "measure (size \<circ> fst)") (auto dest: size_map_of size_sub_schemas)

definition schema_sound :: "schema_compiler \<Rightarrow> bool" where
  "schema_sound compile \<longleftrightarrow>
     (\<forall>ref schema validate d. compile ref schema = Inr validate \<longrightarrow> validate d = None \<longrightarrow> schema_ok schema d)"

section \<open>Lemmas\<close>

lemma find_key_iff:
  "distinct (map key xs) \<Longrightarrow> find (\<lambda>x. key x = k) xs = Some x \<longleftrightarrow> x \<in> set xs \<and> key x = k"
  by (induction xs) auto

lemma foldl_upd_find:
  "distinct (map key xs) \<Longrightarrow>
   foldl (\<lambda>m x. m(key x \<mapsto> x)) m xs k =
     (case find (\<lambda>x. key x = k) xs of Some x \<Rightarrow> Some x | None \<Rightarrow> m k)"
proof (induction xs arbitrary: m)
  case Nil
  then show ?case by simp
next
  case (Cons a xs)
  moreover have "key a = k \<Longrightarrow> find (\<lambda>x. key x = k) xs = None"
    using Cons.prems by (auto simp: find_None_iff rev_image_eqI)
  ultimately show ?case by (auto split: option.split)
qed

lemma builtin_keys_distinct: "distinct (map (\<lambda>tpl. (t_Type tpl, t_Engine tpl)) builtin)"
  by (simp add: builtin_def)

lemma Lookup_Some_iff:
  "Lookup typ engine = Some tpl \<longleftrightarrow> tpl \<in> set builtin \<and> t_Type tpl = typ \<and> t_Engine tpl = engine"
  using find_key_iff [OF builtin_keys_distinct, of "(typ, engine)" tpl]
  by (auto simp: Lookup_def byTypeEngine_def foldl_upd_find [OF builtin_keys_distinct]
      split: option.splits)

lemma Lookup_builtin:
  "Lookup OperationTypeBackup EngineVelero = Some (builtin ! 0)"
  "Lookup OperationTypeRestore EngineVelero = Some (builtin ! 1)"
  "Lookup OperationTypeUpgrade EngineHelm = Some (builtin ! 2)"
  "Lookup OperationTypeMigration EngineHelmHookJob = Some (builtin ! 3)"
  "Lookup OperationTypeRunCommand EngineJob = Some (builtin ! 4)"
  "Lookup OperationTypeRunbook EngineWorkflow = Some (builtin ! 5)"
  by (simp_all add: Lookup_Some_iff builtin_def)

text \<open>What acceptance by \<open>ValidateParameters\<close> means for a pair with a template.\<close>

lemma ValidateParameters_accepts:
  assumes "schema_sound compile" and "Lookup typ engine = Some tpl" and "InputSchema (Ref tpl) = Some schema"
    and "ValidateParameters compile typ engine raw = None"
  shows "\<exists>doc. json_Unmarshal (if TrimSpace raw = [] then ''{}'' else raw) = Some doc
           \<and> schema_ok schema (go_any doc)"
  using assms
  by (auto simp: ValidateParameters_def compiledInputSchema_def schema_sound_def Let_def
      split: sum.splits option.splits)

lemma schema_ok_property:
  assumes "schema_ok (JObject kws) (JObject d)" and "(k, sub) \<in> set (sub_schemas kws)"
    and "map_of d k = Some v"
  shows "schema_ok sub v"
  using assms by (fastforce simp: list_all_iff)

lemma schema_ok_closed:
  assumes "schema_ok (JObject kws) (JObject d)"
    and "map_of kws ''additionalProperties'' = Some (JBool False)"
  shows "set (map fst d) \<subseteq> set (map fst (sub_schemas kws))"
  using assms by (fastforce simp: list_all_iff)

lemma schema_ok_type:
  "schema_ok (JObject kws) d \<Longrightarrow> map_of kws ''type'' = Some (JString t) \<Longrightarrow> type_ok t d"
  by (cases d) (simp_all add: scalar_keywords_ok_def)

lemma type_ok_array: "type_ok ''array'' (go_any v) \<Longrightarrow> \<exists>js. v = JArray js"
  by (cases v) (auto simp: type_ok_def)

lemma type_ok_object: "type_ok ''object'' (go_any v) \<Longrightarrow> \<exists>kvs. v = JObject kvs"
  by (cases v) (auto simp: type_ok_def)

lemma schemaRunCommandJob_env:
  "schema_ok schemaRunCommandJob (JObject d) \<Longrightarrow> map_of d ''env'' = Some v \<Longrightarrow> schema_ok schemaRunCommandEnv v"
  unfolding schemaRunCommandJob_def
  by (erule schema_ok_property [where k = "''env''"]) (simp_all add: sub_schemas_def)

text \<open>The last member with a name is the one the decoded object has.\<close>

lemma go_any_member:
  assumes "k \<in> set (map fst kvs)"
  shows "\<exists>v. (k, v) \<in> set kvs
           \<and> map_of (last_wins (map (\<lambda>(k, v). (k, go_any v)) kvs)) k = Some (go_any v)"
proof -
  let ?m = "map (\<lambda>(k, v). (k, go_any v)) kvs"
  have "k \<in> set (map fst ?m)" using assms by force
  then obtain v' where "map_of (rev ?m) k = Some v'"
    by (metis map_of_eq_None_iff not_None_eq set_rev rev_map list.set_map)
  moreover then have "(k, v') \<in> set ?m" by (metis map_of_SomeD set_rev)
  ultimately show ?thesis by (auto simp: map_of_last_wins)
qed

lemma go_any_keys: "set (map fst (last_wins (map (\<lambda>(k, v). (k, go_any v)) kvs))) = set (map fst kvs)"
  by (force simp: keys_last_wins [unfolded set_map])

text \<open>The library instance used by witnesses: a compiler whose schemas check \<open>schema_ok\<close>.\<close>

definition plain_compile :: schema_compiler where
  "plain_compile ref schema =
     Inr (\<lambda>d. if schema_ok schema d then None else Some (Errorf ''jsonschema validation failed''))"

lemma plain_compile_sound: "schema_sound plain_compile"
  by (auto simp: schema_sound_def plain_compile_def split: if_splits)

end
