(* ===== verification/Kube.thy ===== *)
theory Kube
  imports Events Templates
begin

text \<open>
  The outside of the operator. Everything the code reaches through a client is a parameter:

  \<^item> \<open>call\<close> lists the requests the modelled code makes to the Kubernetes API server, with the
    objects it sends;
  \<^item> the world records the requests made so far, newest first, and the event buffer of the status
    reporter;
  \<^item> \<open>env\<close> answers: each answer is an arbitrary function of the history with the request itself at
    its head, so that nothing is assumed about the server, other clients or failures. The clock
    is such a function too: readings between two requests agree. An update that the server accepts leaves the sent object as the
    local one: the client only refreshes the resource version, which is not modelled.
  \<^item> \<open>env\<close> also holds the pure helpers of \<^verbatim>\<open>controller-runtime\<close> and \<^verbatim>\<open>apimachinery\<close> the code calls; what
    the code relies on about them is stated by predicates such as \<open>finalizer_laws\<close>. The decoders
    of API objects, of YAML and of job lists, the text form of times, the verdicts of
    \<^verbatim>\<open>http.NewRequest\<close> and \<^verbatim>\<open>json.Marshal\<close> on a request, the environment variables and the iteration
    order of a map are parameters of the same kind.

  A function of the operator that talks to the server is a program in the state monad over
  \<open>world\<close>.
\<close>

section \<open>Objects of other APIs\<close>

record EnvVar =
  env_Name :: string
  env_Value :: string

record Container =
  ctr_Name :: string
  ctr_Image :: string
  ctr_Command :: "string list"
  ctr_Args :: "string list"
  ctr_Env :: "EnvVar list"

record PodTemplate =
  pod_meta :: ObjectMeta
  RestartPolicy :: string
  ServiceAccountName :: string
  Containers :: "Container list"

record JobCondition =
  jc_Type :: string
  jc_Status :: string
  jc_Message :: string

record BatchJob =
  bj_meta :: ObjectMeta
  BackoffLimit :: "int option"
  ActiveDeadlineSeconds :: "int option"
  TTLSecondsAfterFinished :: "int option"
  PodSpec :: PodTemplate
  bj_Conditions :: "JobCondition list"

text \<open>An unstructured object: its group-version and kind, its metadata, and the remaining fields.\<close>

type_synonym gvk = "string \<times> string"

record Unstructured =
  u_gvk :: gvk
  u_meta :: ObjectMeta
  u_Object :: json

record Secret =
  sec_meta :: ObjectMeta
  sec_Type :: string
  sec_Data :: "string \<rightharpoonup> string"

record ConfigMap =
  cfg_meta :: ObjectMeta
  cfg_Data :: "string \<rightharpoonup> string"

section \<open>Requests to the control plane\<close>

record Credentials =
  BaseURL :: string
  cr_ClusterID :: string
  Token :: string

text \<open>
  The body of a request stays the value that the client marshals; a response is its status code,
  its status line and its body.
\<close>

record RegisterRequest =
  rr_RegistrationToken :: string
  rr_ClusterID :: string
  rr_DisplayName :: string

datatype http_body =
    NoBody
  | EmptyBody
  | StatusBody StatusUpdate
  | ResultBody JobResult
  | EventsBody "Event list"
  | RegisterBody RegisterRequest

record HttpRequest =
  http_Method :: string
  http_Endpoint :: string
  http_Headers :: "(string \<times> string) list"
  http_Body :: http_body

record HttpResponse =
  StatusCode :: int
  http_Status :: string
  Body :: string

section \<open>Requests and answers\<close>

datatype call =
    GetOperation string string
  | ListOperations string
  | UpdateOperation Operation
  | UpdateOperationStatus Operation
  | GetApplicationInstance string string
  | GetJob string string
  | ListJobs string string
  | CreateJob BatchJob
  | DeleteJob BatchJob
  | GetObject gvk string string
  | ListObjects gvk string string
  | ListObjectsIn gvk string
  | CreateObject Unstructured
  | DeleteObject Unstructured
  | LoadForUpdate Unstructured
  | StoreObject Unstructured
  | ApplyObject Unstructured
  | ApplyApplicationInstance ApplicationInstance
  | ApplyOperation Operation
  | ListApplicationInstances string
  | UpdateApplicationInstance ApplicationInstance
  | UpdateApplicationInstanceStatus ApplicationInstance
  | PatchApplicationInstance ApplicationInstance ApplicationInstance
  | DeleteApplicationInstance ApplicationInstance
  | GetCluster string string
  | ListClusters
  | ApplyCluster Cluster
  | UpdateCluster Cluster
  | UpdateClusterStatus Cluster
  | GetNamespace string
  | CreateNamespace ObjectMeta
  | GetService string string
  | GetSecret string string
  | LoadSecret Secret
  | StoreSecret Secret
  | GetConfigMap string string
  | LoadConfigMap ConfigMap
  | StoreConfigMap ConfigMap
  | HttpDo HttpRequest
  | Sleep int
  | RecordEvent string string string

type_synonym history = "call list"

record env =
  get_operation :: "history \<Rightarrow> Operation result"
  list_operations :: "history \<Rightarrow> Operation list result"
  get_app :: "history \<Rightarrow> ApplicationInstance result"
  get_job :: "history \<Rightarrow> BatchJob result"
  list_jobs :: "history \<Rightarrow> BatchJob list result"
  get_object :: "history \<Rightarrow> Unstructured result"
  list_objects :: "history \<Rightarrow> Unstructured list result"
  load_object :: "history \<Rightarrow> Unstructured result"
  list_apps :: "history \<Rightarrow> ApplicationInstance list result"
  get_cluster :: "history \<Rightarrow> Cluster result"
  list_clusters :: "history \<Rightarrow> Cluster list result"
  get_namespace :: "history \<Rightarrow> ObjectMeta result"
  get_service :: "history \<Rightarrow> go_error option"
  get_secret :: "history \<Rightarrow> Secret result"
  load_secret :: "history \<Rightarrow> Secret result"
  get_configmap :: "history \<Rightarrow> ConfigMap result"
  load_configmap :: "history \<Rightarrow> ConfigMap result"
  http_do :: "history \<Rightarrow> HttpResponse result"
  context_done :: "history \<Rightarrow> go_error option"
  write_result :: "history \<Rightarrow> go_error option"
  clock :: "history \<Rightarrow> time"
  ContainsFinalizer :: "ObjectMeta \<Rightarrow> string \<Rightarrow> bool"
  AddFinalizer :: "ObjectMeta \<Rightarrow> string \<Rightarrow> ObjectMeta"
  RemoveFinalizer :: "ObjectMeta \<Rightarrow> string \<Rightarrow> ObjectMeta"
  SetOwnerReference :: "ObjectMeta \<Rightarrow> ObjectMeta \<Rightarrow> ObjectMeta result"
  SetNestedField :: "json \<Rightarrow> json \<Rightarrow> string list \<Rightarrow> json result"
  NestedString :: "json \<Rightarrow> string list \<Rightarrow> string"
  NestedMap :: "json \<Rightarrow> string list \<Rightarrow> (string \<times> json) list option"
  NestedSlice :: "json \<Rightarrow> string list \<Rightarrow> json list option"
  NestedBool :: "json \<Rightarrow> string list \<Rightarrow> bool option result"
  NestedInt64 :: "json \<Rightarrow> string list \<Rightarrow> int option result"
  schema_compile :: schema_compiler
  url_error :: "string \<Rightarrow> go_error option"
  marshal_error :: "http_body \<Rightarrow> go_error option"
  time_UnmarshalJSON :: "json \<Rightarrow> time option"
  time_Format :: "time \<Rightarrow> string"
  yaml_Unmarshal :: "string \<Rightarrow> (string \<times> json) list option result"
  map_order :: "history \<Rightarrow> string list \<Rightarrow> string list"
  decode_jobs :: "string \<Rightarrow> Job list result"
  decode_object :: "string \<Rightarrow> Unstructured result"
  decode_app :: "json \<Rightarrow> ApplicationInstance option \<Rightarrow> ApplicationInstance option"
  decode_operation :: "json \<Rightarrow> Operation option \<Rightarrow> Operation option"
  Getenv :: "string \<Rightarrow> string"
  ParseGroupVersion :: "string \<Rightarrow> string result"
  GVKForObject :: "string \<Rightarrow> gvk result"

text \<open>
  A panic of a reconciler, which the controller runtime recovers and turns into an error.
\<close>

definition nil_dereference :: go_error where
  "nil_dereference = Errorf ''panic: runtime error: invalid memory address or nil pointer dereference [recovered]''"

text \<open>\<^verbatim>\<open>!obj.DeletionTimestamp.IsZero()\<close>.\<close>

definition being_deleted :: "ObjectMeta \<Rightarrow> bool" where
  "being_deleted m = (case DeletionTimestamp m of None \<Rightarrow> False | Some t \<Rightarrow> \<not> IsZero t)"

text \<open>What the code relies on about the helpers.\<close>

definition finalizer_laws :: "env \<Rightarrow> bool" where
  "finalizer_laws E \<longleftrightarrow>
     (\<forall>m f. ContainsFinalizer E m f \<longleftrightarrow> f \<in> set (Finalizers m))
     \<and> (\<forall>m f. \<exists>fs. AddFinalizer E m f = m\<lparr>Finalizers := fs\<rparr> \<and> f \<in> set fs
                  \<and> set (Finalizers m) \<subseteq> set fs)
     \<and> (\<forall>m f. \<exists>fs. RemoveFinalizer E m f = m\<lparr>Finalizers := fs\<rparr> \<and> f \<notin> set fs
                  \<and> set (Finalizers m) - {f} = set fs)"

definition owner_laws :: "env \<Rightarrow> bool" where
  "owner_laws E \<longleftrightarrow>
     (\<forall>owner m m'. SetOwnerReference E owner m = Inr m' \<longrightarrow> (\<exists>refs. m' = m\<lparr>OwnerReferences := refs\<rparr>))"

text \<open>
  Nested fields of an unstructured object: reading follows a path of member names through objects;
  setting a path creates the missing objects on the way and leaves the fields elsewhere alone.
\<close>

fun get_path :: "json \<Rightarrow> string list \<Rightarrow> json option" where
  "get_path j [] = Some j"
| "get_path (JObject kvs) (k # ks) = (case map_of kvs k of None \<Rightarrow> None | Some j \<Rightarrow> get_path j ks)"
| "get_path _ (k # ks) = None"

fun apart :: "string list \<Rightarrow> string list \<Rightarrow> bool" where
  "apart (k # ks) (k' # ks') = (k \<noteq> k' \<or> apart ks ks')"
| "apart _ _ = False"

definition nested_laws :: "env \<Rightarrow> bool" where
  "nested_laws E \<longleftrightarrow>
     (\<forall>j v p j'. SetNestedField E j v p = Inr j' \<longrightarrow> p \<noteq> [] \<longrightarrow>
        get_path j' p = Some v \<and> (\<forall>q. apart p q \<longrightarrow> get_path j' q = get_path j q))
     \<and> (\<forall>j p. NestedString E j p = (case get_path j p of Some (JString s) \<Rightarrow> s | _ \<Rightarrow> []))
     \<and> (\<forall>j p. NestedMap E j p = (case get_path j p of Some (JObject kvs) \<Rightarrow> Some kvs | _ \<Rightarrow> None))
     \<and> (\<forall>j p. NestedSlice E j p = (case get_path j p of Some (JArray js) \<Rightarrow> Some js | _ \<Rightarrow> None))"

text \<open>The iteration order of a Go map is some order of its keys.\<close>

definition iteration_laws :: "env \<Rightarrow> bool" where
  "iteration_laws E \<longleftrightarrow> (\<forall>h ks. set (map_order E h ks) = set ks)"

section \<open>Programs\<close>

record world =
  hist :: history
  batcher :: "EventBatcher option"
  applied_keys :: "string list option"
  poller :: "Credentials option"
  events_client :: "Credentials option"
  storageInFlight :: "string \<rightharpoonup> string"
  storagePosting :: "string \<rightharpoonup> string"
  storageAckPending :: "string \<rightharpoonup> string"

type_synonym 'a prog = "(world, 'a) state"

definition ask :: "(history \<Rightarrow> 'a) \<Rightarrow> call \<Rightarrow> 'a prog" where
  "ask answer c = State (\<lambda>w. (answer (c # hist w), w\<lparr>hist := c # hist w\<rparr>))"

text \<open>Reading and changing the memory of the operator makes no request.\<close>

definition peek :: "(world \<Rightarrow> 'a) \<Rightarrow> 'a prog" where
  "peek f = State (\<lambda>w. (f w, w))"

definition poke :: "(world \<Rightarrow> world) \<Rightarrow> unit prog" where
  "poke f = State (\<lambda>w. ((), f w))"

definition Now :: "env \<Rightarrow> time prog" where
  "Now E = State (\<lambda>w. (clock E (hist w), w))"

definition report ::
  "env \<Rightarrow> AppliedRef \<Rightarrow> Condition list \<Rightarrow> Condition list \<Rightarrow> (Condition \<Rightarrow> EventExtras) option \<Rightarrow> unit prog" where
  "report E ref prev next_conds enricher =
     State (\<lambda>w. ((), w\<lparr>batcher := ReportConditionTransitions (clock E (hist w)) ref prev next_conds
                                  enricher (batcher w)\<rparr>))"

text \<open>
  \<^verbatim>\<open>controllerutil.CreateOrUpdate\<close>: the library loads the object (or keeps the given one when the
  server has none), applies the mutation and stores the result.
\<close>

definition create_or_update ::
  "(history \<Rightarrow> 'o result) \<Rightarrow> (history \<Rightarrow> go_error option) \<Rightarrow> ('o \<Rightarrow> call) \<Rightarrow> ('o \<Rightarrow> call) \<Rightarrow>
   'o \<Rightarrow> ('o \<Rightarrow> 'o result) \<Rightarrow> go_error option prog" where
  "create_or_update load_answer store_answer Load Store obj mutate = do {
     loaded \<leftarrow> ask load_answer (Load obj);
     case loaded of
       Inl err \<Rightarrow> State_Monad.return (Some err)
     | Inr current \<Rightarrow>
         (case mutate current of
            Inl err \<Rightarrow> State_Monad.return (Some err)
          | Inr obj' \<Rightarrow> ask store_answer (Store obj'))
   }"

definition CreateOrUpdate ::
  "env \<Rightarrow> Unstructured \<Rightarrow> (Unstructured \<Rightarrow> Unstructured result) \<Rightarrow> go_error option prog" where
  "CreateOrUpdate E = create_or_update (load_object E) (write_result E) LoadForUpdate StoreObject"

definition CreateOrUpdateSecret ::
  "env \<Rightarrow> Secret \<Rightarrow> (Secret \<Rightarrow> Secret result) \<Rightarrow> go_error option prog" where
  "CreateOrUpdateSecret E = create_or_update (load_secret E) (write_result E) LoadSecret StoreSecret"

definition CreateOrUpdateConfigMap ::
  "env \<Rightarrow> ConfigMap \<Rightarrow> (ConfigMap \<Rightarrow> ConfigMap result) \<Rightarrow> go_error option prog" where
  "CreateOrUpdateConfigMap E =
     create_or_update (load_configmap E) (write_result E) LoadConfigMap StoreConfigMap"

text \<open>
  A sequence of \<^verbatim>\<open>SetNestedField\<close> calls, each made only when there is a value to set, up to the
  first error.
\<close>

fun set_nested_fields :: "env \<Rightarrow> json \<Rightarrow> (string list \<times> json option) list \<Rightarrow> json result" where
  "set_nested_fields E j [] = Inr j"
| "set_nested_fields E j ((p, None) # ps) = set_nested_fields E j ps"
| "set_nested_fields E j ((p, Some v) # ps) =
     (case SetNestedField E j v p of Inl err \<Rightarrow> Inl err | Inr j' \<Rightarrow> set_nested_fields E j' ps)"

definition str_field :: "string \<Rightarrow> json option" where
  "str_field s = (if s \<noteq> [] then Some (JString s) else None)"

definition strs_field :: "string list \<Rightarrow> json option" where
  "strs_field ss = (if ss \<noteq> [] then Some (JArray (map JString ss)) else None)"

section \<open>Reasoning about programs\<close>

text \<open>
  \<open>wp m Q w\<close>: running \<open>m\<close> from \<open>w\<close> ends with a result and a world that satisfy \<open>Q\<close>.
  \<open>emits P m w\<close>: the requests \<open>m\<close> makes from \<open>w\<close> all satisfy \<open>P\<close>, and the history only grows.
\<close>

named_theorems wp_rules "weakest preconditions of the programs' building blocks"

definition wp :: "'a prog \<Rightarrow> ('a \<Rightarrow> world \<Rightarrow> bool) \<Rightarrow> world \<Rightarrow> bool" where
  "wp m Q w = (case run_state m w of (a, w') \<Rightarrow> Q a w')"

definition emits :: "(call \<Rightarrow> bool) \<Rightarrow> 'a prog \<Rightarrow> world \<Rightarrow> bool" where
  "emits P m w = wp m (\<lambda>_ w'. \<exists>cs. hist w' = cs @ hist w \<and> list_all P cs) w"

lemma run_ask [go_run]: "run_state (ask f c) w = (f (c # hist w), w\<lparr>hist := c # hist w\<rparr>)"
  by (simp add: ask_def)

lemma run_peek [go_run]: "run_state (peek f) w = (f w, w)"
  by (simp add: peek_def)

lemma run_poke [go_run]: "run_state (poke f) w = ((), f w)"
  by (simp add: poke_def)

lemma run_Now [go_run]: "run_state (Now E) w = (clock E (hist w), w)"
  by (simp add: Now_def)

lemma run_report [go_run]:
  "run_state (report E ref prev nxt enr) w =
     ((), w\<lparr>batcher := ReportConditionTransitions (clock E (hist w)) ref prev nxt enr (batcher w)\<rparr>)"
  by (simp add: report_def)

lemma wp_return [wp_rules]: "wp (State_Monad.return a) Q w = Q a w"
  by (simp add: wp_def)

lemma wp_bind [wp_rules]: "wp (State_Monad.bind m f) Q w = wp m (\<lambda>a. wp (f a) Q) w"
  by (simp add: wp_def go_run split: prod.split)

lemma wp_ask [wp_rules]: "wp (ask f c) Q w = Q (f (c # hist w)) (w\<lparr>hist := c # hist w\<rparr>)"
  by (simp add: wp_def go_run)

lemma wp_peek [wp_rules]: "wp (peek f) Q w = Q (f w) w"
  by (simp add: wp_def go_run)

lemma wp_poke [wp_rules]: "wp (poke f) Q w = Q () (f w)"
  by (simp add: wp_def go_run)

lemma wp_Now [wp_rules]: "wp (Now E) Q w = Q (clock E (hist w)) w"
  by (simp add: wp_def go_run)

lemma wp_report [wp_rules]:
  "wp (report E ref prev nxt enr) Q w =
     Q () (w\<lparr>batcher := ReportConditionTransitions (clock E (hist w)) ref prev nxt enr (batcher w)\<rparr>)"
  by (simp add: wp_def go_run)

lemma wp_run: "wp m (\<lambda>a w'. run_state m w = (a, w')) w"
  by (simp add: wp_def split: prod.split)

lemma wp_mono: "wp m Q w \<Longrightarrow> (\<And>a w'. Q a w' \<Longrightarrow> Q' a w') \<Longrightarrow> wp m Q' w"
  by (auto simp: wp_def split: prod.splits)

lemma wpD: "wp m Q w \<Longrightarrow> run_state m w = (a, w') \<Longrightarrow> Q a w'"
  by (simp add: wp_def)

named_theorems emits_rules "which requests the programs make"

lemma emits_return [emits_rules]: "emits P (State_Monad.return a) w"
  by (simp add: emits_def wp_rules)

lemma emits_ask [emits_rules]: "P c \<Longrightarrow> emits P (ask f c) w"
  by (simp add: emits_def wp_rules)

lemma emits_peek [emits_rules]: "emits P (peek f) w"
  by (simp add: emits_def wp_rules)

lemma emits_poke [emits_rules]: "hist (f w) = hist w \<Longrightarrow> emits P (poke f) w"
  by (simp add: emits_def wp_rules)

lemma emits_Now [emits_rules]: "emits P (Now E) w"
  by (simp add: emits_def wp_rules)

lemma emits_report [emits_rules]: "emits P (report E ref prev nxt enr) w"
  by (simp add: emits_def wp_rules)

lemma emits_bind [emits_rules]:
  assumes "emits P m w" and "\<And>a w'. run_state m w = (a, w') \<Longrightarrow> emits P (f a) w'"
  shows "emits P (State_Monad.bind m f) w"
proof -
  obtain a w1 where run: "run_state m w = (a, w1)" by (cases "run_state m w")
  with assms(1) obtain cs where "hist w1 = cs @ hist w" "list_all P cs"
    by (auto simp: emits_def wp_def)
  moreover obtain b w2 where run2: "run_state (f a) w1 = (b, w2)" by (cases "run_state (f a) w1")
  with assms(2) [OF run] obtain ds where "hist w2 = ds @ hist w1" "list_all P ds"
    by (auto simp: emits_def wp_def)
  ultimately show ?thesis
    using run run2 by (auto simp: emits_def wp_def go_run intro!: exI [of _ "ds @ cs"])
qed

lemma emits_if [emits_rules]:
  "(b \<Longrightarrow> emits P m w) \<Longrightarrow> (\<not> b \<Longrightarrow> emits P m' w) \<Longrightarrow> emits P (if b then m else m') w"
  by simp

lemma emits_sum [emits_rules]:
  "(\<And>e. s = Inl e \<Longrightarrow> emits P (f e) w) \<Longrightarrow> (\<And>a. s = Inr a \<Longrightarrow> emits P (g a) w) \<Longrightarrow>
   emits P (case s of Inl e \<Rightarrow> f e | Inr a \<Rightarrow> g a) w"
  by (cases s) auto

lemma emits_option [emits_rules]:
  "(s = None \<Longrightarrow> emits P m w) \<Longrightarrow> (\<And>a. s = Some a \<Longrightarrow> emits P (g a) w) \<Longrightarrow>
   emits P (case s of None \<Rightarrow> m | Some a \<Rightarrow> g a) w"
  by (cases s) auto

lemma emits_prod [emits_rules]:
  "(\<And>a b. p = (a, b) \<Longrightarrow> emits P (f a b) w) \<Longrightarrow> emits P (case p of (a, b) \<Rightarrow> f a b) w"
  by (cases p) auto

lemma emits_list [emits_rules]:
  "(xs = [] \<Longrightarrow> emits P m w) \<Longrightarrow> (\<And>y ys. xs = y # ys \<Longrightarrow> emits P (f y ys) w) \<Longrightarrow>
   emits P (case xs of [] \<Rightarrow> m | y # ys \<Rightarrow> f y ys) w"
  by (cases xs) auto

lemma emits_mono: "emits P m w \<Longrightarrow> (\<And>c. P c \<Longrightarrow> Q c) \<Longrightarrow> emits Q m w"
  unfolding emits_def by (erule wp_mono) (auto simp: list_all_iff)

lemma emitsD:
  "emits P m w \<Longrightarrow> run_state m w = (a, w') \<Longrightarrow> \<exists>cs. hist w' = cs @ hist w \<and> list_all P cs"
  by (simp add: emits_def wp_def)

lemma emits_create_or_update:
  assumes "P (Load obj)" and "\<And>current obj'. mutate current = Inr obj' \<Longrightarrow> P (Store obj')"
  shows "emits P (create_or_update la sa Load Store obj mutate) w"
  unfolding create_or_update_def using assms by (intro emits_rules)

lemma emits_CreateOrUpdate [emits_rules]:
  assumes "P (LoadForUpdate obj)"
    and "\<And>current obj'. mutate current = Inr obj' \<Longrightarrow> P (StoreObject obj')"
  shows "emits P (CreateOrUpdate E obj mutate) w"
  unfolding CreateOrUpdate_def using assms by (rule emits_create_or_update)

lemma emits_CreateOrUpdateSecret [emits_rules]:
  assumes "P (LoadSecret obj)"
    and "\<And>current obj'. mutate current = Inr obj' \<Longrightarrow> P (StoreSecret obj')"
  shows "emits P (CreateOrUpdateSecret E obj mutate) w"
  unfolding CreateOrUpdateSecret_def using assms by (rule emits_create_or_update)

lemma emits_CreateOrUpdateConfigMap [emits_rules]:
  assumes "P (LoadConfigMap obj)"
    and "\<And>current obj'. mutate current = Inr obj' \<Longrightarrow> P (StoreConfigMap obj')"
  shows "emits P (CreateOrUpdateConfigMap E obj mutate) w"
  unfolding CreateOrUpdateConfigMap_def using assms by (rule emits_create_or_update)

section \<open>Nested fields\<close>

text \<open>
  After a sequence of sets a path holds the last value set there, provided the paths set are
  pairwise equal or apart.
\<close>

lemma nested_set_other:
  "nested_laws E \<Longrightarrow> SetNestedField E j v p = Inr j' \<Longrightarrow> p \<noteq> [] \<Longrightarrow> apart p q \<Longrightarrow> get_path j' q = get_path j q"
  unfolding nested_laws_def by blast

lemma nested_set_value: "nested_laws E \<Longrightarrow> SetNestedField E j v p = Inr j' \<Longrightarrow> p \<noteq> [] \<Longrightarrow> get_path j' p = Some v"
  unfolding nested_laws_def by blast

lemma get_path_append:
  "get_path j (p @ q) = (case get_path j p of None \<Rightarrow> None | Some j' \<Rightarrow> get_path j' q)"
  by (induction j p rule: get_path.induct) (auto split: option.split)

lemma nested_map_member:
  "nested_laws E \<Longrightarrow> map_of (case NestedMap E j p of None \<Rightarrow> [] | Some m \<Rightarrow> m) k = get_path j (p @ [k])"
  by (auto simp: nested_laws_def get_path_append split: option.splits json.splits)

lemma set_nested_fields_other:
  assumes "nested_laws E" and "set_nested_fields E j ps = Inr j'"
    and "\<forall>p \<in> fst ` set ps. p \<noteq> [] \<and> apart p q"
  shows "get_path j' q = get_path j q"
  using assms
  by (induction E j ps rule: set_nested_fields.induct) (auto dest: nested_set_other split: sum.splits)

lemma set_nested_fields_value:
  assumes "nested_laws E" and "set_nested_fields E j (ps @ (p, Some v) # qs) = Inr j'" and "p \<noteq> []"
    and "\<forall>q \<in> fst ` set qs. q \<noteq> [] \<and> apart q p"
  shows "get_path j' p = Some v"
  using assms(2)
proof (induction ps arbitrary: j)
  case Nil
  then obtain j1 where set1: "SetNestedField E j v p = Inr j1" and rest: "set_nested_fields E j1 qs = Inr j'"
    by (auto split: sum.splits)
  from set1 assms(1,3) have "get_path j1 p = Some v" by (auto simp: nested_laws_def)
  with set_nested_fields_other [OF assms(1) rest assms(4)] show ?case by simp
next
  case (Cons x ps)
  then show ?case by (cases x; cases "snd x") (auto split: sum.splits)
qed

section \<open>A concrete environment for witnesses\<close>

text \<open>A server with two operations and nothing else, on which every write succeeds.\<close>

definition demo_op :: "string \<Rightarrow> string \<Rightarrow> string \<Rightarrow> Operation" where
  "demo_op name typ phase =
     \<lparr>op_meta = meta0\<lparr>Name := name, Namespace := ''ns''\<rparr>,
      op_Spec = \<lparr>os_TargetRef = \<lparr>tr_APIVersion = ''apps.vworkspace.io/v1alpha1'',
          tr_Kind = ''ApplicationInstance'', tr_Name = ''app''\<rparr>,
        os_Type = typ, os_Engine = EngineVelero, Parameters = None, Approvals = None\<rparr>,
      op_Status = \<lparr>ost_Phase = phase, StartedAt = None, FinishedAt = None, ost_EngineRef = None,
        ost_Conditions = [], Outputs = '''', ost_LogsRef = None\<rparr>\<rparr>"

fun set_path :: "json \<Rightarrow> json \<Rightarrow> string list \<Rightarrow> json result" where
  "set_path j v [] = Inr v"
| "set_path (JObject kvs) v (k # ks) =
     (case set_path (if ks = [] then v else case map_of kvs k of Some j \<Rightarrow> j | None \<Rightarrow> JObject []) v ks of
        Inl err \<Rightarrow> Inl err
      | Inr j \<Rightarrow> Inr (JObject (map_put k j kvs)))"
| "set_path _ v (k # ks) = Inl (Errorf ''value cannot be set: not a map'')"

definition demo_env :: env where
  "demo_env =
     \<lparr>get_operation = (\<lambda>_. Inl (ApiStatus NotFound ''not found'')),
      list_operations = (\<lambda>_. Inr [demo_op ''a'' ''Backup'' ''Running'', demo_op ''b'' ''Restore'' ''Pending'']),
      get_app = (\<lambda>_. Inl (ApiStatus NotFound ''not found'')),
      get_job = (\<lambda>_. Inl (ApiStatus NotFound ''not found'')),
      list_jobs = (\<lambda>_. Inr []), get_object = (\<lambda>_. Inl (ApiStatus NotFound ''not found'')),
      list_objects = (\<lambda>_. Inr []),
      load_object = (\<lambda>h. case h of LoadForUpdate obj # _ \<Rightarrow> Inr obj | _ \<Rightarrow> Inl (Errorf ''no load'')),
      list_apps = (\<lambda>_. Inr []), get_cluster = (\<lambda>_. Inl (ApiStatus NotFound ''not found'')),
      list_clusters = (\<lambda>_. Inr []), get_namespace = (\<lambda>_. Inl (ApiStatus NotFound ''not found'')),
      get_service = (\<lambda>_. Some (ApiStatus NotFound ''not found'')),
      get_secret = (\<lambda>_. Inl (ApiStatus NotFound ''not found'')),
      load_secret = (\<lambda>h. case h of LoadSecret obj # _ \<Rightarrow> Inr obj | _ \<Rightarrow> Inl (Errorf ''no load'')),
      get_configmap = (\<lambda>_. Inl (ApiStatus NotFound ''not found'')),
      load_configmap = (\<lambda>h. case h of LoadConfigMap obj # _ \<Rightarrow> Inr obj | _ \<Rightarrow> Inl (Errorf ''no load'')),
      http_do = (\<lambda>_. Inr \<lparr>StatusCode = 204, http_Status = ''204 No Content'', Body = []\<rparr>),
      context_done = (\<lambda>_. None),
      write_result = (\<lambda>_. None), clock = (\<lambda>h. seconds (int (length h))),
      ContainsFinalizer = (\<lambda>m f. f \<in> set (Finalizers m)),
      AddFinalizer = (\<lambda>m f. m\<lparr>Finalizers := f # Finalizers m\<rparr>),
      RemoveFinalizer = (\<lambda>m f. m\<lparr>Finalizers := removeAll f (Finalizers m)\<rparr>),
      SetOwnerReference = (\<lambda>_ m. Inr m),
      SetNestedField = set_path,
      NestedString = (\<lambda>j p. case get_path j p of Some (JString s) \<Rightarrow> s | _ \<Rightarrow> []),
      NestedMap = (\<lambda>j p. case get_path j p of Some (JObject kvs) \<Rightarrow> Some kvs | _ \<Rightarrow> None),
      NestedSlice = (\<lambda>j p. case get_path j p of Some (JArray js) \<Rightarrow> Some js | _ \<Rightarrow> None),
      NestedBool = (\<lambda>j p. case get_path j p of None \<Rightarrow> Inr None | Some (JBool b) \<Rightarrow> Inr (Some b)
                             | _ \<Rightarrow> Inl (Errorf ''accessor error'')),
      NestedInt64 = (\<lambda>j p. case get_path j p of None \<Rightarrow> Inr None | Some (JInt i) \<Rightarrow> Inr (Some i)
                              | _ \<Rightarrow> Inl (Errorf ''accessor error'')),
      schema_compile = plain_compile, url_error = (\<lambda>_. None), marshal_error = (\<lambda>_. None),
      time_UnmarshalJSON = (\<lambda>_. None), time_Format = (\<lambda>_. ''2026-01-01T00:00:00Z''),
      yaml_Unmarshal = (\<lambda>_. Inl (Errorf ''no YAML'')), map_order = (\<lambda>_ ks. ks),
      decode_jobs = (\<lambda>_. Inr []), decode_object = (\<lambda>_. Inl (Errorf ''no object'')),
      decode_app = (\<lambda>_ a. a), decode_operation = (\<lambda>_ a. a), Getenv = (\<lambda>_. []),
      ParseGroupVersion = Inr, GVKForObject = (\<lambda>kind. Inr (''vworkspace.io/v1alpha1'', kind))\<rparr>"

definition demo_world :: world where
  "demo_world =
     \<lparr>hist = [], batcher = Some NewEventBatcher, applied_keys = None, poller = None,
      events_client = None, storageInFlight = Map.empty, storagePosting = Map.empty,
      storageAckPending = Map.empty\<rparr>"

definition demo_app :: ApplicationInstance where
  "demo_app =
     \<lparr>app_meta = meta0\<lparr>Name := ''app'', Namespace := ''ns''\<rparr>,
      app_Spec = \<lparr>as_AppRef = \<lparr>CatalogID = ''catalog''\<rparr>, Mode = '''', as_Chart = None,
        as_Release = Some \<lparr>rel_Name = ''app'', rel_Namespace = ''apps''\<rparr>, as_Values = None, Integrations = None\<rparr>,
      app_Status = \<lparr>ObservedGeneration = 0, ast_Conditions = [], ast_HelmReleaseRef = None,
        LastAppliedChart = None, LastReconcileTime = None, Endpoints = []\<rparr>\<rparr>"

lemma demo_owner_laws: "owner_laws demo_env"
  unfolding owner_laws_def demo_env_def by (simp, metis ObjectMeta.surjective ObjectMeta.update_convs(9))

lemma demo_answers:
  "write_result demo_env h = None" "get_object demo_env h = Inl (ApiStatus NotFound ''not found'')"
  "load_object demo_env (LoadForUpdate obj # h) = Inr obj"
  "SetOwnerReference demo_env m m' = Inr m'" "SetNestedField demo_env = set_path"
  by (simp_all add: demo_env_def)

lemma set_path_get:
  "set_path j v p = Inr j' \<Longrightarrow> get_path j' p = Some v"
  by (induction j v p arbitrary: j' rule: set_path.induct) (auto split: sum.splits)

lemma get_path_empty: "apart p q \<Longrightarrow> get_path (JObject []) q = None"
  by (cases q) (auto elim: apart.elims)

lemma set_path_other:
  "set_path j v p = Inr j' \<Longrightarrow> apart p q \<Longrightarrow> get_path j' q = get_path j q"
proof (induction j v p arbitrary: j' q rule: set_path.induct)
  case (2 kvs v k ks)
  from 2 obtain k' ks' where q: "q = k' # ks'" by (cases q) auto
  obtain j1 where step: "set_path (if ks = [] then v else case map_of kvs k of Some j \<Rightarrow> j | None \<Rightarrow> JObject []) v ks = Inr j1"
    and j': "j' = JObject (map_put k j1 kvs)"
    using 2(2) by (auto split: sum.splits)
  show ?case
  proof (cases "k = k'")
    case True
    with 2(3) q have "apart ks ks'" by simp
    with 2(1) [OF step] have "get_path j1 ks' = get_path (case map_of kvs k of Some j \<Rightarrow> j | None \<Rightarrow> JObject []) ks'"
      by (cases ks) auto
    with q j' True \<open>apart ks ks'\<close> show ?thesis by (auto simp: get_path_empty split: option.split)
  next
    case False
    with q j' show ?thesis by simp
  qed
qed auto

lemma demo_nested_laws: "nested_laws demo_env"
  by (auto simp: nested_laws_def demo_env_def set_path_get set_path_other)

end
