(* ===== verification/Concurrency.thy ===== *)
theory Concurrency
  imports Kube
begin

text \<open>
  \<^verbatim>\<open>internal/operations/concurrency\<close>: the matrix of operation types that exclude each other, which
  operations count as active, and the search for an active operation on the same target.
\<close>

definition Conflicts :: "string \<Rightarrow> string \<Rightarrow> bool" where
  "Conflicts existing incoming =
     (if incoming = OperationTypeUpgrade then existing = OperationTypeUpgrade
      else if incoming = OperationTypeRestore
        then existing = OperationTypeUpgrade \<or> existing = OperationTypeBackup
      else if incoming = OperationTypeBackup then existing = OperationTypeRestore
      else False)"

definition InFlight :: "Operation option \<Rightarrow> bool" where
  "InFlight op =
     (case op of
        None \<Rightarrow> False
      | Some op \<Rightarrow>
          (let phase = ost_Phase (op_Status op) in
           if phase = PhaseSucceeded \<or> phase = PhaseFailed \<or> phase = PhaseCancelled then False
           else if phase = PhaseRunning \<or> phase = PhasePending then True
           else list_ex (\<lambda>c. c_Type c = ConditionAccepted \<and> c_Status c = ConditionTrue)
                  (ost_Conditions (op_Status op))))"

record Conflict =
  cf_Name :: string
  cf_Type :: string

text \<open>The loop over the listed operations.\<close>

fun findConflictIn :: "Operation \<Rightarrow> Operation list \<Rightarrow> Conflict option" where
  "findConflictIn op [] = None"
| "findConflictIn op (item # items) =
     (if Name (op_meta item) = Name (op_meta op) then findConflictIn op items
      else if tr_Name (os_TargetRef (op_Spec item)) \<noteq> tr_Name (os_TargetRef (op_Spec op))
        then findConflictIn op items
      else if \<not> InFlight (Some item) then findConflictIn op items
      else if Conflicts (os_Type (op_Spec item)) (os_Type (op_Spec op))
        then Some \<lparr>cf_Name = Name (op_meta item), cf_Type = os_Type (op_Spec item)\<rparr>
      else findConflictIn op items)"

definition FindConflict :: "env \<Rightarrow> Operation \<Rightarrow> Conflict option result prog" where
  "FindConflict E op = do {
     items \<leftarrow> ask (list_operations E) (ListOperations (Namespace (op_meta op)));
     State_Monad.return
       (case items of
          Inl err \<Rightarrow> Inl (Wrapf ''list operations: '' err [])
        | Inr items \<Rightarrow> Inr (findConflictIn op items))
   }"

definition FormatConflict :: "Conflict \<Rightarrow> string" where
  "FormatConflict c = ''conflicts with operation '' @ Quote (cf_Name c) @ '' ('' @ cf_Type c @ '')''"

section \<open>Lemmas\<close>

text \<open>An operation that stands in the way of another one.\<close>

definition blocks :: "Operation \<Rightarrow> Operation \<Rightarrow> bool" where
  "blocks item op \<longleftrightarrow>
     Name (op_meta item) \<noteq> Name (op_meta op)
     \<and> tr_Name (os_TargetRef (op_Spec item)) = tr_Name (os_TargetRef (op_Spec op))
     \<and> InFlight (Some item)
     \<and> Conflicts (os_Type (op_Spec item)) (os_Type (op_Spec op))"

lemma findConflictIn_find:
  "findConflictIn op items =
     map_option (\<lambda>item. \<lparr>cf_Name = Name (op_meta item), cf_Type = os_Type (op_Spec item)\<rparr>)
       (find (\<lambda>item. blocks item op) items)"
  by (induction items) (auto simp: blocks_def)

lemma findConflictIn_None: "findConflictIn op items = None \<longleftrightarrow> (\<forall>item \<in> set items. \<not> blocks item op)"
  by (auto simp: findConflictIn_find find_None_iff)

lemma Conflicts_iff:
  "Conflicts existing incoming \<longleftrightarrow>
     (existing, incoming) \<in> {(OperationTypeUpgrade, OperationTypeUpgrade),
       (OperationTypeUpgrade, OperationTypeRestore), (OperationTypeBackup, OperationTypeRestore),
       (OperationTypeRestore, OperationTypeBackup)}"
  by (auto simp: Conflicts_def)

lemma wp_FindConflict [wp_rules]:
  "wp (FindConflict E op) Q w =
     (let h = ListOperations (Namespace (op_meta op)) # hist w in
      Q (case list_operations E h of
           Inl err \<Rightarrow> Inl (Wrapf ''list operations: '' err [])
         | Inr items \<Rightarrow> Inr (findConflictIn op items)) (w\<lparr>hist := h\<rparr>))"
  by (simp add: FindConflict_def wp_rules Let_def)

lemma emits_FindConflict [emits_rules]:
  "P (ListOperations (Namespace (op_meta op))) \<Longrightarrow> emits P (FindConflict E op) w"
  unfolding FindConflict_def by (intro emits_rules)

section \<open>Properties\<close>

text \<open>The conflict reported for an operation is the first listed operation with another name,
  the same target, still active, and of an excluding type; none is reported exactly when there
  is no such operation.\<close>

theorem FindConflict_first:
  assumes "list_operations E (ListOperations (Namespace (op_meta op)) # hist w) = Inr items"
  shows "fst (run_state (FindConflict E op) w) = Inr c \<longleftrightarrow>
     (case c of
        None \<Rightarrow> \<forall>item \<in> set items. \<not> blocks item op
      | Some c \<Rightarrow>
          \<exists>before item after. items = before @ item # after \<and> (\<forall>i \<in> set before. \<not> blocks i op)
            \<and> blocks item op \<and> c = \<lparr>cf_Name = Name (op_meta item), cf_Type = os_Type (op_Spec item)\<rparr>)"
proof -
  have run: "fst (run_state (FindConflict E op) w) = Inr (findConflictIn op items)"
    using assms by (simp add: FindConflict_def go_run)
  show ?thesis
  proof (cases c)
    case None
    then show ?thesis by (simp add: run findConflictIn_None)
  next
    case (Some d)
    have "find (\<lambda>item. blocks item op) items = Some item \<longleftrightarrow>
        (\<exists>before after. items = before @ item # after \<and> (\<forall>i \<in> set before. \<not> blocks i op) \<and> blocks item op)"
      for item
      by (rule find_Some_split)
    then show ?thesis by (auto simp: run findConflictIn_find Some)
  qed
qed



theorem FindConflict_first_witness:
  "fst (run_state (FindConflict demo_env (demo_op ''b'' ''Restore'' ''Pending'')) demo_world)
     = Inr (Some \<lparr>cf_Name = ''a'', cf_Type = ''Backup''\<rparr>)"
proof -
  let ?a = "demo_op ''a'' ''Backup'' ''Running''" and ?b = "demo_op ''b'' ''Restore'' ''Pending''"
  let ?c = "\<lparr>cf_Name = ''a'', cf_Type = ''Backup''\<rparr>"
  have list: "list_operations demo_env (ListOperations (Namespace (op_meta ?b)) # hist demo_world) = Inr [?a, ?b]"
    by (simp add: demo_env_def)
  have "blocks ?a ?b"
    by (simp add: blocks_def demo_op_def InFlight_def Conflicts_def)
  then have "\<exists>before item after. [?a, ?b] = before @ item # after \<and> (\<forall>i \<in> set before. \<not> blocks i ?b)
      \<and> blocks item ?b \<and> ?c = \<lparr>cf_Name = Name (op_meta item), cf_Type = os_Type (op_Spec item)\<rparr>"
    by (intro exI [of _ "[]"] exI [of _ ?a] exI [of _ "[?b]"]) (simp add: demo_op_def)
  with FindConflict_first [OF list, of "Some ?c"] show ?thesis by (simp only: option.case)
qed

end
