(* ===== verification/Go_Codec.thy ===== *)
theory Go_Codec
  imports Go_Prelude "HOL-Library.Word"
begin

text \<open>
  Encodings and digests of the standard library: \<^verbatim>\<open>encoding/hex\<close>, \<^verbatim>\<open>base64.RawURLEncoding\<close>,
  \<^verbatim>\<open>crypto/sha256\<close> and \<^verbatim>\<open>crypto/hmac\<close>, on byte strings. SHA-256 works on 32-bit words, whose
  addition wraps.
\<close>

unbundle bit_operations_syntax

section \<open>SHA-256\<close>

type_synonym w32 = "32 word"

definition sha_K :: "w32 list" where
  "sha_K =
    [1116352408, 1899447441, 3049323471, 3921009573, 961987163, 1508970993, 2453635748, 2870763221,
     3624381080, 310598401, 607225278, 1426881987, 1925078388, 2162078206, 2614888103, 3248222580,
     3835390401, 4022224774, 264347078, 604807628, 770255983, 1249150122, 1555081692, 1996064986,
     2554220882, 2821834349, 2952996808, 3210313671, 3336571891, 3584528711, 113926993, 338241895,
     666307205, 773529912, 1294757372, 1396182291, 1695183700, 1986661051, 2177026350, 2456956037,
     2730485921, 2820302411, 3259730800, 3345764771, 3516065817, 3600352804, 4094571909, 275423344,
     430227734, 506948616, 659060556, 883997877, 958139571, 1322822218, 1537002063, 1747873779,
     1955562222, 2024104815, 2227730452, 2361852424, 2428436474, 2756734187, 3204031479, 3329325298]"

definition sha_init :: "w32 list" where
  "sha_init =
    [0x6a09e667, 0xbb67ae85, 0x3c6ef372, 0xa54ff53a, 0x510e527f, 0x9b05688c, 0x1f83d9ab, 0x5be0cd19]"

definition be_bytes :: "nat \<Rightarrow> nat \<Rightarrow> string" where
  "be_bytes n v = map (\<lambda>i. char_of (v div 256 ^ (n - 1 - i))) [0..<n]"

definition be_word :: "string \<Rightarrow> w32" where
  "be_word s = foldl (\<lambda>w c. push_bit 8 w OR of_nat (of_char c)) 0 s"

definition sha_pad :: "string \<Rightarrow> string" where
  "sha_pad m =
     m @ [CHR 0x80] @ replicate ((119 - length m mod 64) mod 64) (CHR 0x00) @ be_bytes 8 (8 * length m)"

text \<open>The message schedule, newest word first.\<close>

fun sha_extend :: "nat \<Rightarrow> w32 list \<Rightarrow> w32 list" where
  "sha_extend 0 ws = ws"
| "sha_extend (Suc n) ws =
     (let v2 = ws ! 1; v15 = ws ! 14;
          s0 = word_rotr 7 v15 XOR word_rotr 18 v15 XOR drop_bit 3 v15;
          s1 = word_rotr 17 v2 XOR word_rotr 19 v2 XOR drop_bit 10 v2
      in sha_extend n ((s1 + ws ! 6 + s0 + ws ! 15) # ws))"

definition sha_round :: "w32 list \<Rightarrow> w32 \<times> w32 \<Rightarrow> w32 list" where
  "sha_round st kw =
     (case (st, kw) of
        ([a, b, c, d, e, f, g, h], (k, w)) \<Rightarrow>
          (let t1 = h + (word_rotr 6 e XOR word_rotr 11 e XOR word_rotr 25 e)
                    + ((e AND f) XOR (NOT e AND g)) + k + w;
               t2 = (word_rotr 2 a XOR word_rotr 13 a XOR word_rotr 22 a)
                    + ((a AND b) XOR (a AND c) XOR (b AND c))
           in [t1 + t2, a, b, c, d + t1, e, f, g])
      | _ \<Rightarrow> st)"

definition sha_block :: "w32 list \<Rightarrow> string \<Rightarrow> w32 list" where
  "sha_block st blk =
     (let ws = rev (sha_extend 48 (rev (map (\<lambda>i. be_word (take 4 (drop (4 * i) blk))) [0..<16])))
      in map2 (+) st (foldl sha_round st (zip sha_K ws)))"

fun chunks64 :: "nat \<Rightarrow> string \<Rightarrow> string list" where
  "chunks64 0 s = []"
| "chunks64 (Suc n) s = take 64 s # chunks64 n (drop 64 s)"

definition sha256 :: "string \<Rightarrow> string" where
  "sha256 m =
     (let p = sha_pad m
      in concat (map (\<lambda>w. be_bytes 4 (unat w)) (foldl sha_block sha_init (chunks64 (length p div 64) p))))"

section \<open>HMAC and hex\<close>

definition hmac_key :: "string \<Rightarrow> string" where
  "hmac_key key =
     (let k = (if length key > 64 then sha256 key else key)
      in k @ replicate (64 - length k) (CHR 0x00))"

definition xor_bytes :: "nat \<Rightarrow> string \<Rightarrow> string" where
  "xor_bytes p s = map (\<lambda>c. char_of ((of_char c :: nat) XOR p)) s"

definition hmac_sha256 :: "string \<Rightarrow> string \<Rightarrow> string" where
  "hmac_sha256 key m =
     sha256 (xor_bytes 0x5c (hmac_key key) @ sha256 (xor_bytes 0x36 (hmac_key key) @ m))"

definition hex_chars :: string where
  "hex_chars = ''0123456789abcdef''"

definition hex_EncodeToString :: "string \<Rightarrow> string" where
  "hex_EncodeToString s =
     concat (map (\<lambda>c. [hex_chars ! (of_char c div 16), hex_chars ! (of_char c mod 16)]) s)"

section \<open>Base64\<close>

definition b64_alphabet :: string where
  "b64_alphabet = ''ABCDEFGHIJKLMNOPQRSTUVWXYZabcdefghijklmnopqrstuvwxyz0123456789-_''"

definition b64_char :: "nat \<Rightarrow> char" where
  "b64_char v = b64_alphabet ! v"

definition b64_value :: "char \<Rightarrow> nat option" where
  "b64_value c = map_of (zip b64_alphabet [0..<64]) c"

fun b64_encode :: "string \<Rightarrow> string" where
  "b64_encode [] = []"
| "b64_encode [a] =
     (let x = of_char a :: nat in [b64_char (x div 4), b64_char (x mod 4 * 16)])"
| "b64_encode [a, b] =
     (let x = of_char a :: nat; y = of_char b
      in [b64_char (x div 4), b64_char (x mod 4 * 16 + y div 16), b64_char (y mod 16 * 4)])"
| "b64_encode (a # b # c # s) =
     (let x = of_char a :: nat; y = of_char b; z = of_char c
      in b64_char (x div 4) # b64_char (x mod 4 * 16 + y div 16)
         # b64_char (y mod 16 * 4 + z div 64) # b64_char (z mod 64) # b64_encode s)"

text \<open>Decoding six-bit values: a group of one value alone is an error, spare bits are ignored.\<close>

fun b64_groups :: "nat list \<Rightarrow> string option" where
  "b64_groups [] = Some []"
| "b64_groups [p] = None"
| "b64_groups [p, q] = Some [char_of (p * 4 + q div 16)]"
| "b64_groups [p, q, r] = Some [char_of (p * 4 + q div 16), char_of (q mod 16 * 16 + r div 4)]"
| "b64_groups (p # q # r # t # vs) =
     map_option (\<lambda>s. char_of (p * 4 + q div 16) # char_of (q mod 16 * 16 + r div 4)
                    # char_of (r mod 4 * 64 + t) # s) (b64_groups vs)"

fun b64_values :: "string \<Rightarrow> nat list option" where
  "b64_values [] = Some []"
| "b64_values (c # s) =
     (if c = CHR 0x0A \<or> c = CHR 0x0D then b64_values s
      else case b64_value c of
        None \<Rightarrow> None
      | Some v \<Rightarrow> map_option (\<lambda>vs. v # vs) (b64_values s))"

definition b64_decode :: "string \<Rightarrow> string option" where
  "b64_decode s = (case b64_values s of None \<Rightarrow> None | Some vs \<Rightarrow> b64_groups vs)"

section \<open>Lemmas\<close>

lemma of_char_less: "(of_char c :: nat) < 256"
  by (cases c) (simp add: of_char_def)

lemma length_hex_chars [simp]: "length hex_chars = 16"
  by (simp add: hex_chars_def)

lemma hex_digest_chars: "set (hex_EncodeToString s) \<subseteq> set hex_chars"
proof -
  have "(of_char c :: nat) div 16 < length hex_chars" "(of_char c :: nat) mod 16 < length hex_chars" for c
    using of_char_less [of c] by (simp_all add: div_less_iff_less_mult)
  then show ?thesis
    unfolding hex_EncodeToString_def by (auto simp del: nth_Cons_numeral intro!: nth_mem)
qed

lemma length_hex [simp]: "length (hex_EncodeToString s) = 2 * length s"
  by (induction s) (simp_all add: hex_EncodeToString_def)

lemma length_be_bytes [simp]: "length (be_bytes n v) = n"
  by (simp add: be_bytes_def)

lemma length_sha_round [simp]: "length (sha_round st kw) = length st"
  by (cases kw) (auto simp: sha_round_def Let_def split: list.split)

lemma length_sha_rounds: "length (foldl sha_round st kws) = length st"
  by (induction kws arbitrary: st) auto

lemma length_sha_block [simp]: "length (sha_block st blk) = length st"
  by (simp add: sha_block_def Let_def length_sha_rounds)

lemma length_sha_blocks: "length (foldl sha_block st blks) = length st"
  by (induction blks arbitrary: st) auto

lemma length_sha256 [simp]: "length (sha256 m) = 32"
proof -
  have "length (concat (map (\<lambda>w. be_bytes 4 (unat w)) ws)) = 4 * length ws" for ws :: "w32 list"
    by (induction ws) auto
  then show ?thesis by (simp add: sha256_def Let_def length_sha_blocks sha_init_def)
qed

lemma length_hmac [simp]: "length (hmac_sha256 k m) = 32"
  by (simp add: hmac_sha256_def)

lemma b64_char_value:
  assumes "v < 64"
  shows "b64_value (b64_char v) = Some v"
proof -
  have "distinct b64_alphabet" and len: "length b64_alphabet = 64"
    by (simp_all add: b64_alphabet_def)
  then have "map_of (zip b64_alphabet [0..<64]) (b64_alphabet ! v) = Some ([0..<64] ! v)"
    using assms by (intro map_of_zip_nth) auto
  then show ?thesis using assms by (simp add: b64_value_def b64_char_def)
qed

lemma b64_char_in: "v < 64 \<Longrightarrow> b64_char v \<in> set b64_alphabet"
  using map_of_SomeD [OF b64_char_value [of v, unfolded b64_value_def]]
  by (auto dest: set_zip_leftD)

lemma b64_values_Cons:
  "v < 64 \<Longrightarrow> b64_values (b64_char v # s) = map_option (\<lambda>vs. v # vs) (b64_values s)"
  using b64_char_in [of v] by (auto simp: b64_char_value b64_alphabet_def)

text \<open>The arithmetic of a group: recombining the six-bit values gives the bytes back.\<close>

lemma b64_join:
  fixes x y z :: nat
  assumes "x < 256" "y < 256" "z < 256"
  shows "x div 4 < 64" "x mod 4 * 16 + y div 16 < 64" "y mod 16 * 4 + z div 64 < 64" "z mod 64 < 64"
    "x mod 4 * 16 < 64" "y mod 16 * 4 < 64"
    "x div 4 * 4 + (x mod 4 * 16 + y div 16) div 16 = x"
    "(x mod 4 * 16 + y div 16) mod 16 * 16 + (y mod 16 * 4 + z div 64) div 4 = y"
    "(y mod 16 * 4 + z div 64) mod 4 * 64 + z mod 64 = z"
    "x div 4 * 4 + x mod 4 * 16 div 16 = x"
    "(x mod 4 * 16 + y div 16) mod 16 * 16 + y mod 16 * 4 div 4 = y"
proof -
  have d: "x div 4 < 64" "y div 16 < 16" "z div 64 < 4" using assms by auto
  moreover have "x mod 4 < 4" "y mod 16 < 16" by simp_all
  ultimately show "x div 4 < 64" "x mod 4 * 16 + y div 16 < 64" "y mod 16 * 4 + z div 64 < 64"
    "x mod 4 * 16 < 64" "y mod 16 * 4 < 64"
    by linarith+
  from d show "z mod 64 < 64"
    "x div 4 * 4 + (x mod 4 * 16 + y div 16) div 16 = x"
    "(x mod 4 * 16 + y div 16) mod 16 * 16 + (y mod 16 * 4 + z div 64) div 4 = y"
    "(y mod 16 * 4 + z div 64) mod 4 * 64 + z mod 64 = z"
    "x div 4 * 4 + x mod 4 * 16 div 16 = x"
    "(x mod 4 * 16 + y div 16) mod 16 * 16 + y mod 16 * 4 div 4 = y"
    by simp_all
qed

lemmas b64_step = b64_encode.simps Let_def b64_values_Cons b64_values.simps(1) option.map

lemma b64_roundtrip: "b64_decode (b64_encode s) = Some s"
proof -
  have "\<exists>vs. b64_values (b64_encode s) = Some vs \<and> b64_groups vs = Some s"
  proof (induction s rule: b64_encode.induct)
    case 1
    then show ?case by simp
  next
    case (2 a)
    note j = b64_join [OF of_char_less [of a] of_char_less [of a] of_char_less [of a]]
    have "b64_groups [of_char a div 4, of_char a mod 4 * 16] = Some [a]"
      by (simp only: b64_groups.simps j char_of_char)
    then show ?case by (intro exI conjI) (simp only: b64_step j, assumption)
  next
    case (3 a b)
    note j = b64_join [OF of_char_less [of a] of_char_less [of b] of_char_less [of b]]
    have "b64_groups [of_char a div 4, of_char a mod 4 * 16 + of_char b div 16, of_char b mod 16 * 4]
        = Some [a, b]"
      by (simp only: b64_groups.simps j char_of_char)
    then show ?case
      using b64_join(6) [OF of_char_less [of a] of_char_less [of b] of_char_less [of b]]
      by (intro exI conjI) (simp only: b64_step j, assumption)
  next
    case (4 a b c s)
    then obtain vs where vs: "b64_values (b64_encode s) = Some vs" "b64_groups vs = Some s" by blast
    note j = b64_join [OF of_char_less [of a] of_char_less [of b] of_char_less [of c]]
    have "b64_groups (of_char a div 4 # (of_char a mod 4 * 16 + of_char b div 16)
        # (of_char b mod 16 * 4 + of_char c div 64) # of_char c mod 64 # vs) = Some (a # b # c # s)"
      by (simp only: b64_groups.simps vs option.map j char_of_char)
    then show ?case by (intro exI conjI) (simp only: b64_step j vs, assumption)
  qed
  then show ?thesis by (auto simp: b64_decode_def)
qed

lemma b64_encode_chars: "set (b64_encode s) \<subseteq> set b64_alphabet"
proof (induction s rule: b64_encode.induct)
  case (2 a)
  note j = b64_join [OF of_char_less [of a] of_char_less [of a] of_char_less [of a]]
  show ?case by (simp add: b64_char_in Let_def j(1,5))
next
  case (3 a b)
  note j = b64_join [OF of_char_less [of a] of_char_less [of b] of_char_less [of b]]
  show ?case by (simp add: b64_char_in Let_def j(1,2,6))
next
  case (4 a b c s)
  note j = b64_join [OF of_char_less [of a] of_char_less [of b] of_char_less [of c]]
  from 4 show ?case by (simp add: b64_char_in Let_def j(1-4))
qed simp

end
