(* ===== verification/Approvals.thy ===== *)
theory Approvals
  imports Templates Go_Codec
begin

text \<open>
  \<^verbatim>\<open>internal/operations/approvalclaim\<close> and \<^verbatim>\<open>internal/operations/approvals\<close>: the signed approval
  claims (\<^verbatim>\<open>vws1.<payload>.<HMAC>\<close>), their verification, and the gate that keeps an Operation
  which needs an approval from starting without a valid claim. The current time is an argument.
\<close>

section \<open>Claims\<close>

abbreviation Prefix :: string where "Prefix \<equiv> ''vws1''"

record Payload =
  pl_Version :: int
  RequestID :: int
  OperationName :: string
  pl_ApprovedBy :: string
  pl_ApprovedAt :: string
  pl_ExpiresAt :: int

definition payload0 :: Payload where
  "payload0 = \<lparr>pl_Version = 0, RequestID = 0, OperationName = '''', pl_ApprovedBy = '''',
     pl_ApprovedAt = '''', pl_ExpiresAt = 0\<rparr>"

definition payload_fields :: "Payload fields" where
  "payload_fields =
     [(''v'', dec_int 64 pl_Version_update), (''rid'', dec_int 64 RequestID_update),
      (''op'', dec_string OperationName_update), (''by'', dec_string pl_ApprovedBy_update),
      (''at'', dec_string pl_ApprovedAt_update), (''exp'', dec_int 64 pl_ExpiresAt_update)]"

definition splitClaim :: "string \<Rightarrow> (string \<times> string \<times> string) result" where
  "splitClaim claim =
     (case Split (CHR ''.'') claim of
        [prefix, body, digest] \<Rightarrow> Inr (prefix, body, digest)
      | _ \<Rightarrow> Inl (Errorf ''malformed approval claim''))"

definition hmacSHA256Hex :: "string \<Rightarrow> string \<Rightarrow> string" where
  "hmacSHA256Hex secret body = hex_EncodeToString (hmac_sha256 secret body)"

definition base64_error :: go_error where
  "base64_error = Sentinel ''illegal base64 data''"

definition decodePayload :: "string \<Rightarrow> Payload result" where
  "decodePayload body =
     (case b64_decode body of
        None \<Rightarrow> Inl (Wrapf ''decode approval claim payload: '' base64_error [])
      | Some raw \<Rightarrow>
          (case json_Unmarshal raw of
             None \<Rightarrow> Inl (Wrapf ''parse approval claim payload: '' json_syntax_error [])
           | Some doc \<Rightarrow>
               (case unmarshal_struct payload_fields doc payload0 of
                  None \<Rightarrow> Inl (Wrapf ''parse approval claim payload: '' json_type_error [])
                | Some payload \<Rightarrow> Inr payload)))"

definition Verify :: "time \<Rightarrow> string \<Rightarrow> string \<Rightarrow> string \<Rightarrow> go_error option" where
  "Verify now secret claim operationName =
     (let secret = TrimSpace secret in
      if secret = '''' then Some (Errorf ''approval claim verification requires a configured secret'')
      else let claim = TrimSpace claim in
      if claim = '''' then Some (Errorf ''approval claim is empty'')
      else case splitClaim claim of
        Inl err \<Rightarrow> Some err
      | Inr (prefix, body, digest) \<Rightarrow>
          if prefix \<noteq> Prefix
          then Some (Errorf (''unsupported approval claim prefix '' @ Quote prefix))
          else if hmacSHA256Hex secret body \<noteq> digest
          then Some (Errorf ''approval claim signature mismatch'')
          else (case decodePayload body of
            Inl err \<Rightarrow> Some err
          | Inr payload \<Rightarrow>
              if pl_Version payload \<noteq> 1
              then Some (Errorf (''unsupported approval claim version '' @ Itoa (pl_Version payload)))
              else if TrimSpace (OperationName payload) \<noteq> TrimSpace operationName
              then Some (Errorf (''approval claim operation '' @ Quote (OperationName payload) @
                                 '' does not match '' @ Quote operationName))
              else if Unix now > pl_ExpiresAt payload
              then Some (Errorf ''approval claim expired'')
              else None))"

definition marshalCanonicalPayload :: "Payload \<Rightarrow> string" where
  "marshalCanonicalPayload p =
     ''{'' @
     json_string ''at'' @ '':'' @ json_string (pl_ApprovedAt p) @ '','' @
     json_string ''by'' @ '':'' @ json_string (pl_ApprovedBy p) @ '','' @
     json_string ''exp'' @ '':'' @ Itoa (pl_ExpiresAt p) @ '','' @
     json_string ''op'' @ '':'' @ json_string (OperationName p) @ '','' @
     json_string ''rid'' @ '':'' @ Itoa (RequestID p) @ '','' @
     json_string ''v'' @ '':'' @ Itoa (pl_Version p) @ ''}''"

definition Issue :: "string \<Rightarrow> Payload \<Rightarrow> string result" where
  "Issue secret payload =
     (let secret = TrimSpace secret in
      if secret = '''' then Inl (Errorf ''secret is required'')
      else let body = b64_encode (marshalCanonicalPayload payload)
           in Inr (Prefix @ ''.'' @ body @ ''.'' @ hmacSHA256Hex secret body))"

section \<open>The approval gate\<close>

text \<open>The code's nil checks on the Operation pointer are the \<open>None\<close> branches.\<close>

definition approvals_Required :: "Operation option \<Rightarrow> bool" where
  "approvals_Required op =
     (case op of
        None \<Rightarrow> False
      | Some op \<Rightarrow>
          (case Approvals (op_Spec op) of Some a \<Rightarrow> Required a | None \<Rightarrow> False)
          \<or> (case Lookup (os_Type (op_Spec op)) (os_Engine (op_Spec op)) of
               Some tpl \<Rightarrow> RequiresApproval tpl
             | None \<Rightarrow> False))"

definition approvals_Claim :: "Operation option \<Rightarrow> string" where
  "approvals_Claim op =
     (case op of
        None \<Rightarrow> ''''
      | Some op \<Rightarrow>
          (case Approvals (op_Spec op) of None \<Rightarrow> '''' | Some a \<Rightarrow> TrimSpace (Claim a)))"

definition ValidateClaim :: "time \<Rightarrow> string \<Rightarrow> string \<Rightarrow> string \<Rightarrow> go_error option" where
  "ValidateClaim now secret claim operationName =
     (if TrimSpace claim = '''' then None else Verify now secret claim operationName)"

definition NeedsApprovalCheck :: "Operation option \<Rightarrow> bool" where
  "NeedsApprovalCheck op =
     (case op of
        None \<Rightarrow> False
      | Some op \<Rightarrow> ost_Phase (op_Status op) = '''' \<or> ost_Phase (op_Status op) = PhasePending)"

definition BlockReason :: "time \<Rightarrow> Operation \<Rightarrow> string \<Rightarrow> bool \<times> string" where
  "BlockReason now op secret =
     (if \<not> approvals_Required (Some op) then (False, '''')
      else let claim = approvals_Claim (Some op) in
        if claim = '''' then (True, ''approval claim required'')
        else let secret = TrimSpace secret in
        if secret = ''''
        then (True, ''approval claim present but operator approval-claim-secret is not configured'')
        else case Verify now secret claim (Name (op_meta op)) of
          Some err \<Rightarrow> (True, ''invalid approval claim: '' @ Error err)
        | None \<Rightarrow> (False, ''''))"

section \<open>Lemmas on verification\<close>

lemma Split_eq_three:
  "Split sep s = [a, b, c] \<longleftrightarrow>
     s = a @ [sep] @ b @ [sep] @ c \<and> sep \<notin> set a \<and> sep \<notin> set b \<and> sep \<notin> set c"
proof
  assume split: "Split sep s = [a, b, c]"
  have "p \<in> {a, b, c} \<Longrightarrow> sep \<notin> set p" for p
    using Split_parts_no_sep [of p sep s] split by auto
  with join_with_Split [of sep s] split
  show "s = a @ [sep] @ b @ [sep] @ c \<and> sep \<notin> set a \<and> sep \<notin> set b \<and> sep \<notin> set c" by auto
next
  assume "s = a @ [sep] @ b @ [sep] @ c \<and> sep \<notin> set a \<and> sep \<notin> set b \<and> sep \<notin> set c"
  then show "Split sep s = [a, b, c]" by (simp add: Split_append Split_no_sep)
qed

lemma splitClaim_Inr:
  "splitClaim claim = Inr (prefix, body, digest) \<longleftrightarrow> Split (CHR ''.'') claim = [prefix, body, digest]"
  by (auto simp: splitClaim_def split: list.splits)

text \<open>What an accepted claim is.\<close>

definition claim_valid :: "time \<Rightarrow> string \<Rightarrow> string \<Rightarrow> string \<Rightarrow> bool" where
  "claim_valid now secret claim operationName \<longleftrightarrow>
     (\<exists>body payload.
        claim = Prefix @ ''.'' @ body @ ''.'' @ hmacSHA256Hex secret body
        \<and> CHR ''.'' \<notin> set body
        \<and> decodePayload body = Inr payload
        \<and> pl_Version payload = 1
        \<and> TrimSpace (OperationName payload) = TrimSpace operationName
        \<and> Unix now \<le> pl_ExpiresAt payload)"

lemma hmac_no_dot: "CHR ''.'' \<notin> set (hmacSHA256Hex secret body)"
  using hex_digest_chars [of "hmac_sha256 secret body"]
  by (auto simp: hmacSHA256Hex_def hex_chars_def)

lemma Verify_iff:
  "Verify now secret claim operationName = None \<longleftrightarrow>
     TrimSpace secret \<noteq> '''' \<and> claim_valid now (TrimSpace secret) (TrimSpace claim) operationName"
  (is "?l \<longleftrightarrow> ?r")
proof
  assume ?l
  then obtain body digest payload where
    "splitClaim (TrimSpace claim) = Inr (Prefix, body, digest)"
    "digest = hmacSHA256Hex (TrimSpace secret) body" "decodePayload body = Inr payload"
    "pl_Version payload = 1" "TrimSpace (OperationName payload) = TrimSpace operationName"
    "Unix now \<le> pl_ExpiresAt payload" "TrimSpace secret \<noteq> ''''"
    by (auto simp: Verify_def Let_def split: if_splits sum.splits)
  then show ?r
    by (auto simp: splitClaim_Inr Split_eq_three claim_valid_def)
next
  assume ?r
  then obtain body payload where r: "TrimSpace secret \<noteq> ''''"
    "TrimSpace claim = Prefix @ ''.'' @ body @ ''.'' @ hmacSHA256Hex (TrimSpace secret) body"
    "CHR ''.'' \<notin> set body" "decodePayload body = Inr payload" "pl_Version payload = 1"
    "TrimSpace (OperationName payload) = TrimSpace operationName" "Unix now \<le> pl_ExpiresAt payload"
    by (auto simp: claim_valid_def)
  have "splitClaim (TrimSpace claim) = Inr (Prefix, body, hmacSHA256Hex (TrimSpace secret) body)"
    using r hmac_no_dot by (simp add: splitClaim_Inr Split_append Split_no_sep)
  with r show ?l by (simp add: Verify_def)
qed

section \<open>Issued claims are accepted\<close>

text \<open>One member of the canonical text, followed by the rest of the members.\<close>

lemma parse_member_string:
  assumes "valid_utf8 k" "valid_utf8 v" and "parse_members (Suc n) rest = Some (kvs, q)"
  shows "parse_members (Suc (Suc n)) (json_string k @ CHR '':'' # json_string v @ CHR '','' # rest)
           = Some ((k, JString v) # kvs, q)"
  using parse_members_more [OF assms(1) parse_json_string [OF assms(2)], of n rest] assms(3) by simp

lemma parse_member_int:
  assumes "valid_utf8 k" and "parse_members (Suc n) rest = Some (kvs, q)"
  shows "parse_members (Suc (Suc n)) (json_string k @ CHR '':'' # Itoa i @ CHR '','' # rest)
           = Some ((k, JInt i) # kvs, q)"
proof -
  have "parse_value (Suc n) (Itoa i @ CHR '','' # rest) = Some (JInt i, CHR '','' # rest)"
    by (rule parse_value_Itoa) simp
  from parse_members_more [OF assms(1) this] assms(2) show ?thesis by simp
qed

lemma parse_object_of_members:
  "parse_members m (json_string k @ s) = Some (kvs, q) \<Longrightarrow>
   parse_value (Suc m) (CHR ''{'' # json_string k @ s) = Some (JObject kvs, q)"
  by (simp add: json_string_def)

lemma parse_canonical:
  assumes "valid_utf8 (pl_ApprovedAt p)" "valid_utf8 (pl_ApprovedBy p)" "valid_utf8 (OperationName p)"
  shows "json_Unmarshal (marshalCanonicalPayload p) =
     Some (JObject [(''at'', JString (pl_ApprovedAt p)), (''by'', JString (pl_ApprovedBy p)),
       (''exp'', JInt (pl_ExpiresAt p)), (''op'', JString (OperationName p)),
       (''rid'', JInt (RequestID p)), (''v'', JInt (pl_Version p))])"
proof -
  let ?s = "marshalCanonicalPayload p" and ?n = "2 * length (marshalCanonicalPayload p)"
  have keys: "valid_utf8 ''at''" "valid_utf8 ''by''" "valid_utf8 ''exp''" "valid_utf8 ''op''"
    "valid_utf8 ''rid''" "valid_utf8 ''v''"
    by (simp_all add: rune_size_def)
  have "parse_members (Suc (Suc ?n)) (json_string ''v'' @ CHR '':'' # Itoa (pl_Version p) @ CHR ''}'' # [])
      = Some ([(''v'', JInt (pl_Version p))], [])"
    by (rule parse_members_last [OF keys(6) parse_value_Itoa]) simp
  note parse_object_of_members [OF parse_member_string [OF keys(1) assms(1)
    parse_member_string [OF keys(2) assms(2)
    parse_member_int [OF keys(3)
    parse_member_string [OF keys(4) assms(3)
    parse_member_int [OF keys(5) this]]]]]]
  moreover have "?n < Suc (Suc (Suc (Suc (Suc (Suc (Suc (Suc ?n)))))))" by simp
  ultimately show ?thesis
    using json_Unmarshal_fuel [of ?s "Suc (Suc (Suc (Suc (Suc (Suc (Suc (Suc ?n)))))))"]
    by (simp add: marshalCanonicalPayload_def del: parse_value.simps parse_members.simps)
qed

lemma decode_canonical:
  assumes "valid_utf8 (pl_ApprovedAt p)" "valid_utf8 (pl_ApprovedBy p)" "valid_utf8 (OperationName p)"
    and "in_width 64 (pl_Version p)" "in_width 64 (RequestID p)" "in_width 64 (pl_ExpiresAt p)"
  shows "decodePayload (b64_encode (marshalCanonicalPayload p)) = Inr p"
  using assms(4-6)
  by (simp add: decodePayload_def b64_roundtrip parse_canonical [OF assms(1-3)] unmarshal_struct_def
      decode_entry_def payload_fields_def find_field_def dec_int_def dec_string_def payload0_def)

lemma b64_no_dot: "CHR ''.'' \<notin> set (b64_encode s)"
  using b64_encode_chars [of s] by (auto simp: b64_alphabet_def)

lemma TrimSpace_claim:
  "TrimSpace (Prefix @ ''.'' @ body @ ''.'' @ hmacSHA256Hex secret b) =
   Prefix @ ''.'' @ body @ ''.'' @ hmacSHA256Hex secret b"
proof (rule TrimSpace_id)
  let ?d = "hmacSHA256Hex secret b"
  have "length ?d = 64" by (simp add: hmacSHA256Hex_def)
  then have "?d \<noteq> []" by auto
  then have "last ?d \<in> set hex_chars"
    using hex_digest_chars [of "hmac_sha256 secret b"] last_in_set by (auto simp: hmacSHA256Hex_def)
  moreover have "\<forall>c \<in> set hex_chars. graphic c" by (simp add: hex_chars_def graphic_def)
  ultimately show "graphic (last (Prefix @ ''.'' @ body @ ''.'' @ ?d))"
    using \<open>?d \<noteq> []\<close> by simp
qed (simp add: graphic_def)

lemma issue_verify:
  assumes "TrimSpace secret \<noteq> ''''"
    and "valid_utf8 (pl_ApprovedAt p)" "valid_utf8 (pl_ApprovedBy p)" "valid_utf8 (OperationName p)"
    and "pl_Version p = 1" "in_width 64 (RequestID p)" "in_width 64 (pl_ExpiresAt p)"
    and "Unix now \<le> pl_ExpiresAt p"
  shows "\<exists>claim. Issue secret p = Inr claim \<and> Verify now secret claim (OperationName p) = None"
proof -
  let ?body = "b64_encode (marshalCanonicalPayload p)"
  let ?claim = "Prefix @ ''.'' @ ?body @ ''.'' @ hmacSHA256Hex (TrimSpace secret) ?body"
  have "Issue secret p = Inr ?claim" using assms(1) by (simp add: Issue_def Let_def)
  moreover have "in_width 64 (pl_Version p)" using assms(5) by (simp add: in_width_def)
  then have "decodePayload ?body = Inr p" using assms by (intro decode_canonical)
  then have "claim_valid now (TrimSpace secret) (TrimSpace ?claim) (OperationName p)"
    using assms(5,8) b64_no_dot unfolding TrimSpace_claim claim_valid_def by blast
  then have "Verify now secret ?claim (OperationName p) = None"
    using assms(1) by (simp only: Verify_iff simp_thms)
  ultimately show ?thesis by blast
qed

section \<open>Properties\<close>

text \<open>C28: a claim is accepted exactly when, trimmed, it is the prefix, a body without dots and
  the HMAC of the body under the trimmed secret, and the body decodes to a version-1 payload for
  this operation that has not expired.\<close>

theorem Verify_accepts_iff:
  "Verify now secret claim operationName = None \<longleftrightarrow>
     TrimSpace secret \<noteq> '''' \<and> claim_valid now (TrimSpace secret) (TrimSpace claim) operationName"
  by (rule Verify_iff)

text \<open>C29: a claim issued for a version-1 payload with valid text and 64-bit numbers is accepted,
  with the same secret, for the operation it names, until it expires.\<close>

theorem issued_claim_accepted:
  assumes "TrimSpace secret \<noteq> ''''"
    and "valid_utf8 (pl_ApprovedAt p)" "valid_utf8 (pl_ApprovedBy p)" "valid_utf8 (OperationName p)"
    and "pl_Version p = 1" "in_width 64 (RequestID p)" "in_width 64 (pl_ExpiresAt p)"
    and "Unix now \<le> pl_ExpiresAt p"
  shows "\<exists>claim. Issue secret p = Inr claim \<and> Verify now secret claim (OperationName p) = None"
  using assms by (rule issue_verify)

definition demo_payload :: Payload where
  "demo_payload = \<lparr>pl_Version = 1, RequestID = 7, OperationName = ''restore-1'', pl_ApprovedBy = ''ops'',
     pl_ApprovedAt = ''2026-01-01T00:00:00Z'', pl_ExpiresAt = 1000\<rparr>"

theorem issued_claim_accepted_witness:
  "\<exists>claim. Issue '' key '' demo_payload = Inr claim
     \<and> Verify (seconds 900) '' key '' claim ''restore-1'' = None"
  using issued_claim_accepted [of "'' key ''" demo_payload "seconds 900"]
  by (simp add: demo_payload_def rune_size_def in_width_def Unix_def seconds_def TrimSpace_def
      space_runes_def)

lemma BlockReason_iff:
  "fst (BlockReason now op secret) = False \<longleftrightarrow>
     (approvals_Required (Some op) \<longrightarrow>
        TrimSpace secret \<noteq> ''''
        \<and> claim_valid now (TrimSpace secret) (approvals_Claim (Some op)) (Name (op_meta op)))"
proof -
  have "TrimSpace (approvals_Claim (Some op)) = approvals_Claim (Some op)"
    by (simp add: approvals_Claim_def split: option.split)
  moreover have "\<not> claim_valid now (TrimSpace secret) '''' (Name (op_meta op))"
    by (simp add: claim_valid_def)
  moreover have "Verify now (TrimSpace secret) (approvals_Claim (Some op)) (Name (op_meta op)) = None
      \<longleftrightarrow> TrimSpace secret \<noteq> '''' \<and> claim_valid now (TrimSpace secret) (approvals_Claim (Some op)) (Name (op_meta op))"
    using calculation(1) by (simp only: Verify_iff TrimSpace_idem)
  ultimately show ?thesis
    by (auto simp: BlockReason_def Let_def split: option.splits)
qed

text \<open>C27: an operation that needs an approval passes the gate exactly with a claim that
  verification accepts for its name; any other operation always passes.\<close>

theorem gate_open_iff:
  "fst (BlockReason now op secret) = False \<longleftrightarrow>
     (approvals_Required (Some op) \<longrightarrow>
        TrimSpace secret \<noteq> ''''
        \<and> claim_valid now (TrimSpace secret) (approvals_Claim (Some op)) (Name (op_meta op)))"
  by (rule BlockReason_iff)

definition demo_restore :: "string \<Rightarrow> Operation" where
  "demo_restore claim =
     \<lparr>op_meta = meta0\<lparr>Name := ''restore-1'', Namespace := ''ns''\<rparr>,
      op_Spec = \<lparr>os_TargetRef = \<lparr>tr_APIVersion = '''', tr_Kind = '''', tr_Name = ''app''\<rparr>,
        os_Type = OperationTypeRestore, os_Engine = EngineVelero, Parameters = None,
        Approvals = Some \<lparr>Required = False, Claim = claim, ApprovedBy = '''', ApprovedAt = ''''\<rparr>\<rparr>,
      op_Status = \<lparr>ost_Phase = '''', StartedAt = None, FinishedAt = None, ost_EngineRef = None,
        ost_Conditions = [], Outputs = '''', ost_LogsRef = None\<rparr>\<rparr>"

lemma demo_restore_required: "approvals_Required (Some (demo_restore claim))"
  by (simp add: approvals_Required_def demo_restore_def Lookup_builtin(2)) (simp add: builtin_def)

theorem gate_open_iff_witness:
  "\<exists>claim. approvals_Required (Some (demo_restore claim))
     \<and> fst (BlockReason (seconds 900) (demo_restore claim) ''key'') = False"
proof -
  obtain claim where "Verify (seconds 900) ''key'' claim ''restore-1'' = None"
    using issue_verify [of "''key''" demo_payload "seconds 900"]
    by (auto simp: demo_payload_def rune_size_def in_width_def Unix_def seconds_def TrimSpace_def
        space_runes_def)
  then have "TrimSpace ''key'' \<noteq> '''' \<and> claim_valid (seconds 900) (TrimSpace ''key'')
      (approvals_Claim (Some (demo_restore claim))) (Name (op_meta (demo_restore claim)))"
    by (simp only: Verify_iff) (simp add: approvals_Claim_def demo_restore_def)
  then show ?thesis
    using gate_open_iff [of "seconds 900" "demo_restore claim" "''key''"] demo_restore_required by blast
qed

end
