(* ===== verification/Engines_Common.thy ===== *)
theory Engines_Common
  imports Kube "HOL-Library.List_Lexorder" "HOL-Library.Char_ord"
begin

text \<open>
  What the engines of \<^verbatim>\<open>internal/engines\<close> share: the engine interface and registry, the labels that
  tie a workload to its Operation, where a workload lives, the creation and clean-up of Jobs and
  Workflows, and the admission checks of the runtime parameters.

  The locale \<open>operation_engine\<close> is the contract the operation controller relies on; every engine
  theory interprets it on its engine.
\<close>

section \<open>Engine interface, errors, registry\<close>

definition ErrWorkloadMissing :: go_error where
  "ErrWorkloadMissing = Sentinel ''engine workload not found''"
definition ErrWorkloadOwnership :: go_error where
  "ErrWorkloadOwnership = Sentinel ''engine workload ownership conflict''"
definition ErrWorkloadAmbiguous :: go_error where
  "ErrWorkloadAmbiguous = Sentinel ''ambiguous engine workload''"

record EngineStatus =
  st_Phase :: string
  st_Reason :: string
  st_Message :: string
  st_Outputs :: "(string \<times> string) list"
  Done :: bool
  Failed :: bool

record Engine =
  eng_Name :: string
  Materialize :: "Operation \<Rightarrow> ApplicationInstance \<Rightarrow> go_error option prog"
  eng_Status :: "Operation \<Rightarrow> EngineStatus result prog"
  Cancel :: "Operation \<Rightarrow> go_error option prog"

type_synonym Registry = "string \<rightharpoonup> Engine"

definition NewRegistry :: "Engine list \<Rightarrow> Registry" where
  "NewRegistry items = foldl (\<lambda>r item. r(eng_Name item \<mapsto> item)) Map.empty items"

definition Registry_Get :: "Registry \<Rightarrow> string \<Rightarrow> Engine result" where
  "Registry_Get r name =
     (case r name of
        None \<Rightarrow> Inl (Errorf (''engine '' @ Quote name @ '' is not registered''))
      | Some engine \<Rightarrow> Inr engine)"

definition Registry_Has :: "Registry \<Rightarrow> string \<Rightarrow> bool" where
  "Registry_Has r name = (r name \<noteq> None)"

section \<open>Labels and names\<close>

abbreviation OperationLabelKey :: string where "OperationLabelKey \<equiv> ''ops.vworkspace.io/operation''"
abbreviation op_UID :: "Operation \<Rightarrow> string" where "op_UID op \<equiv> UID (op_meta op)"

definition applyOperationLabels :: "ObjectMeta \<Rightarrow> Operation \<Rightarrow> ObjectMeta" where
  "applyOperationLabels m op =
     m\<lparr>Labels := (Labels m)(ManagedByKey \<mapsto> ManagedByOperator, OperationLabelKey \<mapsto> op_UID op)\<rparr>"

text \<open>A nil label map and an empty one are the same map here; both are refused.\<close>

definition verifyOperationOwnership :: "(string \<rightharpoonup> string) \<Rightarrow> Operation \<Rightarrow> go_error option" where
  "verifyOperationOwnership lbls op =
     (if lbls = Map.empty \<or> go_get lbls OperationLabelKey \<noteq> op_UID op
      then Some (Wrapf '''' ErrWorkloadOwnership '': existing engine workload belongs to a different operation'')
      else None)"

definition SupportsEngineRef :: "string \<Rightarrow> bool" where
  "SupportsEngineRef engine \<longleftrightarrow> engine \<in> {EngineJob, EngineWorkflow, EngineHelmHookJob}"

definition EngineResourceKind :: "string \<Rightarrow> string" where
  "EngineResourceKind engine =
     (if engine \<in> {EngineJob, EngineHelmHookJob} then ''Job''
      else if engine = EngineWorkflow then ''Workflow''
      else engine)"

abbreviation maxK8sNameLen :: nat where "maxK8sNameLen \<equiv> 63"

definition materializedName :: "Operation \<Rightarrow> string" where
  "materializedName op =
     (let base = Namespace (op_meta op) @ ''--'' @ Name (op_meta op)
      in if length base \<le> maxK8sNameLen then base else op_UID op)"

definition targetNamespace :: "ApplicationInstance \<Rightarrow> string" where
  "targetNamespace target =
     (case as_Release (app_Spec target) of
        Some rel \<Rightarrow> if rel_Namespace rel \<noteq> '''' then rel_Namespace rel else Namespace (app_meta target)
      | None \<Rightarrow> Namespace (app_meta target))"

definition NewEngineResourceRef :: "Operation \<Rightarrow> ApplicationInstance \<Rightarrow> string \<Rightarrow> EngineResourceRef" where
  "NewEngineResourceRef op target kind =
     \<lparr>er_Kind = kind, er_Name = materializedName op, er_Namespace = targetNamespace target\<rparr>"

section \<open>Where a workload lives\<close>

definition resolveEngineLocationDetailed :: "env \<Rightarrow> Operation \<Rightarrow> (string \<times> string \<times> bool) result prog" where
  "resolveEngineLocationDetailed E op =
     (let from_target = do {
        target \<leftarrow> ask (get_app E)
          (GetApplicationInstance (Namespace (op_meta op)) (tr_Name (os_TargetRef (op_Spec op))));
        State_Monad.return
          (case target of
             Inl err \<Rightarrow>
               if IsNotFound err then Inr ('''', '''', True)
               else Inl (Wrapf ''get target ApplicationInstance: '' err [])
           | Inr target \<Rightarrow> Inr (targetNamespace target, materializedName op, False))
      } in
      case ost_EngineRef (op_Status op) of
        Some ref \<Rightarrow>
          if er_Namespace ref \<noteq> '''' \<and> er_Name ref \<noteq> ''''
          then State_Monad.return (Inr (er_Namespace ref, er_Name ref, False))
          else from_target
      | None \<Rightarrow> from_target)"

definition resolveEngineLocationForStatus ::
  "env \<Rightarrow> Operation \<Rightarrow> (Operation \<Rightarrow> (string \<times> string) result prog) \<Rightarrow> (string \<times> string) result prog" where
  "resolveEngineLocationForStatus E op fallback = do {
     loc \<leftarrow> resolveEngineLocationDetailed E op;
     case loc of
       Inl err \<Rightarrow> State_Monad.return (Inl err)
     | Inr (namespace, name, skip) \<Rightarrow>
         if skip then fallback op else State_Monad.return (Inr (namespace, name))
   }"

definition resolveEngineLocationForCancel :: "env \<Rightarrow> Operation \<Rightarrow> (string \<times> string \<times> bool) result prog" where
  "resolveEngineLocationForCancel E op = resolveEngineLocationDetailed E op"

definition setOwnerReferenceIfSameNamespace ::
  "env \<Rightarrow> Operation \<Rightarrow> ObjectMeta \<Rightarrow> string \<Rightarrow> ObjectMeta result" where
  "setOwnerReferenceIfSameNamespace E op obj ns =
     (if ns \<noteq> Namespace (op_meta op) then Inr obj else SetOwnerReference E (op_meta op) obj)"

section \<open>Jobs\<close>

definition createMaterializedJob :: "env \<Rightarrow> Operation \<Rightarrow> BatchJob \<Rightarrow> string \<Rightarrow> go_error option prog" where
  "createMaterializedJob E op job ns =
     (let name = materializedName op in do {
        existing \<leftarrow> ask (get_job E) (GetJob ns name);
        case existing of
          Inr existing \<Rightarrow> State_Monad.return (verifyOperationOwnership (Labels (bj_meta existing)) op)
        | Inl err \<Rightarrow>
            if \<not> IsNotFound err then State_Monad.return (Some (Wrapf ''get job: '' err []))
            else (case setOwnerReferenceIfSameNamespace E op ((bj_meta job)\<lparr>Name := name\<rparr>) ns of
                    Inl err \<Rightarrow> State_Monad.return (Some err)
                  | Inr m \<Rightarrow> ask (write_result E) (CreateJob (job\<lparr>bj_meta := m\<rparr>)))
      })"

fun deleteJobs :: "env \<Rightarrow> BatchJob list \<Rightarrow> go_error option prog" where
  "deleteJobs E [] = State_Monad.return None"
| "deleteJobs E (job # jobs) = do {
     res \<leftarrow> ask (write_result E) (DeleteJob job);
     case res of
       Some err \<Rightarrow>
         if \<not> IsNotFound err
         then State_Monad.return (Some (Wrapf
                (''delete job '' @ Namespace (bj_meta job) @ ''/'' @ Name (bj_meta job) @ '': '') err []))
         else deleteJobs E jobs
     | None \<Rightarrow> deleteJobs E jobs
   }"

definition deleteJobsLabeledByOperation :: "env \<Rightarrow> Operation \<Rightarrow> go_error option prog" where
  "deleteJobsLabeledByOperation E op = do {
     items \<leftarrow> ask (list_jobs E) (ListJobs OperationLabelKey (op_UID op));
     case items of
       Inl err \<Rightarrow> State_Monad.return (Some (Wrapf (''list jobs for operation '' @ op_UID op @ '': '') err []))
     | Inr items \<Rightarrow> deleteJobs E items
   }"

definition findJobLocationByOperationLabel :: "env \<Rightarrow> Operation \<Rightarrow> (string \<times> string) result prog" where
  "findJobLocationByOperationLabel E op = do {
     items \<leftarrow> ask (list_jobs E) (ListJobs OperationLabelKey (op_UID op));
     State_Monad.return
       (case items of
          Inl err \<Rightarrow> Inl (Wrapf (''list jobs for operation '' @ op_UID op @ '': '') err [])
        | Inr [] \<Rightarrow> Inl (Wrapf '''' ErrWorkloadMissing ('': no job for operation '' @ op_UID op))
        | Inr [job] \<Rightarrow> Inr (Namespace (bj_meta job), Name (bj_meta job))
        | Inr _ \<Rightarrow> Inl (Wrapf '''' ErrWorkloadAmbiguous ('': multiple jobs labeled for operation '' @ op_UID op)))
   }"

section \<open>Workflows\<close>

abbreviation argo_group :: string where "argo_group \<equiv> ''argoproj.io/v1alpha1''"

definition findWorkflowLocationByOperationLabel :: "env \<Rightarrow> Operation \<Rightarrow> (string \<times> string) result prog" where
  "findWorkflowLocationByOperationLabel E op = do {
     items \<leftarrow> ask (list_objects E) (ListObjects (argo_group, ''WorkflowList'') OperationLabelKey (op_UID op));
     State_Monad.return
       (case items of
          Inl err \<Rightarrow> Inl (Wrapf (''list workflows for operation '' @ op_UID op @ '': '') err [])
        | Inr [] \<Rightarrow> Inl (Wrapf '''' ErrWorkloadMissing ('': no workflow for operation '' @ op_UID op))
        | Inr [item] \<Rightarrow> Inr (Namespace (u_meta item), Name (u_meta item))
        | Inr _ \<Rightarrow> Inl (Wrapf '''' ErrWorkloadAmbiguous ('': multiple workflows labeled for operation '' @ op_UID op)))
   }"

text \<open>The deletion loop shared by the clean-up of Workflows and of Velero objects.\<close>

fun deleteObjects :: "env \<Rightarrow> string \<Rightarrow> Unstructured list \<Rightarrow> go_error option prog" where
  "deleteObjects E what [] = State_Monad.return None"
| "deleteObjects E what (obj # objs) = do {
     res \<leftarrow> ask (write_result E) (DeleteObject obj);
     case res of
       Some err \<Rightarrow>
         if \<not> IsNotFound err
         then State_Monad.return (Some (Wrapf
                (''delete '' @ what @ '' '' @ Namespace (u_meta obj) @ ''/'' @ Name (u_meta obj) @ '': '') err []))
         else deleteObjects E what objs
     | None \<Rightarrow> deleteObjects E what objs
   }"

definition deleteWorkflowsLabeledByOperation :: "env \<Rightarrow> Operation \<Rightarrow> go_error option prog" where
  "deleteWorkflowsLabeledByOperation E op = do {
     items \<leftarrow> ask (list_objects E) (ListObjects (argo_group, ''WorkflowList'') OperationLabelKey (op_UID op));
     case items of
       Inl err \<Rightarrow> State_Monad.return (Some (Wrapf (''list workflows for operation '' @ op_UID op @ '': '') err []))
     | Inr items \<Rightarrow> deleteObjects E ''workflow'' items
   }"

section \<open>Admission of runtime parameters\<close>

abbreviation defaultJobServiceAccount :: string where
  "defaultJobServiceAccount \<equiv> ''vworkspace-operation-runner''"
abbreviation DefaultOperationRunnerServiceAccount :: string where
  "DefaultOperationRunnerServiceAccount \<equiv> defaultJobServiceAccount"

record runtimeParameters =
  rp_Image :: string
  rp_HookName :: string
  rp_WorkflowTemplate :: string
  rp_Template :: string
  rp_ServiceAccountName :: string

definition runtimeParameters0 :: runtimeParameters where
  "runtimeParameters0 = \<lparr>rp_Image = '''', rp_HookName = '''', rp_WorkflowTemplate = '''',
     rp_Template = '''', rp_ServiceAccountName = ''''\<rparr>"

definition runtime_fields :: "runtimeParameters fields" where
  "runtime_fields =
     [(''image'', dec_string rp_Image_update), (''hookName'', dec_string rp_HookName_update),
      (''workflowTemplate'', dec_string rp_WorkflowTemplate_update),
      (''template'', dec_string rp_Template_update),
      (''serviceAccountName'', dec_string rp_ServiceAccountName_update)]"

definition validateRequiredRuntimeFields :: "string \<Rightarrow> runtimeParameters \<Rightarrow> go_error option" where
  "validateRequiredRuntimeFields engine params =
     (if engine = EngineJob then
        (if rp_Image params = '''' then Some (Errorf ''parameters.image is required'') else None)
      else if engine = EngineHelmHookJob then
        (if rp_HookName params = '''' then Some (Errorf ''parameters.hookName is required'')
         else if rp_Image params = '''' then Some (Errorf ''parameters.image is required'')
         else None)
      else if engine = EngineWorkflow then
        (if rp_WorkflowTemplate params = '''' \<and> rp_Template params = ''''
         then Some (Errorf ''parameters.workflowTemplate is required'') else None)
      else None)"

text \<open>\<^verbatim>\<open>json.Unmarshal\<close> of raw parameters into a struct, with the caller's error prefix.\<close>

definition decode_params :: "string \<Rightarrow> 'a fields \<Rightarrow> string \<Rightarrow> 'a \<Rightarrow> 'a result" where
  "decode_params what fs raw a =
     (case json_Unmarshal raw of
        None \<Rightarrow> Inl (Wrapf what json_syntax_error [])
      | Some doc \<Rightarrow>
          (case unmarshal_struct fs doc a of
             None \<Rightarrow> Inl (Wrapf what json_type_error [])
           | Some a \<Rightarrow> Inr a))"

definition ValidateRuntimeParameters :: "Operation \<Rightarrow> go_error option" where
  "ValidateRuntimeParameters op =
     (let engine = os_Engine (op_Spec op) in
      if engine \<notin> {EngineJob, EngineWorkflow, EngineHelmHookJob} then None
      else case Parameters (op_Spec op) of
        None \<Rightarrow> validateRequiredRuntimeFields engine runtimeParameters0
      | Some raw \<Rightarrow>
          (case decode_params ''decode runtime parameters: '' runtime_fields raw runtimeParameters0 of
             Inl err \<Rightarrow> Some err
           | Inr params \<Rightarrow>
               (case validateRequiredRuntimeFields engine params of
                  Some err \<Rightarrow> Some err
                | None \<Rightarrow>
                    if rp_ServiceAccountName params \<noteq> ''''
                       \<and> rp_ServiceAccountName params \<noteq> DefaultOperationRunnerServiceAccount
                    then Some (Errorf (''parameters.serviceAccountName must be ''
                           @ Quote DefaultOperationRunnerServiceAccount @ '' or omitted''))
                    else None)))"

section \<open>The contract of an engine\<close>

fun is_read :: "call \<Rightarrow> bool" where
  "is_read (GetOperation _ _) = True"
| "is_read (ListOperations _) = True"
| "is_read (GetApplicationInstance _ _) = True"
| "is_read (GetJob _ _) = True"
| "is_read (ListJobs _ _) = True"
| "is_read (GetObject _ _ _) = True"
| "is_read (ListObjects _ _ _) = True"
| "is_read (ListObjectsIn _ _) = True"
| "is_read (ListApplicationInstances _) = True"
| "is_read (GetCluster _ _) = True"
| "is_read ListClusters = True"
| "is_read (GetNamespace _) = True"
| "is_read (GetService _ _) = True"
| "is_read (GetSecret _ _) = True"
| "is_read (GetConfigMap _ _) = True"
| "is_read _ = False"

text \<open>Requests that bring a workload into existence or change one.\<close>

fun is_creation :: "call \<Rightarrow> bool" where
  "is_creation (CreateJob _) = True"
| "is_creation (CreateObject _) = True"
| "is_creation (LoadForUpdate _) = True"
| "is_creation (StoreObject _) = True"
| "is_creation _ = False"

fun is_deletion :: "call \<Rightarrow> bool" where
  "is_deletion (DeleteJob _) = True"
| "is_deletion (DeleteObject _) = True"
| "is_deletion _ = False"

definition coherent :: "EngineStatus \<Rightarrow> bool" where
  "coherent s \<longleftrightarrow>
     (if Done s then st_Phase s = (if Failed s then PhaseFailed else PhaseSucceeded)
      else st_Phase s = PhaseRunning \<and> \<not> Failed s)"

lemma coherent_simps [simp]:
  "coherent \<lparr>st_Phase = p, st_Reason = r, st_Message = m, st_Outputs = out, Done = d, Failed = f\<rparr> \<longleftrightarrow>
     (if d then p = (if f then PhaseFailed else PhaseSucceeded) else p = PhaseRunning \<and> \<not> f)"
  "coherent (s\<lparr>st_Outputs := out\<rparr>) = coherent s"
  by (simp_all add: coherent_def)

locale operation_engine =
  fixes eng :: Engine
  assumes status_reads: "emits is_read (eng_Status eng op) w"
    and status_coherent: "run_state (eng_Status eng op) w = (Inr s, w') \<Longrightarrow> coherent s"
    and materialize_creates: "emits (\<lambda>c. is_read c \<or> is_creation c) (Materialize eng op target) w"
    and cancel_deletes: "emits (\<lambda>c. is_read c \<or> is_deletion c) (Cancel eng op) w"
begin

text \<open>The phase an engine reports is one the controller can store.\<close>

lemma status_phase:
  "run_state (eng_Status eng op) w = (Inr s, w') \<Longrightarrow>
   st_Phase s \<in> {PhaseRunning, PhaseSucceeded, PhaseFailed}"
  using status_coherent [of op w s w'] by (auto simp: coherent_def split: if_splits)

lemma finished_iff:
  "run_state (eng_Status eng op) w = (Inr s, w') \<Longrightarrow> Done s \<longleftrightarrow> st_Phase s \<noteq> PhaseRunning"
  using status_coherent [of op w s w'] by (auto simp: coherent_def split: if_splits)

text \<open>No engine operation touches Operation objects.\<close>

lemma no_operation_writes:
  "emits (\<lambda>c. \<forall>o'. c \<noteq> UpdateOperation o' \<and> c \<noteq> UpdateOperationStatus o') (Materialize eng op target) w"
  "emits (\<lambda>c. \<forall>o'. c \<noteq> UpdateOperation o' \<and> c \<noteq> UpdateOperationStatus o') (eng_Status eng op) w"
  "emits (\<lambda>c. \<forall>o'. c \<noteq> UpdateOperation o' \<and> c \<noteq> UpdateOperationStatus o') (Cancel eng op) w"
  by (rule emits_mono [OF materialize_creates] emits_mono [OF status_reads]
      emits_mono [OF cancel_deletes]; auto)+

end

section \<open>Lemmas\<close>

lemma NewRegistry_find:
  "distinct (map eng_Name items) \<Longrightarrow> NewRegistry items name = find (\<lambda>e. eng_Name e = name) items"
  by (simp add: NewRegistry_def foldl_upd_find split: option.split)

lemma owned_label:
  "verifyOperationOwnership lbls op = None \<Longrightarrow> go_get lbls OperationLabelKey = op_UID op"
  by (simp add: verifyOperationOwnership_def split: if_splits)

lemma applyOperationLabels_label [simp]:
  "Labels (applyOperationLabels m op) OperationLabelKey = Some (op_UID op)"
  "Namespace (applyOperationLabels m op) = Namespace m"
  "Name (applyOperationLabels m op) = Name m"
  by (simp_all add: applyOperationLabels_def)

lemma owner_ref_keeps_meta:
  "setOwnerReferenceIfSameNamespace E op m ns = Inr m' \<Longrightarrow> owner_laws E \<Longrightarrow>
   Name m' = Name m \<and> Namespace m' = Namespace m \<and> Labels m' = Labels m"
  unfolding setOwnerReferenceIfSameNamespace_def owner_laws_def
  by (cases "ns = Namespace (op_meta op)") (fastforce simp del: split_paired_All)+

lemma labels_owned: "verifyOperationOwnership (Labels (applyOperationLabels m op)) op = None"
  by (auto simp: verifyOperationOwnership_def go_get_def dest: fun_cong [of _ _ OperationLabelKey])

lemma emits_resolveDetailed [emits_rules]:
  "P (GetApplicationInstance (Namespace (op_meta op)) (tr_Name (os_TargetRef (op_Spec op)))) \<Longrightarrow>
   emits P (resolveEngineLocationDetailed E op) w"
  unfolding resolveEngineLocationDetailed_def Let_def by (intro emits_rules)

lemma emits_resolveForStatus [emits_rules]:
  "P (GetApplicationInstance (Namespace (op_meta op)) (tr_Name (os_TargetRef (op_Spec op)))) \<Longrightarrow>
   (\<And>w. emits P (fallback op) w) \<Longrightarrow> emits P (resolveEngineLocationForStatus E op fallback) w"
  unfolding resolveEngineLocationForStatus_def by (intro emits_rules)

lemma emits_resolveForCancel [emits_rules]:
  "P (GetApplicationInstance (Namespace (op_meta op)) (tr_Name (os_TargetRef (op_Spec op)))) \<Longrightarrow>
   emits P (resolveEngineLocationForCancel E op) w"
  unfolding resolveEngineLocationForCancel_def by (intro emits_rules)

lemma emits_createJob [emits_rules]:
  assumes "P (GetJob ns (materializedName op))"
    and "\<And>m. setOwnerReferenceIfSameNamespace E op ((bj_meta job)\<lparr>Name := materializedName op\<rparr>) ns = Inr m \<Longrightarrow>
           P (CreateJob (job\<lparr>bj_meta := m\<rparr>))"
  shows "emits P (createMaterializedJob E op job ns) w"
  unfolding createMaterializedJob_def Let_def using assms by (intro emits_rules)

lemma emits_deleteJobs [emits_rules]:
  "(\<And>job. job \<in> set jobs \<Longrightarrow> P (DeleteJob job)) \<Longrightarrow> emits P (deleteJobs E jobs) w"
proof (induction jobs arbitrary: w)
  case Nil
  show ?case by (simp add: emits_return)
next
  case (Cons job jobs)
  then show ?case unfolding deleteJobs.simps by (intro emits_rules) simp_all
qed

lemma emits_deleteJobsLabeled [emits_rules]:
  "P (ListJobs OperationLabelKey (op_UID op)) \<Longrightarrow> (\<And>job. P (DeleteJob job)) \<Longrightarrow>
   emits P (deleteJobsLabeledByOperation E op) w"
  unfolding deleteJobsLabeledByOperation_def by (intro emits_rules)

lemma emits_findJobLocation [emits_rules]:
  "P (ListJobs OperationLabelKey (op_UID op)) \<Longrightarrow> emits P (findJobLocationByOperationLabel E op) w"
  unfolding findJobLocationByOperationLabel_def by (intro emits_rules)

lemma emits_findWorkflowLocation [emits_rules]:
  "P (ListObjects (argo_group, ''WorkflowList'') OperationLabelKey (op_UID op)) \<Longrightarrow>
   emits P (findWorkflowLocationByOperationLabel E op) w"
  unfolding findWorkflowLocationByOperationLabel_def by (intro emits_rules)

lemma emits_deleteObjects [emits_rules]:
  "(\<And>obj. obj \<in> set objs \<Longrightarrow> P (DeleteObject obj)) \<Longrightarrow> emits P (deleteObjects E what objs) w"
proof (induction objs arbitrary: w)
  case Nil
  show ?case by (simp add: emits_return)
next
  case (Cons obj objs)
  then show ?case unfolding deleteObjects.simps by (intro emits_rules) simp_all
qed

lemma emits_deleteWorkflowsLabeled [emits_rules]:
  "P (ListObjects (argo_group, ''WorkflowList'') OperationLabelKey (op_UID op)) \<Longrightarrow>
   (\<And>obj. P (DeleteObject obj)) \<Longrightarrow> emits P (deleteWorkflowsLabeledByOperation E op) w"
  unfolding deleteWorkflowsLabeledByOperation_def by (intro emits_rules)

lemma decode_params_Inr:
  "decode_params what fs raw a = Inr a' \<longleftrightarrow>
     (\<exists>doc. json_Unmarshal raw = Some doc \<and> unmarshal_struct fs doc a = Some a')"
  by (auto simp: decode_params_def split: option.splits)

lemmas dec_defs = dec_string_def dec_strings_def dec_string_map_def dec_int_ptr_def dec_bool_ptr_def

lemma runtime_service_account:
  "unmarshal_struct runtime_fields doc runtimeParameters0 = Some p \<Longrightarrow>
   rp_ServiceAccountName p = doc_string ''serviceAccountName'' doc"
  by (erule unmarshal_struct_string_field [where upd = rp_ServiceAccountName_update])
     (auto simp: runtimeParameters0_def runtime_fields_def lower_char_def dec_defs
       split: json.splits if_splits)

text \<open>Admission lets only the operation runner's account, or none, through.\<close>

lemma validated_service_account:
  assumes "ValidateRuntimeParameters op = None"
    and "os_Engine (op_Spec op) \<in> {EngineJob, EngineWorkflow, EngineHelmHookJob}"
    and "Parameters (op_Spec op) = Some raw" and "json_Unmarshal raw = Some doc"
  shows "doc_string ''serviceAccountName'' doc \<in> {'''', DefaultOperationRunnerServiceAccount}"
proof -
  have eng: "\<not> os_Engine (op_Spec op) \<notin> {EngineJob, EngineWorkflow, EngineHelmHookJob}"
    using assms(2) by blast
  show ?thesis
  proof (cases "unmarshal_struct runtime_fields doc runtimeParameters0")
    case None
    with assms(1,3,4) eng show ?thesis
      by (simp only: ValidateRuntimeParameters_def Let_def if_False option.case sum.case decode_params_def)
         simp
  next
    case (Some params)
    with assms(1,3,4) eng
    have "rp_ServiceAccountName params = '''' \<or> rp_ServiceAccountName params = DefaultOperationRunnerServiceAccount"
      by (simp only: ValidateRuntimeParameters_def Let_def if_False option.case sum.case decode_params_def)
         (simp_all only: de_Morgan_conj not_not option.simps simp_thms split: option.splits if_splits)
    with runtime_service_account [OF Some] show ?thesis by simp
  qed
qed

end
