(* ===== verification/Engine_Jobs.thy ===== *)
theory Engine_Jobs
  imports Engines_Common
begin

text \<open>
  The engines that run batch Jobs: \<^verbatim>\<open>JobEngine\<close> (\<^verbatim>\<open>internal/engines/job.go\<close>) for RunCommand
  operations and \<^verbatim>\<open>HelmHookJobEngine\<close> (\<^verbatim>\<open>helm_hook_job.go\<close>) for migrations, with the decoding of
  their parameters. Both interpret the engine contract.
\<close>

section \<open>RunCommand jobs\<close>

record jobParameters =
  jp_Image :: string
  jp_Command :: "string list"
  jp_Args :: "string list"
  jp_Env :: "(string \<times> string) list option"
  jp_ServiceAccountName :: string
  jp_BackoffLimit :: "int option"
  jp_ActiveDeadlineSeconds :: "int option"
  jp_TTLSecondsAfterFinished :: "int option"

definition jobParameters0 :: jobParameters where
  "jobParameters0 = \<lparr>jp_Image = '''', jp_Command = [], jp_Args = [], jp_Env = None,
     jp_ServiceAccountName = '''', jp_BackoffLimit = None, jp_ActiveDeadlineSeconds = None,
     jp_TTLSecondsAfterFinished = None\<rparr>"

definition job_fields :: "jobParameters fields" where
  "job_fields =
     [(''image'', dec_string jp_Image_update), (''command'', dec_strings jp_Command_update),
      (''args'', dec_strings jp_Args_update), (''env'', dec_string_map jp_Env_update jp_Env),
      (''serviceAccountName'', dec_string jp_ServiceAccountName_update),
      (''backoffLimit'', dec_int_ptr 32 jp_BackoffLimit_update),
      (''activeDeadlineSeconds'', dec_int_ptr 64 jp_ActiveDeadlineSeconds_update),
      (''ttlSecondsAfterFinished'', dec_int_ptr 32 jp_TTLSecondsAfterFinished_update)]"

definition parseJobParameters :: "Operation \<Rightarrow> jobParameters result" where
  "parseJobParameters op =
     (case Parameters (op_Spec op) of
        None \<Rightarrow> Inr jobParameters0
      | Some raw \<Rightarrow> decode_params ''decode job parameters: '' job_fields raw jobParameters0)"

definition jp_serviceAccountName :: "jobParameters \<Rightarrow> string" where
  "jp_serviceAccountName p =
     (if jp_ServiceAccountName p \<noteq> '''' then jp_ServiceAccountName p else defaultJobServiceAccount)"

definition jp_ttlSecondsAfterFinished :: "jobParameters \<Rightarrow> int option" where
  "jp_ttlSecondsAfterFinished p =
     (case jp_TTLSecondsAfterFinished p of Some ttl \<Rightarrow> Some ttl | None \<Rightarrow> Some 86400)"

definition envFromMap :: "(string \<times> string) list option \<Rightarrow> EnvVar list" where
  "envFromMap env =
     (case env of
        None \<Rightarrow> []
      | Some m \<Rightarrow>
          map (\<lambda>k. \<lparr>env_Name = k, env_Value = go_get (map_of m) k\<rparr>) (sort (map fst m)))"

fun statusFromJobConditions :: "string \<Rightarrow> JobCondition list \<Rightarrow> EngineStatus" where
  "statusFromJobConditions name [] =
     \<lparr>st_Phase = PhaseRunning, st_Reason = ''EngineStarted'', st_Message = '''', st_Outputs = [],
      Done = False, Failed = False\<rparr>"
| "statusFromJobConditions name (cond # conds) =
     (if jc_Type cond = ''Complete'' \<and> jc_Status cond = ''True'' then
        \<lparr>st_Phase = PhaseSucceeded, st_Reason = ''EngineCompleted'', st_Message = '''',
         st_Outputs = [(''jobName'', name)], Done = True, Failed = False\<rparr>
      else if jc_Type cond = ''Failed'' \<and> jc_Status cond = ''True'' then
        \<lparr>st_Phase = PhaseFailed, st_Reason = ''EngineFailed'', st_Message = jc_Message cond,
         st_Outputs = [(''jobName'', name)], Done = True, Failed = True\<rparr>
      else statusFromJobConditions name conds)"

definition statusFromJob :: "BatchJob \<Rightarrow> EngineStatus" where
  "statusFromJob job = statusFromJobConditions (Name (bj_meta job)) (bj_Conditions job)"

definition jobFor :: "Operation \<Rightarrow> string \<Rightarrow> jobParameters \<Rightarrow> BatchJob" where
  "jobFor op ns params =
     \<lparr>bj_meta = applyOperationLabels (meta0\<lparr>Namespace := ns\<rparr>) op,
      BackoffLimit = jp_BackoffLimit params,
      ActiveDeadlineSeconds = jp_ActiveDeadlineSeconds params,
      TTLSecondsAfterFinished = jp_ttlSecondsAfterFinished params,
      PodSpec =
        \<lparr>pod_meta = applyOperationLabels meta0 op, RestartPolicy = ''Never'',
         ServiceAccountName = jp_serviceAccountName params,
         Containers =
           [\<lparr>ctr_Name = ''runner'', ctr_Image = jp_Image params, ctr_Command = jp_Command params,
             ctr_Args = jp_Args params, ctr_Env = envFromMap (jp_Env params)\<rparr>]\<rparr>,
      bj_Conditions = []\<rparr>"

definition JobEngine_Materialize :: "env \<Rightarrow> Operation \<Rightarrow> ApplicationInstance \<Rightarrow> go_error option prog" where
  "JobEngine_Materialize E op target =
     (case parseJobParameters op of
        Inl err \<Rightarrow> State_Monad.return (Some err)
      | Inr params \<Rightarrow>
          if jp_Image params = ''''
          then State_Monad.return (Some (Errorf ''parameters.image is required''))
          else let ns = targetNamespace target
               in createMaterializedJob E op (jobFor op ns params) ns)"

definition JobEngine_Status :: "env \<Rightarrow> Operation \<Rightarrow> EngineStatus result prog" where
  "JobEngine_Status E op = do {
     loc \<leftarrow> resolveEngineLocationForStatus E op (findJobLocationByOperationLabel E);
     case loc of
       Inl err \<Rightarrow> State_Monad.return (Inl err)
     | Inr (ns, name) \<Rightarrow> do {
         job \<leftarrow> ask (get_job E) (GetJob ns name);
         State_Monad.return
           (case job of
              Inl err \<Rightarrow>
                if IsNotFound err then Inl ErrWorkloadMissing else Inl (Wrapf ''get job: '' err [])
            | Inr job \<Rightarrow>
                (case verifyOperationOwnership (Labels (bj_meta job)) op of
                   Some err \<Rightarrow> Inl err
                 | None \<Rightarrow> Inr (statusFromJob job)))
       }
   }"

definition JobEngine_Cancel :: "env \<Rightarrow> Operation \<Rightarrow> go_error option prog" where
  "JobEngine_Cancel E op = do {
     loc \<leftarrow> resolveEngineLocationForCancel E op;
     case loc of
       Inl err \<Rightarrow> State_Monad.return (Some err)
     | Inr (ns, name, skip) \<Rightarrow>
         if skip then deleteJobsLabeledByOperation E op
         else do {
           job \<leftarrow> ask (get_job E) (GetJob ns name);
           case job of
             Inl err \<Rightarrow>
               if IsNotFound err then deleteJobsLabeledByOperation E op
               else State_Monad.return (Some err)
           | Inr job \<Rightarrow> ask (write_result E) (DeleteJob job)
         }
   }"

definition JobEngine :: "env \<Rightarrow> Engine" where
  "JobEngine E =
     \<lparr>eng_Name = EngineJob, Materialize = JobEngine_Materialize E, eng_Status = JobEngine_Status E,
      Cancel = JobEngine_Cancel E\<rparr>"

section \<open>Helm hook jobs\<close>

abbreviation helmHookNameLabel :: string where "helmHookNameLabel \<equiv> ''ops.vworkspace.io/hook-name''"

record helmHookJobParameters =
  hp_HookName :: string
  hp_Image :: string
  hp_Command :: "string list"
  hp_Args :: "string list"
  hp_ServiceAccountName :: string
  hp_BackoffLimit :: "int option"
  hp_ActiveDeadlineSeconds :: "int option"
  hp_TTLSecondsAfterFinished :: "int option"

definition helmHookJobParameters0 :: helmHookJobParameters where
  "helmHookJobParameters0 = \<lparr>hp_HookName = '''', hp_Image = '''', hp_Command = [], hp_Args = [],
     hp_ServiceAccountName = '''', hp_BackoffLimit = None, hp_ActiveDeadlineSeconds = None,
     hp_TTLSecondsAfterFinished = None\<rparr>"

definition hook_fields :: "helmHookJobParameters fields" where
  "hook_fields =
     [(''hookName'', dec_string hp_HookName_update), (''image'', dec_string hp_Image_update),
      (''command'', dec_strings hp_Command_update), (''args'', dec_strings hp_Args_update),
      (''serviceAccountName'', dec_string hp_ServiceAccountName_update),
      (''backoffLimit'', dec_int_ptr 32 hp_BackoffLimit_update),
      (''activeDeadlineSeconds'', dec_int_ptr 64 hp_ActiveDeadlineSeconds_update),
      (''ttlSecondsAfterFinished'', dec_int_ptr 32 hp_TTLSecondsAfterFinished_update)]"

definition parseHelmHookJobParameters :: "Operation \<Rightarrow> helmHookJobParameters result" where
  "parseHelmHookJobParameters op =
     (case Parameters (op_Spec op) of
        None \<Rightarrow> Inr helmHookJobParameters0
      | Some raw \<Rightarrow> decode_params ''decode helmHookJob parameters: '' hook_fields raw helmHookJobParameters0)"

definition hp_serviceAccountName :: "helmHookJobParameters \<Rightarrow> string" where
  "hp_serviceAccountName p =
     (if hp_ServiceAccountName p \<noteq> '''' then hp_ServiceAccountName p else defaultJobServiceAccount)"

definition hp_ttlSecondsAfterFinished :: "helmHookJobParameters \<Rightarrow> int option" where
  "hp_ttlSecondsAfterFinished p =
     (case hp_TTLSecondsAfterFinished p of Some ttl \<Rightarrow> Some ttl | None \<Rightarrow> Some 86400)"

definition hookJobFor :: "Operation \<Rightarrow> string \<Rightarrow> helmHookJobParameters \<Rightarrow> BatchJob" where
  "hookJobFor op ns params =
     \<lparr>bj_meta = applyOperationLabels
        (meta0\<lparr>Namespace := ns, Labels := [helmHookNameLabel \<mapsto> hp_HookName params],
               Annotations := [''helm.sh/hook'' \<mapsto> hp_HookName params]\<rparr>) op,
      BackoffLimit = hp_BackoffLimit params,
      ActiveDeadlineSeconds = hp_ActiveDeadlineSeconds params,
      TTLSecondsAfterFinished = hp_ttlSecondsAfterFinished params,
      PodSpec =
        \<lparr>pod_meta = applyOperationLabels
           (meta0\<lparr>Labels := [helmHookNameLabel \<mapsto> hp_HookName params]\<rparr>) op,
         RestartPolicy = ''Never'', ServiceAccountName = hp_serviceAccountName params,
         Containers =
           [\<lparr>ctr_Name = ''hook'', ctr_Image = hp_Image params, ctr_Command = hp_Command params,
             ctr_Args = hp_Args params, ctr_Env = []\<rparr>]\<rparr>,
      bj_Conditions = []\<rparr>"

definition HelmHookJobEngine_Materialize ::
  "env \<Rightarrow> Operation \<Rightarrow> ApplicationInstance \<Rightarrow> go_error option prog" where
  "HelmHookJobEngine_Materialize E op target =
     (case parseHelmHookJobParameters op of
        Inl err \<Rightarrow> State_Monad.return (Some err)
      | Inr params \<Rightarrow>
          if hp_HookName params = ''''
          then State_Monad.return (Some (Errorf ''parameters.hookName is required''))
          else if hp_Image params = ''''
          then State_Monad.return (Some (Errorf
                 ''parameters.image is required until hook template resolution is implemented''))
          else let ns = targetNamespace target
               in createMaterializedJob E op (hookJobFor op ns params) ns)"

definition hookStatusFromJob :: "Operation \<Rightarrow> BatchJob \<Rightarrow> EngineStatus result" where
  "hookStatusFromJob op job =
     (case verifyOperationOwnership (Labels (bj_meta job)) op of
        Some err \<Rightarrow> Inl err
      | None \<Rightarrow>
          (let status = statusFromJob job
           in Inr (status\<lparr>st_Outputs := map_put ''jobName'' (Name (bj_meta job)) (st_Outputs status)\<rparr>)))"

definition HelmHookJobEngine_Status :: "env \<Rightarrow> Operation \<Rightarrow> EngineStatus result prog" where
  "HelmHookJobEngine_Status E op = do {
     loc \<leftarrow> resolveEngineLocationForStatus E op (findJobLocationByOperationLabel E);
     case loc of
       Inl err \<Rightarrow> State_Monad.return (Inl err)
     | Inr (ns, name) \<Rightarrow> do {
         job \<leftarrow> ask (get_job E) (GetJob ns name);
         State_Monad.return
           (case job of
              Inl err \<Rightarrow>
                if IsNotFound err then Inl ErrWorkloadMissing else Inl (Wrapf ''get hook job: '' err [])
            | Inr job \<Rightarrow> hookStatusFromJob op job)
       }
   }"

definition HelmHookJobEngine_Cancel :: "env \<Rightarrow> Operation \<Rightarrow> go_error option prog" where
  "HelmHookJobEngine_Cancel E op = do {
     loc \<leftarrow> resolveEngineLocationForCancel E op;
     case loc of
       Inl err \<Rightarrow> State_Monad.return (Some err)
     | Inr (ns, name, skip) \<Rightarrow>
         if skip then deleteJobsLabeledByOperation E op
         else do {
           job \<leftarrow> ask (get_job E) (GetJob ns name);
           case job of
             Inl err \<Rightarrow>
               if IsNotFound err then deleteJobsLabeledByOperation E op
               else State_Monad.return (Some err)
           | Inr job \<Rightarrow> ask (write_result E) (DeleteJob job)
         }
   }"

definition HelmHookJobEngine :: "env \<Rightarrow> Engine" where
  "HelmHookJobEngine E =
     \<lparr>eng_Name = EngineHelmHookJob, Materialize = HelmHookJobEngine_Materialize E,
      eng_Status = HelmHookJobEngine_Status E, Cancel = HelmHookJobEngine_Cancel E\<rparr>"

section \<open>The contract\<close>

lemma statusFromJobConditions_coherent: "coherent (statusFromJobConditions name conds)"
  by (induction conds) simp_all

lemma hookStatus_coherent: "hookStatusFromJob op job = Inr s \<Longrightarrow> coherent s"
  using statusFromJobConditions_coherent [of "Name (bj_meta job)" "bj_Conditions job"]
  by (auto simp: hookStatusFromJob_def statusFromJob_def Let_def split: option.splits)

lemma JobEngine_Status_wp:
  "wp (JobEngine_Status E op) (\<lambda>r _. \<forall>s. r = Inr s \<longrightarrow> coherent s) w"
  unfolding JobEngine_Status_def wp_bind
  by (rule wp_mono [OF wp_run])
     (auto simp: wp_rules statusFromJob_def statusFromJobConditions_coherent
       split: sum.splits option.splits if_splits)

lemma HelmHookJobEngine_Status_wp:
  "wp (HelmHookJobEngine_Status E op) (\<lambda>r _. \<forall>s. r = Inr s \<longrightarrow> coherent s) w"
  unfolding HelmHookJobEngine_Status_def wp_bind
  by (rule wp_mono [OF wp_run])
     (auto simp: wp_rules hookStatus_coherent split: sum.splits option.splits if_splits)

lemma JobEngine_emits:
  "emits is_read (JobEngine_Status E op) w"
  "emits (\<lambda>c. is_read c \<or> is_creation c) (JobEngine_Materialize E op target) w"
  "emits (\<lambda>c. is_read c \<or> is_deletion c) (JobEngine_Cancel E op) w"
  unfolding JobEngine_Status_def JobEngine_Materialize_def JobEngine_Cancel_def Let_def
  by (intro emits_rules; simp)+

lemma HelmHookJobEngine_emits:
  "emits is_read (HelmHookJobEngine_Status E op) w"
  "emits (\<lambda>c. is_read c \<or> is_creation c) (HelmHookJobEngine_Materialize E op target) w"
  "emits (\<lambda>c. is_read c \<or> is_deletion c) (HelmHookJobEngine_Cancel E op) w"
  unfolding HelmHookJobEngine_Status_def HelmHookJobEngine_Materialize_def
    HelmHookJobEngine_Cancel_def Let_def
  by (intro emits_rules; simp)+

interpretation job_engine: operation_engine "JobEngine E" for E
proof unfold_locales
  show "coherent s" if "run_state (eng_Status (JobEngine E) op) w = (Inr s, w')" for op w s w'
    using wpD [OF JobEngine_Status_wp] that by (fastforce simp: JobEngine_def)
qed (simp_all add: JobEngine_def JobEngine_emits)

interpretation hook_engine: operation_engine "HelmHookJobEngine E" for E
proof unfold_locales
  show "coherent s" if "run_state (eng_Status (HelmHookJobEngine E) op) w = (Inr s, w')" for op w s w'
    using wpD [OF HelmHookJobEngine_Status_wp] that by (fastforce simp: HelmHookJobEngine_def)
qed (simp_all add: HelmHookJobEngine_def HelmHookJobEngine_emits)

section \<open>Lemmas on parameters\<close>

lemma job_service_account:
  "unmarshal_struct job_fields doc jobParameters0 = Some p \<Longrightarrow>
   jp_ServiceAccountName p = doc_string ''serviceAccountName'' doc"
  by (erule unmarshal_struct_string_field [where upd = jp_ServiceAccountName_update])
     (auto simp: jobParameters0_def job_fields_def lower_char_def dec_defs
       split: json.splits if_splits)

lemma hook_service_account:
  "unmarshal_struct hook_fields doc helmHookJobParameters0 = Some p \<Longrightarrow>
   hp_ServiceAccountName p = doc_string ''serviceAccountName'' doc"
  by (erule unmarshal_struct_string_field [where upd = hp_ServiceAccountName_update])
     (auto simp: helmHookJobParameters0_def hook_fields_def lower_char_def dec_defs
       split: json.splits if_splits)

lemma job_account_confined:
  assumes "ValidateRuntimeParameters op = None" and "os_Engine (op_Spec op) = EngineJob"
    and "parseJobParameters op = Inr p"
  shows "jp_serviceAccountName p = DefaultOperationRunnerServiceAccount"
proof (cases "Parameters (op_Spec op)")
  case None
  with assms(3) show ?thesis
    by (auto simp: parseJobParameters_def jp_serviceAccountName_def jobParameters0_def)
next
  case (Some raw)
  with assms(3) obtain doc where "json_Unmarshal raw = Some doc"
    "unmarshal_struct job_fields doc jobParameters0 = Some p"
    by (auto simp: parseJobParameters_def decode_params_Inr)
  then have "jp_ServiceAccountName p \<in> {'''', DefaultOperationRunnerServiceAccount}"
    using job_service_account [of doc p] validated_service_account [OF assms(1) _ Some, of doc]
    by (simp only: assms(2) insertI1 insertI2 simp_thms)
  then show ?thesis by (auto simp: jp_serviceAccountName_def)
qed

lemma hook_account_confined:
  assumes "ValidateRuntimeParameters op = None" and "os_Engine (op_Spec op) = EngineHelmHookJob"
    and "parseHelmHookJobParameters op = Inr p"
  shows "hp_serviceAccountName p = DefaultOperationRunnerServiceAccount"
proof (cases "Parameters (op_Spec op)")
  case None
  with assms(3) show ?thesis
    by (auto simp: parseHelmHookJobParameters_def hp_serviceAccountName_def helmHookJobParameters0_def)
next
  case (Some raw)
  with assms(3) obtain doc where "json_Unmarshal raw = Some doc"
    "unmarshal_struct hook_fields doc helmHookJobParameters0 = Some p"
    by (auto simp: parseHelmHookJobParameters_def decode_params_Inr)
  then have "hp_ServiceAccountName p \<in> {'''', DefaultOperationRunnerServiceAccount}"
    using hook_service_account [of doc p] validated_service_account [OF assms(1) _ Some, of doc]
    by (simp only: assms(2) insertI1 insertI2 simp_thms)
  then show ?thesis by (auto simp: hp_serviceAccountName_def)
qed

text \<open>A run that ends with the creation of a job created the one the operation asks for.\<close>

lemma created_job_owned:
  assumes "owner_laws E" and "run_state (createMaterializedJob E op job ns) w = (r, w1)"
    and "hist w1 = CreateJob j # h" and "Labels (bj_meta job) = Labels (applyOperationLabels m op)"
  shows "verifyOperationOwnership (Labels (bj_meta j)) op = None"
  using assms
  by (auto simp: createMaterializedJob_def go_run labels_owned
      dest!: owner_ref_keeps_meta [OF _ assms(1)] split: sum.splits if_splits)

section \<open>Properties\<close>

text \<open>Environment variables of a job are listed in strictly increasing order of their names
  and carry exactly the entries of the parameter map.\<close>

theorem envFromMap_sorted_complete:
  assumes "distinct (map fst m)"
  shows "sorted (map env_Name (envFromMap (Some m))) \<and> distinct (map env_Name (envFromMap (Some m)))
         \<and> set (map (\<lambda>e. (env_Name e, env_Value e)) (envFromMap (Some m))) = set m"
proof -
  have "go_get (map_of m) k = v" if "(k, v) \<in> set m" for k v
    using assms that by (simp add: go_get_def)
  then show ?thesis
    using assms by (force simp: envFromMap_def comp_def go_get_def)
qed

text \<open>A job is reported finished exactly when one of its conditions Complete or Failed is true,
  and the first such condition decides between success and failure.\<close>

theorem statusFromJob_terminal:
  "(Done (statusFromJob job) \<longleftrightarrow>
      (\<exists>c \<in> set (bj_Conditions job). jc_Type c \<in> {''Complete'', ''Failed''} \<and> jc_Status c = ''True''))
   \<and> (Failed (statusFromJob job) \<longleftrightarrow>
      map_option jc_Type (find (\<lambda>c. jc_Type c \<in> {''Complete'', ''Failed''} \<and> jc_Status c = ''True'')
          (bj_Conditions job)) = Some ''Failed'')"
proof -
  have "(Done (statusFromJobConditions name cs) \<longleftrightarrow>
      (\<exists>c \<in> set cs. jc_Type c \<in> {''Complete'', ''Failed''} \<and> jc_Status c = ''True''))
    \<and> (Failed (statusFromJobConditions name cs) \<longleftrightarrow>
      map_option jc_Type (find (\<lambda>c. jc_Type c \<in> {''Complete'', ''Failed''} \<and> jc_Status c = ''True'') cs)
        = Some ''Failed'')" for name cs
    by (induction cs) auto
  then show ?thesis by (simp add: statusFromJob_def)
qed

text \<open>C30: the jobs a validated RunCommand operation creates are named and placed for that operation,
  carry its ownership label and run under the operation runner's service account; apart from
  creating such a job, materializing only reads.\<close>

theorem run_command_job_confined:
  assumes "owner_laws E" and "ValidateRuntimeParameters op = None" and "os_Engine (op_Spec op) = EngineJob"
  shows "emits (\<lambda>c. is_read c \<or> (\<exists>j. c = CreateJob j
           \<and> Name (bj_meta j) = materializedName op \<and> Namespace (bj_meta j) = targetNamespace target
           \<and> verifyOperationOwnership (Labels (bj_meta j)) op = None
           \<and> ServiceAccountName (PodSpec j) = DefaultOperationRunnerServiceAccount))
         (Materialize (JobEngine E) op target) w"
  unfolding JobEngine_def Engine.simps JobEngine_Materialize_def Let_def
  by (intro emits_rules)
     (auto simp: jobFor_def labels_owned job_account_confined [OF assms(2,3)]
       dest!: owner_ref_keeps_meta [OF _ assms(1)])

text \<open>C31: materializing again after the job was created succeeds without another write, when the
  server returns the created job.\<close>

theorem job_materialize_idempotent:
  assumes "owner_laws E"
    and "run_state (Materialize (JobEngine E) op target) w = (None, w1)"
    and "hist w1 = CreateJob j # h"
    and "get_job E (GetJob (targetNamespace target) (materializedName op) # hist w2) = Inr j"
  shows "run_state (Materialize (JobEngine E) op target) w2 =
         (None, w2\<lparr>hist := GetJob (targetNamespace target) (materializedName op) # hist w2\<rparr>)"
proof -
  obtain params where params: "parseJobParameters op = Inr params" "jp_Image params \<noteq> ''''"
    and run: "run_state (createMaterializedJob E op (jobFor op (targetNamespace target) params)
                (targetNamespace target)) w = (None, w1)"
    using assms(2)
    by (auto simp: JobEngine_def JobEngine_Materialize_def Let_def split: sum.splits if_splits)
  have "verifyOperationOwnership (Labels (bj_meta j)) op = None"
    by (rule created_job_owned [OF assms(1) run assms(3)]) (simp add: jobFor_def)
  with params assms(4) show ?thesis
    by (simp add: JobEngine_def JobEngine_Materialize_def createMaterializedJob_def go_run)
qed

text \<open>Cancelling deletes the job found at the operation's place even when its ownership label
  names another operation, although status checks that label.\<close>

theorem cancel_deletes_foreign_job:
  assumes "ost_EngineRef (op_Status op) = None"
    and "get_app E (GetApplicationInstance (Namespace (op_meta op)) (tr_Name (os_TargetRef (op_Spec op)))
           # hist w) = Inr target"
    and "get_job E (GetJob (targetNamespace target) (materializedName op)
           # GetApplicationInstance (Namespace (op_meta op)) (tr_Name (os_TargetRef (op_Spec op))) # hist w)
         = Inr job"
    and "verifyOperationOwnership (Labels (bj_meta job)) op \<noteq> None"
  shows "DeleteJob job \<in> set (hist (snd (run_state (Cancel (JobEngine E) op) w)))
         \<and> (\<exists>e w'. run_state (eng_Status (JobEngine E) op) w = (Inl e, w') \<and> errors_Is e ErrWorkloadOwnership)"
  using assms
  by (auto simp: JobEngine_def JobEngine_Cancel_def JobEngine_Status_def
      resolveEngineLocationForCancel_def resolveEngineLocationForStatus_def
      resolveEngineLocationDetailed_def go_run verifyOperationOwnership_def ErrWorkloadOwnership_def
      split: if_splits)

text \<open>A RunCommand operation whose parameters pass the template's schema and have an
  environment cannot be materialized: the schema wants a list, the engine decodes a map.\<close>

theorem admitted_env_not_materializable:
  assumes "schema_sound compile"
    and "ValidateParameters compile OperationTypeRunCommand EngineJob raw = None"
    and "Parameters (op_Spec op) = Some raw" and "TrimSpace raw \<noteq> ''''"
    and "json_Unmarshal raw = Some (JObject kvs)" and "''env'' \<in> set (map fst kvs)"
  shows "\<exists>err. run_state (Materialize (JobEngine E) op target) w = (Some err, w)"
proof -
  have "InputSchema (Ref (builtin ! 4)) = Some schemaRunCommandJob"
    by (simp add: InputSchema_def builtin_def)
  from ValidateParameters_accepts [OF assms(1) Lookup_builtin(5) this assms(2)] assms(4,5)
  have ok: "schema_ok schemaRunCommandJob (go_any (JObject kvs))" by simp
  obtain v where v: "(''env'', v) \<in> set kvs"
    and last: "map_of (last_wins (map (\<lambda>(k, v). (k, go_any v)) kvs)) ''env'' = Some (go_any v)"
    using go_any_member [OF assms(6)] by blast
  have "schema_ok schemaRunCommandEnv (go_any v)"
    by (rule schemaRunCommandJob_env [OF ok [unfolded go_any.simps] last])
  from schema_ok_type [OF this [unfolded schemaRunCommandEnv_def], of "''array''"]
  have "type_ok ''array'' (go_any v)" by simp
  then obtain js where "v = JArray js" using type_ok_array by blast
  then have "decode_entry job_fields ''env'' v b = None" for b
    by (simp add: decode_entry_def job_fields_def find_field_def dec_string_map_def)
  then have "decode_entries job_fields kvs jobParameters0 = None"
    by (rule decode_entries_bad_member [OF v])
  then show ?thesis
    using assms(3,5)
    by (simp add: JobEngine_def JobEngine_Materialize_def parseJobParameters_def decode_params_def
        unmarshal_struct_def)
qed

section \<open>Witnesses\<close>

definition demo_job_op :: "string \<Rightarrow> Operation" where
  "demo_job_op raw =
     (let op = demo_op ''run'' ''RunCommand'' '''' in
      op\<lparr>op_meta := (op_meta op)\<lparr>UID := ''uid-1''\<rparr>,
         op_Spec := (op_Spec op)\<lparr>os_Engine := EngineJob, Parameters := Some raw\<rparr>\<rparr>)"

definition demo_raw :: string where
  "demo_raw = ''{'' @ json_string ''image'' @ '':'' @ json_string ''busybox'' @ ''}''"

definition demo_env_raw :: string where
  "demo_env_raw = ''{'' @ json_string ''image'' @ '':'' @ json_string ''busybox'' @ '','' @ json_string ''env'' @ '':[]}''"

lemma demo_raw_parses: "json_Unmarshal demo_raw = Some (JObject [(''image'', JString ''busybox'')])"
  by code_simp

lemma demo_job_validated: "ValidateRuntimeParameters (demo_job_op demo_raw) = None"
  by code_simp

theorem envFromMap_sorted_complete_witness:
  "map env_Name (envFromMap (Some [(''B'', ''2''), (''A'', ''1'')])) = [''A'', ''B'']"
  using envFromMap_sorted_complete [of "[(''B'', ''2''), (''A'', ''1'')]"]
  by (simp add: envFromMap_def)


text \<open>A server that finds the jobs it was asked to create.\<close>

fun created_job :: "string \<Rightarrow> string \<Rightarrow> history \<Rightarrow> BatchJob option" where
  "created_job ns name [] = None"
| "created_job ns name (CreateJob j # h) =
     (if Namespace (bj_meta j) = ns \<and> Name (bj_meta j) = name then Some j else created_job ns name h)"
| "created_job ns name (_ # h) = created_job ns name h"

definition job_server :: env where
  "job_server = demo_env\<lparr>get_job := (\<lambda>h. case h of
       GetJob ns name # h' \<Rightarrow>
         (case created_job ns name h' of Some j \<Rightarrow> Inr j | None \<Rightarrow> Inl (ApiStatus NotFound ''not found''))
     | _ \<Rightarrow> Inl (Errorf ''no request'')),
     get_app := (\<lambda>_. Inr demo_app)\<rparr>"

lemma job_server_owner_laws: "owner_laws job_server"
  using demo_owner_laws by (simp add: owner_laws_def job_server_def)

lemma demo_job_parses: "parseJobParameters (demo_job_op demo_raw) = Inr (jobParameters0\<lparr>jp_Image := ''busybox''\<rparr>)"
  by code_simp

definition demo_job :: BatchJob where
  "demo_job = (let j = jobFor (demo_job_op demo_raw) ''apps'' (jobParameters0\<lparr>jp_Image := ''busybox''\<rparr>)
     in j\<lparr>bj_meta := (bj_meta j)\<lparr>Name := ''ns--run''\<rparr>\<rparr>)"

lemma demo_names:
  "materializedName (demo_job_op raw) = ''ns--run''" "targetNamespace demo_app = ''apps''"
  "Namespace (op_meta (demo_job_op raw)) = ''ns''" "op_UID (demo_job_op raw) = ''uid-1''"
  "ost_EngineRef (op_Status (demo_job_op raw)) = None"
  by (simp_all add: materializedName_def demo_job_op_def demo_op_def targetNamespace_def demo_app_def)

lemma demo_job_run:
  "run_state (Materialize (JobEngine job_server) (demo_job_op demo_raw) demo_app) demo_world =
     (None, demo_world\<lparr>hist := [CreateJob demo_job, GetJob ''apps'' ''ns--run'']\<rparr>)"
  unfolding JobEngine_def Engine.simps JobEngine_Materialize_def demo_job_parses sum.case
  by (simp add: createMaterializedJob_def demo_names go_run job_server_def demo_env_def demo_world_def
      setOwnerReferenceIfSameNamespace_def demo_job_def)

theorem job_materialize_idempotent_witness:
  "run_state (Materialize (JobEngine job_server) (demo_job_op demo_raw) demo_app)
     (demo_world\<lparr>hist := [CreateJob demo_job, GetJob ''apps'' ''ns--run'']\<rparr>) =
   (None, demo_world\<lparr>hist := [GetJob ''apps'' ''ns--run'', CreateJob demo_job, GetJob ''apps'' ''ns--run'']\<rparr>)"
proof -
  have "Namespace (bj_meta demo_job) = ''apps'' \<and> Name (bj_meta demo_job) = ''ns--run''"
    by (simp add: demo_job_def jobFor_def)
  then show ?thesis
    using job_materialize_idempotent [OF job_server_owner_laws demo_job_run,
        of demo_job "[GetJob ''apps'' ''ns--run'']" "demo_world\<lparr>hist := [CreateJob demo_job, GetJob ''apps'' ''ns--run'']\<rparr>"]
    by (simp add: demo_names job_server_def)
qed

theorem run_command_job_confined_witness:
  "ServiceAccountName (PodSpec demo_job) = DefaultOperationRunnerServiceAccount"
proof -
  have eng: "os_Engine (op_Spec (demo_job_op demo_raw)) = EngineJob" by (simp add: demo_job_op_def demo_op_def)
  from emitsD [OF run_command_job_confined [OF job_server_owner_laws demo_job_validated eng] demo_job_run]
  show ?thesis by (auto simp: demo_world_def)
qed

definition foreign_server :: env where
  "foreign_server = job_server\<lparr>get_job := (\<lambda>_. Inr (demo_job\<lparr>bj_meta :=
     (bj_meta demo_job)\<lparr>Labels := [OperationLabelKey \<mapsto> ''uid-2'']\<rparr>\<rparr>))\<rparr>"

theorem cancel_deletes_foreign_job_witness:
  "\<exists>job. Labels (bj_meta job) OperationLabelKey = Some ''uid-2''
     \<and> DeleteJob job \<in> set (hist (snd (run_state (Cancel (JobEngine foreign_server) (demo_job_op demo_raw)) demo_world)))"
proof -
  let ?j = "demo_job\<lparr>bj_meta := (bj_meta demo_job)\<lparr>Labels := [OperationLabelKey \<mapsto> ''uid-2'']\<rparr>\<rparr>"
  have "verifyOperationOwnership (Labels (bj_meta ?j)) (demo_job_op demo_raw) \<noteq> None"
    by (simp add: verifyOperationOwnership_def demo_names go_get_def)
  then show ?thesis
    using cancel_deletes_foreign_job [of "demo_job_op demo_raw" foreign_server demo_world demo_app ?j]
    by (intro exI [of _ ?j]) (simp add: demo_names foreign_server_def job_server_def)
qed

theorem admitted_env_not_materializable_witness:
  "ValidateParameters plain_compile OperationTypeRunCommand EngineJob demo_env_raw = None
   \<and> (\<exists>err. run_state (Materialize (JobEngine job_server) (demo_job_op demo_env_raw) demo_app) demo_world
        = (Some err, demo_world))"
proof -
  have "json_Unmarshal demo_env_raw = Some (JObject [(''image'', JString ''busybox''), (''env'', JArray [])])"
    by code_simp
  moreover have "ValidateParameters plain_compile OperationTypeRunCommand EngineJob demo_env_raw = None"
    by code_simp
  moreover have "TrimSpace demo_env_raw \<noteq> ''''" by code_simp
  moreover have "Parameters (op_Spec (demo_job_op demo_env_raw)) = Some demo_env_raw"
    by (simp add: demo_job_op_def demo_op_def)
  ultimately show ?thesis
    using admitted_env_not_materializable [OF plain_compile_sound] by simp
qed

end
