(* ===== verification/Engine_Objects.thy ===== *)
theory Engine_Objects
  imports Engines_Common
begin

text \<open>
  The engines whose workloads are custom resources, handled as unstructured objects:
  \<^verbatim>\<open>WorkflowEngine\<close> (\<^verbatim>\<open>internal/engines/workflow.go\<close>) creates Argo Workflows,
  \<^verbatim>\<open>VeleroEngine\<close> (\<^verbatim>\<open>velero.go\<close>) creates or updates Velero Backups and Restores, and
  \<^verbatim>\<open>HelmEngine\<close> (\<^verbatim>\<open>helm.go\<close>) patches the HelmRelease of the target. All three interpret the
  engine contract. The mutation each passes to \<^verbatim>\<open>CreateOrUpdate\<close> is a function of its own.
\<close>

section \<open>Workflows\<close>

record workflowParameters =
  wfp_WorkflowTemplate :: string
  wfp_Template :: string
  wfp_WorkflowTemplateParameters :: "(string \<times> string) list option"
  wfp_ServiceAccountName :: string

definition workflowParameters0 :: workflowParameters where
  "workflowParameters0 = \<lparr>wfp_WorkflowTemplate = '''', wfp_Template = '''',
     wfp_WorkflowTemplateParameters = None, wfp_ServiceAccountName = ''''\<rparr>"

definition workflow_fields :: "workflowParameters fields" where
  "workflow_fields =
     [(''workflowTemplate'', dec_string wfp_WorkflowTemplate_update),
      (''template'', dec_string wfp_Template_update),
      (''workflowTemplateParameters'',
        dec_string_map wfp_WorkflowTemplateParameters_update wfp_WorkflowTemplateParameters),
      (''serviceAccountName'', dec_string wfp_ServiceAccountName_update)]"

definition parseWorkflowParameters :: "Operation \<Rightarrow> workflowParameters result" where
  "parseWorkflowParameters op =
     (case Parameters (op_Spec op) of
        None \<Rightarrow> Inr workflowParameters0
      | Some raw \<Rightarrow> decode_params ''decode workflow parameters: '' workflow_fields raw workflowParameters0)"

definition wfp_templateName :: "workflowParameters \<Rightarrow> string" where
  "wfp_templateName p =
     (if wfp_WorkflowTemplate p \<noteq> '''' then wfp_WorkflowTemplate p else wfp_Template p)"

definition wfp_serviceAccountName :: "workflowParameters \<Rightarrow> string" where
  "wfp_serviceAccountName p =
     (if wfp_ServiceAccountName p \<noteq> '''' then wfp_ServiceAccountName p else defaultJobServiceAccount)"

definition workflowArguments :: "(string \<times> string) list option \<Rightarrow> json option" where
  "workflowArguments params =
     (case params of
        None \<Rightarrow> None
      | Some m \<Rightarrow>
          if m = [] then None
          else Some (JArray (map (\<lambda>k. JObject [(''name'', JString k), (''value'', JString (go_get (map_of m) k))])
                               (sort (map fst m)))))"

abbreviation workflow_gvk :: gvk where "workflow_gvk \<equiv> (argo_group, ''Workflow'')"

definition workflowFor :: "env \<Rightarrow> Operation \<Rightarrow> string \<Rightarrow> workflowParameters \<Rightarrow> Unstructured result" where
  "workflowFor E op ns params =
     (let m = applyOperationLabels (meta0\<lparr>Name := materializedName op, Namespace := ns\<rparr>) op in
      case setOwnerReferenceIfSameNamespace E op m ns of
        Inl err \<Rightarrow> Inl err
      | Inr m \<Rightarrow>
          (case set_nested_fields E (JObject [])
             [([''spec'', ''workflowTemplateRef''], Some (JObject [(''name'', JString (wfp_templateName params))])),
              ([''spec'', ''serviceAccountName''], str_field (wfp_serviceAccountName params)),
              ([''spec'', ''arguments'', ''parameters''],
                 workflowArguments (wfp_WorkflowTemplateParameters params))] of
             Inl err \<Rightarrow> Inl err
           | Inr obj \<Rightarrow> Inr \<lparr>u_gvk = workflow_gvk, u_meta = m, u_Object = obj\<rparr>))"

definition WorkflowEngine_Materialize ::
  "env \<Rightarrow> Operation \<Rightarrow> ApplicationInstance \<Rightarrow> go_error option prog" where
  "WorkflowEngine_Materialize E op target =
     (case parseWorkflowParameters op of
        Inl err \<Rightarrow> State_Monad.return (Some err)
      | Inr params \<Rightarrow>
          if wfp_templateName params = ''''
          then State_Monad.return (Some (Errorf ''parameters.workflowTemplate is required''))
          else let ns = targetNamespace target; name = materializedName op in do {
            existing \<leftarrow> ask (get_object E) (GetObject workflow_gvk ns name);
            case existing of
              Inr existing \<Rightarrow> State_Monad.return (verifyOperationOwnership (Labels (u_meta existing)) op)
            | Inl err \<Rightarrow>
                if \<not> IsNotFound err then State_Monad.return (Some (Wrapf ''get workflow: '' err []))
                else (case workflowFor E op ns params of
                        Inl err \<Rightarrow> State_Monad.return (Some err)
                      | Inr obj \<Rightarrow> do {
                          res \<leftarrow> ask (write_result E) (CreateObject obj);
                          State_Monad.return (case res of
                              Some err \<Rightarrow> Some (Wrapf ''create workflow: '' err [])
                            | None \<Rightarrow> None)
                        })
          })"

definition workflowStatus :: "env \<Rightarrow> Unstructured \<Rightarrow> EngineStatus" where
  "workflowStatus E obj =
     (let phase = NestedString E (u_Object obj) [''status'', ''phase''];
          outputs = [(''workflowName'', Name (u_meta obj))] in
      if phase = ''Succeeded'' then
        \<lparr>st_Phase = PhaseSucceeded, st_Reason = ''EngineCompleted'', st_Message = '''',
         st_Outputs = outputs, Done = True, Failed = False\<rparr>
      else if phase = ''Skipped'' then
        \<lparr>st_Phase = PhaseSucceeded, st_Reason = ''EngineSkipped'', st_Message = '''',
         st_Outputs = outputs, Done = True, Failed = False\<rparr>
      else if phase \<in> {''Failed'', ''Error'', ''Terminated''} then
        \<lparr>st_Phase = PhaseFailed, st_Reason = ''EngineFailed'',
         st_Message = NestedString E (u_Object obj) [''status'', ''message''],
         st_Outputs = outputs, Done = True, Failed = True\<rparr>
      else
        \<lparr>st_Phase = PhaseRunning, st_Reason = ''EngineStarted'', st_Message = '''',
         st_Outputs = outputs, Done = False, Failed = False\<rparr>)"

definition WorkflowEngine_Status :: "env \<Rightarrow> Operation \<Rightarrow> EngineStatus result prog" where
  "WorkflowEngine_Status E op = do {
     loc \<leftarrow> resolveEngineLocationForStatus E op (findWorkflowLocationByOperationLabel E);
     case loc of
       Inl err \<Rightarrow> State_Monad.return (Inl err)
     | Inr (ns, name) \<Rightarrow> do {
         obj \<leftarrow> ask (get_object E) (GetObject workflow_gvk ns name);
         State_Monad.return
           (case obj of
              Inl err \<Rightarrow>
                if IsNotFound err then Inl ErrWorkloadMissing else Inl (Wrapf ''get workflow: '' err [])
            | Inr obj \<Rightarrow>
                (case verifyOperationOwnership (Labels (u_meta obj)) op of
                   Some err \<Rightarrow> Inl err
                 | None \<Rightarrow> Inr (workflowStatus E obj)))
       }
   }"

definition WorkflowEngine_Cancel :: "env \<Rightarrow> Operation \<Rightarrow> go_error option prog" where
  "WorkflowEngine_Cancel E op = do {
     loc \<leftarrow> resolveEngineLocationForCancel E op;
     case loc of
       Inl err \<Rightarrow> State_Monad.return (Some err)
     | Inr (ns, name, skip) \<Rightarrow>
         if skip then deleteWorkflowsLabeledByOperation E op
         else do {
           obj \<leftarrow> ask (get_object E) (GetObject workflow_gvk ns name);
           case obj of
             Inl err \<Rightarrow>
               if IsNotFound err then deleteWorkflowsLabeledByOperation E op
               else State_Monad.return (Some err)
           | Inr obj \<Rightarrow> ask (write_result E) (DeleteObject obj)
         }
   }"

definition WorkflowEngine :: "env \<Rightarrow> Engine" where
  "WorkflowEngine E =
     \<lparr>eng_Name = EngineWorkflow, Materialize = WorkflowEngine_Materialize E,
      eng_Status = WorkflowEngine_Status E, Cancel = WorkflowEngine_Cancel E\<rparr>"

section \<open>Velero backups and restores\<close>

record veleroParameters =
  vp_Retention :: string
  vp_TTL :: string
  vp_SnapshotClassName :: string
  vp_CSISnapshotClassName :: string
  vp_SnapshotVolumes :: "bool option"
  vp_StorageLocation :: string
  vp_IncludedResources :: "string list"
  vp_ExcludedResources :: "string list"
  vp_BackupName :: string
  vp_NamespaceMapping :: "(string \<times> string) list option"
  vp_RestorePVs :: "bool option"
  vp_ExistingResourcePolicy :: string

definition veleroParameters0 :: veleroParameters where
  "veleroParameters0 = \<lparr>vp_Retention = '''', vp_TTL = '''', vp_SnapshotClassName = '''',
     vp_CSISnapshotClassName = '''', vp_SnapshotVolumes = None, vp_StorageLocation = '''',
     vp_IncludedResources = [], vp_ExcludedResources = [], vp_BackupName = '''',
     vp_NamespaceMapping = None, vp_RestorePVs = None, vp_ExistingResourcePolicy = ''''\<rparr>"

definition velero_fields :: "veleroParameters fields" where
  "velero_fields =
     [(''retention'', dec_string vp_Retention_update), (''ttl'', dec_string vp_TTL_update),
      (''snapshotClassName'', dec_string vp_SnapshotClassName_update),
      (''csiSnapshotClassName'', dec_string vp_CSISnapshotClassName_update),
      (''snapshotVolumes'', dec_bool_ptr vp_SnapshotVolumes_update),
      (''storageLocation'', dec_string vp_StorageLocation_update),
      (''includedResources'', dec_strings vp_IncludedResources_update),
      (''excludedResources'', dec_strings vp_ExcludedResources_update),
      (''backupName'', dec_string vp_BackupName_update),
      (''namespaceMapping'', dec_string_map vp_NamespaceMapping_update vp_NamespaceMapping),
      (''restorePVs'', dec_bool_ptr vp_RestorePVs_update),
      (''existingResourcePolicy'', dec_string vp_ExistingResourcePolicy_update)]"

definition backupTTL :: "veleroParameters \<Rightarrow> string" where
  "backupTTL p = (if vp_Retention p \<noteq> '''' then vp_Retention p else vp_TTL p)"

definition csiSnapshotClassName :: "veleroParameters \<Rightarrow> string" where
  "csiSnapshotClassName p =
     (if vp_CSISnapshotClassName p \<noteq> '''' then vp_CSISnapshotClassName p else vp_SnapshotClassName p)"

abbreviation DefaultVeleroNamespace :: string where "DefaultVeleroNamespace \<equiv> ''velero''"

definition veleroNamespace :: "string \<Rightarrow> string" where
  "veleroNamespace ns = (if ns = '''' then DefaultVeleroNamespace else ns)"

definition velero_gvk :: "string \<Rightarrow> gvk" where
  "velero_gvk kind = (''velero.io/v1'', kind)"

definition parseVeleroParameters :: "Operation \<Rightarrow> veleroParameters result" where
  "parseVeleroParameters op =
     (case Parameters (op_Spec op) of
        None \<Rightarrow> Inr veleroParameters0
      | Some raw \<Rightarrow> decode_params ''decode velero parameters: '' velero_fields raw veleroParameters0)"

definition outputKey :: "string \<Rightarrow> string" where
  "outputKey opType = (if opType = OperationTypeRestore then ''restoreName'' else ''backupName'')"

definition toStringMap :: "(string \<times> string) list \<Rightarrow> json" where
  "toStringMap m = JObject (map (\<lambda>(k, v). (k, JString v)) m)"

text \<open>The part both mutations start with: labels, and the owner reference in one namespace.\<close>

definition claimVeleroObject :: "env \<Rightarrow> Operation \<Rightarrow> Unstructured \<Rightarrow> ObjectMeta result" where
  "claimVeleroObject E op obj =
     (let m = applyOperationLabels (u_meta obj) op in
      if Namespace (op_meta op) = Namespace m then SetOwnerReference E (op_meta op) m else Inr m)"

definition mutateVeleroObject ::
  "env \<Rightarrow> Operation \<Rightarrow> (string list \<times> json option) list \<Rightarrow> Unstructured \<Rightarrow> Unstructured result" where
  "mutateVeleroObject E op updates obj =
     (case claimVeleroObject E op obj of
        Inl err \<Rightarrow> Inl err
      | Inr m \<Rightarrow>
          (case set_nested_fields E (u_Object obj) updates of
             Inl err \<Rightarrow> Inl err
           | Inr j \<Rightarrow> Inr (obj\<lparr>u_meta := m, u_Object := j\<rparr>)))"

definition backupFields :: "string \<Rightarrow> veleroParameters \<Rightarrow> (string list \<times> json option) list" where
  "backupFields includedNS params =
     [([''spec'', ''includedNamespaces''], Some (JArray [JString includedNS])),
      ([''spec'', ''storageLocation''],
         Some (JString (if vp_StorageLocation params = '''' then ''default'' else vp_StorageLocation params))),
      ([''spec'', ''snapshotVolumes''], map_option JBool (vp_SnapshotVolumes params)),
      ([''spec'', ''csiSnapshotClassName''], str_field (csiSnapshotClassName params)),
      ([''spec'', ''includedResources''], strs_field (vp_IncludedResources params)),
      ([''spec'', ''excludedResources''], strs_field (vp_ExcludedResources params)),
      ([''spec'', ''ttl''], str_field (backupTTL params))]"

definition restoreFields :: "veleroParameters \<Rightarrow> (string list \<times> json option) list" where
  "restoreFields params =
     [([''spec'', ''backupName''], Some (JString (vp_BackupName params))),
      ([''spec'', ''namespaceMapping''], map_option toStringMap (vp_NamespaceMapping params)),
      ([''spec'', ''restorePVs''], map_option JBool (vp_RestorePVs params)),
      ([''spec'', ''existingResourcePolicy''], str_field (vp_ExistingResourcePolicy params)),
      ([''spec'', ''includedResources''], strs_field (vp_IncludedResources params)),
      ([''spec'', ''excludedResources''], strs_field (vp_ExcludedResources params))]"

definition veleroObject :: "string \<Rightarrow> string \<Rightarrow> Operation \<Rightarrow> Unstructured" where
  "veleroObject ns kind op =
     \<lparr>u_gvk = velero_gvk kind,
      u_meta = meta0\<lparr>Name := Name (op_meta op), Namespace := veleroNamespace ns\<rparr>,
      u_Object = JObject []\<rparr>"

definition materializeBackup ::
  "env \<Rightarrow> string \<Rightarrow> Operation \<Rightarrow> ApplicationInstance \<Rightarrow> veleroParameters \<Rightarrow> go_error option prog" where
  "materializeBackup E ns op target params =
     CreateOrUpdate E (veleroObject ns ''Backup'' op)
       (mutateVeleroObject E op (backupFields (targetNamespace target) params))"

definition materializeRestore ::
  "env \<Rightarrow> string \<Rightarrow> Operation \<Rightarrow> ApplicationInstance \<Rightarrow> veleroParameters \<Rightarrow> go_error option prog" where
  "materializeRestore E ns op target params =
     (if vp_BackupName params = ''''
      then State_Monad.return (Some (Errorf ''parameters.backupName is required for restore operations''))
      else CreateOrUpdate E (veleroObject ns ''Restore'' op) (mutateVeleroObject E op (restoreFields params)))"

definition VeleroEngine_Materialize ::
  "env \<Rightarrow> string \<Rightarrow> Operation \<Rightarrow> ApplicationInstance \<Rightarrow> go_error option prog" where
  "VeleroEngine_Materialize E ns op target =
     (case parseVeleroParameters op of
        Inl err \<Rightarrow> State_Monad.return (Some err)
      | Inr params \<Rightarrow>
          if os_Type (op_Spec op) = OperationTypeBackup then materializeBackup E ns op target params
          else if os_Type (op_Spec op) = OperationTypeRestore then materializeRestore E ns op target params
          else State_Monad.return (Some (Errorf
                 (''velero engine does not support operation type '' @ Quote (os_Type (op_Spec op))))))"

definition veleroStatus :: "env \<Rightarrow> Operation \<Rightarrow> Unstructured \<Rightarrow> EngineStatus" where
  "veleroStatus E op obj =
     (let phase = NestedString E (u_Object obj) [''status'', ''phase''] in
      if phase = ''Completed'' then
        \<lparr>st_Phase = PhaseSucceeded, st_Reason = ''EngineCompleted'', st_Message = '''',
         st_Outputs = [(outputKey (os_Type (op_Spec op)), Name (op_meta op))], Done = True, Failed = False\<rparr>
      else if phase \<in> {''Failed'', ''PartiallyFailed''} then
        \<lparr>st_Phase = PhaseFailed, st_Reason = ''EngineFailed'',
         st_Message = NestedString E (u_Object obj) [''status'', ''failureReason''],
         st_Outputs = [], Done = True, Failed = True\<rparr>
      else
        \<lparr>st_Phase = PhaseRunning, st_Reason = ''EngineStarted'', st_Message = '''',
         st_Outputs = [], Done = False, Failed = False\<rparr>)"

definition veleroKind :: "Operation \<Rightarrow> string" where
  "veleroKind op = (if os_Type (op_Spec op) = OperationTypeRestore then ''Restore'' else ''Backup'')"

definition VeleroEngine_Status :: "env \<Rightarrow> string \<Rightarrow> Operation \<Rightarrow> EngineStatus result prog" where
  "VeleroEngine_Status E ns op = do {
     obj \<leftarrow> ask (get_object E) (GetObject (velero_gvk (veleroKind op)) (veleroNamespace ns) (Name (op_meta op)));
     State_Monad.return
       (case obj of
          Inl err \<Rightarrow> Inl (Wrapf ''get velero resource: '' err [])
        | Inr obj \<Rightarrow> Inr (veleroStatus E op obj))
   }"

definition deleteVeleroCRsLabeledByOperation :: "env \<Rightarrow> Operation \<Rightarrow> string \<Rightarrow> go_error option prog" where
  "deleteVeleroCRsLabeledByOperation E op kind = do {
     items \<leftarrow> ask (list_objects E) (ListObjects (velero_gvk (kind @ ''List'')) OperationLabelKey (op_UID op));
     case items of
       Inl err \<Rightarrow> State_Monad.return (Some (Wrapf
                    (''list velero '' @ kind @ ''s for operation '' @ op_UID op @ '': '') err []))
     | Inr items \<Rightarrow> deleteObjects E (''velero '' @ kind) items
   }"

definition VeleroEngine_Cancel :: "env \<Rightarrow> string \<Rightarrow> Operation \<Rightarrow> go_error option prog" where
  "VeleroEngine_Cancel E ns op =
     (let kind = veleroKind op;
          obj = veleroObject ns kind op;
          legacy = obj\<lparr>u_meta := (u_meta obj)\<lparr>Namespace := Namespace (op_meta op)\<rparr>\<rparr>;
          failed = (\<lambda>res. case res of Some err \<Rightarrow> \<not> IsNotFound err | None \<Rightarrow> False);
          wrap = (\<lambda>what namespace res. map_option (\<lambda>err. Wrapf
                    (''delete '' @ what @ kind @ '' '' @ namespace @ ''/'' @ Name (op_meta op) @ '': '') err []) res)
      in do {
        res \<leftarrow> ask (write_result E) (DeleteObject obj);
        if failed res then State_Monad.return (wrap ''velero '' (veleroNamespace ns) res)
        else do {
          labelled \<leftarrow> deleteVeleroCRsLabeledByOperation E op kind;
          case labelled of
            Some err \<Rightarrow> State_Monad.return (Some err)
          | None \<Rightarrow> do {
              res \<leftarrow> ask (write_result E) (DeleteObject legacy);
              if failed res then State_Monad.return (wrap ''legacy velero '' (Namespace (op_meta op)) res)
              else State_Monad.return None
            }
        }
      })"

definition VeleroEngine :: "env \<Rightarrow> string \<Rightarrow> Engine" where
  "VeleroEngine E ns =
     \<lparr>eng_Name = EngineVelero, Materialize = VeleroEngine_Materialize E ns,
      eng_Status = VeleroEngine_Status E ns, Cancel = VeleroEngine_Cancel E ns\<rparr>"

definition NewVeleroEngineWithNamespace :: "env \<Rightarrow> string \<Rightarrow> Engine" where
  "NewVeleroEngineWithNamespace E namespace =
     VeleroEngine E (if namespace = '''' then DefaultVeleroNamespace else namespace)"

section \<open>Helm upgrades\<close>

record helmParameters =
  hup_TargetVersion :: string
  hup_ValuesPatch :: "(string \<times> json) list"

definition helmParameters0 :: helmParameters where
  "helmParameters0 = \<lparr>hup_TargetVersion = '''', hup_ValuesPatch = []\<rparr>"

definition helm_fields :: "helmParameters fields" where
  "helm_fields =
     [(''targetVersion'', dec_string hup_TargetVersion_update),
      (''valuesPatch'', dec_any_map hup_ValuesPatch_update hup_ValuesPatch)]"

definition parseHelmParameters :: "Operation \<Rightarrow> helmParameters result" where
  "parseHelmParameters op =
     (case Parameters (op_Spec op) of
        None \<Rightarrow> Inr helmParameters0
      | Some raw \<Rightarrow> decode_params ''decode helm parameters: '' helm_fields raw helmParameters0)"

abbreviation helmrelease_gvk :: gvk where "helmrelease_gvk \<equiv> (''helm.toolkit.fluxcd.io/v2'', ''HelmRelease'')"

text \<open>The mutation of the HelmRelease; \<^verbatim>\<open>maps.Copy\<close> lets the patch win.\<close>

definition maps_Copy :: "(string \<times> 'v) list \<Rightarrow> (string \<times> 'v) list \<Rightarrow> (string \<times> 'v) list" where
  "maps_Copy dst src = foldl (\<lambda>m (k, v). map_put k v m) dst src"

definition helmUpgrade :: "env \<Rightarrow> helmParameters \<Rightarrow> Unstructured \<Rightarrow> Unstructured result" where
  "helmUpgrade E params hr =
     (case set_nested_fields E (u_Object hr)
        [([''spec'', ''chart'', ''spec'', ''version''], str_field (hup_TargetVersion params))] of
        Inl err \<Rightarrow> Inl err
      | Inr obj \<Rightarrow>
          if hup_ValuesPatch params = [] then Inr (hr\<lparr>u_Object := obj\<rparr>)
          else
            (let current = (case NestedMap E obj [''spec'', ''values''] of None \<Rightarrow> [] | Some m \<Rightarrow> m) in
             case SetNestedField E obj (JObject (maps_Copy current (hup_ValuesPatch params))) [''spec'', ''values''] of
               Inl err \<Rightarrow> Inl err
             | Inr obj \<Rightarrow> Inr (hr\<lparr>u_Object := obj\<rparr>)))"

definition HelmEngine_Materialize :: "env \<Rightarrow> Operation \<Rightarrow> ApplicationInstance \<Rightarrow> go_error option prog" where
  "HelmEngine_Materialize E op target =
     (case parseHelmParameters op of
        Inl err \<Rightarrow> State_Monad.return (Some err)
      | Inr params \<Rightarrow>
          (case as_Release (app_Spec target) of
             None \<Rightarrow> State_Monad.return (Some (Errorf (''target '' @ Quote (Name (app_meta target))
                       @ '' has no release (placeholder instances do not support helm upgrade)'')))
           | Some release \<Rightarrow> do {
               hr \<leftarrow> ask (get_object E)
                 (GetObject helmrelease_gvk (Namespace (app_meta target)) (rel_Name release));
               case hr of
                 Inl err \<Rightarrow> State_Monad.return (Some (Wrapf ''get helmrelease: '' err []))
               | Inr hr \<Rightarrow> CreateOrUpdate E hr (helmUpgrade E params)
             }))"

definition HelmEngine_Status :: "Operation \<Rightarrow> EngineStatus result prog" where
  "HelmEngine_Status op =
     State_Monad.return (Inr \<lparr>st_Phase = PhaseRunning, st_Reason = ''EngineStarted'', st_Message = '''',
       st_Outputs = [], Done = False, Failed = False\<rparr>)"

definition HelmEngine_Cancel :: "Operation \<Rightarrow> go_error option prog" where
  "HelmEngine_Cancel op = State_Monad.return None"

definition HelmEngine :: "env \<Rightarrow> Engine" where
  "HelmEngine E =
     \<lparr>eng_Name = EngineHelm, Materialize = HelmEngine_Materialize E, eng_Status = HelmEngine_Status,
      Cancel = HelmEngine_Cancel\<rparr>"

section \<open>The contract\<close>

lemma workflowStatus_coherent: "coherent (workflowStatus E obj)"
  by (simp add: workflowStatus_def Let_def)

lemma veleroStatus_coherent: "coherent (veleroStatus E op obj)"
  by (simp add: veleroStatus_def Let_def)

lemma WorkflowEngine_Status_wp:
  "wp (WorkflowEngine_Status E op) (\<lambda>r _. \<forall>s. r = Inr s \<longrightarrow> coherent s) w"
  unfolding WorkflowEngine_Status_def wp_bind
  by (rule wp_mono [OF wp_run])
     (auto simp: wp_rules workflowStatus_coherent split: sum.splits option.splits if_splits)

lemma WorkflowEngine_emits:
  "emits is_read (WorkflowEngine_Status E op) w"
  "emits (\<lambda>c. is_read c \<or> is_creation c) (WorkflowEngine_Materialize E op target) w"
  "emits (\<lambda>c. is_read c \<or> is_deletion c) (WorkflowEngine_Cancel E op) w"
  unfolding WorkflowEngine_Status_def WorkflowEngine_Materialize_def WorkflowEngine_Cancel_def Let_def
  by (intro emits_rules; simp)+

lemma emits_deleteVelero [emits_rules]:
  "P (ListObjects (velero_gvk (kind @ ''List'')) OperationLabelKey (op_UID op)) \<Longrightarrow>
   (\<And>obj. P (DeleteObject obj)) \<Longrightarrow> emits P (deleteVeleroCRsLabeledByOperation E op kind) w"
  unfolding deleteVeleroCRsLabeledByOperation_def by (intro emits_rules)

lemma VeleroEngine_emits:
  "emits is_read (VeleroEngine_Status E ns op) w"
  "emits (\<lambda>c. is_read c \<or> is_creation c) (VeleroEngine_Materialize E ns op target) w"
  "emits (\<lambda>c. is_read c \<or> is_deletion c) (VeleroEngine_Cancel E ns op) w"
  unfolding VeleroEngine_Status_def VeleroEngine_Materialize_def VeleroEngine_Cancel_def Let_def
    materializeBackup_def materializeRestore_def
  by (intro emits_rules; simp)+

lemma HelmEngine_emits:
  "emits (\<lambda>c. is_read c \<or> is_creation c) (HelmEngine_Materialize E op target) w"
  unfolding HelmEngine_Materialize_def by (intro emits_rules; simp)+

interpretation workflow_engine: operation_engine "WorkflowEngine E" for E
proof unfold_locales
  show "coherent s" if "run_state (eng_Status (WorkflowEngine E) op) w = (Inr s, w')" for op w s w'
    using wpD [OF WorkflowEngine_Status_wp] that by (fastforce simp: WorkflowEngine_def)
qed (simp_all add: WorkflowEngine_def WorkflowEngine_emits)

lemma VeleroEngine_Status_coherent:
  "run_state (VeleroEngine_Status E ns op) w = (Inr s, w') \<Longrightarrow> coherent s"
  by (auto simp: VeleroEngine_Status_def go_run veleroStatus_coherent split: sum.splits)

interpretation velero_engine: operation_engine "VeleroEngine E ns" for E ns
  by unfold_locales (auto simp: VeleroEngine_def VeleroEngine_emits dest: VeleroEngine_Status_coherent)

interpretation helm_engine: operation_engine "HelmEngine E" for E
  by unfold_locales
     (auto simp: HelmEngine_def HelmEngine_emits HelmEngine_Status_def HelmEngine_Cancel_def emits_return)

section \<open>Lemmas on parameters and objects\<close>

lemma workflow_service_account:
  "unmarshal_struct workflow_fields doc workflowParameters0 = Some p \<Longrightarrow>
   wfp_ServiceAccountName p = doc_string ''serviceAccountName'' doc"
  by (erule unmarshal_struct_string_field [where upd = wfp_ServiceAccountName_update])
     (auto simp: workflowParameters0_def workflow_fields_def lower_char_def dec_defs
       split: json.splits if_splits)

lemma workflow_account_confined:
  assumes "ValidateRuntimeParameters op = None" and "os_Engine (op_Spec op) = EngineWorkflow"
    and "parseWorkflowParameters op = Inr p"
  shows "wfp_serviceAccountName p = DefaultOperationRunnerServiceAccount"
proof (cases "Parameters (op_Spec op)")
  case None
  with assms(3) show ?thesis
    by (auto simp: parseWorkflowParameters_def wfp_serviceAccountName_def workflowParameters0_def)
next
  case (Some raw)
  with assms(3) obtain doc where "json_Unmarshal raw = Some doc"
    "unmarshal_struct workflow_fields doc workflowParameters0 = Some p"
    by (auto simp: parseWorkflowParameters_def decode_params_Inr)
  then have "wfp_ServiceAccountName p \<in> {'''', DefaultOperationRunnerServiceAccount}"
    using workflow_service_account [of doc p] validated_service_account [OF assms(1) _ Some, of doc]
    by (simp only: assms(2) insertI1 insertI2 simp_thms)
  then show ?thesis by (auto simp: wfp_serviceAccountName_def)
qed

lemma workflowFor_fields:
  assumes "workflowFor E op ns params = Inr obj" and "owner_laws E" and "nested_laws E"
  shows "Name (u_meta obj) = materializedName op \<and> Namespace (u_meta obj) = ns
    \<and> verifyOperationOwnership (Labels (u_meta obj)) op = None
    \<and> get_path (u_Object obj) [''spec'', ''serviceAccountName''] = Some (JString (wfp_serviceAccountName params))"
proof -
  have sa: "str_field (wfp_serviceAccountName params) = Some (JString (wfp_serviceAccountName params))"
    by (auto simp: str_field_def wfp_serviceAccountName_def)
  obtain m j where m: "setOwnerReferenceIfSameNamespace E op
        (applyOperationLabels (meta0\<lparr>Name := materializedName op, Namespace := ns\<rparr>) op) ns = Inr m"
    and j: "set_nested_fields E (JObject [])
      ([([''spec'', ''workflowTemplateRef''], Some (JObject [(''name'', JString (wfp_templateName params))]))]
       @ ([''spec'', ''serviceAccountName''], Some (JString (wfp_serviceAccountName params)))
       # [([''spec'', ''arguments'', ''parameters''],
            workflowArguments (wfp_WorkflowTemplateParameters params))]) = Inr j"
    and obj: "obj = \<lparr>u_gvk = workflow_gvk, u_meta = m, u_Object = j\<rparr>"
    using assms(1) by (auto simp: workflowFor_def Let_def sa split: sum.splits)
  from set_nested_fields_value [OF assms(3) j]
  have "get_path j [''spec'', ''serviceAccountName''] = Some (JString (wfp_serviceAccountName params))"
    by simp
  with owner_ref_keeps_meta [OF m assms(2)] obj show ?thesis by (auto simp: labels_owned)
qed

lemma claimVeleroObject_owned:
  assumes "claimVeleroObject E op obj = Inr m" and "owner_laws E"
  shows "Name m = Name (u_meta obj) \<and> Namespace m = Namespace (u_meta obj)
    \<and> verifyOperationOwnership (Labels m) op = None"
proof -
  let ?m = "applyOperationLabels (u_meta obj) op"
  have "m = ?m \<or> (\<exists>refs. m = ?m\<lparr>OwnerReferences := refs\<rparr>)"
    using assms by (auto simp: claimVeleroObject_def owner_laws_def Let_def split: if_splits)
  then show ?thesis by (auto simp: labels_owned)
qed

lemma mutateVeleroObject_spec:
  assumes "mutateVeleroObject E op (ps @ (p, Some v) # qs) obj = Inr obj'"
    and "owner_laws E" and "nested_laws E"
    and "p \<noteq> []" and "\<forall>q \<in> fst ` set qs. q \<noteq> [] \<and> apart q p"
  shows "verifyOperationOwnership (Labels (u_meta obj')) op = None \<and> get_path (u_Object obj') p = Some v"
proof -
  obtain m j where "claimVeleroObject E op obj = Inr m"
    and j: "set_nested_fields E (u_Object obj) (ps @ (p, Some v) # qs) = Inr j"
    and "obj' = obj\<lparr>u_meta := m, u_Object := j\<rparr>"
    using assms(1) by (auto simp: mutateVeleroObject_def split: sum.splits)
  then show ?thesis
    using claimVeleroObject_owned [OF _ assms(2)] set_nested_fields_value [OF assms(3) j assms(4,5)] by auto
qed

lemma backup_mutation_spec:
  assumes "mutateVeleroObject E op (backupFields ns params) obj = Inr obj'"
    and "owner_laws E" and "nested_laws E"
  shows "verifyOperationOwnership (Labels (u_meta obj')) op = None
    \<and> get_path (u_Object obj') [''spec'', ''includedNamespaces''] = Some (JArray [JString ns])"
  using mutateVeleroObject_spec [of E op "[]" "[''spec'', ''includedNamespaces'']" "JArray [JString ns]"
      "tl (backupFields ns params)" obj obj', OF _ assms(2,3)] assms(1)
  by (simp add: backupFields_def)

lemma restore_mutation_spec:
  assumes "mutateVeleroObject E op (restoreFields params) obj = Inr obj'"
    and "owner_laws E" and "nested_laws E"
  shows "verifyOperationOwnership (Labels (u_meta obj')) op = None
    \<and> get_path (u_Object obj') [''spec'', ''backupName''] = Some (JString (vp_BackupName params))"
  using mutateVeleroObject_spec [of E op "[]" "[''spec'', ''backupName'']" "JString (vp_BackupName params)"
      "tl (restoreFields params)" obj obj', OF _ assms(2,3)] assms(1)
  by (simp add: restoreFields_def)

lemma map_of_maps_Copy:
  "distinct (map fst src) \<Longrightarrow>
   map_of (maps_Copy dst src) k = (case map_of src k of Some v \<Rightarrow> Some v | None \<Rightarrow> map_of dst k)"
proof (induction src arbitrary: dst)
  case (Cons kv src)
  obtain k' v where kv: "kv = (k', v)" by (cases kv)
  with Cons.prems have "map_of src k' = None" by (simp add: map_of_eq_None_iff)
  with Cons kv show ?case by (auto simp: maps_Copy_def split: option.splits)
qed (simp add: maps_Copy_def)

section \<open>Properties\<close>

text \<open>C32: a validated Runbook operation creates only Workflows that are named and placed for it,
  carry its ownership label and run under the operation runner's service account.\<close>

theorem runbook_workflow_confined:
  assumes "owner_laws E" and "nested_laws E"
    and "ValidateRuntimeParameters op = None" and "os_Engine (op_Spec op) = EngineWorkflow"
  shows "emits (\<lambda>c. is_read c \<or> (\<exists>obj. c = CreateObject obj
           \<and> Name (u_meta obj) = materializedName op \<and> Namespace (u_meta obj) = targetNamespace target
           \<and> verifyOperationOwnership (Labels (u_meta obj)) op = None
           \<and> get_path (u_Object obj) [''spec'', ''serviceAccountName'']
               = Some (JString DefaultOperationRunnerServiceAccount)))
         (Materialize (WorkflowEngine E) op target) w"
  unfolding WorkflowEngine_def Engine.simps WorkflowEngine_Materialize_def Let_def
  by (intro emits_rules)
     (auto simp: workflow_account_confined [OF assms(3,4)] dest!: workflowFor_fields [OF _ assms(1,2)])

text \<open>Every backup object the Velero engine stores for a Backup operation is limited to the
  namespace of the target, and every restore object names the backup of the parameters; both carry
  the ownership label of the operation.\<close>

theorem velero_writes_confined:
  assumes "owner_laws E" and "nested_laws E" and "parseVeleroParameters op = Inr params"
  shows "emits (\<lambda>c. (\<exists>obj. c = LoadForUpdate obj \<and> Name (u_meta obj) = Name (op_meta op))
           \<or> (\<exists>obj. c = StoreObject obj \<and> verifyOperationOwnership (Labels (u_meta obj)) op = None
               \<and> (if os_Type (op_Spec op) = OperationTypeBackup
                  then get_path (u_Object obj) [''spec'', ''includedNamespaces'']
                         = Some (JArray [JString (targetNamespace target)])
                  else os_Type (op_Spec op) = OperationTypeRestore
                    \<and> vp_BackupName params \<noteq> ''''
                    \<and> get_path (u_Object obj) [''spec'', ''backupName''] = Some (JString (vp_BackupName params)))))
         (Materialize (VeleroEngine E ns) op target) w"
  unfolding VeleroEngine_def Engine.simps VeleroEngine_Materialize_def assms(3) sum.case
    materializeBackup_def materializeRestore_def
  by (intro emits_rules)
     (auto simp: veleroObject_def dest: backup_mutation_spec [OF _ assms(1,2)]
       restore_mutation_spec [OF _ assms(1,2)])


text \<open>A Helm upgrade sets the chart version it names, overrides exactly the values named in its
  patch and leaves every other field of the HelmRelease as it was.\<close>

theorem helm_upgrade_patches:
  assumes "nested_laws E" and "distinct (map fst (hup_ValuesPatch params))"
    and "helmUpgrade E params hr = Inr hr'"
  shows "(hup_TargetVersion params \<noteq> '''' \<longrightarrow>
            get_path (u_Object hr') [''spec'', ''chart'', ''spec'', ''version''] = Some (JString (hup_TargetVersion params)))
         \<and> get_path (u_Object hr') [''spec'', ''values'', k] =
             (case map_of (hup_ValuesPatch params) k of
                Some v \<Rightarrow> Some v
              | None \<Rightarrow> get_path (u_Object hr) [''spec'', ''values'', k])
         \<and> (apart [''spec'', ''chart'', ''spec'', ''version''] q \<and> apart [''spec'', ''values''] q \<longrightarrow>
              get_path (u_Object hr') q = get_path (u_Object hr) q)
         \<and> u_meta hr' = u_meta hr \<and> u_gvk hr' = u_gvk hr"
proof -
  let ?vp = "[''spec'', ''chart'', ''spec'', ''version'']" and ?pp = "[''spec'', ''values'']"
  obtain j where j: "set_nested_fields E (u_Object hr) ([] @ (?vp, str_field (hup_TargetVersion params)) # []) = Inr j"
    and step: "(if hup_ValuesPatch params = [] then Inr (hr\<lparr>u_Object := j\<rparr>) else
       (case SetNestedField E j (JObject (maps_Copy (case NestedMap E j ?pp of None \<Rightarrow> [] | Some m \<Rightarrow> m)
               (hup_ValuesPatch params))) ?pp of
          Inl err \<Rightarrow> Inl err | Inr obj \<Rightarrow> Inr (hr\<lparr>u_Object := obj\<rparr>))) = Inr hr'"
    using assms(3) unfolding helmUpgrade_def Let_def by (simp split: sum.splits)
  have version: "hup_TargetVersion params \<noteq> '''' \<Longrightarrow> get_path j ?vp = Some (JString (hup_TargetVersion params))"
    using set_nested_fields_value [OF assms(1), of _ "[]" ?vp _ "[]"] j by (simp add: str_field_def)
  have other: "apart ?vp q \<Longrightarrow> get_path j q = get_path (u_Object hr) q" for q
    using set_nested_fields_other [OF assms(1) j] by simp
  show ?thesis
  proof (cases "hup_ValuesPatch params = []")
    case True
    with step have "hr' = hr\<lparr>u_Object := j\<rparr>" by simp
    with True version other [of "?pp @ [k]"] other [of q] show ?thesis by simp
  next
    case False
    then obtain j' where set: "SetNestedField E j (JObject (maps_Copy (case NestedMap E j ?pp of None \<Rightarrow> [] | Some m \<Rightarrow> m)
               (hup_ValuesPatch params))) ?pp = Inr j'" and hr': "hr' = hr\<lparr>u_Object := j'\<rparr>"
      using step by (auto split: sum.splits)
    have "get_path j' ?pp = Some (JObject (maps_Copy (case NestedMap E j ?pp of None \<Rightarrow> [] | Some m \<Rightarrow> m)
               (hup_ValuesPatch params)))"
      by (rule nested_set_value [OF assms(1) set]) simp
    then have "get_path j' (?pp @ [k]) = (case map_of (hup_ValuesPatch params) k of
         Some v \<Rightarrow> Some v | None \<Rightarrow> get_path j (?pp @ [k]))"
      using nested_map_member [OF assms(1), of j ?pp k]
      by (simp only: get_path_append) (simp add: map_of_maps_Copy [OF assms(2)] split: option.split)
    then show ?thesis
      using version other [of "?pp @ [k]"] other [of q] hr'
        nested_set_other [OF assms(1) set, of ?vp] nested_set_other [OF assms(1) set, of q]
      by (simp split: option.split)
  qed
qed

section \<open>Witnesses\<close>

definition demo_typed_op :: "string \<Rightarrow> string \<Rightarrow> string \<Rightarrow> Operation" where
  "demo_typed_op typ engine raw =
     (let op = demo_op ''run'' typ '''' in
      op\<lparr>op_meta := (op_meta op)\<lparr>UID := ''uid-1''\<rparr>,
         op_Spec := (op_Spec op)\<lparr>os_Engine := engine, Parameters := Some raw\<rparr>\<rparr>)"

definition demo_runbook :: Operation where
  "demo_runbook = demo_typed_op OperationTypeRunbook EngineWorkflow
     (''{'' @ json_string ''workflowTemplate'' @ '':'' @ json_string ''drain'' @ ''}'')"

definition demo_backup :: Operation where
  "demo_backup = demo_typed_op OperationTypeBackup EngineVelero ''{}''"

theorem runbook_workflow_confined_witness:
  "\<exists>obj. hd (hist (snd (run_state (Materialize (WorkflowEngine demo_env) demo_runbook demo_app) demo_world)))
       = CreateObject obj
     \<and> get_path (u_Object obj) [''spec'', ''serviceAccountName''] = Some (JString DefaultOperationRunnerServiceAccount)"
proof -
  have params: "parseWorkflowParameters demo_runbook
      = Inr (workflowParameters0\<lparr>wfp_WorkflowTemplate := ''drain''\<rparr>)"
    by code_simp
  obtain obj where obj: "workflowFor demo_env demo_runbook ''apps'' (workflowParameters0\<lparr>wfp_WorkflowTemplate := ''drain''\<rparr>) = Inr obj"
    by (auto simp: workflowFor_def Let_def setOwnerReferenceIfSameNamespace_def demo_runbook_def demo_typed_op_def
        demo_op_def demo_answers workflowParameters0_def workflowArguments_def str_field_def
        wfp_serviceAccountName_def)
  have ns: "targetNamespace demo_app = ''apps''" by (simp add: targetNamespace_def demo_app_def)
  have run: "run_state (Materialize (WorkflowEngine demo_env) demo_runbook demo_app) demo_world =
      (None, demo_world\<lparr>hist := [CreateObject obj, GetObject workflow_gvk ''apps'' (materializedName demo_runbook)]\<rparr>)"
    unfolding WorkflowEngine_def Engine.simps WorkflowEngine_Materialize_def params sum.case ns Let_def
    by (simp add: go_run wfp_templateName_def demo_answers obj demo_world_def)
  have "ValidateRuntimeParameters demo_runbook = None" by code_simp
  moreover have "os_Engine (op_Spec demo_runbook) = EngineWorkflow"
    by (simp add: demo_runbook_def demo_typed_op_def demo_op_def)
  ultimately show ?thesis
    using emitsD [OF runbook_workflow_confined [OF demo_owner_laws demo_nested_laws] run] run
    by (auto simp: demo_world_def)
qed

lemma demo_backup_fields:
  assumes "SetNestedField E = set_path"
  obtains j where "set_nested_fields E (JObject []) (backupFields ns veleroParameters0) = Inr j"
  using assms by (simp add: backupFields_def veleroParameters0_def str_field_def strs_field_def
      csiSnapshotClassName_def backupTTL_def)

lemma demo_backup_run:
  "\<exists>obj. run_state (Materialize (VeleroEngine demo_env '''') demo_backup demo_app) demo_world =
     (None, demo_world\<lparr>hist := [StoreObject obj, LoadForUpdate (veleroObject '''' ''Backup'' demo_backup)]\<rparr>)"
proof -
  have "parseVeleroParameters demo_backup = Inr veleroParameters0" by code_simp
  moreover have "os_Type (op_Spec demo_backup) = OperationTypeBackup" "Namespace (op_meta demo_backup) = ''ns''"
    by (simp_all add: demo_backup_def demo_typed_op_def demo_op_def)
  moreover obtain j where
    "set_nested_fields demo_env (JObject []) (backupFields (targetNamespace demo_app) veleroParameters0) = Inr j"
    using demo_backup_fields [OF demo_answers(5)] by blast
  ultimately show ?thesis
    by (auto simp: VeleroEngine_def VeleroEngine_Materialize_def materializeBackup_def CreateOrUpdate_def create_or_update_def
        mutateVeleroObject_def claimVeleroObject_def go_run demo_answers veleroObject_def veleroNamespace_def
        demo_world_def split: sum.split)
qed

theorem velero_writes_confined_witness:
  "\<exists>obj. hd (hist (snd (run_state (Materialize (VeleroEngine demo_env '''') demo_backup demo_app) demo_world)))
       = StoreObject obj
     \<and> get_path (u_Object obj) [''spec'', ''includedNamespaces''] = Some (JArray [JString ''apps''])"
proof -
  have params: "parseVeleroParameters demo_backup = Inr veleroParameters0" by code_simp
  obtain obj where run: "run_state (Materialize (VeleroEngine demo_env '''') demo_backup demo_app) demo_world =
     (None, demo_world\<lparr>hist := [StoreObject obj, LoadForUpdate (veleroObject '''' ''Backup'' demo_backup)]\<rparr>)"
    using demo_backup_run by blast
  have "os_Type (op_Spec demo_backup) = OperationTypeBackup" "targetNamespace demo_app = ''apps''"
    by (simp_all add: demo_backup_def demo_typed_op_def demo_op_def targetNamespace_def demo_app_def)
  with emitsD [OF velero_writes_confined [OF demo_owner_laws demo_nested_laws params] run] run
  show ?thesis by (auto simp: demo_world_def)
qed

definition velero_server :: env where
  "velero_server = demo_env\<lparr>load_object := (\<lambda>h. case h of
       LoadForUpdate obj # _ \<Rightarrow> Inr (obj\<lparr>u_meta := (u_meta obj)\<lparr>Labels := [OperationLabelKey \<mapsto> ''uid-2'']\<rparr>\<rparr>)
     | _ \<Rightarrow> Inl (Errorf ''no load''))\<rparr>"


theorem helm_upgrade_patches_witness:
  "\<exists>hr'. helmUpgrade demo_env \<lparr>hup_TargetVersion = ''2.0'', hup_ValuesPatch = [(''a'', JInt 1)]\<rparr>
       \<lparr>u_gvk = helmrelease_gvk, u_meta = meta0, u_Object = JObject []\<rparr> = Inr hr'
     \<and> get_path (u_Object hr') [''spec'', ''values'', ''a''] = Some (JInt 1)"
proof -
  let ?p = "\<lparr>hup_TargetVersion = ''2.0'', hup_ValuesPatch = [(''a'', JInt 1)]\<rparr>"
  let ?hr = "\<lparr>u_gvk = helmrelease_gvk, u_meta = meta0, u_Object = JObject []\<rparr>"
  obtain hr' where run: "helmUpgrade demo_env ?p ?hr = Inr hr'"
    by (auto simp: helmUpgrade_def Let_def str_field_def demo_answers)
  have "distinct (map fst (hup_ValuesPatch ?p))" by simp
  from helm_upgrade_patches [OF demo_nested_laws this run, of "''a''"] run show ?thesis by auto
qed

end
