(* ===== verification/Operation_Controller.thy ===== *)
theory Operation_Controller
  imports Concurrency Approvals Engine_Jobs Engine_Objects
begin

text \<open>
  The Operation controller (\<^verbatim>\<open>internal/controller/operation_controller.go\<close> and
  \<^verbatim>\<open>operation_validation.go\<close>): one call of \<^verbatim>\<open>Reconcile\<close> is a program over the world. The Operation
  the Go code mutates through a pointer is passed along; a function whose caller goes on with the
  mutated Operation returns it.

  The reconciler's registry is the one \<^verbatim>\<open>cmd/main.go\<close> builds, \<open>engineRegistry\<close>; the lemmas use only
  that its engines satisfy the engine contract.
\<close>

section \<open>Validation\<close>

abbreviation apps_GroupVersion :: string where "apps_GroupVersion \<equiv> ''apps.vworkspace.io/v1alpha1''"
abbreviation ops_GroupVersion :: string where "ops_GroupVersion \<equiv> ''ops.vworkspace.io/v1alpha1''"

definition ValidateOperationSpec :: "Operation option \<Rightarrow> go_error option" where
  "ValidateOperationSpec op =
     (case op of
        None \<Rightarrow> Some (Errorf ''operation is nil'')
      | Some op \<Rightarrow>
          (let spec = op_Spec op in
           if tr_APIVersion (os_TargetRef spec) \<noteq> apps_GroupVersion
           then Some (Errorf (''spec.targetRef.apiVersion must be '' @ apps_GroupVersion))
           else if tr_Kind (os_TargetRef spec) \<noteq> ''ApplicationInstance''
           then Some (Errorf ''spec.targetRef.kind must be ApplicationInstance'')
           else if TrimSpace (tr_Name (os_TargetRef spec)) = ''''
           then Some (Errorf ''spec.targetRef.name is required'')
           else if TrimSpace (os_Type spec) = '''' then Some (Errorf ''spec.type is required'')
           else if TrimSpace (os_Engine spec) = '''' then Some (Errorf ''spec.engine is required'')
           else ValidateRuntimeParameters op))"

section \<open>The reconciler\<close>

text \<open>\<^verbatim>\<open>ctrl.Result\<close>, and the pair of a result and an error a reconciler returns.\<close>

record ReconcileResult =
  Requeue :: bool
  RequeueAfter :: int

type_synonym reconciled = "ReconcileResult \<times> go_error option"

abbreviation no_requeue :: ReconcileResult where "no_requeue \<equiv> \<lparr>Requeue = False, RequeueAfter = 0\<rparr>"
abbreviation requeue_after :: "int \<Rightarrow> ReconcileResult" where
  "requeue_after n \<equiv> \<lparr>Requeue = False, RequeueAfter = seconds n\<rparr>"

record OperationReconciler =
  or_Registry :: "Registry option"
  ApprovalClaimSecret :: string

abbreviation op_phase :: "Operation \<Rightarrow> string" where "op_phase op \<equiv> ost_Phase (op_Status op)"

definition setCondition ::
  "time \<Rightarrow> string \<Rightarrow> string \<Rightarrow> string \<Rightarrow> string \<Rightarrow> OperationStatus \<Rightarrow> OperationStatus" where
  "setCondition now typ status reason message st =
     st\<lparr>ost_Conditions := Set (ost_Conditions st) typ status reason message now\<rparr>"

definition reportConditions :: "env \<Rightarrow> Operation \<Rightarrow> Condition list \<Rightarrow> unit prog" where
  "reportConditions E op prev =
     report E (ResourceRefFromMeta (ops_GroupVersion, ''Operation'') (op_meta op)) prev
       (ost_Conditions (op_Status op)) None"

text \<open>The status written when an operation is blocked.\<close>

definition blockedStatus :: "time \<Rightarrow> string \<Rightarrow> string \<Rightarrow> OperationStatus \<Rightarrow> OperationStatus" where
  "blockedStatus now reason message st =
     setCondition now ConditionAccepted ConditionFalse reason message
       (setCondition now ConditionBlocked ConditionTrue reason message (st\<lparr>ost_Phase := PhasePending\<rparr>))"

definition blockOperation :: "env \<Rightarrow> Operation \<Rightarrow> string \<Rightarrow> string \<Rightarrow> reconciled prog" where
  "blockOperation E op reason message = do {
     now \<leftarrow> Now E;
     let prev = ost_Conditions (op_Status op);
     let op = op\<lparr>op_Status := blockedStatus now reason message (op_Status op)\<rparr>;
     res \<leftarrow> ask (write_result E) (UpdateOperationStatus op);
     case res of
       Some err \<Rightarrow> State_Monad.return (no_requeue, Some (Wrapf ''update blocked status: '' err []))
     | None \<Rightarrow> do {
         _ \<leftarrow> reportConditions E op prev;
         State_Monad.return (requeue_after 30, None)
       }
   }"

text \<open>The status written when an operation fails.\<close>

definition failedStatus :: "time \<Rightarrow> string \<Rightarrow> OperationStatus \<Rightarrow> OperationStatus" where
  "failedStatus now message st =
     setCondition now ConditionFailed ConditionTrue ''EngineFailed'' message
       (st\<lparr>ost_Phase := PhaseFailed, FinishedAt := Some now\<rparr>)"

definition failOperation :: "env \<Rightarrow> Operation \<Rightarrow> string \<Rightarrow> reconciled prog" where
  "failOperation E op message = do {
     now \<leftarrow> Now E;
     let prev = ost_Conditions (op_Status op);
     let op = op\<lparr>op_Status := failedStatus now message (op_Status op)\<rparr>;
     res \<leftarrow> ask (write_result E) (UpdateOperationStatus op);
     case res of
       Some err \<Rightarrow> State_Monad.return (no_requeue, Some (Wrapf ''update failed status: '' err []))
     | None \<Rightarrow> do {
         _ \<leftarrow> reportConditions E op prev;
         State_Monad.return (no_requeue, None)
       }
   }"

definition hasConflictingOperation :: "env \<Rightarrow> Operation \<Rightarrow> (bool \<times> string) result prog" where
  "hasConflictingOperation E op = do {
     conflict \<leftarrow> FindConflict E op;
     State_Monad.return
       (case conflict of
          Inl err \<Rightarrow> Inl err
        | Inr None \<Rightarrow> Inr (False, '''')
        | Inr (Some c) \<Rightarrow> Inr (True, FormatConflict c))
   }"

definition registry_has :: "OperationReconciler \<Rightarrow> string \<Rightarrow> bool" where
  "registry_has r engine = (case or_Registry r of None \<Rightarrow> False | Some reg \<Rightarrow> Registry_Has reg engine)"

definition registry_get :: "OperationReconciler \<Rightarrow> string \<Rightarrow> Engine result" where
  "registry_get r engine =
     (case or_Registry r of
        None \<Rightarrow> Inl (Errorf ''registry is nil'')
      | Some reg \<Rightarrow> Registry_Get reg engine)"

definition finalizeOperation :: "env \<Rightarrow> OperationReconciler \<Rightarrow> Operation \<Rightarrow> reconciled prog" where
  "finalizeOperation E r op =
     (let remove = do {
        res \<leftarrow> ask (write_result E)
          (UpdateOperation (op\<lparr>op_meta := RemoveFinalizer E (op_meta op) OperationFinalizer\<rparr>));
        State_Monad.return (no_requeue, map_option (\<lambda>err. Wrapf ''remove finalizer: '' err []) res)
      } in
      if registry_has r (os_Engine (op_Spec op)) then
        (case registry_get r (os_Engine (op_Spec op)) of
           Inl err \<Rightarrow> State_Monad.return (no_requeue, Some err)
         | Inr engine \<Rightarrow> do {
             res \<leftarrow> Cancel engine op;
             case res of
               Some err \<Rightarrow>
                 State_Monad.return (requeue_after 15, Some (Wrapf ''cancel engine resources: '' err []))
             | None \<Rightarrow> remove
           })
      else remove)"

definition handleEngineStatusError :: "env \<Rightarrow> Operation \<Rightarrow> go_error \<Rightarrow> reconciled prog" where
  "handleEngineStatusError E op err =
     (if errors_Is err ErrWorkloadOwnership \<or> errors_Is err ErrWorkloadAmbiguous
      then failOperation E op (Error err)
      else if errors_Is err ErrWorkloadMissing then
        (if op_phase op = PhaseRunning then
           (case StartedAt (op_Status op) of
              None \<Rightarrow> do {
                now \<leftarrow> Now E;
                res \<leftarrow> ask (write_result E)
                  (UpdateOperationStatus (op\<lparr>op_Status := (op_Status op)\<lparr>StartedAt := Some now\<rparr>\<rparr>));
                State_Monad.return
                  (case res of
                     Some err \<Rightarrow>
                       (no_requeue, Some (Wrapf ''record startedAt for workload-missing grace: '' err []))
                   | None \<Rightarrow> (requeue_after 5, None))
              }
            | Some started \<Rightarrow> do {
                now \<leftarrow> Now E;
                if now - started < seconds 60 then State_Monad.return (requeue_after 5, None)
                else failOperation E op (Error err)
              })
         else failOperation E op (Error err))
      else State_Monad.return (no_requeue, Some (Wrapf ''engine status: '' err [])))"

definition backfillEngineRefIfNeeded ::
  "env \<Rightarrow> Operation \<Rightarrow> ApplicationInstance \<Rightarrow> (Operation \<times> go_error option) prog" where
  "backfillEngineRefIfNeeded E op target =
     (if op_phase op \<noteq> PhaseRunning then State_Monad.return (op, None)
      else do {
        now \<leftarrow> Now E;
        let st = op_Status op;
        let start = (StartedAt st = None);
        let st = (if start then st\<lparr>StartedAt := Some now\<rparr> else st);
        let locate = (ost_EngineRef st = None \<and> SupportsEngineRef (os_Engine (op_Spec op)));
        let st = (if locate
                  then st\<lparr>ost_EngineRef := Some (NewEngineResourceRef op target
                          (EngineResourceKind (os_Engine (op_Spec op))))\<rparr>
                  else st);
        let op = op\<lparr>op_Status := st\<rparr>;
        if \<not> start \<and> \<not> locate then State_Monad.return (op, None)
        else do {
          res \<leftarrow> ask (write_result E) (UpdateOperationStatus op);
          State_Monad.return (op, map_option (\<lambda>err. Wrapf ''persist running status backfill: '' err []) res)
        }
      })"

text \<open>The status written when the engine has been started.\<close>

definition startedStatus :: "time \<Rightarrow> Operation \<Rightarrow> ApplicationInstance \<Rightarrow> OperationStatus" where
  "startedStatus now op target =
     setCondition now ConditionBlocked ConditionFalse ''Unblocked'' ''Operation started''
       (setCondition now ConditionRunning ConditionTrue ''EngineStarted'' ''Engine is running''
         (setCondition now ConditionAccepted ConditionTrue ''AdmissionPassed'' ''Operation accepted''
           ((op_Status op)\<lparr>ost_EngineRef := Some (NewEngineResourceRef op target
                             (EngineResourceKind (os_Engine (op_Spec op)))),
                           ost_Phase := PhaseRunning, StartedAt := Some now\<rparr>)))"

text \<open>\<^verbatim>\<open>json.Marshal\<close> of a \<^verbatim>\<open>map[string]string\<close>: the members in the order of their names.\<close>

definition marshal_string_map :: "(string \<times> string) list \<Rightarrow> string" where
  "marshal_string_map m =
     ''{'' @ join_with '','' (map (\<lambda>k. json_string k @ '':'' @ json_string (go_get (map_of m) k))
                               (sort (map fst m))) @ ''}''"

text \<open>The status written when the engine has finished.\<close>

definition finishedStatus :: "time \<Rightarrow> EngineStatus \<Rightarrow> OperationStatus \<Rightarrow> OperationStatus" where
  "finishedStatus now status st =
     (let st = st\<lparr>FinishedAt := Some now, ost_Phase := st_Phase status\<rparr>;
          st = (if Failed status
                then setCondition now ConditionRunning ConditionFalse ''EngineNotStarted'' ''Engine finished with failure''
                       (setCondition now ConditionFailed ConditionTrue (st_Reason status) (st_Message status) st)
                else setCondition now ConditionRunning ConditionFalse ''EngineNotStarted'' ''Engine completed''
                       (setCondition now ConditionSucceeded ConditionTrue (st_Reason status) (st_Message status) st))
      in if st_Outputs status \<noteq> [] then st\<lparr>Outputs := marshal_string_map (st_Outputs status)\<rparr> else st)"

text \<open>The last part of \<^verbatim>\<open>Reconcile\<close>: ask the engine and record what it says.\<close>

definition recordEngineStatus :: "env \<Rightarrow> Engine \<Rightarrow> Operation \<Rightarrow> Condition list \<Rightarrow> reconciled prog" where
  "recordEngineStatus E engine op prev = do {
     status \<leftarrow> eng_Status engine op;
     case status of
       Inl err \<Rightarrow> handleEngineStatusError E op err
     | Inr status \<Rightarrow>
         if Done status then do {
           now \<leftarrow> Now E;
           let op = op\<lparr>op_Status := finishedStatus now status (op_Status op)\<rparr>;
           res \<leftarrow> ask (write_result E) (UpdateOperationStatus op);
           case res of
             Some err \<Rightarrow> State_Monad.return (no_requeue, Some (Wrapf ''update terminal status: '' err []))
           | None \<Rightarrow> do {
               _ \<leftarrow> reportConditions E op prev;
               State_Monad.return (no_requeue, None)
             }
         }
         else do {
           let op = op\<lparr>op_Status := (op_Status op)\<lparr>ost_Phase := st_Phase status\<rparr>\<rparr>;
           res \<leftarrow> ask (write_result E) (UpdateOperationStatus op);
           case res of
             Some err \<Rightarrow> State_Monad.return (no_requeue, Some (Wrapf ''update in-flight status: '' err []))
           | None \<Rightarrow> do {
               _ \<leftarrow> reportConditions E op prev;
               State_Monad.return (requeue_after 5, None)
             }
         }
   }"

definition observeEngine ::
  "env \<Rightarrow> Engine \<Rightarrow> Operation \<Rightarrow> ApplicationInstance \<Rightarrow> Condition list \<Rightarrow> reconciled prog" where
  "observeEngine E engine op target prev = do {
     (op, backfill) \<leftarrow> backfillEngineRefIfNeeded E op target;
     case backfill of
       Some err \<Rightarrow> State_Monad.return (no_requeue, Some err)
     | None \<Rightarrow> recordEngineStatus E engine op prev
   }"

text \<open>The middle part: start the engine of an operation that has not been started.\<close>

definition runEngine ::
  "env \<Rightarrow> Engine \<Rightarrow> Operation \<Rightarrow> ApplicationInstance \<Rightarrow> reconciled prog" where
  "runEngine E engine op target =
     (let prev = ost_Conditions (op_Status op) in
      if op_phase op = '''' \<or> op_phase op = PhasePending then do {
        res \<leftarrow> Materialize engine op target;
        case res of
          Some err \<Rightarrow> failOperation E op (Error err)
        | None \<Rightarrow> do {
            now \<leftarrow> Now E;
            let op = op\<lparr>op_Status := startedStatus now op target\<rparr>;
            res \<leftarrow> ask (write_result E) (UpdateOperationStatus op);
            case res of
              Some err \<Rightarrow> State_Monad.return (no_requeue, Some (Wrapf ''update running status: '' err []))
            | None \<Rightarrow> do {
                _ \<leftarrow> reportConditions E op prev;
                observeEngine E engine op target (ost_Conditions (op_Status op))
              }
          }
      }
      else observeEngine E engine op target prev)"

text \<open>The guards of an operation that is not being deleted.\<close>

definition reconcileActive :: "env \<Rightarrow> OperationReconciler \<Rightarrow> Operation \<Rightarrow> reconciled prog" where
  "reconcileActive E r op =
     (case ValidateOperationSpec (Some op) of
        Some err \<Rightarrow> blockOperation E op ''ValidationFailed'' (Error err)
      | None \<Rightarrow> do {
          target \<leftarrow> ask (get_app E)
            (GetApplicationInstance (Namespace (op_meta op)) (tr_Name (os_TargetRef (op_Spec op))));
          case target of
            Inl err \<Rightarrow>
              if IsNotFound err
              then blockOperation E op ''TargetNotReady'' ''target ApplicationInstance not found''
              else State_Monad.return (no_requeue, Some (Wrapf ''get target: '' err []))
          | Inr target \<Rightarrow> do {
              now \<leftarrow> Now E;
              let gate = (if NeedsApprovalCheck (Some op) then BlockReason now op (ApprovalClaimSecret r)
                          else (False, ''''));
              if fst gate then blockOperation E op ''AwaitingApproval'' (snd gate)
              else do {
                conflict \<leftarrow> hasConflictingOperation E op;
                case conflict of
                  Inl err \<Rightarrow> State_Monad.return (no_requeue, Some err)
                | Inr (conflicting, reason) \<Rightarrow>
                    if conflicting then blockOperation E op ''ConflictingOperation'' reason
                    else if \<not> registry_has r (os_Engine (op_Spec op))
                    then blockOperation E op ''DependencyMissing''
                           (''engine '' @ Quote (os_Engine (op_Spec op)) @ '' is not registered'')
                    else (case registry_get r (os_Engine (op_Spec op)) of
                            Inl err \<Rightarrow> State_Monad.return (no_requeue, Some err)
                          | Inr engine \<Rightarrow> runEngine E engine op target)
              }
            }
        })"

definition Reconcile :: "env \<Rightarrow> OperationReconciler \<Rightarrow> string \<Rightarrow> string \<Rightarrow> reconciled prog" where
  "Reconcile E r namespace name = do {
     got \<leftarrow> ask (get_operation E) (GetOperation namespace name);
     case got of
       Inl err \<Rightarrow> State_Monad.return (no_requeue, if IsNotFound err then None else Some err)
     | Inr op \<Rightarrow>
         if \<not> ContainsFinalizer E (op_meta op) OperationFinalizer then do {
           res \<leftarrow> ask (write_result E)
             (UpdateOperation (op\<lparr>op_meta := AddFinalizer E (op_meta op) OperationFinalizer\<rparr>));
           State_Monad.return
             (case res of
                Some err \<Rightarrow> (no_requeue, Some (Wrapf ''add finalizer: '' err []))
              | None \<Rightarrow> (\<lparr>Requeue = True, RequeueAfter = 0\<rparr>, None))
         }
         else if being_deleted (op_meta op) then finalizeOperation E r op
         else reconcileActive E r op
   }"

text \<open>The registry of \<^verbatim>\<open>cmd/main.go\<close>.\<close>

definition engineRegistry :: "env \<Rightarrow> string \<Rightarrow> Registry" where
  "engineRegistry E veleroNS =
     NewRegistry [HelmEngine E, NewVeleroEngineWithNamespace E veleroNS, JobEngine E, WorkflowEngine E,
       HelmHookJobEngine E]"

section \<open>Requests of the parts\<close>

lemma setCondition_simps [simp]:
  "ost_Phase (setCondition now t s r m st) = ost_Phase st"
  "StartedAt (setCondition now t s r m st) = StartedAt st"
  "FinishedAt (setCondition now t s r m st) = FinishedAt st"
  "ost_EngineRef (setCondition now t s r m st) = ost_EngineRef st"
  "IsTrue (ost_Conditions (setCondition now t s r m st)) t' =
     (if t' = t then s = ConditionTrue else IsTrue (ost_Conditions st) t')"
  by (simp_all add: setCondition_def)

text \<open>What a status write of the controller looks like, whatever the status before.\<close>

definition status_wf :: "OperationStatus \<Rightarrow> bool" where
  "status_wf st \<longleftrightarrow>
     ost_Phase st \<in> {PhasePending, PhaseRunning, PhaseSucceeded, PhaseFailed}
     \<and> (ost_Phase st \<in> {PhaseSucceeded, PhaseFailed} \<longrightarrow>
          FinishedAt st \<noteq> None \<and> IsTrue (ost_Conditions st) (ost_Phase st))
     \<and> (ost_Phase st = PhasePending \<longrightarrow>
          IsTrue (ost_Conditions st) ConditionBlocked \<and> \<not> IsTrue (ost_Conditions st) ConditionAccepted)"

text \<open>A status write for the operation \<open>op\<close>: only the status differs, and it is well formed.\<close>

definition status_write :: "Operation \<Rightarrow> call \<Rightarrow> bool" where
  "status_write op c \<longleftrightarrow> (\<exists>st. c = UpdateOperationStatus (op\<lparr>op_Status := st\<rparr>) \<and> status_wf st)"

lemma status_write_update [simp]: "status_write (op\<lparr>op_Status := st\<rparr>) = status_write op"
  by (auto simp: status_write_def fun_eq_iff)

lemma wf_statuses [simp]:
  "status_wf (blockedStatus now reason message st)"
  "status_wf (failedStatus now message st)"
  "status_wf (startedStatus now op target)"
  "coherent s \<Longrightarrow> Done s \<Longrightarrow> status_wf (finishedStatus now s st)"
  by (auto simp: status_wf_def blockedStatus_def failedStatus_def startedStatus_def finishedStatus_def
      coherent_def Let_def)

lemma wf_running: "ost_Phase st = PhaseRunning \<Longrightarrow> status_wf st"
  by (simp add: status_wf_def)

lemma emits_reportConditions [emits_rules]: "emits P (reportConditions E op prev) w"
  unfolding reportConditions_def by (rule emits_report)

lemma status_writeI: "status_wf st \<Longrightarrow> status_write op (UpdateOperationStatus (op\<lparr>op_Status := st\<rparr>))"
  by (auto simp: status_write_def)

lemma emits_blockOperation [emits_rules]:
  assumes st: "\<And>c. status_write op c \<Longrightarrow> P c"
  shows "emits P (blockOperation E op reason message) w"
  unfolding blockOperation_def Let_def by (intro emits_rules st status_writeI wf_statuses)

lemma emits_failOperation [emits_rules]:
  assumes st: "\<And>c. status_write op c \<Longrightarrow> P c"
  shows "emits P (failOperation E op message) w"
  unfolding failOperation_def Let_def by (intro emits_rules st status_writeI wf_statuses)

lemma emits_handleEngineStatusError [emits_rules]:
  assumes st: "\<And>c. status_write op c \<Longrightarrow> P c"
  shows "emits P (handleEngineStatusError E op err) w"
  unfolding handleEngineStatusError_def by (intro emits_rules st status_writeI wf_running) simp_all

lemma emits_backfill [emits_rules]:
  assumes st: "\<And>c. status_write op c \<Longrightarrow> P c"
  shows "emits P (backfillEngineRefIfNeeded E op target) w"
  unfolding backfillEngineRefIfNeeded_def Let_def by (intro emits_rules st status_writeI wf_running) simp_all

lemma backfill_result:
  "run_state (backfillEngineRefIfNeeded E op target) w = ((op', res), w') \<Longrightarrow>
   op' = op\<lparr>op_Status := op_Status op'\<rparr> \<and> op_phase op' = op_phase op"
  by (auto simp: backfillEngineRefIfNeeded_def go_run split: if_splits)

lemma wf_observed:
  assumes "operation_engine engine" and "run_state (eng_Status engine op) w = (Inr s, w')"
  shows "Done s \<Longrightarrow> status_wf (finishedStatus now s st)"
    and "\<not> Done s \<Longrightarrow> status_wf (st\<lparr>ost_Phase := st_Phase s\<rparr>)"
  using operation_engine.status_coherent [OF assms] by (simp_all add: coherent_def wf_running)

lemma emits_recordEngineStatus [emits_rules]:
  assumes eng: "operation_engine engine" and st: "\<And>c. status_write op c \<Longrightarrow> P c"
    and read: "\<And>c. is_read c \<Longrightarrow> P c"
  shows "emits P (recordEngineStatus E engine op prev) w"
  unfolding recordEngineStatus_def Let_def
  by (intro emits_rules st status_writeI emits_mono [OF operation_engine.status_reads [OF eng] read])
     (simp_all add: wf_observed [OF eng])

lemma emits_observeEngine [emits_rules]:
  assumes eng: "operation_engine engine" and st: "\<And>c. status_write op c \<Longrightarrow> P c"
    and read: "\<And>c. is_read c \<Longrightarrow> P c"
  shows "emits P (observeEngine E engine op target prev) w"
proof -
  have "status_write op' c \<Longrightarrow> P c"
    if "run_state (backfillEngineRefIfNeeded E op target) w = ((op', res), w')" for op' res w' c
    using backfill_result [OF that] st status_write_update by metis
  then show ?thesis
    unfolding observeEngine_def by (intro emits_rules eng) (auto intro: st read)
qed

lemma emits_runEngine [emits_rules]:
  assumes eng: "operation_engine engine" and st: "\<And>c. status_write op c \<Longrightarrow> P c"
    and read: "\<And>c. is_read c \<Longrightarrow> P c"
    and create: "\<And>c. is_creation c \<Longrightarrow> op_phase op \<in> {'''', PhasePending} \<Longrightarrow> P c"
  shows "emits P (runEngine E engine op target) w"
proof -
  have "emits P (Materialize engine op target) w" if "op_phase op = '''' \<or> op_phase op = PhasePending"
    by (rule emits_mono [OF operation_engine.materialize_creates [OF eng]]) (use read create that in auto)
  then show ?thesis
    unfolding runEngine_def Let_def
    by (intro emits_rules eng) (auto intro: st read st [OF status_writeI])
qed

section \<open>The registry\<close>

lemma registry_names:
  "distinct (map eng_Name [HelmEngine E, NewVeleroEngineWithNamespace E ns, JobEngine E, WorkflowEngine E,
     HelmHookJobEngine E])"
  by (simp add: HelmEngine_def NewVeleroEngineWithNamespace_def VeleroEngine_def JobEngine_def
      WorkflowEngine_def HelmHookJobEngine_def)

lemma engineRegistry_simps [simp]:
  "engineRegistry E ns EngineHelm = Some (HelmEngine E)"
  "engineRegistry E ns EngineVelero = Some (NewVeleroEngineWithNamespace E ns)"
  "engineRegistry E ns EngineJob = Some (JobEngine E)"
  "engineRegistry E ns EngineWorkflow = Some (WorkflowEngine E)"
  "engineRegistry E ns EngineHelmHookJob = Some (HelmHookJobEngine E)"
  unfolding engineRegistry_def NewRegistry_find [OF registry_names]
  by (simp_all add: HelmEngine_def NewVeleroEngineWithNamespace_def VeleroEngine_def JobEngine_def
      WorkflowEngine_def HelmHookJobEngine_def)

lemma engineRegistry_engines:
  "engineRegistry E ns name = Some engine \<Longrightarrow>
   engine \<in> {HelmEngine E, NewVeleroEngineWithNamespace E ns, JobEngine E, WorkflowEngine E, HelmHookJobEngine E}"
  unfolding engineRegistry_def NewRegistry_find [OF registry_names] by (auto split: if_splits)

lemma engineRegistry_contract:
  "engineRegistry E ns name = Some engine \<Longrightarrow> operation_engine engine"
  using engineRegistry_engines job_engine.operation_engine_axioms hook_engine.operation_engine_axioms
    workflow_engine.operation_engine_axioms velero_engine.operation_engine_axioms
    helm_engine.operation_engine_axioms
  by (fastforce simp: NewVeleroEngineWithNamespace_def)

definition reconciler :: "env \<Rightarrow> string \<Rightarrow> string \<Rightarrow> OperationReconciler" where
  "reconciler E ns secret = \<lparr>or_Registry = Some (engineRegistry E ns), ApprovalClaimSecret = secret\<rparr>"

lemma reconciler_secret [simp]: "ApprovalClaimSecret (reconciler E ns secret) = secret"
  by (simp add: reconciler_def)

lemma reconciler_engine:
  "registry_get (reconciler E ns secret) name = Inr engine \<Longrightarrow> operation_engine engine"
  by (auto simp: registry_get_def reconciler_def Registry_Get_def intro: engineRegistry_contract
      split: option.splits)

section \<open>What a reconcile does\<close>

text \<open>Everything that has to hold of an operation for its workload to be created.\<close>

definition start_allowed :: "env \<Rightarrow> string \<Rightarrow> Operation \<Rightarrow> bool" where
  "start_allowed E secret op \<longleftrightarrow>
     ContainsFinalizer E (op_meta op) OperationFinalizer \<and> \<not> being_deleted (op_meta op)
     \<and> ValidateOperationSpec (Some op) = None
     \<and> op_phase op \<in> {'''', PhasePending}
     \<and> (\<exists>h. fst (BlockReason (clock E h) op secret) = False)
     \<and> (\<exists>h items. list_operations E h = Inr items \<and> findConflictIn op items = None)"

lemma no_conflict_listed:
  "run_state (hasConflictingOperation E op) w = (Inr (False, reason), w') \<Longrightarrow>
   \<exists>h items. list_operations E h = Inr items \<and> findConflictIn op items = None"
  by (auto simp: hasConflictingOperation_def FindConflict_def go_run split: sum.splits option.splits)

lemma emits_hasConflicting [emits_rules]:
  "P (ListOperations (Namespace (op_meta op))) \<Longrightarrow> emits P (hasConflictingOperation E op) w"
  unfolding hasConflictingOperation_def by (intro emits_rules)

lemma emits_reconcileActive [emits_rules]:
  assumes st: "\<And>c. status_write op c \<Longrightarrow> P c" and read: "\<And>c. is_read c \<Longrightarrow> P c"
    and create: "\<And>c. is_creation c \<Longrightarrow> start_allowed E secret op \<Longrightarrow> P c"
    and live: "ContainsFinalizer E (op_meta op) OperationFinalizer" "\<not> being_deleted (op_meta op)"
  shows "emits P (reconcileActive E (reconciler E ns secret) op) w"
proof -
  have allowed: "start_allowed E secret op"
    if "ValidateOperationSpec (Some op) = None" "op_phase op = '''' \<or> op_phase op = PhasePending"
      "\<not> fst (if NeedsApprovalCheck (Some op)
             then BlockReason (clock E h) op (ApprovalClaimSecret (reconciler E ns secret)) else (False, ''''))"
      "run_state (hasConflictingOperation E op) w1 = (Inr (False, reason), w2)" for h w1 w2 reason
    using that live no_conflict_listed [OF that(4)]
    by (auto simp: start_allowed_def NeedsApprovalCheck_def)
  show ?thesis
    unfolding reconcileActive_def Let_def
    by (intro emits_rules)
       (auto intro: st read create [OF _ allowed] reconciler_engine simp: go_run)
qed

lemma emits_finalizeOperation [emits_rules]:
  assumes del: "\<And>c. is_deletion c \<Longrightarrow> P c" and read: "\<And>c. is_read c \<Longrightarrow> P c"
    and upd: "P (UpdateOperation (op\<lparr>op_meta := RemoveFinalizer E (op_meta op) OperationFinalizer\<rparr>))"
  shows "emits P (finalizeOperation E (reconciler E ns secret) op) w"
proof -
  have "emits P (Cancel engine op) w'"
    if "registry_get (reconciler E ns secret) name = Inr engine" for engine name w'
    by (rule emits_mono [OF operation_engine.cancel_deletes [OF reconciler_engine [OF that]]])
       (use del read in auto)
  then show ?thesis
    unfolding finalizeOperation_def Let_def by (intro emits_rules upd) auto
qed

lemma finalizer_updates:
  assumes "finalizer_laws E"
  shows "\<exists>fs. op\<lparr>op_meta := AddFinalizer E (op_meta op) f\<rparr> = op\<lparr>op_meta := (op_meta op)\<lparr>Finalizers := fs\<rparr>\<rparr>"
    and "\<exists>fs. op\<lparr>op_meta := RemoveFinalizer E (op_meta op) f\<rparr> = op\<lparr>op_meta := (op_meta op)\<lparr>Finalizers := fs\<rparr>\<rparr>"
  using assms unfolding finalizer_laws_def by metis+

section \<open>The phases written\<close>

text \<open>
  The abstract life cycle of an operation: what one status write may do to the phase. A workload
  result is recorded only for an operation that has been started.
\<close>

inductive phase_step :: "string \<Rightarrow> string \<Rightarrow> bool" where
  blocked: "phase_step p PhasePending"
| started: "p \<in> {'''', PhasePending} \<Longrightarrow> phase_step p PhaseRunning"
| failed: "phase_step p PhaseFailed"
| observed: "p \<notin> {'''', PhasePending} \<Longrightarrow> q \<in> {PhaseRunning, PhaseSucceeded, PhaseFailed} \<Longrightarrow> phase_step p q"

inductive_simps phase_step_simps: "phase_step p q"

fun phase_path :: "string \<Rightarrow> string list \<Rightarrow> bool" where
  "phase_path p [] = True"
| "phase_path p (q # qs) = (phase_step p q \<and> phase_path q qs)"

text \<open>The phases of the status writes in a history, newest first.\<close>

fun phase_writes :: "history \<Rightarrow> string list" where
  "phase_writes [] = []"
| "phase_writes (UpdateOperationStatus op # h) = op_phase op # phase_writes h"
| "phase_writes (_ # h) = phase_writes h"

definition writes :: "(string list \<Rightarrow> bool) \<Rightarrow> 'a prog \<Rightarrow> world \<Rightarrow> bool" where
  "writes R m w \<longleftrightarrow> wp m (\<lambda>_ w'. \<exists>ps. phase_writes (hist w') = rev ps @ phase_writes (hist w) \<and> R ps) w"

lemma phase_writes_append [simp]: "phase_writes (cs @ h) = phase_writes cs @ phase_writes h"
  by (induction cs rule: phase_writes.induct) auto

lemma phase_writes_none:
  "list_all (\<lambda>c. \<forall>o'. c \<noteq> UpdateOperation o' \<and> c \<noteq> UpdateOperationStatus o') cs \<Longrightarrow> phase_writes cs = []"
  by (induction cs rule: phase_writes.induct) auto

named_theorems writes_rules "the phases the programs write"

lemma writes_return [writes_rules]: "R [] \<Longrightarrow> writes R (State_Monad.return a) w"
  by (simp add: writes_def wp_rules)

lemma writes_report [writes_rules]: "R [] \<Longrightarrow> writes R (reportConditions E op prev) w"
  by (simp add: writes_def wp_rules reportConditions_def)

lemma writes_update [writes_rules]: "R [op_phase op] \<Longrightarrow> writes R (ask f (UpdateOperationStatus op)) w"
  by (auto simp: writes_def wp_rules)

lemma writes_Now [writes_rules]: "R [] \<Longrightarrow> writes R (Now E) w"
  by (simp add: writes_def wp_rules)

lemma writes_emits:
  "emits (\<lambda>c. \<forall>o'. c \<noteq> UpdateOperation o' \<and> c \<noteq> UpdateOperationStatus o') m w \<Longrightarrow> R [] \<Longrightarrow> writes R m w"
  unfolding writes_def emits_def by (erule wp_mono) (auto simp: phase_writes_none)

lemma writes_bind:
  assumes "writes S m w" and "\<And>a w' ps. run_state m w = (a, w') \<Longrightarrow> S ps \<Longrightarrow> writes (\<lambda>qs. R (ps @ qs)) (f a) w'"
  shows "writes R (State_Monad.bind m f) w"
proof -
  obtain a w1 where run: "run_state m w = (a, w1)" by (cases "run_state m w")
  with assms(1) obtain ps where ps: "phase_writes (hist w1) = rev ps @ phase_writes (hist w)" "S ps"
    by (auto simp: writes_def wp_def)
  obtain b w2 where run2: "run_state (f a) w1 = (b, w2)" by (cases "run_state (f a) w1")
  with assms(2) [OF run ps(2)] obtain qs
    where "phase_writes (hist w2) = rev qs @ phase_writes (hist w1)" "R (ps @ qs)"
    by (auto simp: writes_def wp_def)
  with ps run run2 show ?thesis
    by (auto simp: writes_def wp_def go_run intro!: exI [of _ "ps @ qs"])
qed

lemma writes_if [writes_rules]:
  "(b \<Longrightarrow> writes R m w) \<Longrightarrow> (\<not> b \<Longrightarrow> writes R m' w) \<Longrightarrow> writes R (if b then m else m') w"
  by simp

lemma writes_sum [writes_rules]:
  "(\<And>e. s = Inl e \<Longrightarrow> writes R (f e) w) \<Longrightarrow> (\<And>a. s = Inr a \<Longrightarrow> writes R (g a) w) \<Longrightarrow>
   writes R (case s of Inl e \<Rightarrow> f e | Inr a \<Rightarrow> g a) w"
  by (cases s) auto

lemma writes_option [writes_rules]:
  "(s = None \<Longrightarrow> writes R m w) \<Longrightarrow> (\<And>a. s = Some a \<Longrightarrow> writes R (g a) w) \<Longrightarrow>
   writes R (case s of None \<Rightarrow> m | Some a \<Rightarrow> g a) w"
  by (cases s) auto

lemma writes_prod [writes_rules]:
  "(\<And>a b. p = (a, b) \<Longrightarrow> writes R (f a b) w) \<Longrightarrow> writes R (case p of (a, b) \<Rightarrow> f a b) w"
  by (cases p) auto

lemma writes_ask_other:
  "(\<And>o'. c \<noteq> UpdateOperationStatus o') \<Longrightarrow> R [] \<Longrightarrow> writes R (ask f c) w"
  by (cases c) (auto simp: writes_def wp_rules)

lemma writes_silent_bind:
  assumes "writes (\<lambda>ps. ps = []) m w" and "\<And>a w'. run_state m w = (a, w') \<Longrightarrow> writes R (f a) w'"
  shows "writes R (State_Monad.bind m f) w"
  by (rule writes_bind [OF assms(1)]) (simp add: assms(2))

lemma writes_update_bind:
  assumes "\<And>a. writes (\<lambda>qs. R (op_phase op # qs)) (g a) (w\<lparr>hist := UpdateOperationStatus op # hist w\<rparr>)"
  shows "writes R (State_Monad.bind (ask f (UpdateOperationStatus op)) g) w"
  by (rule writes_bind [where S = "\<lambda>ps. ps = [op_phase op]"])
     (auto simp: go_run assms intro: writes_rules)

text \<open>The phases of the parts of a reconcile.\<close>

lemma writes_blockOperation [writes_rules]:
  "R [PhasePending] \<Longrightarrow> writes R (blockOperation E op reason message) w"
  unfolding blockOperation_def Let_def
  by (intro writes_silent_bind writes_update_bind writes_rules) (simp_all add: blockedStatus_def)

lemma writes_failOperation [writes_rules]:
  "R [PhaseFailed] \<Longrightarrow> writes R (failOperation E op message) w"
  unfolding failOperation_def Let_def
  by (intro writes_silent_bind writes_update_bind writes_rules) (simp_all add: failedStatus_def)

lemma writes_mono: "writes S m w \<Longrightarrow> (\<And>ps. S ps \<Longrightarrow> R ps) \<Longrightarrow> writes R m w"
  unfolding writes_def by (erule wp_mono) auto

abbreviation short_path :: "nat \<Rightarrow> string \<Rightarrow> string list \<Rightarrow> bool" where
  "short_path n p ps \<equiv> phase_path p ps \<and> length ps \<le> n"

lemma writes_handleEngineStatusError:
  assumes "op_phase op \<notin> {'''', PhasePending}"
  shows "writes (short_path 1 (op_phase op)) (handleEngineStatusError E op err) w"
  unfolding handleEngineStatusError_def
  by (intro writes_silent_bind writes_update_bind writes_rules)
     (use assms in \<open>simp_all add: phase_step_simps\<close>)

lemma writes_backfill:
  "writes (\<lambda>ps. ps = [] \<or> ps = [PhaseRunning] \<and> op_phase op = PhaseRunning) (backfillEngineRefIfNeeded E op target) w"
  unfolding backfillEngineRefIfNeeded_def Let_def
  by (intro writes_silent_bind writes_update_bind writes_rules) simp_all

lemma writes_recordEngineStatus:
  assumes "operation_engine engine" and "op_phase op \<notin> {'''', PhasePending}"
  shows "writes (short_path 1 (op_phase op)) (recordEngineStatus E engine op prev) w"
proof -
  have silent: "writes (\<lambda>ps. ps = []) (eng_Status engine op) w"
    by (rule writes_emits [OF operation_engine.no_operation_writes(2) [OF assms(1)]]) simp
  have phase: "phase_step (op_phase op) (st_Phase s)"
    if "run_state (eng_Status engine op) w = (Inr s, w')" for s w'
    using operation_engine.status_phase [OF assms(1) that] assms(2) by (auto intro: phase_step.observed)
  show ?thesis
    unfolding recordEngineStatus_def Let_def
    by (intro writes_silent_bind [OF silent] writes_silent_bind [OF writes_Now] writes_update_bind
        writes_silent_bind [OF writes_report] writes_rules writes_handleEngineStatusError assms(2))
       (simp_all add: phase finishedStatus_def Let_def)
qed

lemma writes_observeEngine:
  assumes "operation_engine engine" and "op_phase op \<notin> {'''', PhasePending}"
  shows "writes (short_path 2 (op_phase op)) (observeEngine E engine op target prev) w"
  unfolding observeEngine_def
proof (rule writes_bind [OF writes_backfill], intro writes_rules)
  fix a w' ps op' res
  assume run: "run_state (backfillEngineRefIfNeeded E op target) w = (a, w')" and a: "a = (op', res)"
    and ps: "ps = [] \<or> ps = [PhaseRunning] \<and> op_phase op = PhaseRunning"
  from ps show "short_path 2 (op_phase op) (ps @ [])" by (auto simp: phase_step_simps)
  from backfill_result [of E op target w op' res w'] run a have "op_phase op' = op_phase op" by simp
  with assms have "writes (short_path 1 (op_phase op)) (recordEngineStatus E engine op' prev) w'"
    using writes_recordEngineStatus [of engine op'] by simp
  then show "writes (\<lambda>qs. short_path 2 (op_phase op) (ps @ qs)) (recordEngineStatus E engine op' prev) w'"
    by (rule writes_mono) (use ps in \<open>auto simp: phase_step_simps\<close>)
qed

lemma started_phase [simp]: "ost_Phase (startedStatus now op target) = PhaseRunning"
  by (simp add: startedStatus_def)

lemma writes_runEngine:
  assumes "operation_engine engine"
  shows "writes (short_path 3 (op_phase op)) (runEngine E engine op target) w"
proof (cases "op_phase op = '''' \<or> op_phase op = PhasePending")
  case True
  have silent: "writes (\<lambda>ps. ps = []) (Materialize engine op target) w"
    by (rule writes_emits [OF operation_engine.no_operation_writes(1) [OF assms]]) simp
  have run: "writes (short_path 2 PhaseRunning)
      (observeEngine E engine (op\<lparr>op_Status := startedStatus now op target\<rparr>) target prev) w'" for now prev w'
    using writes_observeEngine [OF assms, of "op\<lparr>op_Status := startedStatus now op target\<rparr>"] by simp
  show ?thesis
    unfolding runEngine_def Let_def
    by (intro writes_silent_bind [OF silent] writes_silent_bind [OF writes_Now] writes_update_bind
        writes_silent_bind [OF writes_report] writes_rules)
       (use True in \<open>simp_all add: run phase_step_simps\<close>)
next
  case False
  then have "writes (short_path 3 (op_phase op)) (observeEngine E engine op target prev) w" for prev
    by (intro writes_mono [OF writes_observeEngine [OF assms]]) auto
  with False show ?thesis by (simp add: runEngine_def Let_def)
qed

lemma writes_FindConflict [writes_rules]: "R [] \<Longrightarrow> writes R (hasConflictingOperation E op) w"
  by (simp add: writes_def wp_rules hasConflictingOperation_def FindConflict_def)

lemma writes_reconcileActive:
  "writes (short_path 3 (op_phase op)) (reconcileActive E (reconciler E ns secret) op) w"
  unfolding reconcileActive_def Let_def
  by (intro writes_silent_bind [OF writes_ask_other] writes_silent_bind [OF writes_Now]
      writes_silent_bind [OF writes_FindConflict] writes_rules writes_runEngine reconciler_engine)
     (auto simp: phase_step_simps)

lemma writes_finalizeOperation:
  "writes (\<lambda>ps. ps = []) (finalizeOperation E (reconciler E ns secret) op) w"
proof -
  have "writes (\<lambda>ps. ps = []) (Cancel engine op) w'"
    if "registry_get (reconciler E ns secret) name = Inr engine" for engine name w'
    by (rule writes_emits [OF operation_engine.no_operation_writes(3) [OF reconciler_engine [OF that]]]) simp
  then show ?thesis
    unfolding finalizeOperation_def Let_def
    by (intro writes_silent_bind [OF writes_ask_other] writes_silent_bind writes_rules) auto
qed

section \<open>Properties\<close>

text \<open>C1: every request a reconcile makes, besides reads, is one of: a well-formed status write that
  changes nothing but the status of the operation; the creation of a workload for an operation that
  is valid, approved, free of conflicts and not yet started; a deletion while the operation is being
  deleted; an update of the finalizers alone.\<close>

theorem reconcile_requests:
  assumes "finalizer_laws E" and "get_operation E (GetOperation namespace name # hist w) = Inr op"
  shows "emits (\<lambda>c. is_read c \<or> status_write op c
           \<or> is_creation c \<and> start_allowed E secret op
           \<or> is_deletion c \<and> being_deleted (op_meta op)
           \<or> (\<exists>fs. c = UpdateOperation (op\<lparr>op_meta := (op_meta op)\<lparr>Finalizers := fs\<rparr>\<rparr>)))
         (Reconcile E (reconciler E ns secret) namespace name) w"
  unfolding Reconcile_def
  by (intro emits_rules)
     (use assms(2) finalizer_updates [OF assms(1)] in \<open>auto simp: go_run\<close>)


text \<open>
  The common hypothesis of the statements about single reconciles: the operation read passes every
  guard before the engine, on the requests the reconcile makes to check them.
\<close>

definition guard_requests :: "string \<Rightarrow> string \<Rightarrow> Operation \<Rightarrow> history \<Rightarrow> history" where
  "guard_requests namespace name op h =
     GetApplicationInstance (Namespace (op_meta op)) (tr_Name (os_TargetRef (op_Spec op)))
       # GetOperation namespace name # h"

definition passes_validation ::
  "env \<Rightarrow> string \<Rightarrow> string \<Rightarrow> string \<Rightarrow> history \<Rightarrow> Operation \<Rightarrow> ApplicationInstance \<Rightarrow> bool" where
  "passes_validation E secret namespace name h op target \<longleftrightarrow>
     get_operation E (GetOperation namespace name # h) = Inr op
     \<and> ContainsFinalizer E (op_meta op) OperationFinalizer \<and> \<not> being_deleted (op_meta op)
     \<and> ValidateOperationSpec (Some op) = None
     \<and> get_app E (guard_requests namespace name op h) = Inr target
     \<and> (NeedsApprovalCheck (Some op) \<longrightarrow>
          \<not> fst (BlockReason (clock E (guard_requests namespace name op h)) op secret))"

definition reaches_engine ::
  "env \<Rightarrow> string \<Rightarrow> string \<Rightarrow> string \<Rightarrow> string \<Rightarrow> history \<Rightarrow> Operation \<Rightarrow> ApplicationInstance \<Rightarrow> Engine \<Rightarrow> bool" where
  "reaches_engine E ns secret namespace name h op target engine \<longleftrightarrow>
     passes_validation E secret namespace name h op target
     \<and> (\<exists>items. list_operations E (ListOperations (Namespace (op_meta op)) # guard_requests namespace name op h)
                 = Inr items \<and> findConflictIn op items = None)
     \<and> engineRegistry E ns (os_Engine (op_Spec op)) = Some engine"

lemma reconcile_reaches_engine:
  assumes "reaches_engine E ns secret namespace name (hist w) op target engine"
  shows "run_state (Reconcile E (reconciler E ns secret) namespace name) w =
         run_state (runEngine E engine op target)
           (w\<lparr>hist := ListOperations (Namespace (op_meta op)) # guard_requests namespace name op (hist w)\<rparr>)"
  using assms
  by (auto simp: Reconcile_def reconcileActive_def reaches_engine_def passes_validation_def guard_requests_def
      go_run hasConflictingOperation_def FindConflict_def registry_has_def registry_get_def reconciler_def
      Registry_Has_def Registry_Get_def split: if_splits)

lemma observe_started:
  assumes "op_phase op = PhaseRunning \<longrightarrow>
      StartedAt (op_Status op) \<noteq> None \<and> ost_EngineRef (op_Status op) \<noteq> None"
  shows "run_state (observeEngine E engine op target prev) w = run_state (recordEngineStatus E engine op prev) w"
  using assms by (auto simp: observeEngine_def backfillEngineRefIfNeeded_def go_run)

text \<open>C3: when the engine of a running operation reports its end, the reconcile records it: the last
  request is a status write with the phase Succeeded or Failed the engine reported and the finishing
  time, and nothing is requeued.\<close>

theorem engine_result_recorded:
  assumes "reaches_engine E ns secret namespace name (hist w) op target engine"
    and "op_phase op = PhaseRunning" and "StartedAt (op_Status op) \<noteq> None"
    and "ost_EngineRef (op_Status op) \<noteq> None"
    and "run_state (eng_Status engine op)
           (w\<lparr>hist := ListOperations (Namespace (op_meta op)) # guard_requests namespace name op (hist w)\<rparr>)
         = (Inr s, w1)" and "Done s"
    and "\<And>o'. write_result E (UpdateOperationStatus o' # hist w1) = None"
  shows "\<exists>o' w'. run_state (Reconcile E (reconciler E ns secret) namespace name) w = ((no_requeue, None), w')
           \<and> hist w' = UpdateOperationStatus o' # hist w1
           \<and> op_phase o' = (if Failed s then PhaseFailed else PhaseSucceeded)
           \<and> FinishedAt (op_Status o') = Some (clock E (hist w1))
           \<and> op_Spec o' = op_Spec op \<and> op_meta o' = op_meta op"
proof -
  have "operation_engine engine"
    using assms(1) engineRegistry_contract by (auto simp: reaches_engine_def)
  from operation_engine.status_coherent [OF this assms(5)] assms(6)
  have "st_Phase s = (if Failed s then PhaseFailed else PhaseSucceeded)" by (simp add: coherent_def)
  with assms(2-7) show ?thesis
    by (simp add: reconcile_reaches_engine [OF assms(1)] runEngine_def observe_started recordEngineStatus_def
        go_run reportConditions_def finishedStatus_def)
qed

text \<open>C36: a conflicting operation that is listed while another one is already running puts the
  running one back to Pending, although its workload has been created.\<close>

theorem running_operation_put_back_to_pending:
  assumes "passes_validation E secret namespace name (hist w) op target" and "op_phase op = PhaseRunning"
    and "list_operations E (ListOperations (Namespace (op_meta op)) # guard_requests namespace name op (hist w))
         = Inr items" and "findConflictIn op items = Some conflict"
  shows "\<exists>o'. hd (hist (snd (run_state (Reconcile E (reconciler E ns secret) namespace name) w)))
                = UpdateOperationStatus o'
           \<and> op_phase o' = PhasePending \<and> StartedAt (op_Status o') = StartedAt (op_Status op)"
  using assms
  by (auto simp: Reconcile_def reconcileActive_def passes_validation_def guard_requests_def go_run
      hasConflictingOperation_def FindConflict_def blockOperation_def reportConditions_def blockedStatus_def
      NeedsApprovalCheck_def split: if_splits option.splits)

text \<open>C37: a RunCommand operation that has succeeded is turned into a failed one by the first
  reconcile after its job has been removed, as the job's time to live makes it be.\<close>

theorem succeeded_operation_fails_later:
  assumes "reaches_engine E ns secret namespace name (hist w) op target (JobEngine E)"
    and "op_phase op = PhaseSucceeded"
    and "ost_EngineRef (op_Status op) = Some ref" and "er_Namespace ref \<noteq> ''''" and "er_Name ref \<noteq> ''''"
    and "get_job E (GetJob (er_Namespace ref) (er_Name ref) # ListOperations (Namespace (op_meta op))
           # guard_requests namespace name op (hist w)) = Inl (ApiStatus NotFound msg)"
  shows "\<exists>o'. hd (hist (snd (run_state (Reconcile E (reconciler E ns secret) namespace name) w)))
                = UpdateOperationStatus o' \<and> op_phase o' = PhaseFailed"
  using assms(2-6)
  by (auto simp: reconcile_reaches_engine [OF assms(1)] runEngine_def observe_started recordEngineStatus_def
      JobEngine_def JobEngine_Status_def resolveEngineLocationForStatus_def resolveEngineLocationDetailed_def
      go_run handleEngineStatusError_def ErrWorkloadOwnership_def ErrWorkloadAmbiguous_def ErrWorkloadMissing_def
      failOperation_def failedStatus_def reportConditions_def split: option.splits)


text \<open>A running operation whose workload is missing is left alone and looked at again after five
  seconds while less than sixty seconds have passed since its start, and failed from then on.\<close>

theorem missing_workload_grace:
  assumes "op_phase op = PhaseRunning" and "StartedAt (op_Status op) = Some started"
    and "errors_Is err ErrWorkloadMissing"
    and "\<not> errors_Is err ErrWorkloadOwnership" and "\<not> errors_Is err ErrWorkloadAmbiguous"
  shows "if clock E (hist w) < started + seconds 60
         then run_state (handleEngineStatusError E op err) w = ((requeue_after 5, None), w)
         else \<exists>o'. hd (hist (snd (run_state (handleEngineStatusError E op err) w))) = UpdateOperationStatus o'
                \<and> op_phase o' = PhaseFailed \<and> FinishedAt (op_Status o') = Some (clock E (hist w))"
  using assms
  by (auto simp: handleEngineStatusError_def go_run failOperation_def failedStatus_def reportConditions_def
      split: option.splits)

text \<open>C4: the finalizer of an operation being deleted is removed only after its engine has cancelled
  the workload: the update that removes it follows the requests of a cancellation that succeeded, and
  a failed cancellation is returned as an error with the finalizer in place.\<close>

theorem finalizer_removed_after_cancel:
  assumes "finalizer_laws E" and "get_operation E (GetOperation namespace name # hist w) = Inr op"
    and "OperationFinalizer \<in> set (Finalizers (op_meta op))" and "being_deleted (op_meta op)"
    and "engineRegistry E ns (os_Engine (op_Spec op)) = Some engine"
    and "run_state (Cancel engine op) (w\<lparr>hist := GetOperation namespace name # hist w\<rparr>) = (cancelled, w1)"
    and "run_state (Reconcile E (reconciler E ns secret) namespace name) w = ((res, err), w')"
  shows "case cancelled of
           Some e \<Rightarrow> w' = w1 \<and> err = Some (Wrapf ''cancel engine resources: '' e [])
         | None \<Rightarrow> \<exists>o'. hist w' = UpdateOperation o' # hist w1
                     \<and> OperationFinalizer \<notin> set (Finalizers (op_meta o'))
                     \<and> set (Finalizers (op_meta o')) = set (Finalizers (op_meta op)) - {OperationFinalizer}"
proof -
  have "ContainsFinalizer E (op_meta op) OperationFinalizer"
    using assms(1,3) by (simp add: finalizer_laws_def)
  then have run: "run_state (Reconcile E (reconciler E ns secret) namespace name) w =
      run_state (finalizeOperation E (reconciler E ns secret) op) (w\<lparr>hist := GetOperation namespace name # hist w\<rparr>)"
    using assms(2,4) by (simp add: Reconcile_def go_run)
  obtain fs where "RemoveFinalizer E (op_meta op) OperationFinalizer = (op_meta op)\<lparr>Finalizers := fs\<rparr>"
    and "OperationFinalizer \<notin> set fs" and "set (Finalizers (op_meta op)) - {OperationFinalizer} = set fs"
    using assms(1) unfolding finalizer_laws_def by metis
  then show ?thesis
    using assms(5-7) unfolding run
    by (auto simp: finalizeOperation_def registry_has_def registry_get_def reconciler_def Registry_Has_def
        Registry_Get_def go_run split: option.splits)
qed
section \<open>Witnesses\<close>

definition live_op :: "string \<Rightarrow> string \<Rightarrow> string \<Rightarrow> string option \<Rightarrow> Operation" where
  "live_op typ engine phase params =
     (let op = demo_op ''run'' typ phase in
      op\<lparr>op_meta := (op_meta op)\<lparr>UID := ''uid-1'', Finalizers := [OperationFinalizer]\<rparr>,
         op_Spec := (op_Spec op)\<lparr>os_Engine := engine, Parameters := params\<rparr>,
         op_Status := (op_Status op)\<lparr>StartedAt := Some 0,
           ost_EngineRef := Some \<lparr>er_Kind = ''Job'', er_Name = ''ns--run'', er_Namespace = ''apps''\<rparr>\<rparr>\<rparr>)"

definition op_server :: "Operation \<Rightarrow> Operation list \<Rightarrow> env" where
  "op_server op items = demo_env\<lparr>get_operation := (\<lambda>_. Inr op), get_app := (\<lambda>_. Inr demo_app),
     list_operations := (\<lambda>_. Inr items)\<rparr>"

lemma op_server_laws: "finalizer_laws (op_server op items)" "owner_laws (op_server op items)"
proof -
  have "\<exists>fs. m\<lparr>Finalizers := f # Finalizers m\<rparr> = m\<lparr>Finalizers := fs\<rparr> \<and> f \<in> set fs \<and> set (Finalizers m) \<subseteq> set fs"
    for m :: ObjectMeta and f
    by (intro exI [of _ "f # Finalizers m"]) auto
  moreover have "\<exists>fs. m\<lparr>Finalizers := removeAll f (Finalizers m)\<rparr> = m\<lparr>Finalizers := fs\<rparr> \<and> f \<notin> set fs
      \<and> set (Finalizers m) - {f} = set fs" for m :: ObjectMeta and f
    by (intro exI [of _ "removeAll f (Finalizers m)"]) auto
  ultimately show "finalizer_laws (op_server op items)"
    by (simp add: finalizer_laws_def op_server_def demo_env_def)
  show "owner_laws (op_server op items)"
    using demo_owner_laws by (simp add: owner_laws_def op_server_def)
qed

lemma live_op_simps [simp]:
  "op_phase (live_op typ engine phase params) = phase"
  "os_Type (op_Spec (live_op typ engine phase params)) = typ"
  "os_Engine (op_Spec (live_op typ engine phase params)) = engine"
  "Name (op_meta (live_op typ engine phase params)) = ''run''"
  "Namespace (op_meta (live_op typ engine phase params)) = ''ns''"
  "StartedAt (op_Status (live_op typ engine phase params)) = Some 0"
  "ost_EngineRef (op_Status (live_op typ engine phase params))
     = Some \<lparr>er_Kind = ''Job'', er_Name = ''ns--run'', er_Namespace = ''apps''\<rparr>"
  "\<not> being_deleted (op_meta (live_op typ engine phase params))"
  "Finalizers (op_meta (live_op typ engine phase params)) = [OperationFinalizer]"
  "ContainsFinalizer (op_server op items) (op_meta (live_op typ engine phase params)) OperationFinalizer"
  by (simp_all add: live_op_def demo_op_def being_deleted_def meta0_def op_server_def demo_env_def)

lemma op_server_passes:
  assumes "ValidateOperationSpec (Some op) = None" and "op_phase op \<notin> {'''', PhasePending}"
    and "ContainsFinalizer (op_server op items) (op_meta op) OperationFinalizer"
    and "\<not> being_deleted (op_meta op)"
  shows "passes_validation (op_server op items) secret namespace name h op demo_app"
  using assms by (simp add: passes_validation_def op_server_def NeedsApprovalCheck_def)

lemma live_ops_valid:
  "ValidateOperationSpec (Some (live_op OperationTypeRunCommand EngineJob phase (Some demo_raw))) = None"
  "ValidateOperationSpec (Some (live_op OperationTypeUpgrade EngineHelm phase None)) = None"
  "ValidateOperationSpec (Some (live_op OperationTypeBackup EngineVelero phase None)) = None"
  by code_simp+

lemma op_server_reaches:
  assumes "passes_validation (op_server op []) secret namespace name h op demo_app"
    and "engineRegistry (op_server op []) ns (os_Engine (op_Spec op)) = Some engine"
  shows "reaches_engine (op_server op []) ns secret namespace name h op demo_app engine"
  using assms by (simp add: reaches_engine_def op_server_def)

abbreviation run_job_op :: "string \<Rightarrow> Operation" where
  "run_job_op phase \<equiv> live_op OperationTypeRunCommand EngineJob phase (Some demo_raw)"

theorem reconcile_requests_witness:
  "emits (\<lambda>c. is_read c \<or> status_write (run_job_op '''') c
       \<or> is_creation c \<and> start_allowed (op_server (run_job_op '''') []) '''' (run_job_op '''')
       \<or> is_deletion c \<and> being_deleted (op_meta (run_job_op ''''))
       \<or> (\<exists>fs. c = UpdateOperation ((run_job_op '''')\<lparr>op_meta := (op_meta (run_job_op ''''))\<lparr>Finalizers := fs\<rparr>\<rparr>)))
     (Reconcile (op_server (run_job_op '''') []) (reconciler (op_server (run_job_op '''') []) '''' '''') ''ns'' ''run'')
     demo_world"
  by (rule reconcile_requests [OF op_server_laws(1)]) (simp add: op_server_def)


text \<open>A server on which the job of the operation has completed.\<close>

definition done_server :: env where
  "done_server = (op_server (run_job_op PhaseRunning) [])\<lparr>get_job :=
     (\<lambda>_. Inr (demo_job\<lparr>bj_Conditions := [\<lparr>jc_Type = ''Complete'', jc_Status = ''True'', jc_Message = ''''\<rparr>]\<rparr>))\<rparr>"

theorem engine_result_recorded_witness:
  "\<exists>o' w'. run_state (Reconcile done_server (reconciler done_server '''' '''') ''ns'' ''run'') demo_world
       = ((no_requeue, None), w')
     \<and> hd (hist w') = UpdateOperationStatus o' \<and> op_phase o' = PhaseSucceeded"
proof -
  let ?op = "run_job_op PhaseRunning"
  let ?w = "demo_world\<lparr>hist := ListOperations (Namespace (op_meta ?op)) # guard_requests ''ns'' ''run'' ?op (hist demo_world)\<rparr>"
  have "passes_validation (op_server ?op []) '''' ''ns'' ''run'' (hist demo_world) ?op demo_app"
    by (rule op_server_passes) (simp_all add: live_ops_valid)
  then have reach: "reaches_engine done_server '''' '''' ''ns'' ''run'' (hist demo_world) ?op demo_app (JobEngine done_server)"
    by (simp add: reaches_engine_def passes_validation_def done_server_def op_server_def)
  have owned: "verifyOperationOwnership (Labels (bj_meta demo_job)) ?op = None"
    by (simp add: demo_job_def jobFor_def verifyOperationOwnership_def applyOperationLabels_def go_get_def demo_names
        live_op_def demo_op_def)
  obtain s w1 where run: "run_state (eng_Status (JobEngine done_server) ?op) ?w = (Inr s, w1)"
    and s: "Done s" "\<not> Failed s"
    by (auto simp: JobEngine_def JobEngine_Status_def resolveEngineLocationForStatus_def
        resolveEngineLocationDetailed_def go_run done_server_def owned statusFromJob_def)
  have "write_result done_server h = None" for h
    by (simp add: done_server_def op_server_def demo_answers)
  with engine_result_recorded [OF reach _ _ _ run s(1)] s(2) show ?thesis by fastforce
qed

theorem running_operation_put_back_to_pending_witness:
  "\<exists>o'. hd (hist (snd (run_state (Reconcile
         (op_server (live_op OperationTypeBackup EngineVelero PhaseRunning None) [demo_op ''later'' ''Restore'' ''Pending''])
         (reconciler (op_server (live_op OperationTypeBackup EngineVelero PhaseRunning None)
            [demo_op ''later'' ''Restore'' ''Pending'']) '''' '''') ''ns'' ''run'') demo_world))) = UpdateOperationStatus o'
     \<and> op_phase o' = PhasePending"
proof -
  let ?op = "live_op OperationTypeBackup EngineVelero PhaseRunning None"
  let ?E = "op_server ?op [demo_op ''later'' ''Restore'' ''Pending'']"
  have pass: "passes_validation ?E '''' ''ns'' ''run'' (hist demo_world) ?op demo_app"
    by (rule op_server_passes) (simp_all add: live_ops_valid)
  have listed: "list_operations ?E h = Inr [demo_op ''later'' ''Restore'' ''Pending'']" for h
    by (simp add: op_server_def)
  have conflict: "findConflictIn ?op [demo_op ''later'' ''Restore'' ''Pending'']
      = Some \<lparr>cf_Name = ''later'', cf_Type = ''Restore''\<rparr>"
    by code_simp
  from running_operation_put_back_to_pending [OF pass live_op_simps(1) listed conflict, of "''''"]
  show ?thesis by blast
qed

theorem succeeded_operation_fails_later_witness:
  "\<exists>o'. hd (hist (snd (run_state (Reconcile (op_server (run_job_op PhaseSucceeded) [])
         (reconciler (op_server (run_job_op PhaseSucceeded) []) '''' '''') ''ns'' ''run'') demo_world)))
       = UpdateOperationStatus o' \<and> op_phase o' = PhaseFailed"
proof -
  let ?op = "run_job_op PhaseSucceeded"
  have "passes_validation (op_server ?op []) '''' ''ns'' ''run'' (hist demo_world) ?op demo_app"
    by (rule op_server_passes) (simp_all add: live_ops_valid)
  then have "reaches_engine (op_server ?op []) '''' '''' ''ns'' ''run'' (hist demo_world) ?op demo_app
      (JobEngine (op_server ?op []))"
    by (rule op_server_reaches) simp
  moreover have "get_job (op_server ?op []) h = Inl (ApiStatus NotFound ''not found'')" for h
    by (simp add: op_server_def demo_env_def)
  ultimately show ?thesis
    using succeeded_operation_fails_later [of "op_server ?op []" "''''" "''''" "''ns''" "''run''" demo_world ?op demo_app] by simp
qed


theorem missing_workload_grace_witness:
  "run_state (handleEngineStatusError demo_env (run_job_op PhaseRunning) ErrWorkloadMissing) demo_world
     = ((requeue_after 5, None), demo_world)
   \<and> (\<exists>o'. hd (hist (snd (run_state (handleEngineStatusError (demo_env\<lparr>clock := (\<lambda>_. seconds 60)\<rparr>)
          (run_job_op PhaseRunning) ErrWorkloadMissing) demo_world))) = UpdateOperationStatus o'
        \<and> op_phase o' = PhaseFailed)"
  using missing_workload_grace [of "run_job_op PhaseRunning" 0 ErrWorkloadMissing demo_env demo_world]
    missing_workload_grace [of "run_job_op PhaseRunning" 0 ErrWorkloadMissing "demo_env\<lparr>clock := (\<lambda>_. seconds 60)\<rparr>" demo_world]
  by (auto simp: ErrWorkloadMissing_def ErrWorkloadOwnership_def ErrWorkloadAmbiguous_def demo_env_def demo_world_def
      seconds_def)

definition deleted_op :: Operation where
  "deleted_op = (let op = live_op OperationTypeUpgrade EngineHelm PhaseRunning None in
     op\<lparr>op_meta := (op_meta op)\<lparr>DeletionTimestamp := Some 0\<rparr>\<rparr>)"

theorem finalizer_removed_after_cancel_witness:
  "\<exists>o'. hd (hist (snd (run_state (Reconcile (op_server deleted_op []) (reconciler (op_server deleted_op []) '''' '''')
         ''ns'' ''run'') demo_world))) = UpdateOperation o'
     \<and> OperationFinalizer \<notin> set (Finalizers (op_meta o'))"
proof -
  let ?E = "op_server deleted_op []"
  obtain res err w' where run: "run_state (Reconcile ?E (reconciler ?E '''' '''') ''ns'' ''run'') demo_world = ((res, err), w')"
    by (metis surj_pair)
  have get: "get_operation ?E (GetOperation ''ns'' ''run'' # hist demo_world) = Inr deleted_op"
    by (simp add: op_server_def)
  have op: "OperationFinalizer \<in> set (Finalizers (op_meta deleted_op))" "being_deleted (op_meta deleted_op)"
    "engineRegistry ?E '''' (os_Engine (op_Spec deleted_op)) = Some (HelmEngine ?E)"
    by (simp_all add: deleted_op_def live_op_def demo_op_def being_deleted_def IsZero_def zero_time_def Let_def)
  have cancel: "run_state (Cancel (HelmEngine ?E) deleted_op) w1 = (None, w1)" for w1
    by (simp add: HelmEngine_def HelmEngine_Cancel_def)
  from finalizer_removed_after_cancel [OF op_server_laws(1) get op cancel run] run show ?thesis by auto
qed

end
