(* ===== verification/Admission.thy ===== *)
theory Admission
  imports Operation_Controller
begin

text \<open>
  The validating webhooks (\<^verbatim>\<open>internal/webhook\<close>) and the ApplicationInstance validation they share with
  the controller (\<^verbatim>\<open>internal/controller/validation.go\<close>).

  \<open>ValidateCreate\<close> and \<open>ValidateUpdate\<close> of the Operation webhook are programs: they read the
  namespace, the target and the other Operations. The walk over inline values visits the members
  of an object in the order of the document; the code's order is that of a Go map, which may
  change which of several offending members an error names, but not whether there is one.
\<close>

section \<open>ApplicationInstance validation\<close>

abbreviation CatalogIDSeaweedFS :: string where "CatalogIDSeaweedFS \<equiv> ''seaweedfs''"

definition IsSeaweedWorkload :: "ApplicationInstance option \<Rightarrow> bool" where
  "IsSeaweedWorkload app =
     (case app of None \<Rightarrow> False | Some app \<Rightarrow> CatalogID (as_AppRef (app_Spec app)) = CatalogIDSeaweedFS)"

definition validateChart :: "ChartSpec \<Rightarrow> go_error option" where
  "validateChart chart =
     (if ch_SourceType chart \<noteq> ChartSourceOCI \<and> ch_SourceType chart \<noteq> ChartSourceHelm
      then Some (Errorf ''spec.chart.sourceType must be oci or helm'')
      else if TrimSpace (ch_URL chart) = '''' then Some (Errorf ''spec.chart.url is required'')
      else if TrimSpace (ch_Name chart) = '''' then Some (Errorf ''spec.chart.name is required'')
      else if TrimSpace (ch_Version chart) = '''' then Some (Errorf ''spec.chart.version is required'')
      else None)"

definition validateRelease :: "string \<Rightarrow> ReleaseSpec \<Rightarrow> go_error option" where
  "validateRelease ns rel =
     (if TrimSpace (rel_Name rel) = '''' then Some (Errorf ''spec.release.name is required'')
      else if TrimSpace (rel_Namespace rel) = '''' then Some (Errorf ''spec.release.namespace is required'')
      else if rel_Namespace rel \<noteq> ns then Some (Errorf ''spec.release.namespace must match metadata.namespace'')
      else None)"

definition key_ref_complete :: "ObjectKeyRef option \<Rightarrow> bool" where
  "key_ref_complete ref =
     (case ref of None \<Rightarrow> False | Some r \<Rightarrow> okr_Name r \<noteq> '''' \<and> okr_Key r \<noteq> '''')"

definition validateValues :: "ValuesSpec \<Rightarrow> go_error option" where
  "validateValues vals =
     (if Source vals = ValuesSourceInline then
        (if Inline vals = None
         then Some (Errorf ''spec.values.inline is required when source is inline'') else None)
      else if Source vals = ValuesSourceSecretRef then
        (if key_ref_complete (SecretRef vals) then None
         else Some (Errorf ''spec.values.secretRef name and key are required when source is secretRef''))
      else if Source vals = ValuesSourceConfigMapRef then
        (if key_ref_complete (ConfigMapRef vals) then None
         else Some (Errorf ''spec.values.configMapRef name and key are required when source is configMapRef''))
      else Some (Errorf ''spec.values.source must be inline, secretRef, or configMapRef''))"

definition validatePlaceholderSpec :: "string \<Rightarrow> ApplicationInstanceSpec \<Rightarrow> go_error option" where
  "validatePlaceholderSpec ns spec =
     (if as_Chart spec \<noteq> None then Some (Errorf ''spec.chart must not be set in placeholder mode'')
      else if as_Values spec \<noteq> None then Some (Errorf ''spec.values must not be set in placeholder mode'')
      else case as_Release spec of
        None \<Rightarrow> None
      | Some rel \<Rightarrow>
          if TrimSpace (rel_Namespace rel) \<noteq> '''' \<and> rel_Namespace rel \<noteq> ns
          then Some (Errorf ''spec.release.namespace must match metadata.namespace'') else None)"

definition validateNativeSeaweedSpec :: "string \<Rightarrow> ApplicationInstanceSpec \<Rightarrow> go_error option" where
  "validateNativeSeaweedSpec ns spec =
     (if as_Chart spec \<noteq> None
      then Some (Errorf (''spec.chart must not be set for native SeaweedFS workloads '' @
             ''(remove spec.chart and redeploy; see docs/api/application-instance.md)''))
      else case as_Release spec of
        None \<Rightarrow> Some (Errorf ''spec.release is required'')
      | Some rel \<Rightarrow>
          (case validateRelease ns rel of
             Some err \<Rightarrow> Some err
           | None \<Rightarrow>
               (case as_Values spec of
                  None \<Rightarrow> Some (Errorf ''spec.values is required'')
                | Some vals \<Rightarrow> validateValues vals)))"

definition ValidateApplicationInstanceSpec :: "ApplicationInstance option \<Rightarrow> go_error option" where
  "ValidateApplicationInstanceSpec app =
     (case app of
        None \<Rightarrow> Some (Errorf ''application instance is nil'')
      | Some a \<Rightarrow>
          (let spec = app_Spec a; ns = Namespace (app_meta a) in
           if TrimSpace (CatalogID (as_AppRef spec)) = ''''
           then Some (Errorf ''spec.appRef.catalogId is required'')
           else if IsPlaceholder spec then validatePlaceholderSpec ns spec
           else if IsSeaweedWorkload app then validateNativeSeaweedSpec ns spec
           else case as_Chart spec of
             None \<Rightarrow> Some (Errorf ''spec.chart is required'')
           | Some chart \<Rightarrow>
               (case validateChart chart of
                  Some err \<Rightarrow> Some err
                | None \<Rightarrow>
                    (case as_Release spec of
                       None \<Rightarrow> Some (Errorf ''spec.release is required'')
                     | Some rel \<Rightarrow>
                         (case validateRelease ns rel of
                            Some err \<Rightarrow> Some err
                          | None \<Rightarrow>
                              (case as_Values spec of
                                 None \<Rightarrow> Some (Errorf ''spec.values is required'')
                               | Some vals \<Rightarrow> validateValues vals))))))"

section \<open>Inline secrets\<close>

definition sensitiveExactKeys :: "string list" where
  "sensitiveExactKeys = [''accesskey'', ''secretkey'', ''apikey'', ''token'']"

definition inlineSecretPlaceholders :: "string list" where
  "inlineSecretPlaceholders = [''<set via externalsecret>'', ''<set via external-secret>'']"

text \<open>
  The regular expression \<^verbatim>\<open>^-----BEGIN .*PRIVATE KEY-----\<close>: the dot does not match a line feed, so
  the rest of the pattern has to occur in the first line.
\<close>

definition pemPrivateKeyPattern :: "string \<Rightarrow> bool" where
  "pemPrivateKeyPattern s \<longleftrightarrow>
     HasPrefix s ''-----BEGIN ''
     \<and> Contains (takeWhile (\<lambda>c. c \<noteq> CHR 0x0A) (drop 11 s)) ''PRIVATE KEY-----''"

definition checkSensitiveLeaf :: "string \<Rightarrow> string \<Rightarrow> json \<Rightarrow> go_error option" where
  "checkSensitiveLeaf path key v =
     (case v of
        JString str \<Rightarrow>
          (let trimmed = TrimSpace str; lowerKey = ToLower key in
           if trimmed = '''' then None
           else if ToLower trimmed \<in> set inlineSecretPlaceholders then None
           else if HasSuffix lowerKey ''password'' \<or> HasSuffix lowerKey ''secret''
           then Some (Errorf (''inline secret material rejected at '' @ Quote path @
                  '': use secretRef or configMapRef''))
           else if lowerKey \<in> set sensitiveExactKeys
           then Some (Errorf (''inline secret material rejected at '' @ Quote path @
                  '': use secretRef or configMapRef''))
           else if pemPrivateKeyPattern trimmed
           then Some (Errorf (''inline secret material rejected at '' @ Quote path @
                  '': PEM private key not allowed inline''))
           else None)
      | _ \<Rightarrow> None)"

fun walkInlineSecret :: "string \<Rightarrow> json \<Rightarrow> go_error option"
  and walk_members :: "string \<Rightarrow> (string \<times> json) list \<Rightarrow> go_error option"
  and walk_items :: "string \<Rightarrow> nat \<Rightarrow> json list \<Rightarrow> go_error option" where
  "walkInlineSecret path (JObject kvs) = walk_members path kvs"
| "walkInlineSecret path (JArray js) = walk_items path 0 js"
| "walkInlineSecret path _ = None"
| "walk_members path [] = None"
| "walk_members path ((key, child) # kvs) =
     (let childPath = (if path \<noteq> '''' then path @ ''.'' @ key else key) in
      case checkSensitiveLeaf childPath key child of
        Some err \<Rightarrow> Some err
      | None \<Rightarrow>
          (case walkInlineSecret childPath child of
             Some err \<Rightarrow> Some err
           | None \<Rightarrow> walk_members path kvs))"
| "walk_items path i [] = None"
| "walk_items path i (child # js) =
     (case walkInlineSecret (path @ ''['' @ Itoa (int i) @ '']'') child of
        Some err \<Rightarrow> Some err
      | None \<Rightarrow> walk_items path (Suc i) js)"

definition DetectInlineSecret :: "string \<Rightarrow> go_error option" where
  "DetectInlineSecret raw =
     (if raw = [] then None
      else case json_Unmarshal raw of
        None \<Rightarrow> Some (Wrapf ''decode inline values: '' json_syntax_error [])
      | Some root \<Rightarrow> walkInlineSecret '''' (go_any root))"

definition validateInlineValues :: "ValuesSpec \<Rightarrow> go_error option" where
  "validateInlineValues vals =
     (if Source vals = ValuesSourceInline then
        (case Inline vals of
           None \<Rightarrow> Some (Errorf ''spec.values.inline is required when source is inline'')
         | Some raw \<Rightarrow> DetectInlineSecret raw)
      else if Source vals = ValuesSourceSecretRef then
        (if key_ref_complete (SecretRef vals) then None
         else Some (Errorf ''spec.values.secretRef name and key are required when source is secretRef''))
      else if Source vals = ValuesSourceConfigMapRef then
        (if key_ref_complete (ConfigMapRef vals) then None
         else Some (Errorf ''spec.values.configMapRef name and key are required when source is configMapRef''))
      else Some (Errorf ''spec.values.source must be inline, secretRef, or configMapRef''))"

section \<open>The ApplicationInstance webhook\<close>

definition validateModeTransition ::
  "ApplicationInstance option \<Rightarrow> ApplicationInstance option \<Rightarrow> go_error option" where
  "validateModeTransition oldApp newApp =
     (case (oldApp, newApp) of
        (Some old, Some app) \<Rightarrow>
          if IsPlaceholder (app_Spec old) \<or> \<not> IsPlaceholder (app_Spec app) then None
          else if ast_HelmReleaseRef (app_Status old) = None \<and> ast_HelmReleaseRef (app_Status app) = None
                  \<and> as_Chart (app_Spec old) = None \<and> as_Release (app_Spec old) = None then None
          else Some (Errorf (''cannot switch a managed instance that owns (or may own) a Helm release '' @
                 ''to placeholder mode; delete and recreate as a placeholder instead''))
      | _ \<Rightarrow> None)"

definition validateApplicationInstance :: "ApplicationInstance \<Rightarrow> go_error option" where
  "validateApplicationInstance app =
     (case ValidateApplicationInstanceSpec (Some app) of
        Some err \<Rightarrow> Some err
      | None \<Rightarrow>
          if IsPlaceholder (app_Spec app) then None
          else case as_Values (app_Spec app) of
            None \<Rightarrow> None
          | Some vals \<Rightarrow> validateInlineValues vals)"

definition App_ValidateCreate :: "ApplicationInstance \<Rightarrow> go_error option" where
  "App_ValidateCreate app = validateApplicationInstance app"

definition App_ValidateUpdate :: "ApplicationInstance \<Rightarrow> ApplicationInstance \<Rightarrow> go_error option" where
  "App_ValidateUpdate oldObj app =
     (case validateModeTransition (Some oldObj) (Some app) of
        Some err \<Rightarrow> Some err
      | None \<Rightarrow> validateApplicationInstance app)"

definition App_ValidateDelete :: "ApplicationInstance \<Rightarrow> go_error option" where
  "App_ValidateDelete app = None"

section \<open>The Operation webhook\<close>

abbreviation namespaceAllowedTypesAnnotation :: string where
  "namespaceAllowedTypesAnnotation \<equiv> ''ops.vworkspace.io/allowed-types''"

definition validateKnownOperationType :: "Operation \<Rightarrow> go_error option" where
  "validateKnownOperationType op =
     (if os_Type (op_Spec op) \<in>
           {OperationTypeBackup, OperationTypeRestore, OperationTypeUpgrade, OperationTypeMigration,
            OperationTypeRunCommand, OperationTypeRunbook}
      then None
      else Some (Errorf (''unsupported operation type '' @ Quote (os_Type (op_Spec op)))))"

definition parseAllowedTypes :: "string \<Rightarrow> string list" where
  "parseAllowedTypes raw = filter (\<lambda>part. part \<noteq> '''') (map TrimSpace (Split (CHR '','') raw))"

definition allowed_by_annotation :: "ObjectMeta \<Rightarrow> Operation \<Rightarrow> bool" where
  "allowed_by_annotation ns op =
     (case Annotations ns namespaceAllowedTypesAnnotation of
        None \<Rightarrow> True
      | Some raw \<Rightarrow> TrimSpace raw = '''' \<or> os_Type (op_Spec op) \<in> set (parseAllowedTypes raw))"

definition validateNamespaceAllowedTypes :: "env \<Rightarrow> Operation \<Rightarrow> go_error option prog" where
  "validateNamespaceAllowedTypes E op = do {
     ns \<leftarrow> ask (get_namespace E) (GetNamespace (Namespace (op_meta op)));
     State_Monad.return
       (case ns of
          Inl err \<Rightarrow>
            if IsNotFound err then None
            else Some (Wrapf (''get namespace '' @ Quote (Namespace (op_meta op)) @ '': '') err [])
        | Inr ns \<Rightarrow>
            if allowed_by_annotation ns op then None
            else Some (Errorf (''operation type '' @ Quote (os_Type (op_Spec op)) @ '' not allowed in namespace ''
                   @ Quote (Namespace (op_meta op)) @ '' (annotation '' @ namespaceAllowedTypesAnnotation @ '')'')))
   }"

definition validateOperationTargetExists :: "env \<Rightarrow> Operation \<Rightarrow> ApplicationInstance result prog" where
  "validateOperationTargetExists E op = do {
     target \<leftarrow> ask (get_app E) (GetApplicationInstance (Namespace (op_meta op)) (tr_Name (os_TargetRef (op_Spec op))));
     State_Monad.return
       (case target of
          Inl err \<Rightarrow>
            if IsNotFound err
            then Inl (Errorf (''target ApplicationInstance '' @ Quote (tr_Name (os_TargetRef (op_Spec op))) @
                   '' not found in namespace '' @ Quote (Namespace (op_meta op))))
            else Inl (Wrapf ''get target ApplicationInstance: '' err [])
        | Inr target \<Rightarrow> Inr target)
   }"

definition validateOperationBuiltinTemplate :: "Operation \<Rightarrow> go_error option" where
  "validateOperationBuiltinTemplate op =
     (case Lookup (os_Type (op_Spec op)) (os_Engine (op_Spec op)) of
        Some _ \<Rightarrow> None
      | None \<Rightarrow>
          Some (Errorf (''no built-in operation template for type '' @ Quote (os_Type (op_Spec op)) @
            '' and engine '' @ Quote (os_Engine (op_Spec op)) @ '' (expected refs such as '' @
            join_with '', '' BuiltinRefs @ '')'')))"

definition validateOperationParameters :: "env \<Rightarrow> Operation \<Rightarrow> go_error option" where
  "validateOperationParameters E op =
     ValidateParameters (schema_compile E) (os_Type (op_Spec op)) (os_Engine (op_Spec op))
       (case Parameters (op_Spec op) of None \<Rightarrow> [] | Some raw \<Rightarrow> raw)"

definition parameters_text :: "Operation \<Rightarrow> string" where
  "parameters_text op = (case Parameters (op_Spec op) of None \<Rightarrow> ''{}'' | Some raw \<Rightarrow> raw)"

definition operationParametersChanged :: "Operation \<Rightarrow> Operation \<Rightarrow> bool" where
  "operationParametersChanged old op \<longleftrightarrow>
     TrimSpace (parameters_text old) \<noteq> TrimSpace (parameters_text op)"

definition validateOperationSpecImmutability :: "Operation \<Rightarrow> Operation \<Rightarrow> go_error option" where
  "validateOperationSpecImmutability old op =
     (let before = os_TargetRef (op_Spec old); after = os_TargetRef (op_Spec op) in
      if tr_APIVersion before \<noteq> tr_APIVersion after then Some (Errorf ''spec.targetRef.apiVersion is immutable'')
      else if tr_Kind before \<noteq> tr_Kind after then Some (Errorf ''spec.targetRef.kind is immutable'')
      else if tr_Name before \<noteq> tr_Name after then Some (Errorf ''spec.targetRef.name is immutable'')
      else if os_Type (op_Spec old) \<noteq> os_Type (op_Spec op) then Some (Errorf ''spec.type is immutable'')
      else if os_Engine (op_Spec old) \<noteq> os_Engine (op_Spec op) then Some (Errorf ''spec.engine is immutable'')
      else None)"

definition validateOperationParametersImmutability :: "Operation \<Rightarrow> Operation \<Rightarrow> go_error option" where
  "validateOperationParametersImmutability old op =
     (if \<not> operationParametersChanged old op then None
      else if op_phase old = '''' \<or> op_phase old = PhasePending then None
      else Some (Errorf (''spec.parameters is immutable once operation has started (phase='' @
             op_phase old @ '')'')))"

definition validateOperationCapability :: "ApplicationInstance \<Rightarrow> Operation \<Rightarrow> go_error option" where
  "validateOperationCapability target op =
     (case Lookup (os_Type (op_Spec op)) (os_Engine (op_Spec op)) of
        None \<Rightarrow> None
      | Some tpl \<Rightarrow>
          (let key = CapabilityAnnotationKey (CapabilityVerb tpl); want = os_Engine (op_Spec op);
               missing = Errorf (''target '' @ Quote (Name (app_meta target)) @ '' missing capability annotation '' @
                           key @ ''='' @ Quote want @ '' required for template '' @ Ref tpl)
           in case Annotations (app_meta target) key of
                None \<Rightarrow> Some missing
              | Some got \<Rightarrow>
                  if TrimSpace got = '''' then Some missing
                  else if TrimSpace got \<noteq> want
                  then Some (Errorf (''target '' @ Quote (Name (app_meta target)) @ '' capability '' @ key @ ''='' @
                         Quote got @ '' does not match operation engine '' @ Quote want @
                         '' (template '' @ Ref tpl @ '')''))
                  else None))"

definition validateOperationConcurrency :: "env \<Rightarrow> Operation \<Rightarrow> go_error option prog" where
  "validateOperationConcurrency E op = do {
     conflict \<leftarrow> FindConflict E op;
     State_Monad.return
       (case conflict of
          Inl err \<Rightarrow> Some err
        | Inr None \<Rightarrow> None
        | Inr (Some c) \<Rightarrow>
            Some (Errorf (''target '' @ Quote (tr_Name (os_TargetRef (op_Spec op))) @ '' '' @ FormatConflict c)))
   }"

definition validateOperationApprovalClaim :: "time \<Rightarrow> string \<Rightarrow> Operation \<Rightarrow> go_error option" where
  "validateOperationApprovalClaim now secret op =
     (let claim = approvals_Claim (Some op) in
      if claim = '''' then None
      else case ValidateClaim now secret claim (Name (op_meta op)) of
        Some err \<Rightarrow> Some (Wrapf ''spec.approvals.claim: '' err [])
      | None \<Rightarrow> None)"

text \<open>Checks that stop at the first error.\<close>

fun first_error :: "go_error option list \<Rightarrow> go_error option" where
  "first_error [] = None"
| "first_error (Some err # _) = Some err"
| "first_error (None # checks) = first_error checks"

definition validateOperation :: "env \<Rightarrow> string \<Rightarrow> Operation \<Rightarrow> bool \<Rightarrow> go_error option prog" where
  "validateOperation E secret op validateParameters =
     (case first_error [ValidateOperationSpec (Some op), validateKnownOperationType op] of
        Some err \<Rightarrow> State_Monad.return (Some err)
      | None \<Rightarrow> do {
          allowed \<leftarrow> validateNamespaceAllowedTypes E op;
          case first_error [allowed, validateOperationBuiltinTemplate op] of
            Some err \<Rightarrow> State_Monad.return (Some err)
          | None \<Rightarrow> do {
              target \<leftarrow> validateOperationTargetExists E op;
              case target of
                Inl err \<Rightarrow> State_Monad.return (Some err)
              | Inr target \<Rightarrow> do {
                  now \<leftarrow> Now E;
                  case first_error
                         (validateOperationCapability target op #
                          (if validateParameters
                           then [validateOperationParameters E op, ValidateRuntimeParameters op] else []) @
                          [validateOperationApprovalClaim now secret op]) of
                    Some err \<Rightarrow> State_Monad.return (Some err)
                  | None \<Rightarrow> validateOperationConcurrency E op
                }
            }
        })"

definition ValidateCreate :: "env \<Rightarrow> string \<Rightarrow> Operation \<Rightarrow> go_error option prog" where
  "ValidateCreate E secret op = validateOperation E secret op True"

definition ValidateUpdate :: "env \<Rightarrow> string \<Rightarrow> Operation \<Rightarrow> Operation \<Rightarrow> go_error option prog" where
  "ValidateUpdate E secret old op =
     (case first_error [validateOperationSpecImmutability old op, validateOperationParametersImmutability old op] of
        Some err \<Rightarrow> State_Monad.return (Some err)
      | None \<Rightarrow> validateOperation E secret op (operationParametersChanged old op))"

definition ValidateDelete :: "Operation \<Rightarrow> go_error option prog" where
  "ValidateDelete op = State_Monad.return None"

section \<open>What is admitted\<close>

text \<open>A member of an object somewhere in a document, and the members that hold a secret.\<close>

inductive occurs :: "json \<Rightarrow> string \<Rightarrow> json \<Rightarrow> bool" where
  here: "(k, v) \<in> set kvs \<Longrightarrow> occurs (JObject kvs) k v"
| in_member: "(k', j) \<in> set kvs \<Longrightarrow> occurs j k v \<Longrightarrow> occurs (JObject kvs) k v"
| in_item: "j \<in> set js \<Longrightarrow> occurs j k v \<Longrightarrow> occurs (JArray js) k v"

inductive_simps occurs_simps:
  "occurs (JObject kvs) k v" "occurs (JArray js) k v" "occurs JNull k v" "occurs (JBool b) k v"
  "occurs (JInt i) k v" "occurs (JFloat f) k v" "occurs (JString s) k v"

definition private_key_text :: "string \<Rightarrow> bool" where
  "private_key_text s \<longleftrightarrow>
     (\<exists>a b. s = ''-----BEGIN '' @ a @ ''PRIVATE KEY-----'' @ b \<and> CHR 0x0A \<notin> set a)"

definition secret_member :: "string \<Rightarrow> json \<Rightarrow> bool" where
  "secret_member k v \<longleftrightarrow>
     (\<exists>s. v = JString s \<and> TrimSpace s \<noteq> '''' \<and> ToLower (TrimSpace s) \<notin> set inlineSecretPlaceholders
        \<and> (HasSuffix (ToLower k) ''password'' \<or> HasSuffix (ToLower k) ''secret''
           \<or> ToLower k \<in> set sensitiveExactKeys \<or> private_key_text (TrimSpace s)))"

lemma takeWhile_prefix_split:
  assumes "takeWhile P s = a @ b @ c" and "\<not> P x"
  shows "\<exists>d. s = a @ b @ d \<and> x \<notin> set a"
proof -
  from assms(2) have "x \<notin> set (takeWhile P s)" by (auto dest: set_takeWhileD)
  with assms(1) show ?thesis by (metis Un_iff append.assoc set_append takeWhile_dropWhile_id)
qed

lemma takeWhile_append_all: "\<forall>x \<in> set a. P x \<Longrightarrow> takeWhile P (a @ b) = a @ takeWhile P b"
  by (induction a) auto

lemma pemPrivateKeyPattern_iff: "pemPrivateKeyPattern s \<longleftrightarrow> private_key_text s"
proof
  assume pat: "pemPrivateKeyPattern s"
  then obtain t where s: "s = ''-----BEGIN '' @ t"
    by (auto simp: pemPrivateKeyPattern_def HasPrefix_iff)
  with pat obtain a b where "takeWhile (\<lambda>c. c \<noteq> CHR 0x0A) t = a @ ''PRIVATE KEY-----'' @ b"
    by (auto simp: pemPrivateKeyPattern_def Contains_iff)
  from takeWhile_prefix_split [OF this, of "CHR 0x0A"] s show "private_key_text s"
    by (auto simp: private_key_text_def)
next
  assume "private_key_text s"
  then obtain a b where s: "s = ''-----BEGIN '' @ a @ ''PRIVATE KEY-----'' @ b" and a: "CHR 0x0A \<notin> set a"
    by (auto simp: private_key_text_def)
  have "takeWhile (\<lambda>c. c \<noteq> CHR 0x0A) (a @ ''PRIVATE KEY-----'' @ b)
      = a @ ''PRIVATE KEY-----'' @ takeWhile (\<lambda>c. c \<noteq> CHR 0x0A) b"
    using a by (subst takeWhile_append_all) auto
  with s show "pemPrivateKeyPattern s"
    unfolding pemPrivateKeyPattern_def Contains_iff by (auto simp: HasPrefix_iff)
qed

lemma checkSensitiveLeaf_iff: "checkSensitiveLeaf path k v = None \<longleftrightarrow> \<not> secret_member k v"
  by (cases v) (auto simp: checkSensitiveLeaf_def secret_member_def pemPrivateKeyPattern_iff Let_def)

lemma walk_member_step:
  assumes "\<And>p. walkInlineSecret p v = None \<longleftrightarrow> g"
  shows "walk_members path ((k, v) # kvs) = None \<longleftrightarrow> \<not> secret_member k v \<and> g \<and> walk_members path kvs = None"
proof -
  define p where "p = (if path \<noteq> '''' then path @ ''.'' @ k else k)"
  have "walk_members path ((k, v) # kvs) = None \<longleftrightarrow>
      checkSensitiveLeaf p k v = None \<and> walkInlineSecret p v = None \<and> walk_members path kvs = None"
    unfolding walk_members.simps Let_def p_def [symmetric] by (simp split: option.split)
  then show ?thesis unfolding assms checkSensitiveLeaf_iff .
qed

lemma walk_members_iff:
  assumes "\<And>k v p. (k, v) \<in> set kvs \<Longrightarrow> walkInlineSecret p v = None \<longleftrightarrow> good v"
  shows "walk_members path kvs = None \<longleftrightarrow> (\<forall>(k, v) \<in> set kvs. \<not> secret_member k v \<and> good v)"
  using assms
proof (induction kvs)
  case (Cons kv kvs)
  obtain k v where kv: "kv = (k, v)" by (cases kv)
  with Cons.prems [of k v] have "walk_members path (kv # kvs) = None \<longleftrightarrow>
      \<not> secret_member k v \<and> good v \<and> walk_members path kvs = None"
    using walk_member_step [of v "good v"] by simp
  moreover have "walk_members path kvs = None \<longleftrightarrow> (\<forall>(k, v) \<in> set kvs. \<not> secret_member k v \<and> good v)"
    by (intro Cons.IH Cons.prems) (auto intro: list.set_intros)
  ultimately show ?case unfolding kv by simp
qed simp

lemma walk_items_iff:
  assumes "\<And>v p. v \<in> set js \<Longrightarrow> walkInlineSecret p v = None \<longleftrightarrow> good v"
  shows "walk_items path i js = None \<longleftrightarrow> (\<forall>v \<in> set js. good v)"
  using assms
proof (induction js arbitrary: i)
  case (Cons j js)
  then have "walk_items path (Suc i) js = None \<longleftrightarrow> (\<forall>v \<in> set js. good v)"
    and "\<And>p. walkInlineSecret p j = None \<longleftrightarrow> good j" by simp_all
  then show ?case by (simp split: option.split) (metis option.distinct(1))
qed simp

lemma walk_iff: "walkInlineSecret path j = None \<longleftrightarrow> \<not> (\<exists>k v. occurs j k v \<and> secret_member k v)"
proof (induction j arbitrary: path)
  case (JArray js)
  then have "walkInlineSecret path (JArray js) = None \<longleftrightarrow>
      (\<forall>j \<in> set js. \<not> (\<exists>k v. occurs j k v \<and> secret_member k v))"
    unfolding walkInlineSecret.simps by (intro walk_items_iff)
  then show ?case unfolding occurs_simps by blast
next
  case (JObject kvs)
  have "walkInlineSecret path (JObject kvs) = None \<longleftrightarrow>
      (\<forall>(key, j) \<in> set kvs. \<not> secret_member key j \<and> \<not> (\<exists>k v. occurs j k v \<and> secret_member k v))"
    unfolding walkInlineSecret.simps
    by (intro walk_members_iff JObject) (auto simp: snds.simps)
  then show ?case unfolding occurs_simps by blast
qed (simp_all add: occurs_simps)

lemma first_error_None [simp]: "first_error checks = None \<longleftrightarrow> list_all (\<lambda>c. c = None) checks"
  by (induction checks rule: first_error.induct) auto

lemma capability_iff:
  assumes "TrimSpace (os_Engine (op_Spec op)) \<noteq> ''''"
  shows "validateOperationCapability target op = None \<longleftrightarrow>
    (case Lookup (os_Type (op_Spec op)) (os_Engine (op_Spec op)) of
       None \<Rightarrow> True
     | Some tpl \<Rightarrow> map_option TrimSpace (Annotations (app_meta target) (CapabilityAnnotationKey (CapabilityVerb tpl)))
                  = Some (os_Engine (op_Spec op)))"
  using assms by (auto simp: validateOperationCapability_def Let_def split: option.split)

lemma template_type_known:
  "Lookup typ engine = Some tpl \<Longrightarrow>
   typ \<in> {OperationTypeBackup, OperationTypeRestore, OperationTypeUpgrade, OperationTypeMigration,
            OperationTypeRunCommand, OperationTypeRunbook}"
  by (auto simp: Lookup_Some_iff builtin_def)

lemma run_validateNamespaceAllowedTypes:
  obtains r where "run_state (validateNamespaceAllowedTypes E op) w
      = (r, w\<lparr>hist := GetNamespace (Namespace (op_meta op)) # hist w\<rparr>)"
    and "r = None \<longleftrightarrow> (case get_namespace E (GetNamespace (Namespace (op_meta op)) # hist w) of
                        Inl err \<Rightarrow> IsNotFound err | Inr m \<Rightarrow> allowed_by_annotation m op)"
  by (simp add: validateNamespaceAllowedTypes_def go_run split: sum.split)

lemma run_validateOperationConcurrency:
  "fst (run_state (validateOperationConcurrency E op) w) = None \<longleftrightarrow>
     (\<exists>items. list_operations E (ListOperations (Namespace (op_meta op)) # hist w) = Inr items
        \<and> \<not> list_ex (\<lambda>item. blocks item op) items)"
proof -
  have "list_ex (\<lambda>item. blocks item op) items \<longleftrightarrow> findConflictIn op items \<noteq> None" for items
    unfolding findConflictIn_None by (simp add: list_ex_iff)
  then show ?thesis
    by (simp add: validateOperationConcurrency_def FindConflict_def go_run split: sum.split option.split)
qed

lemma claim_admitted_iff:
  "validateOperationApprovalClaim now secret op = None \<longleftrightarrow>
     approvals_Claim (Some op) = '''' \<or> ValidateClaim now secret (approvals_Claim (Some op)) (Name (op_meta op)) = None"
  by (simp add: validateOperationApprovalClaim_def Let_def split: option.split)

lemma validateOperation_None:
  "fst (run_state (validateOperation E secret op params) w) = None \<longleftrightarrow>
    (let ns = Namespace (op_meta op); name = tr_Name (os_TargetRef (op_Spec op));
         h1 = GetNamespace ns # hist w; h2 = GetApplicationInstance ns name # h1; h3 = ListOperations ns # h2 in
     ValidateOperationSpec (Some op) = None
     \<and> (case get_namespace E h1 of Inl err \<Rightarrow> IsNotFound err | Inr m \<Rightarrow> allowed_by_annotation m op)
     \<and> (\<exists>tpl target. Lookup (os_Type (op_Spec op)) (os_Engine (op_Spec op)) = Some tpl
          \<and> get_app E h2 = Inr target
          \<and> map_option TrimSpace (Annotations (app_meta target) (CapabilityAnnotationKey (CapabilityVerb tpl)))
             = Some (os_Engine (op_Spec op)))
     \<and> (\<not> params \<or> validateOperationParameters E op = None)
     \<and> (approvals_Claim (Some op) = ''''
          \<or> ValidateClaim (clock E h2) secret (approvals_Claim (Some op)) (Name (op_meta op)) = None)
     \<and> (\<exists>items. list_operations E h3 = Inr items \<and> \<not> list_ex (\<lambda>item. blocks item op) items))"
proof (cases "ValidateOperationSpec (Some op) = None")
  case True
  then have engine: "TrimSpace (os_Engine (op_Spec op)) \<noteq> ''''" and runtime: "ValidateRuntimeParameters op = None"
    by (auto simp: ValidateOperationSpec_def Let_def split: if_splits)
  obtain r where ns: "run_state (validateNamespaceAllowedTypes E op) w
      = (r, w\<lparr>hist := GetNamespace (Namespace (op_meta op)) # hist w\<rparr>)"
    and r: "r = None \<longleftrightarrow> (case get_namespace E (GetNamespace (Namespace (op_meta op)) # hist w) of
                        Inl err \<Rightarrow> IsNotFound err | Inr m \<Rightarrow> allowed_by_annotation m op)"
    by (rule run_validateNamespaceAllowedTypes)
  show ?thesis
  proof (cases "Lookup (os_Type (op_Spec op)) (os_Engine (op_Spec op))")
    case None
    then show ?thesis
      by (auto simp: validateOperation_def validateOperationBuiltinTemplate_def go_run ns Let_def split: option.split)
  next
    case (Some tpl)
    then have "validateOperationBuiltinTemplate op = None" and "validateKnownOperationType op = None"
      using template_type_known [OF Some]
      unfolding validateOperationBuiltinTemplate_def validateKnownOperationType_def by simp_all
    note spec = this True
    show ?thesis
    proof (cases "r = None")
      case False
      with r spec ns show ?thesis by (auto simp: validateOperation_def go_run Let_def)
    next
      case True
      let ?h = "GetApplicationInstance (Namespace (op_meta op)) (tr_Name (os_TargetRef (op_Spec op)))
                # GetNamespace (Namespace (op_meta op)) # hist w"
      show ?thesis
      proof (cases "get_app E ?h")
        case (Inl err)
        with True r spec ns show ?thesis
          by (simp add: validateOperation_def validateOperationTargetExists_def go_run Let_def)
      next
        case (Inr target)
        let ?checks = "first_error (validateOperationCapability target op #
            (if params then [validateOperationParameters E op, ValidateRuntimeParameters op] else []) @
            [validateOperationApprovalClaim (clock E ?h) secret op])"
        let ?cap = "map_option TrimSpace (Annotations (app_meta target) (CapabilityAnnotationKey (CapabilityVerb tpl)))
              = Some (os_Engine (op_Spec op))"
        let ?prm = "\<not> params \<or> validateOperationParameters E op = None"
        let ?clm = "approvals_Claim (Some op) = ''''
                \<or> ValidateClaim (clock E ?h) secret (approvals_Claim (Some op)) (Name (op_meta op)) = None"
        have steps: "run_state (validateOperation E secret op params) w =
            (case ?checks of Some err \<Rightarrow> (Some err, w\<lparr>hist := ?h\<rparr>)
             | None \<Rightarrow> run_state (validateOperationConcurrency E op) (w\<lparr>hist := ?h\<rparr>))"
          using True Inr spec ns
          by (simp add: validateOperation_def validateOperationTargetExists_def go_run split: option.split)
        have checks: "?checks = None \<longleftrightarrow> ?cap \<and> ?prm \<and> ?clm"
          using Some runtime by (simp add: capability_iff [OF engine] claim_admitted_iff)
        have perm: "case get_namespace E (GetNamespace (Namespace (op_meta op)) # hist w) of
            Inl err \<Rightarrow> IsNotFound err | Inr m \<Rightarrow> allowed_by_annotation m op"
          using r True by blast
        have "fst (run_state (validateOperation E secret op params) w) = None \<longleftrightarrow>
            ?cap \<and> ?prm \<and> ?clm \<and> (\<exists>items. list_operations E (ListOperations (Namespace (op_meta op)) # ?h) = Inr items
               \<and> \<not> list_ex (\<lambda>item. blocks item op) items)"
        proof (cases ?checks)
          case None
          from iffD1 [OF checks this] show ?thesis unfolding steps None by (simp add: run_validateOperationConcurrency)
        next
          case (Some err)
          then have "\<not> (?cap \<and> ?prm \<and> ?clm)" unfolding checks [symmetric] by simp
          then show ?thesis unfolding steps Some by simp blast
        qed
        with perm Inr Some spec(3) show ?thesis unfolding Let_def by simp
      qed
    qed
  qed
next
  case False
  then obtain err where "ValidateOperationSpec (Some op) = Some err" by auto
  then show ?thesis by (simp add: validateOperation_def Let_def)
qed

text \<open>C12: creating an Operation is admitted exactly when its spec is valid, its namespace permits
  the type, a built-in template exists for its type and engine, its target exists and advertises
  the engine for the template's verb, its parameters fit the template's schema, its approval
  claim, if there is one, is valid, and no listed Operation on the target conflicts with it.\<close>

theorem operation_admitted_iff:
  "fst (run_state (ValidateCreate E secret op) w) = None \<longleftrightarrow>
    (let ns = Namespace (op_meta op); name = tr_Name (os_TargetRef (op_Spec op));
         h1 = GetNamespace ns # hist w; h2 = GetApplicationInstance ns name # h1; h3 = ListOperations ns # h2 in
     ValidateOperationSpec (Some op) = None
     \<and> (case get_namespace E h1 of Inl err \<Rightarrow> IsNotFound err | Inr m \<Rightarrow> allowed_by_annotation m op)
     \<and> (\<exists>tpl target. Lookup (os_Type (op_Spec op)) (os_Engine (op_Spec op)) = Some tpl
          \<and> get_app E h2 = Inr target
          \<and> map_option TrimSpace (Annotations (app_meta target) (CapabilityAnnotationKey (CapabilityVerb tpl)))
             = Some (os_Engine (op_Spec op)))
     \<and> validateOperationParameters E op = None
     \<and> (approvals_Claim (Some op) = ''''
          \<or> ValidateClaim (clock E h2) secret (approvals_Claim (Some op)) (Name (op_meta op)) = None)
     \<and> (\<exists>items. list_operations E h3 = Inr items \<and> \<not> list_ex (\<lambda>item. blocks item op) items))"
  unfolding ValidateCreate_def validateOperation_None Let_def by (simp only: not_True_eq_False simp_thms)

text \<open>C14: an admitted update keeps the target, the type and the engine of the Operation; the
  parameters change, apart from surrounding white space, only while it is new or pending.\<close>

theorem admitted_update_keeps_identity:
  assumes "fst (run_state (ValidateUpdate E secret old op) w) = None"
  shows "os_TargetRef (op_Spec op) = os_TargetRef (op_Spec old)
    \<and> os_Type (op_Spec op) = os_Type (op_Spec old) \<and> os_Engine (op_Spec op) = os_Engine (op_Spec old)
    \<and> (TrimSpace (parameters_text op) = TrimSpace (parameters_text old)
        \<or> op_phase old = '''' \<or> op_phase old = PhasePending)"
proof -
  have "validateOperationSpecImmutability old op = None" "validateOperationParametersImmutability old op = None"
    using assms by (auto simp: ValidateUpdate_def split: option.splits)
  then show ?thesis
    by (auto simp: validateOperationSpecImmutability_def validateOperationParametersImmutability_def
        operationParametersChanged_def Let_def split: if_splits)
qed

text \<open>Once its target cannot be read any more, no update of an Operation is admitted, in
  particular not the one by which the controller removes the finalizer of a deleted Operation.\<close>

theorem finalizer_removal_refused:
  assumes "get_app E (GetApplicationInstance (Namespace (op_meta op)) (tr_Name (os_TargetRef (op_Spec op)))
           # GetNamespace (Namespace (op_meta op)) # hist w) = Inl err"
    and "finalizer_laws E"
  shows "fst (run_state (ValidateUpdate E secret op (op\<lparr>op_meta := RemoveFinalizer E (op_meta op) OperationFinalizer\<rparr>)) w)
    \<noteq> None"
proof -
  obtain fs where fs: "RemoveFinalizer E (op_meta op) OperationFinalizer = (op_meta op)\<lparr>Finalizers := fs\<rparr>"
    using assms(2) unfolding finalizer_laws_def by blast
  have "fst (run_state (validateOperation E secret (op\<lparr>op_meta := (op_meta op)\<lparr>Finalizers := fs\<rparr>\<rparr>) p) w) \<noteq> None" for p
    unfolding validateOperation_None Let_def using assms(1) by simp
  then show ?thesis
    unfolding ValidateUpdate_def fs by (simp split: option.split)
qed

text \<open>C13: inline values are admitted exactly when they are empty, or are a JSON document none of
  whose object members, at any depth, is a non-empty string other than a recognised placeholder
  that sits under a sensitive key or is a PEM private key.\<close>

theorem inline_values_admitted_iff:
  "DetectInlineSecret raw = None \<longleftrightarrow>
     raw = [] \<or> (\<exists>doc. json_Unmarshal raw = Some doc \<and> \<not> (\<exists>k v. occurs (go_any doc) k v \<and> secret_member k v))"
  unfolding DetectInlineSecret_def by (auto simp: walk_iff split: option.split)

section \<open>Witnesses\<close>

definition backup_target :: ApplicationInstance where
  "backup_target = demo_app\<lparr>app_meta := (app_meta demo_app)\<lparr>Annotations :=
     [CapabilityAnnotationKey ''backup'' \<mapsto> EngineVelero]\<rparr>\<rparr>"

abbreviation running_backup :: "string option \<Rightarrow> Operation" where
  "running_backup params \<equiv> live_op OperationTypeBackup EngineVelero PhaseRunning params"

abbreviation backup_server :: env where
  "backup_server \<equiv> (op_server (running_backup None) [])\<lparr>get_app := (\<lambda>_. Inr backup_target)\<rparr>"

theorem admitted_update_keeps_identity_witness:
  "fst (run_state (ValidateUpdate backup_server '''' (running_backup None) (running_backup (Some ''{} ''))) demo_world) = None
   \<and> TrimSpace (parameters_text (running_backup (Some ''{} ''))) = TrimSpace (parameters_text (running_backup None))"
proof -
  have srv: "get_namespace backup_server h = Inl (ApiStatus NotFound ''not found'')" "list_operations backup_server h = Inr []" for h
    by (simp_all add: op_server_def demo_env_def)
  have op: "approvals_Claim (Some (running_backup (Some ''{} ''))) = ''''" "TrimSpace ''velero'' = ''velero''"
    "ValidateOperationSpec (Some (running_backup (Some ''{} ''))) = None"
    "\<not> operationParametersChanged (running_backup None) (running_backup (Some ''{} ''))"
    by code_simp+
  then have "fst (run_state (validateOperation backup_server '''' (running_backup (Some ''{} '')) False) demo_world) = None"
    unfolding validateOperation_None Let_def srv by (simp add: Lookup_builtin builtin_def backup_target_def)
  moreover have "validateOperationSpecImmutability (running_backup None) (running_backup (Some ''{} '')) = None" by code_simp
  ultimately have "fst (run_state (ValidateUpdate backup_server '''' (running_backup None) (running_backup (Some ''{} ''))) demo_world) = None"
    using op(4) by (simp add: ValidateUpdate_def validateOperationParametersImmutability_def)
  with admitted_update_keeps_identity [OF this] show ?thesis by simp
qed

theorem finalizer_removal_refused_witness:
  "fst (run_state (ValidateUpdate ((op_server deleted_op [])\<lparr>get_app := (\<lambda>_. Inl (ApiStatus NotFound ''not found''))\<rparr>) ''''
      deleted_op (deleted_op\<lparr>op_meta := (op_meta deleted_op)\<lparr>Finalizers := []\<rparr>\<rparr>)) demo_world) \<noteq> None"
proof -
  let ?E = "(op_server deleted_op [])\<lparr>get_app := (\<lambda>_. Inl (ApiStatus NotFound ''not found''))\<rparr>"
  have laws: "finalizer_laws ?E" using op_server_laws(1) by (simp add: finalizer_laws_def)
  have "RemoveFinalizer ?E (op_meta deleted_op) OperationFinalizer = (op_meta deleted_op)\<lparr>Finalizers := []\<rparr>"
    by (simp add: op_server_def demo_env_def deleted_op_def Let_def)
  with finalizer_removal_refused [of ?E deleted_op demo_world _ "''''", OF _ laws] show ?thesis by simp
qed

end
