(* ===== verification/App_Engines.thy ===== *)
theory App_Engines
  imports Admission
begin

text \<open>
  The engines that bring up the workload of an ApplicationInstance: \<^verbatim>\<open>FluxEngine\<close>
  (\<^verbatim>\<open>internal/helmengine\<close>) writes a chart source and a HelmRelease, \<^verbatim>\<open>SeaweedEngine\<close>
  (\<^verbatim>\<open>internal/seaweedengine\<close>) writes a Seaweed resource and reads the S3 credentials made for it.
  Both observe their resource and map its conditions to a snapshot.

  A field of the spec that the Go code reads through a nil pointer makes the program stop with
  \<open>nil_dereference\<close>. A Go map that is nil is \<open>None\<close> where the code tells it from an empty one.
\<close>

section \<open>Shared\<close>

record StatusSnapshot =
  snap_Ready :: bool
  snap_Reconciling :: bool
  snap_Degraded :: bool
  snap_Reason :: string
  snap_Message :: string

record HelmSnapshot = StatusSnapshot +
  ReleaseRef :: HelmReleaseRef

record SeaweedSnapshot = StatusSnapshot +
  snap_S3Endpoint :: string
  HasS3 :: bool

definition ownerLabels :: "ApplicationInstance \<Rightarrow> string \<rightharpoonup> string" where
  "ownerLabels app =
     (let clusterID = go_get (Labels (app_meta app)) ClusterIDKey; managedBy = go_get (Labels (app_meta app)) ManagedByKey in
      [ManagedByKey \<mapsto> (if managedBy \<noteq> '''' then managedBy else ManagedByOperator),
       ApplicationInstanceKey \<mapsto> Name (app_meta app)] ++
      (if clusterID \<noteq> '''' then [ClusterIDKey \<mapsto> clusterID] else Map.empty))"

text \<open>
  \<^verbatim>\<open>controllerutil.CreateOrUpdate\<close> with a mutation that makes requests itself.
\<close>

definition CreateOrUpdateWith ::
  "env \<Rightarrow> Unstructured \<Rightarrow> (Unstructured \<Rightarrow> Unstructured result prog) \<Rightarrow> go_error option prog" where
  "CreateOrUpdateWith E obj mutate = do {
     loaded \<leftarrow> ask (load_object E) (LoadForUpdate obj);
     case loaded of
       Inl err \<Rightarrow> State_Monad.return (Some err)
     | Inr current \<Rightarrow> do {
         mutated \<leftarrow> mutate current;
         case mutated of
           Inl err \<Rightarrow> State_Monad.return (Some err)
         | Inr obj' \<Rightarrow> ask (write_result E) (StoreObject obj')
       }
   }"

text \<open>\<^verbatim>\<open>json.Unmarshal\<close> into a map: \<open>null\<close> sets it to nil.\<close>

definition unmarshal_values :: "string \<Rightarrow> (string \<times> json) list option result" where
  "unmarshal_values raw =
     (case json_Unmarshal raw of
        None \<Rightarrow> Inl json_syntax_error
      | Some JNull \<Rightarrow> Inr None
      | Some doc \<Rightarrow> (case unmarshal_any_map doc of None \<Rightarrow> Inl json_type_error | Some kvs \<Rightarrow> Inr (Some kvs)))"

definition decodeValuesBytes :: "env \<Rightarrow> string \<Rightarrow> (string \<times> json) list option result" where
  "decodeValuesBytes E raw =
     (case unmarshal_values raw of
        Inr values \<Rightarrow> Inr values
      | Inl _ \<Rightarrow>
          (case yaml_Unmarshal E raw of
             Inl err \<Rightarrow> Inl (Wrapf ''decode values as JSON or YAML: '' err [])
           | Inr values \<Rightarrow> Inr values))"

definition loadValuesFromSecret :: "env \<Rightarrow> string \<Rightarrow> ObjectKeyRef \<Rightarrow> (string \<times> json) list option result prog" where
  "loadValuesFromSecret E ns ref =
     (let what = ''secret '' @ ns @ ''/'' @ okr_Name ref in do {
      secret \<leftarrow> ask (get_secret E) (GetSecret ns (okr_Name ref));
      State_Monad.return
        (case secret of
           Inl err \<Rightarrow> Inl (Wrapf (''get '' @ what @ '': '') err [])
         | Inr secret \<Rightarrow>
             (case sec_Data secret (okr_Key ref) of
                None \<Rightarrow> Inl (Errorf (what @ '' missing key '' @ Quote (okr_Key ref)))
              | Some raw \<Rightarrow> decodeValuesBytes E raw))
    })"

definition loadValuesFromConfigMap :: "env \<Rightarrow> string \<Rightarrow> ObjectKeyRef \<Rightarrow> (string \<times> json) list option result prog" where
  "loadValuesFromConfigMap E ns ref =
     (let what = ''configmap '' @ ns @ ''/'' @ okr_Name ref in do {
      cm \<leftarrow> ask (get_configmap E) (GetConfigMap ns (okr_Name ref));
      State_Monad.return
        (case cm of
           Inl err \<Rightarrow> Inl (Wrapf (''get '' @ what @ '': '') err [])
         | Inr cm \<Rightarrow>
             (case cfg_Data cm (okr_Key ref) of
                None \<Rightarrow> Inl (Errorf (what @ '' missing key '' @ Quote (okr_Key ref)))
              | Some raw \<Rightarrow> decodeValuesBytes E raw))
    })"

text \<open>\<^verbatim>\<open>cond[key].(string)\<close> with the failed assertion ignored.\<close>

definition string_member :: "(string \<times> json) list \<Rightarrow> string \<Rightarrow> string" where
  "string_member kvs k = (case map_of kvs k of Some (JString s) \<Rightarrow> s | _ \<Rightarrow> '''')"

text \<open>The variables of the loops over the conditions.\<close>

record mapped =
  m_reason :: string
  m_message :: string
  m_ready :: bool
  m_reconciling :: bool
  m_degraded :: bool

definition mapped0 :: mapped where
  "mapped0 = \<lparr>m_reason = '''', m_message = '''', m_ready = False, m_reconciling = False, m_degraded = False\<rparr>"

text \<open>A reason is only filled in when there is none.\<close>

definition default_reason :: "string \<Rightarrow> string \<Rightarrow> mapped \<Rightarrow> mapped" where
  "default_reason reason message m =
     (if m_reason m = '''' then m\<lparr>m_reason := reason, m_message := message\<rparr> else m)"

definition finish_mapping :: "string \<Rightarrow> mapped \<Rightarrow> mapped" where
  "finish_mapping installing m =
     (let m = (if m_ready m \<and> m_degraded m then m\<lparr>m_degraded := False\<rparr> else m) in
      if m_reason m = '''' \<and> m_reconciling m then m\<lparr>m_reason := installing\<rparr> else m)"

section \<open>Flux\<close>

abbreviation helmReleaseGVK :: gvk where "helmReleaseGVK \<equiv> (''helm.toolkit.fluxcd.io/v2'', ''HelmRelease'')"
abbreviation helmRepoGVK :: gvk where "helmRepoGVK \<equiv> (''source.toolkit.fluxcd.io/v1'', ''HelmRepository'')"
abbreviation ociRepoGVK :: gvk where "ociRepoGVK \<equiv> (''source.toolkit.fluxcd.io/v1'', ''OCIRepository'')"

definition chartSourceName :: "ReleaseSpec \<Rightarrow> string" where
  "chartSourceName release = rel_Name release @ ''-source''"

definition empty_object :: "gvk \<Rightarrow> string \<Rightarrow> string \<Rightarrow> Unstructured" where
  "empty_object gvk ns name =
     \<lparr>u_gvk = gvk, u_meta = meta0\<lparr>Name := name, Namespace := ns\<rparr>, u_Object = JObject []\<rparr>"

definition with_fields :: "env \<Rightarrow> Unstructured \<Rightarrow> (string list \<times> json option) list \<Rightarrow> Unstructured result" where
  "with_fields E obj ps =
     (case set_nested_fields E (u_Object obj) ps of Inl err \<Rightarrow> Inl err | Inr j \<Rightarrow> Inr (obj\<lparr>u_Object := j\<rparr>))"

definition set_labels :: "(string \<rightharpoonup> string) \<Rightarrow> Unstructured \<Rightarrow> Unstructured" where
  "set_labels lbls obj = obj\<lparr>u_meta := (u_meta obj)\<lparr>Labels := lbls\<rparr>\<rparr>"

definition ensureChartSource :: "env \<Rightarrow> ApplicationInstance \<Rightarrow> go_error option prog" where
  "ensureChartSource E app =
     (case (as_Release (app_Spec app), as_Chart (app_Spec app)) of
        (Some release, Some chart) \<Rightarrow>
          (let name = chartSourceName release; ns = Namespace (app_meta app) in
           if ch_SourceType chart = ChartSourceHelm then
             CreateOrUpdate E (empty_object helmRepoGVK ns name)
               (\<lambda>repo. with_fields E (set_labels (ownerLabels app) repo)
                  [([''spec'', ''interval''], Some (JString ''1m0s'')),
                   ([''spec'', ''url''], Some (JString (ch_URL chart)))])
           else if ch_SourceType chart = ChartSourceOCI then
             CreateOrUpdate E (empty_object ociRepoGVK ns name)
               (\<lambda>repo. with_fields E (set_labels (ownerLabels app) repo)
                  [([''spec'', ''interval''], Some (JString ''1m0s'')),
                   ([''spec'', ''url''], Some (JString (TrimPrefix (ch_URL chart) ''oci://''))),
                   ([''spec'', ''ref'', ''tag''], Some (JString (ch_Version chart)))])
           else State_Monad.return (Some (Errorf (''unsupported chart source type '' @ Quote (ch_SourceType chart)))))
      | _ \<Rightarrow> State_Monad.return (Some nil_dereference))"

definition buildValues :: "env \<Rightarrow> ApplicationInstance \<Rightarrow> (string \<times> json) list option result prog" where
  "buildValues E app =
     (case as_Values (app_Spec app) of
        None \<Rightarrow> State_Monad.return (Inl nil_dereference)
      | Some values \<Rightarrow>
          if Source values = ValuesSourceInline then
            State_Monad.return
              (case Inline values of
                 None \<Rightarrow> Inr None
               | Some raw \<Rightarrow>
                   (case unmarshal_values raw of
                      Inl err \<Rightarrow> Inl (Wrapf ''decode inline values: '' err [])
                    | Inr kvs \<Rightarrow> Inr kvs))
          else if Source values = ValuesSourceSecretRef then
            (case SecretRef values of
               None \<Rightarrow> State_Monad.return (Inl (Errorf ''secretRef values source requires secretRef''))
             | Some ref \<Rightarrow> loadValuesFromSecret E (Namespace (app_meta app)) ref)
          else if Source values = ValuesSourceConfigMapRef then
            (case ConfigMapRef values of
               None \<Rightarrow> State_Monad.return (Inl (Errorf ''configMapRef values source requires configMapRef''))
             | Some ref \<Rightarrow> loadValuesFromConfigMap E (Namespace (app_meta app)) ref)
          else State_Monad.return (Inl (Errorf (''unsupported values source '' @ Quote (Source values)))))"

text \<open>The mutation of the HelmRelease: everything but the values, then the values.\<close>

definition helmReleaseFields :: "env \<Rightarrow> ApplicationInstance \<Rightarrow> ChartSpec \<Rightarrow> ReleaseSpec \<Rightarrow> Unstructured \<Rightarrow> Unstructured result" where
  "helmReleaseFields E app chart release hr =
     (case SetOwnerReference E (app_meta app) (u_meta hr) of
        Inl err \<Rightarrow> Inl err
      | Inr m \<Rightarrow>
          with_fields E (set_labels (ownerLabels app) (hr\<lparr>u_meta := m\<rparr>))
            [([''spec'', ''interval''], Some (JString ''5m0s'')),
             ([''spec'', ''chart'', ''spec'', ''version''], Some (JString (ch_Version chart))),
             ([''spec'', ''chart'', ''spec'', ''chart''], Some (JString (ch_Name chart))),
             ([''spec'', ''chart'', ''spec'', ''sourceRef''],
                Some (JObject [(''kind'', JString (if ch_SourceType chart = ChartSourceOCI then ''OCIRepository'' else ''HelmRepository'')),
                               (''name'', JString (chartSourceName release))]))])"

definition ensureHelmRelease :: "env \<Rightarrow> ApplicationInstance \<Rightarrow> go_error option prog" where
  "ensureHelmRelease E app =
     (case (as_Release (app_Spec app), as_Chart (app_Spec app)) of
        (Some release, Some chart) \<Rightarrow>
          CreateOrUpdateWith E (empty_object helmReleaseGVK (Namespace (app_meta app)) (rel_Name release))
            (\<lambda>hr. case helmReleaseFields E app chart release hr of
               Inl err \<Rightarrow> State_Monad.return (Inl err)
             | Inr hr \<Rightarrow> do {
                 values \<leftarrow> buildValues E app;
                 State_Monad.return
                   (case values of
                      Inl err \<Rightarrow> Inl err
                    | Inr values \<Rightarrow> with_fields E hr [([''spec'', ''values''], map_option JObject values)])
               })
      | _ \<Rightarrow> State_Monad.return (Some nil_dereference))"

definition EnsureRelease :: "env \<Rightarrow> ApplicationInstance \<Rightarrow> go_error option prog" where
  "EnsureRelease E app = do {
     err \<leftarrow> ensureChartSource E app;
     case err of
       Some err \<Rightarrow>
         State_Monad.return (Some (if err = nil_dereference then err else Wrapf ''ensure chart source: '' err []))
     | None \<Rightarrow> ensureHelmRelease E app
   }"

fun delete_all :: "env \<Rightarrow> Unstructured list \<Rightarrow> go_error option prog" where
  "delete_all E [] = State_Monad.return None"
| "delete_all E (obj # objs) = do {
     err \<leftarrow> ask (write_result E) (DeleteObject obj);
     case err of
       None \<Rightarrow> delete_all E objs
     | Some err \<Rightarrow>
         if IsNotFound err then delete_all E objs
         else State_Monad.return (Some (Wrapf (''delete '' @ snd (u_gvk obj) @ ''/'' @ Name (u_meta obj) @ '': '') err []))
   }"

definition release_objects :: "ApplicationInstance \<Rightarrow> ReleaseSpec \<Rightarrow> Unstructured list" where
  "release_objects app release =
     (let ns = Namespace (app_meta app) in
      [empty_object helmReleaseGVK ns (rel_Name release), empty_object helmRepoGVK ns (chartSourceName release),
       empty_object ociRepoGVK ns (chartSourceName release)])"

definition DeleteRelease :: "env \<Rightarrow> ApplicationInstance \<Rightarrow> go_error option prog" where
  "DeleteRelease E app =
     (case as_Release (app_Spec app) of
        None \<Rightarrow> State_Monad.return (Some nil_dereference)
      | Some release \<Rightarrow> delete_all E (release_objects app release))"

definition ReleaseExists :: "env \<Rightarrow> ApplicationInstance \<Rightarrow> bool result prog" where
  "ReleaseExists E app =
     (case as_Release (app_Spec app) of
        None \<Rightarrow> State_Monad.return (Inr False)
      | Some release \<Rightarrow>
          if rel_Name release = '''' then State_Monad.return (Inr False)
          else do {
            hr \<leftarrow> ask (get_object E) (GetObject helmReleaseGVK (Namespace (app_meta app)) (rel_Name release));
            State_Monad.return
              (case hr of
                 Inr _ \<Rightarrow> Inr True
               | Inl err \<Rightarrow> if IsNotFound err then Inr False else Inl (Wrapf ''get HelmRelease: '' err []))
          })"

fun helm_condition :: "json \<Rightarrow> mapped \<Rightarrow> mapped" where
  "helm_condition (JObject cond) m =
     (let typ = string_member cond ''type''; status = string_member cond ''status'';
          reasonVal = string_member cond ''reason''; messageVal = string_member cond ''message'' in
      if typ = ''Ready'' then
        (if status = ''True'' then m\<lparr>m_ready := True, m_reason := ''HelmReleaseReady'', m_message := messageVal\<rparr>
         else if status = ''False'' then m\<lparr>m_reason := ''HelmReleaseFailed'', m_message := messageVal\<rparr>
         else m)
      else if typ = ''Released'' then
        (if status = ''False'' then default_reason ''HelmReleaseDegraded'' messageVal (m\<lparr>m_degraded := True\<rparr>) else m)
      else if typ = ''Reconciling'' then
        (if status = ''True'' then default_reason reasonVal messageVal (m\<lparr>m_reconciling := True\<rparr>) else m)
      else m)"
| "helm_condition _ m = m"

definition mapHelmReleaseConditions :: "json list \<Rightarrow> mapped" where
  "mapHelmReleaseConditions conds = finish_mapping ''HelmReleaseInstalling'' (fold helm_condition conds mapped0)"

definition Flux_SyncStatus :: "env \<Rightarrow> ApplicationInstance \<Rightarrow> HelmSnapshot result prog" where
  "Flux_SyncStatus E app =
     (case as_Release (app_Spec app) of
        None \<Rightarrow> State_Monad.return (Inl nil_dereference)
      | Some release \<Rightarrow> do {
          hr \<leftarrow> ask (get_object E) (GetObject helmReleaseGVK (Namespace (app_meta app)) (rel_Name release));
          State_Monad.return
            (case hr of
               Inl err \<Rightarrow> Inl (Wrapf ''get helmrelease: '' err [])
             | Inr hr \<Rightarrow>
                 (let ref = \<lparr>hrr_Name = rel_Name release, hrr_Namespace = Namespace (app_meta app)\<rparr> in
                  case NestedSlice E (u_Object hr) [''status'', ''conditions''] of
                    None \<Rightarrow> Inr \<lparr>snap_Ready = False, snap_Reconciling = False, snap_Degraded = False, snap_Reason = ''Reconciling'',
                                snap_Message = ''HelmRelease status not yet available'', ReleaseRef = ref\<rparr>
                  | Some conds \<Rightarrow>
                      (let m = mapHelmReleaseConditions conds in
                       Inr \<lparr>snap_Ready = m_ready m, snap_Reconciling = m_reconciling m, snap_Degraded = m_degraded m,
                            snap_Reason = m_reason m, snap_Message = m_message m, ReleaseRef = ref\<rparr>)))
        })"

record ReleaseEngine =
  re_EnsureRelease :: "ApplicationInstance \<Rightarrow> go_error option prog"
  re_DeleteRelease :: "ApplicationInstance \<Rightarrow> go_error option prog"
  re_ReleaseExists :: "ApplicationInstance \<Rightarrow> bool result prog"
  re_SyncStatus :: "ApplicationInstance \<Rightarrow> HelmSnapshot result prog"

definition FluxEngine :: "env \<Rightarrow> ReleaseEngine" where
  "FluxEngine E = \<lparr>re_EnsureRelease = EnsureRelease E, re_DeleteRelease = DeleteRelease E,
     re_ReleaseExists = ReleaseExists E, re_SyncStatus = Flux_SyncStatus E\<rparr>"

section \<open>Seaweed values\<close>

abbreviation seaweedGVK :: gvk where "seaweedGVK \<equiv> (''seaweed.seaweedfs.com/v1'', ''Seaweed'')"

definition seaweedSpecKeys :: "string list" where
  "seaweedSpecKeys = [''master'', ''volume'', ''filer'', ''s3'', ''admin'', ''worker'', ''sftp'']"

definition seaweedValueWrapperKeys :: "string list" where
  "seaweedValueWrapperKeys = [''seaweedfs'', ''seaweed'']"

definition has_spec_key :: "(string \<times> json) list \<Rightarrow> bool" where
  "has_spec_key values \<longleftrightarrow> list_ex (\<lambda>k. map_of values k \<noteq> None) seaweedSpecKeys"

fun spec_section :: "json option \<Rightarrow> (string \<times> json) list option" where
  "spec_section (Some (JObject nested)) = (if has_spec_key nested then Some nested else None)"
| "spec_section _ = None"

fun wrapped_section :: "(string \<times> json) list \<Rightarrow> string list \<Rightarrow> (string \<times> json) list option" where
  "wrapped_section values [] = None"
| "wrapped_section values (wrapper # ws) =
     (case spec_section (map_of values wrapper) of Some nested \<Rightarrow> Some nested | None \<Rightarrow> wrapped_section values ws)"

definition normalizeSeaweedValues :: "(string \<times> json) list \<Rightarrow> (string \<times> json) list result" where
  "normalizeSeaweedValues values =
     (if has_spec_key values then Inr values
      else case wrapped_section values seaweedValueWrapperKeys of
        Some nested \<Rightarrow> Inr nested
      | None \<Rightarrow>
          (case List.map_filter (\<lambda>(k, v). spec_section (Some v)) values of
             [] \<Rightarrow> Inr values
           | [nested] \<Rightarrow> Inr nested
           | _ \<Rightarrow> Inl (Errorf ''ambiguous Seaweed values: multiple wrapper sections contain Seaweed spec keys'')))"

text \<open>A nil map has no members.\<close>

definition normalized :: "(string \<times> json) list option result \<Rightarrow> (string \<times> json) list result" where
  "normalized values =
     (case values of
        Inl err \<Rightarrow> Inl err
      | Inr None \<Rightarrow> normalizeSeaweedValues []
      | Inr (Some kvs) \<Rightarrow> normalizeSeaweedValues kvs)"

definition loadValues :: "env \<Rightarrow> ApplicationInstance \<Rightarrow> (string \<times> json) list result prog" where
  "loadValues E app =
     (case as_Values (app_Spec app) of
        None \<Rightarrow> State_Monad.return (Inl (Errorf ''spec.values is required for Seaweed workload''))
      | Some values \<Rightarrow>
          if Source values = ValuesSourceInline then
            State_Monad.return
              (case Inline values of
                 None \<Rightarrow> Inl (Errorf ''inline values are required for Seaweed workload'')
               | Some raw \<Rightarrow>
                   (case unmarshal_values raw of
                      Inl err \<Rightarrow> Inl (Wrapf ''decode inline values: '' err [])
                    | Inr kvs \<Rightarrow> normalized (Inr kvs)))
          else if Source values = ValuesSourceSecretRef then
            (case SecretRef values of
               None \<Rightarrow> State_Monad.return (Inl (Errorf ''secretRef values source requires secretRef''))
             | Some ref \<Rightarrow> do {
                 loaded \<leftarrow> loadValuesFromSecret E (Namespace (app_meta app)) ref;
                 State_Monad.return (normalized loaded)
               })
          else if Source values = ValuesSourceConfigMapRef then
            (case ConfigMapRef values of
               None \<Rightarrow> State_Monad.return (Inl (Errorf ''configMapRef values source requires configMapRef''))
             | Some ref \<Rightarrow> do {
                 loaded \<leftarrow> loadValuesFromConfigMap E (Namespace (app_meta app)) ref;
                 State_Monad.return (normalized loaded)
               })
          else State_Monad.return (Inl (Errorf (''unsupported values source '' @ Quote (Source values)))))"

section \<open>Seaweed\<close>

definition validateReleaseRef :: "ApplicationInstance \<Rightarrow> ReleaseSpec result" where
  "validateReleaseRef app =
     (case as_Release (app_Spec app) of
        None \<Rightarrow> Inl (Errorf ''spec.release is required for Seaweed workload'')
      | Some release \<Rightarrow>
          if rel_Name release = '''' then Inl (Errorf ''spec.release.name is required for Seaweed workload'')
          else Inr release)"

definition releaseNamespace :: "ApplicationInstance \<Rightarrow> string" where
  "releaseNamespace app =
     (case as_Release (app_Spec app) of
        None \<Rightarrow> Namespace (app_meta app)
      | Some release \<Rightarrow> if rel_Namespace release \<noteq> '''' then rel_Namespace release else Namespace (app_meta app))"

definition seaweed_spec :: "(string \<times> json) list \<Rightarrow> (string \<times> json) list" where
  "seaweed_spec values =
     List.map_filter (\<lambda>k. map_option (\<lambda>v. (k, v)) (map_of values k)) seaweedSpecKeys"

definition seaweedFields :: "env \<Rightarrow> ApplicationInstance \<Rightarrow> (string \<times> json) list \<Rightarrow> Unstructured \<Rightarrow> Unstructured result" where
  "seaweedFields E app values sw =
     (case SetOwnerReference E (app_meta app) (u_meta sw) of
        Inl err \<Rightarrow> Inl err
      | Inr m \<Rightarrow>
          if seaweed_spec values = [] then Inl (Errorf
            (''values must include at least one native Seaweed spec section (master, volume, filer, s3, '' @
             [CHR 0xE2, CHR 0x80, CHR 0xA6] @ ''); Helm chart-wrapped values require conversion before reconciliation''))
          else with_fields E (set_labels (ownerLabels app) (sw\<lparr>u_meta := m\<rparr>))
                 [([''spec''], Some (JObject (seaweed_spec values)))])"

definition EnsureSeaweed :: "env \<Rightarrow> ApplicationInstance \<Rightarrow> go_error option prog" where
  "EnsureSeaweed E app =
     (case validateReleaseRef app of
        Inl err \<Rightarrow> State_Monad.return (Some err)
      | Inr release \<Rightarrow> do {
          loaded \<leftarrow> loadValues E app;
          case loaded of
            Inl err \<Rightarrow> State_Monad.return (Some (Wrapf ''load values: '' err []))
          | Inr values \<Rightarrow>
              (case normalizeSeaweedValues values of
                 Inl err \<Rightarrow> State_Monad.return (Some (Wrapf ''normalize values: '' err []))
               | Inr values \<Rightarrow>
                   (let ns = releaseNamespace app in
                    if ns \<noteq> Namespace (app_meta app)
                    then State_Monad.return (Some (Errorf (''spec.release.namespace '' @ Quote ns @
                      '' must match metadata.namespace '' @ Quote (Namespace (app_meta app)) @ '' for Seaweed workloads'')))
                    else CreateOrUpdate E (empty_object seaweedGVK ns (rel_Name release)) (seaweedFields E app values)))
        })"

definition DeleteSeaweed :: "env \<Rightarrow> ApplicationInstance \<Rightarrow> go_error option prog" where
  "DeleteSeaweed E app =
     (case validateReleaseRef app of
        Inl err \<Rightarrow> State_Monad.return (Some err)
      | Inr release \<Rightarrow> delete_all E [empty_object seaweedGVK (releaseNamespace app) (rel_Name release)])"

definition SeaweedExists :: "env \<Rightarrow> ApplicationInstance \<Rightarrow> bool result prog" where
  "SeaweedExists E app =
     (case validateReleaseRef app of
        Inl err \<Rightarrow> State_Monad.return (Inl err)
      | Inr release \<Rightarrow> do {
          sw \<leftarrow> ask (get_object E) (GetObject seaweedGVK (releaseNamespace app) (rel_Name release));
          State_Monad.return
            (case sw of
               Inr _ \<Rightarrow> Inr True
             | Inl err \<Rightarrow> if IsNotFound err then Inr False else Inl (Wrapf ''get Seaweed: '' err []))
        })"

fun seaweed_condition :: "json \<Rightarrow> mapped \<Rightarrow> mapped" where
  "seaweed_condition (JObject cond) m =
     (let typ = string_member cond ''type''; status = string_member cond ''status'';
          reasonVal = string_member cond ''reason''; messageVal = string_member cond ''message'' in
      if typ = ''Ready'' then
        (if status = ConditionTrue then m\<lparr>m_ready := True, m_reason := ''SeaweedReady'', m_message := messageVal\<rparr>
         else if status = ConditionFalse then m\<lparr>m_reason := ''SeaweedFailed'', m_message := messageVal\<rparr>
         else m)
      else if typ = ''Progressing'' then
        (if status = ConditionTrue then default_reason reasonVal messageVal (m\<lparr>m_reconciling := True\<rparr>) else m)
      else if typ = ''Degraded'' then
        (if status = ConditionTrue then default_reason reasonVal messageVal (m\<lparr>m_degraded := True\<rparr>) else m)
      else m)"
| "seaweed_condition _ m = m"

definition mapSeaweedConditions :: "json list \<Rightarrow> mapped" where
  "mapSeaweedConditions conds = finish_mapping ''SeaweedReconciling'' (fold seaweed_condition conds mapped0)"

definition s3ServiceName :: "string \<Rightarrow> string" where
  "s3ServiceName releaseName = releaseName @ ''-s3''"

abbreviation s3GatewayPort :: int where "s3GatewayPort \<equiv> 8333"

definition S3Endpoint :: "string \<Rightarrow> string \<Rightarrow> string" where
  "S3Endpoint releaseName ns = ''http://'' @ s3ServiceName releaseName @ ''.'' @ ns @ ''.svc:'' @ Itoa s3GatewayPort"

definition s3ServiceExists :: "env \<Rightarrow> string \<Rightarrow> string \<Rightarrow> bool prog" where
  "s3ServiceExists E releaseName ns = do {
     err \<leftarrow> ask (get_service E) (GetService ns (s3ServiceName releaseName));
     State_Monad.return (err = None)
   }"

definition s3EnabledInSpec :: "env \<Rightarrow> (string \<times> json) list \<Rightarrow> bool" where
  "s3EnabledInSpec E spec =
     (case map_of spec ''s3'' of
        Some (JObject s3Map) \<Rightarrow>
          if s3Map = [] then False
          else if NestedBool E (JObject s3Map) [''enabled''] = Inr (Some False) then False
          else (case NestedInt64 E (JObject s3Map) [''replicas''] of
                  Inl _ \<Rightarrow> False
                | Inr (Some replicas) \<Rightarrow> replicas > 0
                | Inr None \<Rightarrow> True)
      | _ \<Rightarrow> False)"

definition hasS3Spec :: "env \<Rightarrow> Unstructured \<Rightarrow> bool" where
  "hasS3Spec E sw =
     (case NestedMap E (u_Object sw) [''spec''] of None \<Rightarrow> False | Some spec \<Rightarrow> s3EnabledInSpec E spec)"

definition Seaweed_SyncStatus :: "env \<Rightarrow> ApplicationInstance \<Rightarrow> SeaweedSnapshot result prog" where
  "Seaweed_SyncStatus E app =
     (case validateReleaseRef app of
        Inl err \<Rightarrow> State_Monad.return (Inl err)
      | Inr release \<Rightarrow>
          (let ns = releaseNamespace app in do {
           sw \<leftarrow> ask (get_object E) (GetObject seaweedGVK ns (rel_Name release));
           case sw of
             Inl err \<Rightarrow> State_Monad.return (Inl (Wrapf ''get Seaweed: '' err []))
           | Inr sw \<Rightarrow>
               (case NestedSlice E (u_Object sw) [''status'', ''conditions''] of
                  None \<Rightarrow> State_Monad.return
                    (Inr \<lparr>snap_Ready = False, snap_Reconciling = False, snap_Degraded = False, snap_Reason = ''Reconciling'',
                          snap_Message = ''Seaweed status not yet available'', snap_S3Endpoint = '''', HasS3 = False\<rparr>)
                | Some conds \<Rightarrow>
                    (let m = mapSeaweedConditions conds; s3 = hasS3Spec E sw in do {
                     served \<leftarrow> (if m_ready m \<and> s3 then s3ServiceExists E (rel_Name release) ns
                               else State_Monad.return False);
                     State_Monad.return
                       (Inr \<lparr>snap_Ready = m_ready m, snap_Reconciling = m_reconciling m, snap_Degraded = m_degraded m,
                             snap_Reason = m_reason m, snap_Message = m_message m,
                             snap_S3Endpoint = (if served then S3Endpoint (rel_Name release) ns else ''''), HasS3 = s3\<rparr>)
                   }))
         }))"

definition CRDsAvailable :: "(gvk \<Rightarrow> go_error option) option \<Rightarrow> bool" where
  "CRDsAvailable mapper =
     (case mapper of
        None \<Rightarrow> False
      | Some mapping_error \<Rightarrow>
          list_all (\<lambda>gvk. mapping_error gvk = None) [seaweedGVK, (''seaweed.seaweedfs.com/v1'', ''S3Credentials'')])"

section \<open>S3 credentials\<close>

abbreviation s3CredentialsGVK :: gvk where "s3CredentialsGVK \<equiv> (''seaweed.seaweedfs.com/v1'', ''S3Credentials'')"
abbreviation s3CredentialsPhaseReady :: string where "s3CredentialsPhaseReady \<equiv> ''Ready''"
abbreviation s3CredentialsPhasePending :: string where "s3CredentialsPhasePending \<equiv> ''Pending''"
abbreviation s3CredentialsPhaseFailed :: string where "s3CredentialsPhaseFailed \<equiv> ''Failed''"
abbreviation s3CredentialsPhaseTerminating :: string where "s3CredentialsPhaseTerminating \<equiv> ''Terminating''"

record ManagedStorageSnapshot =
  mss_AccessKeyID :: string
  mss_SecretAccessKey :: string
  mss_BucketName :: string

datatype credentialSnapshotOutcome =
    credentialSnapshotOK
  | credentialSnapshotSecretMissing
  | credentialSnapshotUnusable

definition cred_phase :: "env \<Rightarrow> Unstructured \<Rightarrow> string" where
  "cred_phase E item = NestedString E (u_Object item) [''status'', ''phase'']"

definition splitS3CredentialsByPhase :: "env \<Rightarrow> Unstructured list \<Rightarrow> Unstructured list \<times> bool" where
  "splitS3CredentialsByPhase E candidates =
     (filter (\<lambda>item. cred_phase E item = s3CredentialsPhaseReady) candidates,
      list_ex (\<lambda>item. cred_phase E item \<notin> {s3CredentialsPhaseReady, s3CredentialsPhaseFailed}) candidates)"

definition listMatchingS3Credentials :: "env \<Rightarrow> string \<Rightarrow> string \<Rightarrow> Unstructured list result prog" where
  "listMatchingS3Credentials E ns releaseName = do {
     items \<leftarrow> ask (list_objects E) (ListObjectsIn (''seaweed.seaweedfs.com/v1'', ''S3CredentialsList'') ns);
     State_Monad.return
       (case items of
          Inl err \<Rightarrow> Inl (Wrapf ''list S3Credentials: '' err [])
        | Inr items \<Rightarrow>
            Inr (sort_key (\<lambda>item. Name (u_meta item))
                  (filter (\<lambda>item. NestedString E (u_Object item) [''spec'', ''seaweedRef'', ''name''] = releaseName) items)))
   }"

text \<open>The keys that a credential and its Secret give.\<close>

definition secret_of :: "env \<Rightarrow> Unstructured \<Rightarrow> string" where
  "secret_of E item =
     (let secretName = NestedString E (u_Object item) [''status'', ''secretName''] in
      if secretName = '''' then NestedString E (u_Object item) [''spec'', ''secretRef'', ''name''] else secretName)"

definition inline_keys :: "env \<Rightarrow> string \<Rightarrow> Unstructured \<Rightarrow> Secret \<Rightarrow> ManagedStorageSnapshot option" where
  "inline_keys E releaseName item secret =
     (let field = (\<lambda>k d. let f = NestedString E (u_Object item) [''spec'', ''secretRef'', k] in if f = '''' then d else f);
          accessKey0 = NestedString E (u_Object item) [''status'', ''accessKey''];
          secretKey = go_get (sec_Data secret) (field ''secretKeyField'' ''secretKey'');
          accessKey = (if accessKey0 = '''' then go_get (sec_Data secret) (field ''accessKeyField'' ''accessKey'') else accessKey0) in
      if accessKey = '''' \<or> secretKey = '''' then None
      else Some \<lparr>mss_AccessKeyID = accessKey, mss_SecretAccessKey = secretKey, mss_BucketName = releaseName\<rparr>)"

definition snapshotFromS3Credentials ::
  "env \<Rightarrow> string \<Rightarrow> string \<Rightarrow> Unstructured \<Rightarrow> (ManagedStorageSnapshot option \<times> credentialSnapshotOutcome) result prog" where
  "snapshotFromS3Credentials E ns releaseName item =
     (if cred_phase E item \<noteq> '''' \<and> cred_phase E item \<noteq> s3CredentialsPhaseReady \<or> secret_of E item = ''''
      then State_Monad.return (Inr (None, credentialSnapshotUnusable))
      else do {
        secret \<leftarrow> ask (get_secret E) (GetSecret ns (secret_of E item));
        State_Monad.return
          (case secret of
             Inl err \<Rightarrow>
               if IsNotFound err then Inr (None, credentialSnapshotSecretMissing)
               else Inl (Wrapf (''get S3Credentials secret '' @ ns @ ''/'' @ secret_of E item @ '': '') err [])
           | Inr secret \<Rightarrow>
               (case inline_keys E releaseName item secret of
                  None \<Rightarrow> Inr (None, credentialSnapshotUnusable)
                | Some snapshot \<Rightarrow> Inr (Some snapshot, credentialSnapshotOK)))
      })"

text \<open>The snapshot, whether it is pending, whether it has failed, and an error.\<close>

type_synonym storage_state = "ManagedStorageSnapshot option \<times> bool \<times> bool \<times> go_error option"

fun first_usable :: "env \<Rightarrow> string \<Rightarrow> string \<Rightarrow> bool \<Rightarrow> Unstructured list \<Rightarrow> bool \<Rightarrow> bool \<Rightarrow> storage_state prog" where
  "first_usable E ns releaseName stillPending [] secretMissing unusable =
     State_Monad.return
       (if stillPending \<or> secretMissing then (None, True, False, None)
        else if unusable then (None, False, True, None)
        else (None, False, False, None))"
| "first_usable E ns releaseName stillPending (item # items) secretMissing unusable = do {
     snapshot \<leftarrow> snapshotFromS3Credentials E ns releaseName item;
     case snapshot of
       Inl err \<Rightarrow> State_Monad.return (None, True, False, Some err)
     | Inr (snapshot, outcome) \<Rightarrow>
         (case snapshot of
            Some s \<Rightarrow> State_Monad.return (Some s, False, False, None)
          | None \<Rightarrow>
              first_usable E ns releaseName stillPending items
                (secretMissing \<or> outcome = credentialSnapshotSecretMissing) (unusable \<or> outcome = credentialSnapshotUnusable))
   }"

definition ResolveManagedStorageState :: "env \<Rightarrow> ApplicationInstance \<Rightarrow> storage_state prog" where
  "ResolveManagedStorageState E app =
     (case validateReleaseRef app of
        Inl err \<Rightarrow> State_Monad.return (None, False, False, Some err)
      | Inr release \<Rightarrow>
          (let ns = releaseNamespace app; releaseName = rel_Name release in do {
           candidates \<leftarrow> listMatchingS3Credentials E ns releaseName;
           case candidates of
             Inl err \<Rightarrow> State_Monad.return (None, False, False, Some err)
           | Inr candidates \<Rightarrow>
               if candidates = [] then State_Monad.return (None, False, False, None)
               else
                 (let (readyCandidates, stillPending) = splitS3CredentialsByPhase E candidates in
                  if readyCandidates = [] then State_Monad.return (None, stillPending, \<not> stillPending, None)
                  else first_usable E ns releaseName stillPending readyCandidates False False)
         }))"

definition ResolveManagedStorage :: "env \<Rightarrow> ApplicationInstance \<Rightarrow> ManagedStorageSnapshot option result prog" where
  "ResolveManagedStorage E app = do {
     (snapshot, pending, failed, err) \<leftarrow> ResolveManagedStorageState E app;
     State_Monad.return (case err of None \<Rightarrow> Inr snapshot | Some err \<Rightarrow> Inl err)
   }"

record StorageEngine =
  se_EnsureSeaweed :: "ApplicationInstance \<Rightarrow> go_error option prog"
  se_DeleteSeaweed :: "ApplicationInstance \<Rightarrow> go_error option prog"
  se_SeaweedExists :: "ApplicationInstance \<Rightarrow> bool result prog"
  se_SyncStatus :: "ApplicationInstance \<Rightarrow> SeaweedSnapshot result prog"
  se_ResolveManagedStorage :: "ApplicationInstance \<Rightarrow> ManagedStorageSnapshot option result prog"
  se_ResolveManagedStorageState :: "ApplicationInstance \<Rightarrow> storage_state prog"

definition SeaweedEngine :: "env \<Rightarrow> StorageEngine" where
  "SeaweedEngine E = \<lparr>se_EnsureSeaweed = EnsureSeaweed E, se_DeleteSeaweed = DeleteSeaweed E,
     se_SeaweedExists = SeaweedExists E, se_SyncStatus = Seaweed_SyncStatus E,
     se_ResolveManagedStorage = ResolveManagedStorage E,
     se_ResolveManagedStorageState = ResolveManagedStorageState E\<rparr>"

section \<open>Conditions\<close>

lemma default_reason_simps [simp]:
  "m_ready (default_reason a b m) = m_ready m" "m_degraded (default_reason a b m) = m_degraded m"
  "m_reconciling (default_reason a b m) = m_reconciling m"
  by (simp_all add: default_reason_def)

lemma finish_mapping_simps [simp]:
  "m_ready (finish_mapping a m) = m_ready m" "m_degraded (finish_mapping a m) = (m_degraded m \<and> \<not> m_ready m)"
  by (auto simp: finish_mapping_def Let_def)

text \<open>A list of conditions that has a condition of a type with a status.\<close>

definition has_condition :: "string \<Rightarrow> string \<Rightarrow> json list \<Rightarrow> bool" where
  "has_condition typ status conds \<longleftrightarrow>
     (\<exists>cond. JObject cond \<in> set conds \<and> string_member cond ''type'' = typ \<and> string_member cond ''status'' = status)"

lemma has_condition_Cons:
  "has_condition typ status (c # conds) \<longleftrightarrow>
     (\<exists>cond. c = JObject cond \<and> string_member cond ''type'' = typ \<and> string_member cond ''status'' = status)
     \<or> has_condition typ status conds"
  by (auto simp: has_condition_def)

lemma helm_fold:
  "m_ready (fold helm_condition conds m) \<longleftrightarrow> m_ready m \<or> has_condition ''Ready'' ''True'' conds"
  "m_degraded (fold helm_condition conds m) \<longleftrightarrow> m_degraded m \<or> has_condition ''Released'' ''False'' conds"
proof (induction conds arbitrary: m)
  case (Cons c conds)
  {
    case 1
    show ?case using Cons.IH(1) by (cases c) (auto simp: has_condition_Cons Let_def)
  next
    case 2
    show ?case using Cons.IH(2) by (cases c) (auto simp: has_condition_Cons Let_def)
  }
qed (simp_all add: has_condition_def)

lemma seaweed_fold:
  "m_ready (fold seaweed_condition conds m) \<longleftrightarrow> m_ready m \<or> has_condition ''Ready'' ''True'' conds"
  "m_degraded (fold seaweed_condition conds m) \<longleftrightarrow> m_degraded m \<or> has_condition ''Degraded'' ''True'' conds"
proof (induction conds arbitrary: m)
  case (Cons c conds)
  {
    case 1
    show ?case using Cons.IH(1) by (cases c) (auto simp: has_condition_Cons Let_def)
  next
    case 2
    show ?case using Cons.IH(2) by (cases c) (auto simp: has_condition_Cons Let_def)
  }
qed (simp_all add: has_condition_def)

lemma mapped_ready:
  "m_ready (mapHelmReleaseConditions conds) \<longleftrightarrow> has_condition ''Ready'' ''True'' conds"
  "m_degraded (mapHelmReleaseConditions conds) \<longleftrightarrow>
     has_condition ''Released'' ''False'' conds \<and> \<not> has_condition ''Ready'' ''True'' conds"
  "m_ready (mapSeaweedConditions conds) \<longleftrightarrow> has_condition ''Ready'' ''True'' conds"
  "m_degraded (mapSeaweedConditions conds) \<longleftrightarrow>
     has_condition ''Degraded'' ''True'' conds \<and> \<not> has_condition ''Ready'' ''True'' conds"
  by (simp_all add: mapHelmReleaseConditions_def mapSeaweedConditions_def helm_fold seaweed_fold mapped0_def)

section \<open>Values\<close>

lemma spec_section_has_key: "spec_section j = Some nested \<Longrightarrow> has_spec_key nested"
  by (cases j rule: spec_section.cases) (auto split: if_splits)

lemma wrapped_section_has_key: "wrapped_section values ws = Some nested \<Longrightarrow> has_spec_key nested"
  by (induction "values" ws rule: wrapped_section.induct) (auto split: option.splits dest: spec_section_has_key)

lemma map_filter_single: "List.map_filter f xs = [y] \<Longrightarrow> \<exists>x \<in> set xs. f x = Some y"
  by (induction xs) (auto simp: map_filter_simps split: option.splits)

lemma normalized_has_key:
  assumes "normalizeSeaweedValues values = Inr values'"
  shows "values' = values \<or> has_spec_key values'"
  using assms
  by (auto simp: normalizeSeaweedValues_def split: if_splits option.splits list.splits
      dest!: map_filter_single dest: wrapped_section_has_key spec_section_has_key)

text \<open>Normalizing twice is normalizing once, so the second normalization in \<^verbatim>\<open>EnsureSeaweed\<close> is idle.\<close>

lemma normalize_idem: "normalizeSeaweedValues values = Inr values' \<Longrightarrow> normalizeSeaweedValues values' = Inr values'"
  by (frule normalized_has_key) (auto simp: normalizeSeaweedValues_def)

lemma loadValues_normalized: "run_state (loadValues E app) w = (Inr values, w') \<Longrightarrow> normalizeSeaweedValues values = Inr values"
  by (auto simp: loadValues_def normalized_def go_run intro: normalize_idem
      split: option.splits if_splits sum.splits prod.splits)

lemma map_of_seaweed_spec:
  "map_of (seaweed_spec values) k = (if k \<in> set seaweedSpecKeys then map_of values k else None)"
proof -
  have "map_of (List.map_filter (\<lambda>k. map_option (\<lambda>v. (k, v)) (map_of values k)) ks) k
      = (if k \<in> set ks then map_of values k else None)" for ks
    by (induction ks) (auto simp: map_filter_simps split: option.splits)
  then show ?thesis by (simp add: seaweed_spec_def)
qed

section \<open>What the engines write\<close>

lemma with_fields_meta: "with_fields E obj ps = Inr obj' \<Longrightarrow> u_meta obj' = u_meta obj \<and> u_gvk obj' = u_gvk obj"
  by (auto simp: with_fields_def split: sum.splits)

lemma with_fields_object: "with_fields E obj ps = Inr obj' \<Longrightarrow> set_nested_fields E (u_Object obj) ps = Inr (u_Object obj')"
  by (auto simp: with_fields_def split: sum.splits)

lemma helmReleaseFields_spec:
  assumes "nested_laws E" and "helmReleaseFields E app chart release hr = Inr hr'"
  shows "Labels (u_meta hr') = ownerLabels app
    \<and> get_path (u_Object hr') [''spec'', ''chart'', ''spec'', ''version''] = Some (JString (ch_Version chart))
    \<and> get_path (u_Object hr') [''spec'', ''chart'', ''spec'', ''chart''] = Some (JString (ch_Name chart))
    \<and> get_path (u_Object hr') [''spec'', ''chart'', ''spec'', ''sourceRef'', ''name''] = Some (JString (chartSourceName release))"
proof -
  let ?i = "([''spec'', ''interval''], Some (JString ''5m0s''))"
  let ?v = "([''spec'', ''chart'', ''spec'', ''version''], Some (JString (ch_Version chart)))"
  let ?c = "([''spec'', ''chart'', ''spec'', ''chart''], Some (JString (ch_Name chart)))"
  let ?kind = "JString (if ch_SourceType chart = ChartSourceOCI then ''OCIRepository'' else ''HelmRepository'')"
  let ?ref = "JObject [(''kind'', ?kind), (''name'', JString (chartSourceName release))]"
  let ?s = "([''spec'', ''chart'', ''spec'', ''sourceRef''], Some ?ref)"
  obtain m where fields: "with_fields E (set_labels (ownerLabels app) (hr\<lparr>u_meta := m\<rparr>)) [?i, ?v, ?c, ?s] = Inr hr'"
    using assms(2) by (auto simp: helmReleaseFields_def split: sum.splits)
  note set = with_fields_object [OF fields]
  have "Labels (u_meta hr') = ownerLabels app" using with_fields_meta [OF fields] by (simp add: set_labels_def)
  moreover have "get_path (u_Object hr') [''spec'', ''chart'', ''spec'', ''version''] = Some (JString (ch_Version chart))"
    by (rule set_nested_fields_value [OF assms(1), where ps = "[?i]" and qs = "[?c, ?s]"]) (insert set, simp_all)
  moreover have "get_path (u_Object hr') [''spec'', ''chart'', ''spec'', ''chart''] = Some (JString (ch_Name chart))"
    by (rule set_nested_fields_value [OF assms(1), where ps = "[?i, ?v]" and qs = "[?s]"]) (insert set, simp_all)
  moreover have "get_path (u_Object hr') [''spec'', ''chart'', ''spec'', ''sourceRef''] = Some ?ref"
    by (rule set_nested_fields_value [OF assms(1), where ps = "[?i, ?v, ?c]" and qs = "[]"]) (insert set, simp_all)
  then have "get_path (u_Object hr') ([''spec'', ''chart'', ''spec'', ''sourceRef''] @ [''name'']) = Some (JString (chartSourceName release))"
    by (subst get_path_append) simp
  ultimately show ?thesis by simp
qed

text \<open>C25: when a release has been ensured, the HelmRelease that was stored carries the labels of its
  instance, names the chart, version and chart source of the spec, and has the values that were
  loaded.\<close>

theorem ensured_release_matches_spec:
  assumes "nested_laws E" and "as_Release (app_Spec app) = Some release" and "as_Chart (app_Spec app) = Some chart"
    and "run_state (EnsureRelease E app) w = (None, w')"
  shows "\<exists>hr values w1 w2. hd (hist w') = StoreObject hr \<and> Labels (u_meta hr) = ownerLabels app
    \<and> get_path (u_Object hr) [''spec'', ''chart'', ''spec'', ''version''] = Some (JString (ch_Version chart))
    \<and> get_path (u_Object hr) [''spec'', ''chart'', ''spec'', ''chart''] = Some (JString (ch_Name chart))
    \<and> get_path (u_Object hr) [''spec'', ''chart'', ''spec'', ''sourceRef'', ''name''] = Some (JString (chartSourceName release))
    \<and> run_state (buildValues E app) w1 = (Inr values, w2)
    \<and> (\<forall>kvs. values = Some kvs \<longrightarrow> get_path (u_Object hr) [''spec'', ''values''] = Some (JObject kvs))"
proof -
  obtain w0 where "run_state (ensureHelmRelease E app) w0 = (None, w')"
    using assms(4) by (auto simp: EnsureRelease_def go_run split: prod.splits option.splits)
  then obtain current hr1 hr vs w1 w2 where
    hr1: "helmReleaseFields E app chart release current = Inr hr1" and vals: "run_state (buildValues E app) w1 = (Inr vs, w2)"
    and hr: "with_fields E hr1 [([''spec'', ''values''], map_option JObject vs)] = Inr hr"
    and stored: "hd (hist w') = StoreObject hr"
    using assms(2,3)
    by (auto simp: ensureHelmRelease_def CreateOrUpdateWith_def go_run split: sum.splits prod.splits)
  note set = with_fields_object [OF hr]
  have kept: "get_path (u_Object hr) q = get_path (u_Object hr1) q" if "apart [''spec'', ''values''] q" for q
    by (rule set_nested_fields_other [OF assms(1) set]) (simp add: that)
  have "get_path (u_Object hr) [''spec'', ''values''] = Some (JObject kvs)" if "vs = Some kvs" for kvs
    by (rule set_nested_fields_value [OF assms(1), where ps = "[]" and qs = "[]"]) (insert set, simp_all add: that)
  with helmReleaseFields_spec [OF assms(1) hr1] with_fields_meta [OF hr] vals stored show ?thesis
    by (fastforce simp: kept)
qed


section \<open>The credentials that are chosen\<close>

text \<open>The keys that a credential gives, with the Secrets as they are.\<close>

definition gives_keys ::
  "env \<Rightarrow> (string \<Rightarrow> Secret result) \<Rightarrow> string \<Rightarrow> Unstructured \<Rightarrow> ManagedStorageSnapshot \<Rightarrow> bool" where
  "gives_keys E secrets releaseName item s \<longleftrightarrow>
     secret_of E item \<noteq> '''' \<and>
     (\<exists>secret. secrets (secret_of E item) = Inr secret \<and> inline_keys E releaseName item secret = Some s)"

lemma snapshot_result:
  assumes "\<And>h n. get_secret E (GetSecret ns n # h) = secrets n" and "cred_phase E item = s3CredentialsPhaseReady"
    and "run_state (snapshotFromS3Credentials E ns releaseName item) w = (Inr (snapshot, outcome), w')"
  shows "snapshot = Some s \<longleftrightarrow> gives_keys E secrets releaseName item s"
  using assms by (auto simp: snapshotFromS3Credentials_def gives_keys_def go_run split: if_splits sum.splits option.splits)

lemma first_usable_Some:
  assumes "\<And>h n. get_secret E (GetSecret ns n # h) = secrets n"
    and "\<forall>item \<in> set items. cred_phase E item = s3CredentialsPhaseReady"
    and "run_state (first_usable E ns releaseName pending items missing unusable) w = ((Some s, rest), w')"
  shows "\<exists>xs item ys. items = xs @ item # ys \<and> gives_keys E secrets releaseName item s
    \<and> (\<forall>x \<in> set xs. \<forall>s'. \<not> gives_keys E secrets releaseName x s')"
  using assms(2,3)
proof (induction items arbitrary: missing unusable w)
  case Nil
  then show ?case by (auto split: if_splits)
next
  case (Cons item items)
  obtain snap w1 where snap: "run_state (snapshotFromS3Credentials E ns releaseName item) w = (snap, w1)"
    by (cases "run_state (snapshotFromS3Credentials E ns releaseName item) w")
  have phase: "cred_phase E item = s3CredentialsPhaseReady" using Cons.prems(1) by simp
  show ?case
  proof (cases snap)
    case (Inl err)
    with snap Cons.prems(2) show ?thesis by (simp add: go_run)
  next
    case (Inr r)
    obtain found outcome where r: "r = (found, outcome)" by (cases r)
    note result = snapshot_result [OF assms(1) phase snap [unfolded Inr r]]
    show ?thesis
    proof (cases found)
      case (Some s')
      with snap Inr r Cons.prems(2) have "s' = s" by (simp add: go_run)
      with Some result have "gives_keys E secrets releaseName item s" by simp
      then show ?thesis by (intro exI [of _ "[]"] exI [of _ item] exI [of _ items]) simp
    next
      case None
      with snap Inr r Cons.prems(2) obtain missing' unusable' where
        "run_state (first_usable E ns releaseName pending items missing' unusable') w1 = ((Some s, rest), w')"
        by (simp add: go_run)
      with Cons.IH Cons.prems(1) obtain xs it ys where
        "items = xs @ it # ys" "gives_keys E secrets releaseName it s" "\<forall>x \<in> set xs. \<forall>s'. \<not> gives_keys E secrets releaseName x s'"
        by fastforce
      with None result show ?thesis by (intro exI [of _ "item # xs"] exI [of _ it] exI [of _ ys]) auto
    qed
  qed
qed

text \<open>The keys that are reported for a Seaweed release are those of a Ready credential of that
  release, and no Ready credential of the release with a smaller name gives keys.\<close>

theorem smallest_ready_credential_chosen:
  assumes "validateReleaseRef app = Inr release"
    and "list_objects E (ListObjectsIn (''seaweed.seaweedfs.com/v1'', ''S3CredentialsList'') (releaseNamespace app) # hist w) = Inr items"
    and "\<And>h n. get_secret E (GetSecret (releaseNamespace app) n # h) = secrets n"
    and "run_state (ResolveManagedStorageState E app) w = ((Some s, rest), w')"
  defines "ready \<equiv> \<lambda>item. item \<in> set items \<and> cred_phase E item = s3CredentialsPhaseReady
      \<and> NestedString E (u_Object item) [''spec'', ''seaweedRef'', ''name''] = rel_Name release"
  shows "\<exists>item. ready item \<and> gives_keys E secrets (rel_Name release) item s
    \<and> (\<forall>other s'. ready other \<and> Name (u_meta other) < Name (u_meta item) \<longrightarrow>
         \<not> gives_keys E secrets (rel_Name release) other s')"
proof -
  let ?matching = "filter (\<lambda>item. NestedString E (u_Object item) [''spec'', ''seaweedRef'', ''name''] = rel_Name release) items"
  let ?sorted = "sort_key (\<lambda>item. Name (u_meta item)) ?matching"
  let ?ready = "filter (\<lambda>item. cred_phase E item = s3CredentialsPhaseReady) ?sorted"
  obtain pending w1 where run: "run_state (first_usable E (releaseNamespace app) (rel_Name release) pending ?ready False False) w1
      = ((Some s, rest), w')"
    using assms(1,2,4)
    by (auto simp: ResolveManagedStorageState_def listMatchingS3Credentials_def splitS3CredentialsByPhase_def go_run
        split: if_splits)
  have "\<forall>item \<in> set ?ready. cred_phase E item = s3CredentialsPhaseReady" by simp
  from first_usable_Some [OF assms(3) this run] obtain xs item ys where
    split: "?ready = xs @ item # ys" and keys: "gives_keys E secrets (rel_Name release) item s"
    and earlier: "\<forall>x \<in> set xs. \<forall>s'. \<not> gives_keys E secrets (rel_Name release) x s'" by blast
  have members: "x \<in> set ?ready \<longleftrightarrow> ready x" for x by (auto simp: ready_def)
  have "sorted (map (\<lambda>item. Name (u_meta item)) ?ready)" by (intro sorted_filter) simp
  then have later: "Name (u_meta item) \<le> Name (u_meta y)" if "y \<in> set ys" for y
    using that unfolding split by (simp add: sorted_append)
  have "\<not> gives_keys E secrets (rel_Name release) other s'"
    if "ready other" and "Name (u_meta other) < Name (u_meta item)" for other s'
  proof -
    from that(1) have "other \<in> set xs \<or> other = item \<or> other \<in> set ys" using members split by (metis Un_iff set_ConsD set_append)
    with that(2) later earlier show ?thesis by (auto dest: leD)
  qed
  moreover have "ready item" using members split by (metis in_set_conv_decomp)
  ultimately show ?thesis using keys by blast
qed

section \<open>Witnesses\<close>

abbreviation demo_release :: ReleaseSpec where "demo_release \<equiv> \<lparr>rel_Name = ''shop'', rel_Namespace = ''ns''\<rparr>"

abbreviation demo_chart :: ChartSpec where
  "demo_chart \<equiv> \<lparr>ch_SourceType = ChartSourceHelm, ch_URL = ''https://charts'', ch_Name = ''shop'', ch_Version = ''1.2.3''\<rparr>"

definition inline_app :: "string \<Rightarrow> ApplicationInstance" where
  "inline_app raw = demo_app\<lparr>app_Spec := (app_Spec demo_app)\<lparr>as_Chart := Some demo_chart, as_Release := Some demo_release,
     as_Values := Some \<lparr>Source = ValuesSourceInline, Inline = Some raw, SecretRef = None, ConfigMapRef = None\<rparr>\<rparr>\<rparr>"

lemma inline_app_simps [simp]:
  "as_Release (app_Spec (inline_app raw)) = Some demo_release" "as_Chart (app_Spec (inline_app raw)) = Some demo_chart"
  "as_Values (app_Spec (inline_app raw)) = Some \<lparr>Source = ValuesSourceInline, Inline = Some raw, SecretRef = None, ConfigMapRef = None\<rparr>"
  "Namespace (app_meta (inline_app raw)) = ''ns''"
  by (simp_all add: inline_app_def demo_app_def)

theorem ensured_release_matches_spec_witness:
  "\<exists>hr. hd (hist (snd (run_state (EnsureRelease demo_env (inline_app ''{\"replicas\":2}'')) demo_world))) = StoreObject hr
     \<and> get_path (u_Object hr) [''spec'', ''chart'', ''spec'', ''version''] = Some (JString ''1.2.3'')"
proof -
  let ?app = "inline_app ''{\"replicas\":2}''"
  have vals: "unmarshal_values ''{\"replicas\":2}'' = Inr (Some [(''replicas'', JInt 2)])" by code_simp
  obtain w' where run: "run_state (EnsureRelease demo_env ?app) demo_world = (None, w')"
    by (simp add: EnsureRelease_def ensureChartSource_def ensureHelmRelease_def CreateOrUpdate_def create_or_update_def
        CreateOrUpdateWith_def go_run with_fields_def set_labels_def empty_object_def demo_answers helmReleaseFields_def
        buildValues_def vals)
  from ensured_release_matches_spec [OF demo_nested_laws _ _ run] run show ?thesis by fastforce
qed


definition demo_credential :: "string \<Rightarrow> Unstructured" where
  "demo_credential name = \<lparr>u_gvk = s3CredentialsGVK, u_meta = meta0\<lparr>Name := name, Namespace := ''ns''\<rparr>,
     u_Object = JObject [(''spec'', JObject [(''seaweedRef'', JObject [(''name'', JString ''shop'')])]),
       (''status'', JObject [(''phase'', JString ''Ready''), (''accessKey'', JString ''AK''), (''secretName'', JString name)])]\<rparr>"

definition demo_keys :: Secret where
  "demo_keys = \<lparr>sec_meta = meta0, sec_Type = ''Opaque'', sec_Data = [''secretKey'' \<mapsto> ''SK'']\<rparr>"

definition storage_server :: env where
  "storage_server = demo_env\<lparr>list_objects := (\<lambda>_. Inr [demo_credential ''b'', demo_credential ''a'']), get_secret := (\<lambda>_. Inr demo_keys)\<rparr>"

theorem smallest_ready_credential_chosen_witness:
  "\<exists>item. item \<in> set [demo_credential ''b'', demo_credential ''a'']
     \<and> gives_keys storage_server (\<lambda>_. Inr demo_keys) ''shop'' item
         \<lparr>mss_AccessKeyID = ''AK'', mss_SecretAccessKey = ''SK'', mss_BucketName = ''shop''\<rparr>"
proof -
  let ?s = "\<lparr>mss_AccessKeyID = ''AK'', mss_SecretAccessKey = ''SK'', mss_BucketName = ''shop''\<rparr>"
  have views: "cred_phase storage_server (demo_credential n) = ''Ready''" "secret_of storage_server (demo_credential n) = n"
    "inline_keys storage_server ''shop'' (demo_credential n) demo_keys = Some ?s"
    "NestedString storage_server (u_Object (demo_credential n)) [''spec'', ''seaweedRef'', ''name''] = ''shop''" for n
    by (simp_all add: cred_phase_def secret_of_def inline_keys_def storage_server_def demo_env_def demo_credential_def demo_keys_def
        go_get_def)
  have order: "(''a'' :: string) \<le> ''b''" "\<not> (''b'' :: string) \<le> ''a''" by code_simp+
  have name: "Name (u_meta (demo_credential n)) = n" for n by (simp add: demo_credential_def)
  have listed: "list_objects storage_server h = Inr [demo_credential ''b'', demo_credential ''a'']"
    and secret: "get_secret storage_server h = Inr demo_keys" for h by (simp_all add: storage_server_def)
  have release: "validateReleaseRef (inline_app raw) = Inr demo_release" for raw by (simp add: validateReleaseRef_def)
  obtain w' where run: "run_state (ResolveManagedStorageState storage_server (inline_app '''')) demo_world = ((Some ?s, False, False, None), w')"
    by (simp add: ResolveManagedStorageState_def release listMatchingS3Credentials_def go_run listed secret
        splitS3CredentialsByPhase_def views snapshotFromS3Credentials_def name order)
  from smallest_ready_credential_chosen [OF release listed secret run] show ?thesis by auto
qed

end
