(* ===== verification/Agent_Client.thy ===== *)
theory Agent_Client
  imports Engines_Common Go_Json_Text Go_Codec
begin

text \<open>
  The agent's side of the control-plane API: the credentials and the Secret they live in
  (\<^verbatim>\<open>internal/agent/credentials.go\<close>, \<^verbatim>\<open>credentials_store.go\<close>), the HTTPS client (\<^verbatim>\<open>client.go\<close>) and the
  registration exchange (\<^verbatim>\<open>register.go\<close>).

  The interface \<^verbatim>\<open>Client\<close> is the record \<open>AgentClient\<close> of programs; \<open>HTTPClient\<close> builds it from a
  configuration. The locale \<open>confined_client\<close> is what the users of a client rely on: it talks to
  the control plane only, and only below its base URL with its token. Metrics are left out.
\<close>

section \<open>Library functions\<close>

definition TrimRight :: "char \<Rightarrow> string \<Rightarrow> string" where
  "TrimRight c s = rev (dropWhile (\<lambda>x. x = c) (rev s))"

definition upper_hex :: "char \<Rightarrow> string" where
  "upper_hex c = [CHR ''%'', ''0123456789ABCDEF'' ! (of_char c div 16), ''0123456789ABCDEF'' ! (of_char c mod 16)]"

definition unreserved :: "char \<Rightarrow> bool" where
  "unreserved c \<longleftrightarrow>
     c \<in> set ''ABCDEFGHIJKLMNOPQRSTUVWXYZabcdefghijklmnopqrstuvwxyz0123456789-_.~''"

text \<open>\<^verbatim>\<open>url.PathEscape\<close> and \<^verbatim>\<open>url.QueryEscape\<close>.\<close>

definition PathEscape :: "string \<Rightarrow> string" where
  "PathEscape s = concat (map (\<lambda>c. if unreserved c \<or> c \<in> set ''$&+:=@'' then [c] else upper_hex c) s)"

definition QueryEscape :: "string \<Rightarrow> string" where
  "QueryEscape s =
     concat (map (\<lambda>c. if unreserved c then [c] else if c = CHR '' '' then ''+'' else upper_hex c) s)"

text \<open>
  \<^verbatim>\<open>json.Decoder.Decode\<close> reads one value and leaves what follows it; a scalar has to be followed
  by white space or the end of the input.
\<close>

definition json_Decode :: "string \<Rightarrow> json option" where
  "json_Decode s =
     (case parse_value (2 * length s + 1) s of
        None \<Rightarrow> None
      | Some (v, rest) \<Rightarrow>
          (case v of
             JObject _ \<Rightarrow> Some v
           | JArray _ \<Rightarrow> Some v
           | _ \<Rightarrow> if rest = [] \<or> skip_ws rest \<noteq> rest then Some v else None))"

definition dec_time_ptr :: "env \<Rightarrow> ((time option \<Rightarrow> time option) \<Rightarrow> 'a \<Rightarrow> 'a) \<Rightarrow> json \<Rightarrow> 'a \<Rightarrow> 'a option" where
  "dec_time_ptr E upd j a =
     (case j of
        JNull \<Rightarrow> Some (upd (\<lambda>_. None) a)
      | _ \<Rightarrow> map_option (\<lambda>t. upd (\<lambda>_. Some t) a) (time_UnmarshalJSON E j))"

text \<open>Decoding the body of a response into a struct.\<close>

definition decode_body :: "string \<Rightarrow> 'a fields \<Rightarrow> 'a \<Rightarrow> 'a result" where
  "decode_body body fs a =
     (case json_Decode body of
        None \<Rightarrow> Inl json_syntax_error
      | Some doc \<Rightarrow>
          (case unmarshal_struct fs doc a of None \<Rightarrow> Inl json_type_error | Some v \<Rightarrow> Inr v))"

section \<open>Credentials\<close>

abbreviation DefaultCredentialsSecret :: string where
  "DefaultCredentialsSecret \<equiv> ''vworkspace-agent-credentials''"
abbreviation SecretKeyControlPlaneBaseURL :: string where
  "SecretKeyControlPlaneBaseURL \<equiv> ''control-plane-base-url''"
abbreviation SecretKeyClusterID :: string where "SecretKeyClusterID \<equiv> ''cluster-id''"
abbreviation SecretKeyToken :: string where "SecretKeyToken \<equiv> ''token''"

record CredentialsConfig =
  cc_BaseURL :: string
  cc_ClusterID :: string
  cc_Token :: string
  cc_SecretNamespace :: string
  cc_SecretName :: string
  cc_K8s :: bool

definition baseURLFromSecretData :: "(string \<rightharpoonup> string) \<Rightarrow> string" where
  "baseURLFromSecretData d = TrimSpace (go_get d SecretKeyControlPlaneBaseURL)"

definition complete :: "Credentials \<Rightarrow> bool" where
  "complete cred \<longleftrightarrow> BaseURL cred \<noteq> '''' \<and> cr_ClusterID cred \<noteq> '''' \<and> Token cred \<noteq> ''''"

definition fill_from :: "(string \<rightharpoonup> string) \<Rightarrow> Credentials \<Rightarrow> Credentials" where
  "fill_from d cred =
     \<lparr>BaseURL = (if BaseURL cred = '''' then baseURLFromSecretData d else BaseURL cred),
      cr_ClusterID = (if cr_ClusterID cred = '''' then go_get d SecretKeyClusterID else cr_ClusterID cred),
      Token = (if Token cred = '''' then go_get d SecretKeyToken else Token cred)\<rparr>"

definition trimmed :: "Credentials \<Rightarrow> Credentials" where
  "trimmed cred =
     \<lparr>BaseURL = TrimSpace (BaseURL cred), cr_ClusterID = TrimSpace (cr_ClusterID cred),
      Token = TrimSpace (Token cred)\<rparr>"

definition check_complete :: "Credentials \<Rightarrow> Credentials result" where
  "check_complete cred =
     (if complete (trimmed cred) then Inr (trimmed cred)
      else Inl (Errorf (''incomplete agent credentials: control plane base URL, cluster ID, '' @
             ''and token are required'')))"

definition Load :: "env \<Rightarrow> CredentialsConfig \<Rightarrow> Credentials result prog" where
  "Load E c =
     (let cred = trimmed \<lparr>BaseURL = cc_BaseURL c, cr_ClusterID = cc_ClusterID c, Token = cc_Token c\<rparr> in
      if cc_SecretName c \<noteq> '''' \<and> cc_K8s c then
        (let ns = (if cc_SecretNamespace c = '''' then Getenv E ''POD_NAMESPACE'' else cc_SecretNamespace c) in
         if ns = '''' then
           State_Monad.return (Inl (Errorf (''agent credentials secret '' @ Quote (cc_SecretName c) @
             '' requires a namespace (set --agent-credentials-namespace or POD_NAMESPACE)'')))
         else do {
           secret \<leftarrow> ask (get_secret E) (GetSecret ns (cc_SecretName c));
           State_Monad.return
             (case secret of
                Inl err \<Rightarrow> Inl (Wrapf (''get agent credentials secret '' @ ns @ ''/'' @ cc_SecretName c @ '': '') err [])
              | Inr secret \<Rightarrow> check_complete (fill_from (sec_Data secret) cred))
         })
      else State_Monad.return (check_complete cred))"

definition PersistCredentials ::
  "env \<Rightarrow> string \<Rightarrow> string \<Rightarrow> Credentials \<Rightarrow> ObjectMeta option \<Rightarrow> go_error option prog" where
  "PersistCredentials E ns secretName cred owner =
     (let ns = TrimSpace ns; secretName = TrimSpace secretName;
          secretName' = (if secretName = '''' then DefaultCredentialsSecret else secretName) in
      if ns = '''' then State_Monad.return (Some (Errorf ''credentials secret namespace is required''))
      else if \<not> complete (trimmed cred)
      then State_Monad.return (Some (Errorf ''incomplete credentials for persistence''))
      else do {
        err \<leftarrow> CreateOrUpdateSecret E
          \<lparr>sec_meta = meta0\<lparr>Name := secretName', Namespace := ns\<rparr>, sec_Type = '''', sec_Data = Map.empty\<rparr>
          (\<lambda>secret.
             let secret = secret\<lparr>sec_Data := (sec_Data secret)
                            (SecretKeyControlPlaneBaseURL \<mapsto> TrimSpace (BaseURL cred),
                             SecretKeyClusterID \<mapsto> TrimSpace (cr_ClusterID cred),
                             SecretKeyToken \<mapsto> TrimSpace (Token cred)),
                            sec_Type := ''Opaque''\<rparr>
             in case owner of
                  None \<Rightarrow> Inr secret
                | Some owner \<Rightarrow>
                    (case SetOwnerReference E owner (sec_meta secret) of
                       Inl err \<Rightarrow> Inl (Wrapf ''set owner reference: '' err [])
                     | Inr m \<Rightarrow> Inr (secret\<lparr>sec_meta := m\<rparr>)));
        State_Monad.return
          (map_option (\<lambda>err. Wrapf (''persist credentials secret '' @ ns @ ''/'' @ secretName' @ '': '') err []) err)
      })"

definition CredentialsFromSecret :: "Secret option \<Rightarrow> Credentials result" where
  "CredentialsFromSecret secret =
     (case secret of
        None \<Rightarrow> Inl (Errorf ''secret is nil'')
      | Some secret \<Rightarrow>
          (let cred = \<lparr>BaseURL = baseURLFromSecretData (sec_Data secret),
                       cr_ClusterID = TrimSpace (go_get (sec_Data secret) SecretKeyClusterID),
                       Token = TrimSpace (go_get (sec_Data secret) SecretKeyToken)\<rparr>
           in if complete cred then Inr cred
              else Inl (Errorf (''secret '' @ Namespace (sec_meta secret) @ ''/'' @ Name (sec_meta secret) @
                     '' is missing control-plane-base-url, cluster-id, or token''))))"

text \<open>\<open>Inr None\<close>: the Secret does not exist.\<close>

definition GetCredentialsSecret :: "env \<Rightarrow> string \<Rightarrow> string \<Rightarrow> Secret option result prog" where
  "GetCredentialsSecret E ns secretName =
     (let secretName = (if secretName = '''' then DefaultCredentialsSecret else secretName) in do {
      secret \<leftarrow> ask (get_secret E) (GetSecret ns secretName);
      State_Monad.return
        (case secret of
           Inl err \<Rightarrow>
             if IsNotFound err then Inr None
             else Inl (Wrapf (''get credentials secret '' @ ns @ ''/'' @ secretName @ '': '') err [])
         | Inr secret \<Rightarrow> Inr (Some secret))
    })"

section \<open>The HTTPS client\<close>

abbreviation mediaTypeV1 :: string where "mediaTypeV1 \<equiv> ''application/vnd.vworkspace.agent.v1+json''"

record RotateCredentialsResponse =
  rot_Token :: string
  rot_ExpiresAt :: "time option"

record AgentClient =
  FetchJobs :: "int \<Rightarrow> Job list result prog"
  AckJob :: "string \<Rightarrow> go_error option prog"
  ReportStatus :: "string \<Rightarrow> StatusUpdate \<Rightarrow> go_error option prog"
  ReportResult :: "string \<Rightarrow> JobResult \<Rightarrow> go_error option prog"
  PostEvents :: "Event list \<Rightarrow> go_error option prog"
  Heartbeat :: "go_error option prog"
  Client_RotateCredentials :: "RotateCredentialsResponse result prog"

record HTTPClient =
  hc_baseURL :: string
  hc_clusterID :: string
  hc_token :: string

text \<open>The configuration is the credentials; the transport is the answer function of the environment.\<close>

definition NewHTTPClient :: "Credentials \<Rightarrow> HTTPClient result" where
  "NewHTTPClient cfg =
     (if TrimSpace (BaseURL cfg) = '''' then Inl (Errorf ''base URL is required'')
      else if TrimSpace (cr_ClusterID cfg) = '''' then Inl (Errorf ''cluster ID is required'')
      else if TrimSpace (Token cfg) = '''' then Inl (Errorf ''token is required'')
      else Inr \<lparr>hc_baseURL = TrimRight (CHR ''/'') (BaseURL cfg), hc_clusterID = cr_ClusterID cfg,
                hc_token = Token cfg\<rparr>)"

definition http_send :: "env \<Rightarrow> HTTPClient \<Rightarrow> string \<Rightarrow> string \<Rightarrow> http_body \<Rightarrow> HttpResponse result prog" where
  "http_send E c meth endpoint body =
     (case (if body = NoBody then None else marshal_error E body) of
        Some err \<Rightarrow> State_Monad.return (Inl (Wrapf ''marshal request body: '' err []))
      | None \<Rightarrow>
          (case url_error E endpoint of
             Some err \<Rightarrow> State_Monad.return (Inl (Wrapf ''create request: '' err []))
           | None \<Rightarrow> do {
               resp \<leftarrow> ask (http_do E) (HttpDo
                 \<lparr>http_Method = meth, http_Endpoint = endpoint,
                  http_Headers = [(''Authorization'', ''Bearer '' @ hc_token c), (''Accept'', mediaTypeV1)] @
                    (if body = NoBody then [] else [(''Content-Type'', mediaTypeV1)]),
                  http_Body = body\<rparr>);
               State_Monad.return
                 (case resp of Inl err \<Rightarrow> Inl (Wrapf ''execute request: '' err []) | Inr resp \<Rightarrow> Inr resp)
             }))"

record apiError =
  ae_Code :: string
  ae_Message :: string

text \<open>The error of decoding is ignored: a field of the wrong type keeps its value.\<close>

definition decode_apiError :: "string \<Rightarrow> apiError" where
  "decode_apiError body =
     (case json_Decode body of
        Some (JObject kvs) \<Rightarrow> \<lparr>ae_Code = field_string ''error'' kvs '''', ae_Message = field_string ''message'' kvs ''''\<rparr>
      | _ \<Rightarrow> \<lparr>ae_Code = '''', ae_Message = ''''\<rparr>)"

definition api_error_text :: "string \<Rightarrow> HttpResponse \<Rightarrow> go_error" where
  "api_error_text what resp =
     (let payload = decode_apiError (Body resp);
          message = (if ae_Message payload = '''' then http_Status resp else ae_Message payload)
      in Errorf (what @ '' API error ('' @ Itoa (StatusCode resp) @ ''): '' @ ae_Code payload @ '': '' @ message))"

definition decodeError :: "HttpResponse \<Rightarrow> go_error" where
  "decodeError resp = api_error_text ''agent'' resp"

text \<open>A POST whose answer is only looked at for its status code.\<close>

definition post_expecting :: "env \<Rightarrow> HTTPClient \<Rightarrow> int list \<Rightarrow> string \<Rightarrow> http_body \<Rightarrow> go_error option prog" where
  "post_expecting E c accepted endpoint body = do {
     resp \<leftarrow> http_send E c ''POST'' endpoint body;
     State_Monad.return
       (case resp of
          Inl err \<Rightarrow> Some err
        | Inr resp \<Rightarrow> if StatusCode resp \<in> set accepted then None else Some (decodeError resp))
   }"

definition HTTPClient_FetchJobs :: "env \<Rightarrow> HTTPClient \<Rightarrow> int \<Rightarrow> Job list result prog" where
  "HTTPClient_FetchJobs E c waitSeconds = do {
     resp \<leftarrow> http_send E c ''GET''
       (hc_baseURL c @ ''/api/agent/jobs?cluster='' @ QueryEscape (hc_clusterID c) @ ''&wait='' @
        QueryEscape (Itoa waitSeconds)) NoBody;
     State_Monad.return
       (case resp of
          Inl err \<Rightarrow> Inl err
        | Inr resp \<Rightarrow>
            if StatusCode resp \<noteq> 200 then Inl (decodeError resp)
            else case decode_jobs E (Body resp) of
              Inl err \<Rightarrow> Inl (Wrapf ''decode jobs response: '' err [])
            | Inr jobs \<Rightarrow> Inr jobs)
   }"

definition job_endpoint :: "HTTPClient \<Rightarrow> string \<Rightarrow> string \<Rightarrow> string" where
  "job_endpoint c jobID verb = hc_baseURL c @ ''/api/agent/jobs/'' @ PathEscape jobID @ verb"

definition HTTPClient_AckJob :: "env \<Rightarrow> HTTPClient \<Rightarrow> string \<Rightarrow> go_error option prog" where
  "HTTPClient_AckJob E c jobID = post_expecting E c [204, 409] (job_endpoint c jobID ''/ack'') NoBody"

definition HTTPClient_ReportStatus :: "env \<Rightarrow> HTTPClient \<Rightarrow> string \<Rightarrow> StatusUpdate \<Rightarrow> go_error option prog" where
  "HTTPClient_ReportStatus E c jobID update =
     post_expecting E c [204] (job_endpoint c jobID ''/status'') (StatusBody update)"

definition HTTPClient_ReportResult :: "env \<Rightarrow> HTTPClient \<Rightarrow> string \<Rightarrow> JobResult \<Rightarrow> go_error option prog" where
  "HTTPClient_ReportResult E c jobID res =
     post_expecting E c [204, 409] (job_endpoint c jobID ''/result'') (ResultBody res)"

definition HTTPClient_PostEvents :: "env \<Rightarrow> HTTPClient \<Rightarrow> Event list \<Rightarrow> go_error option prog" where
  "HTTPClient_PostEvents E c evs = post_expecting E c [204] (hc_baseURL c @ ''/api/agent/events'') (EventsBody evs)"

definition HTTPClient_Heartbeat :: "env \<Rightarrow> HTTPClient \<Rightarrow> go_error option prog" where
  "HTTPClient_Heartbeat E c = do {
     now \<leftarrow> Now E;
     HTTPClient_PostEvents E c
       [\<lparr>EventKey = '''', ev_Kind = ''ClusterHeartbeat'',
         ResourceRef = \<lparr>ar_APIVersion = ''ops.vworkspace.io/v1alpha1'', ar_Kind = ''Cluster'', ar_Namespace = '''',
           ar_Name = hc_clusterID c, ar_UID = '''', ar_Generation = 0\<rparr>,
         ev_Conditions = [], ev_Endpoints = [], ManagedStorage = None, Timestamp = now\<rparr>]
   }"

definition rotate_fields :: "env \<Rightarrow> RotateCredentialsResponse fields" where
  "rotate_fields E =
     [(''token'', dec_string rot_Token_update), (''expiresAt'', dec_time_ptr E rot_ExpiresAt_update)]"

definition HTTPClient_RotateCredentials :: "env \<Rightarrow> HTTPClient \<Rightarrow> RotateCredentialsResponse result prog" where
  "HTTPClient_RotateCredentials E c = do {
     resp \<leftarrow> http_send E c ''POST'' (hc_baseURL c @ ''/api/agent/credentials/rotate'') EmptyBody;
     State_Monad.return
       (case resp of
          Inl err \<Rightarrow> Inl err
        | Inr resp \<Rightarrow>
            if StatusCode resp \<noteq> 200 then Inl (decodeError resp)
            else case decode_body (Body resp) (rotate_fields E) \<lparr>rot_Token = '''', rot_ExpiresAt = None\<rparr> of
              Inl err \<Rightarrow> Inl (Wrapf ''decode rotate response: '' err [])
            | Inr payload \<Rightarrow>
                (let payload = payload\<lparr>rot_Token := TrimSpace (rot_Token payload)\<rparr>
                 in if rot_Token payload = '''' then Inl (Errorf ''rotate response missing token'') else Inr payload))
   }"

definition http_client :: "env \<Rightarrow> HTTPClient \<Rightarrow> AgentClient" where
  "http_client E c =
     \<lparr>FetchJobs = HTTPClient_FetchJobs E c, AckJob = HTTPClient_AckJob E c,
      ReportStatus = HTTPClient_ReportStatus E c, ReportResult = HTTPClient_ReportResult E c,
      PostEvents = HTTPClient_PostEvents E c, Heartbeat = HTTPClient_Heartbeat E c,
      Client_RotateCredentials = HTTPClient_RotateCredentials E c\<rparr>"

section \<open>Registration\<close>

record RegisterResponse =
  rsp_ClusterID :: string
  rsp_Token :: string
  rsp_ExpiresAt :: "time option"

definition decodeRegisterError :: "HttpResponse \<Rightarrow> go_error" where
  "decodeRegisterError resp = api_error_text ''register'' resp"

definition register_fields :: "env \<Rightarrow> RegisterResponse fields" where
  "register_fields E =
     [(''clusterId'', dec_string rsp_ClusterID_update), (''token'', dec_string rsp_Token_update),
      (''expiresAt'', dec_time_ptr E rsp_ExpiresAt_update)]"

definition register_response :: "env \<Rightarrow> HttpResponse \<Rightarrow> RegisterResponse result" where
  "register_response E resp =
     (if StatusCode resp \<noteq> 200 then Inl (decodeRegisterError resp)
      else case decode_body (Body resp) (register_fields E)
                  \<lparr>rsp_ClusterID = '''', rsp_Token = '''', rsp_ExpiresAt = None\<rparr> of
        Inl err \<Rightarrow> Inl (Wrapf ''decode register response: '' err [])
      | Inr payload \<Rightarrow>
          (let payload = payload\<lparr>rsp_ClusterID := TrimSpace (rsp_ClusterID payload),
                                 rsp_Token := TrimSpace (rsp_Token payload)\<rparr>
           in if rsp_ClusterID payload = '''' \<or> rsp_Token payload = ''''
              then Inl (Errorf ''register response missing clusterId or token'') else Inr payload))"

definition Register :: "env \<Rightarrow> string \<Rightarrow> string \<Rightarrow> string \<Rightarrow> RegisterResponse result prog" where
  "Register E baseURL registrationToken clusterID =
     (let baseURL = TrimRight (CHR ''/'') (TrimSpace baseURL); registrationToken = TrimSpace registrationToken;
          body = RegisterBody \<lparr>rr_RegistrationToken = registrationToken, rr_ClusterID = TrimSpace clusterID,
                               rr_DisplayName = ''''\<rparr>;
          endpoint = baseURL @ ''/api/agent/register'' in
      if baseURL = '''' then State_Monad.return (Inl (Errorf ''control plane base URL is required''))
      else if registrationToken = '''' then State_Monad.return (Inl (Errorf ''registration token is required''))
      else case marshal_error E body of
        Some err \<Rightarrow> State_Monad.return (Inl (Wrapf ''marshal register request: '' err []))
      | None \<Rightarrow>
          (case url_error E endpoint of
             Some err \<Rightarrow> State_Monad.return (Inl (Wrapf ''create register request: '' err []))
           | None \<Rightarrow> do {
               resp \<leftarrow> ask (http_do E) (HttpDo
                 \<lparr>http_Method = ''POST'', http_Endpoint = endpoint,
                  http_Headers = [(''Authorization'', ''Bearer '' @ registrationToken), (''Accept'', mediaTypeV1),
                    (''Content-Type'', mediaTypeV1)],
                  http_Body = body\<rparr>);
               State_Monad.return
                 (case resp of
                    Inl err \<Rightarrow> Inl (Wrapf ''execute register request: '' err [])
                  | Inr resp \<Rightarrow> register_response E resp)
             }))"

section \<open>What a client does\<close>

text \<open>A request to the control plane below a base URL, authorised by a token.\<close>

definition to_control_plane :: "string \<Rightarrow> string \<Rightarrow> call \<Rightarrow> bool" where
  "to_control_plane base tok call \<longleftrightarrow>
     (\<exists>r. call = HttpDo r \<and> HasPrefix (http_Endpoint r) (base @ ''/api/agent/'')
        \<and> map_of (http_Headers r) ''Authorization'' = Some (''Bearer '' @ tok))"

locale confined_client =
  fixes cl :: AgentClient and base :: string and tok :: string
  assumes fetch_confined: "emits (to_control_plane base tok) (FetchJobs cl n) w"
    and ack_confined: "emits (to_control_plane base tok) (AckJob cl i) w"
    and status_confined: "emits (to_control_plane base tok) (ReportStatus cl i u) w"
    and result_confined: "emits (to_control_plane base tok) (ReportResult cl i r) w"
    and events_confined: "emits (to_control_plane base tok) (PostEvents cl evs) w"
    and heartbeat_confined: "emits (to_control_plane base tok) (Heartbeat cl) w"
    and rotate_confined: "emits (to_control_plane base tok) (Client_RotateCredentials cl) w"
begin

lemmas confined =
  fetch_confined ack_confined status_confined result_confined events_confined heartbeat_confined rotate_confined

text \<open>A client never writes to the Kubernetes API.\<close>

lemma ack_emits: "(\<And>r. P (HttpDo r)) \<Longrightarrow> emits P (AckJob cl i) w"
  by (rule emits_mono [OF ack_confined]) (auto simp: to_control_plane_def)

lemma result_emits: "(\<And>r. P (HttpDo r)) \<Longrightarrow> emits P (ReportResult cl i r) w"
  by (rule emits_mono [OF result_confined]) (auto simp: to_control_plane_def)

lemma heartbeat_emits: "(\<And>r. P (HttpDo r)) \<Longrightarrow> emits P (Heartbeat cl) w"
  by (rule emits_mono [OF heartbeat_confined]) (auto simp: to_control_plane_def)

lemma rotate_emits: "(\<And>r. P (HttpDo r)) \<Longrightarrow> emits P (Client_RotateCredentials cl) w"
  by (rule emits_mono [OF rotate_confined]) (auto simp: to_control_plane_def)

end

lemma HasPrefix_app: "HasPrefix (p @ s) (p @ q) = HasPrefix s q"
  by (induction p) auto

lemma emits_http_send:
  assumes "HasPrefix endpoint (hc_baseURL c @ ''/api/agent/'')"
  shows "emits (to_control_plane (hc_baseURL c) (hc_token c)) (http_send E c meth endpoint body) w"
  unfolding http_send_def using assms by (intro emits_rules) (auto simp: to_control_plane_def)

lemma emits_post_expecting:
  assumes "HasPrefix endpoint (hc_baseURL c @ ''/api/agent/'')"
  shows "emits (to_control_plane (hc_baseURL c) (hc_token c)) (post_expecting E c accepted endpoint body) w"
  unfolding post_expecting_def by (intro emits_rules emits_http_send assms)

lemma emits_HTTPClient_PostEvents:
  "emits (to_control_plane (hc_baseURL c) (hc_token c)) (HTTPClient_PostEvents E c evs) w"
  unfolding HTTPClient_PostEvents_def by (intro emits_post_expecting) (simp add: HasPrefix_app)

interpretation http: confined_client "http_client E c" "hc_baseURL c" "hc_token c" for E c
proof
  show "emits (to_control_plane (hc_baseURL c) (hc_token c)) (FetchJobs (http_client E c) n) w" for n w
    unfolding http_client_def HTTPClient_FetchJobs_def AgentClient.simps
    by (intro emits_rules emits_http_send) (simp add: HasPrefix_app)
  show "emits (to_control_plane (hc_baseURL c) (hc_token c)) (AckJob (http_client E c) i) w" for i w
    unfolding http_client_def HTTPClient_AckJob_def job_endpoint_def AgentClient.simps
    by (intro emits_post_expecting) (simp add: HasPrefix_app)
  show "emits (to_control_plane (hc_baseURL c) (hc_token c)) (ReportStatus (http_client E c) i u) w" for i u w
    unfolding http_client_def HTTPClient_ReportStatus_def job_endpoint_def AgentClient.simps
    by (intro emits_post_expecting) (simp add: HasPrefix_app)
  show "emits (to_control_plane (hc_baseURL c) (hc_token c)) (ReportResult (http_client E c) i r) w" for i r w
    unfolding http_client_def HTTPClient_ReportResult_def job_endpoint_def AgentClient.simps
    by (intro emits_post_expecting) (simp add: HasPrefix_app)
  show "emits (to_control_plane (hc_baseURL c) (hc_token c)) (PostEvents (http_client E c) evs) w" for evs w
    by (simp add: http_client_def emits_HTTPClient_PostEvents)
  show "emits (to_control_plane (hc_baseURL c) (hc_token c)) (Heartbeat (http_client E c)) w" for w
    unfolding http_client_def HTTPClient_Heartbeat_def AgentClient.simps
    by (intro emits_rules emits_HTTPClient_PostEvents)
  show "emits (to_control_plane (hc_baseURL c) (hc_token c)) (Client_RotateCredentials (http_client E c)) w" for w
    unfolding http_client_def HTTPClient_RotateCredentials_def AgentClient.simps
    by (intro emits_rules emits_http_send) (simp add: HasPrefix_app)
qed

section \<open>Endpoints of jobs\<close>

text \<open>An escaped identifier has no separator in it, and it determines the identifier.\<close>

definition escape_char :: "char \<Rightarrow> string" where
  "escape_char c = (if unreserved c \<or> c \<in> set ''$&+:=@'' then [c] else upper_hex c)"

lemma PathEscape_Cons: "PathEscape (c # s) = escape_char c @ PathEscape s"
  by (simp add: PathEscape_def escape_char_def)

lemma PathEscape_Nil [simp]: "PathEscape [] = []"
  by (simp add: PathEscape_def)

lemma hex_nth_inj: "i < 16 \<Longrightarrow> j < 16 \<Longrightarrow> ''0123456789ABCDEF'' ! i = ''0123456789ABCDEF'' ! j \<longleftrightarrow> i = j"
  by (subst nth_eq_iff_index_eq) auto

lemma hex_nth_in: "i < 16 \<Longrightarrow> ''0123456789ABCDEF'' ! i \<in> set ''0123456789ABCDEF''"
  by (rule nth_mem) simp

lemma char_eq_halves:
  fixes c d :: char
  assumes "(of_char c :: nat) div 16 = of_char d div 16" and "(of_char c :: nat) mod 16 = of_char d mod 16"
  shows "c = d"
proof -
  have "(of_char c :: nat) = of_char d" using assms by (metis div_mult_mod_eq)
  then show ?thesis by simp
qed

lemma upper_hex_inj: "upper_hex c = upper_hex d \<Longrightarrow> c = d"
  using of_char_less [of c] of_char_less [of d]
  by (intro char_eq_halves) (simp_all add: upper_hex_def hex_nth_inj less_mult_imp_div_less)

lemma escape_char_no_slash: "CHR ''/'' \<notin> set (escape_char c)"
proof (cases "unreserved c \<or> c \<in> set ''$&+:=@''")
  case True
  moreover have "\<not> (unreserved (CHR ''/'') \<or> CHR ''/'' \<in> set ''$&+:=@'')" by (simp add: unreserved_def)
  ultimately show ?thesis unfolding escape_char_def by auto
next
  case False
  have digit: "''0123456789ABCDEF'' ! i \<noteq> CHR ''/''" if "i < 16" for i
    using hex_nth_in [OF that] by auto
  have "CHR ''/'' \<notin> set (upper_hex c)"
    using digit [of "of_char c div 16"] digit [of "of_char c mod 16"] of_char_less [of c]
    unfolding upper_hex_def by (simp add: less_mult_imp_div_less eq_commute)
  with False show ?thesis unfolding escape_char_def by simp
qed

lemma PathEscape_no_slash: "CHR ''/'' \<notin> set (PathEscape s)"
  by (induction s) (simp_all add: PathEscape_Cons escape_char_no_slash)

lemma escape_char_split: "escape_char c @ s = escape_char d @ t \<Longrightarrow> c = d \<and> s = t"
proof -
  assume eq: "escape_char c @ s = escape_char d @ t"
  have pct: "\<not> (unreserved (CHR ''%'') \<or> CHR ''%'' \<in> set ''$&+:=@'')" by (simp add: unreserved_def)
  show ?thesis
  proof (cases "unreserved c \<or> c \<in> set ''$&+:=@''"; cases "unreserved d \<or> d \<in> set ''$&+:=@''")
    assume "\<not> (unreserved c \<or> c \<in> set ''$&+:=@'')" "\<not> (unreserved d \<or> d \<in> set ''$&+:=@'')"
    with eq have "upper_hex c @ s = upper_hex d @ t" by (simp only: escape_char_def if_False)
    moreover have "length (upper_hex c) = length (upper_hex d)" by (simp add: upper_hex_def)
    ultimately show ?thesis using upper_hex_inj by auto
  qed (use eq pct in \<open>auto simp: escape_char_def upper_hex_def\<close>)
qed

lemma PathEscape_inj: "PathEscape s = PathEscape t \<Longrightarrow> s = t"
proof (induction s arbitrary: t)
  case Nil
  then show ?case by (cases t) (auto simp: PathEscape_Cons escape_char_def upper_hex_def split: if_splits)
next
  case (Cons c s)
  then obtain d t' where t: "t = d # t'"
    by (cases t) (auto simp: PathEscape_Cons escape_char_def upper_hex_def split: if_splits)
  from Cons.prems have "c = d \<and> PathEscape s = PathEscape t'"
    unfolding t PathEscape_Cons by (rule escape_char_split)
  with Cons.IH t show ?case by blast
qed

lemma append_sep_eq:
  assumes "s @ x # a = t @ x # b" and "x \<notin> set s" and "x \<notin> set t"
  shows "s = t \<and> a = b"
  using assms
proof (induction s arbitrary: t)
  case Nil
  then show ?case by (cases t) auto
next
  case (Cons y s)
  then show ?case by (cases t) auto
qed

lemma job_endpoint_eq:
  assumes "job_endpoint c i (CHR ''/'' # verb) = job_endpoint c j (CHR ''/'' # verb')"
  shows "i = j \<and> verb = verb'"
proof -
  have "PathEscape i @ CHR ''/'' # verb = PathEscape j @ CHR ''/'' # verb'"
    using assms by (simp add: job_endpoint_def)
  from append_sep_eq [OF this PathEscape_no_slash PathEscape_no_slash] PathEscape_inj show ?thesis by blast
qed

section \<open>Credentials and the Secret\<close>

lemma trimmed_trimmed [simp]: "trimmed (trimmed cred) = trimmed cred"
  by (simp add: trimmed_def)

lemma credentials_trimmed: "CredentialsFromSecret secret = Inr cred \<Longrightarrow> complete cred \<and> trimmed cred = cred"
  by (auto simp: CredentialsFromSecret_def baseURLFromSecretData_def trimmed_def Let_def
      split: option.splits if_splits)

text \<open>Credentials read from a Secret always configure a client.\<close>

lemma credentials_configure:
  assumes "CredentialsFromSecret secret = Inr cred"
  shows "NewHTTPClient cred = Inr \<lparr>hc_baseURL = TrimRight (CHR ''/'') (BaseURL cred),
    hc_clusterID = cr_ClusterID cred, hc_token = Token cred\<rparr>"
proof -
  from credentials_trimmed [OF assms] have "complete (trimmed cred)" by simp
  then show ?thesis by (simp add: NewHTTPClient_def complete_def trimmed_def)
qed

text \<open>The Secret that is written gives the credentials back.\<close>

definition stores_credentials :: "string \<Rightarrow> string \<Rightarrow> Credentials \<Rightarrow> call \<Rightarrow> bool" where
  "stores_credentials ns name cred c \<longleftrightarrow>
     (\<exists>s. c = StoreSecret s \<and> CredentialsFromSecret (Some s) = Inr (trimmed cred))
     \<or> (\<exists>s. c = LoadSecret s \<and> Name (sec_meta s) = name \<and> Namespace (sec_meta s) = ns)"

lemma secret_gives_credentials:
  assumes "complete (trimmed cred)" and "sec_Data s SecretKeyControlPlaneBaseURL = Some (TrimSpace (BaseURL cred))"
    and "sec_Data s SecretKeyClusterID = Some (TrimSpace (cr_ClusterID cred))"
    and "sec_Data s SecretKeyToken = Some (TrimSpace (Token cred))"
  shows "CredentialsFromSecret (Some s) = Inr (trimmed cred)"
  using assms
  by (simp add: CredentialsFromSecret_def baseURLFromSecretData_def go_get_def trimmed_def complete_def)

lemma emits_PersistCredentials:
  assumes "TrimSpace ns = ns" and "TrimSpace name = name" and "name \<noteq> ''''"
  shows "emits (stores_credentials ns name cred) (PersistCredentials E ns name cred owner) w"
proof (cases "complete (trimmed cred)")
  case True
  show ?thesis
    unfolding PersistCredentials_def Let_def assms using assms(3)
    by (intro emits_rules)
       (auto simp: stores_credentials_def intro!: secret_gives_credentials [OF True] split: option.splits sum.splits)
next
  case False
  then show ?thesis unfolding PersistCredentials_def Let_def by (intro emits_rules) auto
qed

end
