(* ===== verification/Agent.thy ===== *)
theory Agent
  imports Agent_Client
begin

text \<open>
  The Pull-mode agent: the store of applied idempotency keys (\<^verbatim>\<open>internal/agent/idempotency.go\<close>), the
  application of a job to the cluster (\<^verbatim>\<open>applier.go\<close>), the poller (\<^verbatim>\<open>poller.go\<close>) and the runtime that
  starts and stops it (\<^verbatim>\<open>runtime.go\<close>).

  The cache of the store is \<open>applied_keys\<close> of the world; the poller goroutine is represented by
  the credentials it was started with, \<open>poller\<close>. The loops that wait on the outside take fuel; a
  program that runs out of it returns \<open>None\<close>. The decoding of Kubernetes objects and the scheme
  are parameters. Metrics and logging are left out.
\<close>

section \<open>Idempotency keys\<close>

abbreviation DefaultIdempotencyConfigMap :: string where
  "DefaultIdempotencyConfigMap \<equiv> ''vworkspace-applied-jobs''"
abbreviation idempotencyDataKey :: string where "idempotencyDataKey \<equiv> ''applied-keys.json''"

record IdempotencyStore =
  is_Namespace :: string
  is_Name :: string

definition store_name :: "IdempotencyStore \<Rightarrow> string" where
  "store_name s = (if is_Name s = '''' then DefaultIdempotencyConfigMap else is_Name s)"

definition decode_keys :: "string \<Rightarrow> string list result" where
  "decode_keys raw =
     (case json_Unmarshal raw of
        None \<Rightarrow> Inl json_syntax_error
      | Some (JArray js) \<Rightarrow>
          (case elem_strings js of None \<Rightarrow> Inl json_type_error | Some keys \<Rightarrow> Inr keys)
      | Some JNull \<Rightarrow> Inr []
      | Some _ \<Rightarrow> Inl json_type_error)"

definition marshal_keys :: "string list \<Rightarrow> string" where
  "marshal_keys keys = ''['' @ join_with '','' (map json_string keys) @ '']''"

text \<open>The set of keys of a loaded list.\<close>

definition key_set :: "string list \<Rightarrow> string list" where
  "key_set keys = remdups (filter (\<lambda>k. k \<noteq> '''') (map TrimSpace keys))"

definition keys_of_configmap :: "ConfigMap \<Rightarrow> string list result" where
  "keys_of_configmap cm =
     (case cfg_Data cm idempotencyDataKey of
        None \<Rightarrow> Inr []
      | Some raw \<Rightarrow> if TrimSpace raw \<noteq> '''' then decode_keys raw else Inr [])"

definition ensureLoaded :: "env \<Rightarrow> IdempotencyStore \<Rightarrow> go_error option prog" where
  "ensureLoaded E s = do {
     cache \<leftarrow> peek applied_keys;
     if cache \<noteq> None then State_Monad.return None
     else if is_Namespace s = ''''
     then State_Monad.return (Some (Errorf ''idempotency store namespace is required''))
     else do {
       cm \<leftarrow> ask (get_configmap E) (GetConfigMap (is_Namespace s) (store_name s));
       case cm of
         Inl err \<Rightarrow>
           if IsNotFound err then do {
             _ \<leftarrow> poke (applied_keys_update (\<lambda>_. Some []));
             State_Monad.return None
           }
           else State_Monad.return (Some (Wrapf (''get idempotency configmap '' @ is_Namespace s @ ''/'' @
                  store_name s @ '': '') err []))
       | Inr cm \<Rightarrow>
           (case keys_of_configmap cm of
              Inl err \<Rightarrow> State_Monad.return (Some (Wrapf ''decode idempotency keys: '' err []))
            | Inr keys \<Rightarrow> do {
                _ \<leftarrow> poke (applied_keys_update (\<lambda>_. Some (key_set keys)));
                State_Monad.return None
              })
     }
   }"

definition cached :: "world \<Rightarrow> string list" where
  "cached w = (case applied_keys w of None \<Rightarrow> [] | Some keys \<Rightarrow> keys)"

definition persistLocked :: "env \<Rightarrow> IdempotencyStore \<Rightarrow> go_error option prog" where
  "persistLocked E s = do {
     keys \<leftarrow> peek (\<lambda>w. map_order E (hist w) (cached w));
     err \<leftarrow> CreateOrUpdateConfigMap E
       \<lparr>cfg_meta = meta0\<lparr>Name := store_name s, Namespace := is_Namespace s\<rparr>, cfg_Data = Map.empty\<rparr>
       (\<lambda>cm. Inr (cm\<lparr>cfg_Data := (cfg_Data cm)(idempotencyDataKey \<mapsto> marshal_keys keys)\<rparr>));
     State_Monad.return
       (map_option (\<lambda>err. Wrapf (''persist idempotency configmap '' @ is_Namespace s @ ''/'' @ store_name s @ '': '') err []) err)
   }"

definition Idempotency_Contains :: "env \<Rightarrow> IdempotencyStore \<Rightarrow> string \<Rightarrow> bool result prog" where
  "Idempotency_Contains E s key =
     (let key = TrimSpace key in
      if key = '''' then State_Monad.return (Inr False)
      else do {
        err \<leftarrow> ensureLoaded E s;
        case err of
          Some err \<Rightarrow> State_Monad.return (Inl err)
        | None \<Rightarrow> do {
            keys \<leftarrow> peek cached;
            State_Monad.return (Inr (key \<in> set keys))
          }
      })"

definition Idempotency_Record :: "env \<Rightarrow> IdempotencyStore \<Rightarrow> string \<Rightarrow> go_error option prog" where
  "Idempotency_Record E s key =
     (let key = TrimSpace key in
      if key = '''' then State_Monad.return None
      else do {
        err \<leftarrow> ensureLoaded E s;
        case err of
          Some err \<Rightarrow> State_Monad.return (Some err)
        | None \<Rightarrow> do {
            keys \<leftarrow> peek cached;
            if key \<in> set keys then State_Monad.return None
            else do {
              _ \<leftarrow> poke (applied_keys_update (\<lambda>_. Some (keys @ [key])));
              persistLocked E s
            }
          }
      })"

section \<open>Applying a job\<close>

record ApplyOutcome =
  ao_Result :: JobResult
  Idempotent :: bool

record Applier =
  ap_ClusterID :: string
  ap_Idempotency :: "IdempotencyStore option"

definition managed_labels :: "Applier \<Rightarrow> ObjectMeta \<Rightarrow> ObjectMeta" where
  "managed_labels a m =
     (let lbls = (Labels m)(ManagedByKey \<mapsto> ManagedByControlPlane) in
      m\<lparr>Labels := if ap_ClusterID a \<noteq> '''' then lbls(ClusterIDKey \<mapsto> ap_ClusterID a) else lbls\<rparr>)"

definition ensureManagedLabels :: "Applier \<Rightarrow> Unstructured \<Rightarrow> Unstructured" where
  "ensureManagedLabels a obj = obj\<lparr>u_meta := managed_labels a (u_meta obj)\<rparr>"

definition ensureTargetNamespace :: "env \<Rightarrow> string \<Rightarrow> go_error option prog" where
  "ensureTargetNamespace E name =
     (let name = TrimSpace name in
      if name = '''' then State_Monad.return None
      else do {
        ns \<leftarrow> ask (get_namespace E) (GetNamespace name);
        case ns of
          Inr _ \<Rightarrow> State_Monad.return None
        | Inl err \<Rightarrow>
            if \<not> IsNotFound err
            then State_Monad.return (Some (Wrapf (''get namespace '' @ Quote name @ '': '') err []))
            else do {
              err \<leftarrow> ask (write_result E)
                (CreateNamespace (meta0\<lparr>Name := name, Labels := [NamespaceGateKey \<mapsto> NamespaceGateValue]\<rparr>));
              State_Monad.return
                (case err of
                   None \<Rightarrow> None
                 | Some err \<Rightarrow>
                     if IsAlreadyExists err then None
                     else if IsForbidden err
                     then Some (Wrapf (''namespace '' @ Quote name @ '' does not exist and cannot be created (check RBAC): '') err [])
                     else Some (Wrapf (''create namespace '' @ Quote name @ '': '') err []))
            }
      })"

text \<open>Server-side apply of an object, unstructured or typed.\<close>

definition patchApply :: "env \<Rightarrow> call \<Rightarrow> go_error option prog" where
  "patchApply E apply_call = do {
     err \<leftarrow> ask (write_result E) apply_call;
     State_Monad.return
       (case err of
          None \<Rightarrow> None
        | Some err \<Rightarrow>
            if IsConflictErr err then Some (Wrapf ''apply conflict: '' err [])
            else Some (Wrapf ''server-side apply: '' err []))
   }"

definition objectRef :: "Unstructured \<Rightarrow> AppliedRef" where
  "objectRef obj = ResourceRefFromMeta (u_gvk obj) (u_meta obj)"

definition group_of :: "string \<Rightarrow> string" where
  "group_of apiVersion = (case Split (CHR ''/'') apiVersion of [g, v] \<Rightarrow> g | _ \<Rightarrow> '''')"

definition isVeleroBackupStorageLocation :: "Unstructured \<Rightarrow> bool" where
  "isVeleroBackupStorageLocation obj \<longleftrightarrow>
     group_of (fst (u_gvk obj)) = ''velero.io'' \<and> snd (u_gvk obj) = ''BackupStorageLocation''"

definition bslAvailableTimeout :: int where "bslAvailableTimeout = seconds 90"
definition bslAvailablePoll :: int where "bslAvailablePoll = seconds 2"

fun bsl_loop ::
  "env \<Rightarrow> nat \<Rightarrow> Unstructured \<Rightarrow> time \<Rightarrow> bool \<Rightarrow> Unstructured result option prog" where
  "bsl_loop E 0 obj deadline boundByExpiry = State_Monad.return None"
| "bsl_loop E (Suc n) obj deadline boundByExpiry =
     (let ns = Namespace (u_meta obj); name = Name (u_meta obj); what = ns @ ''/'' @ name in do {
      latest \<leftarrow> ask (get_object E) (GetObject (u_gvk obj) ns name);
      case latest of
        Inl err \<Rightarrow> State_Monad.return (Some (Inl (Wrapf (''get BackupStorageLocation '' @ what @ '': '') err [])))
      | Inr latest \<Rightarrow>
          (let phase = NestedString E (u_Object latest) [''status'', ''phase''];
               message = NestedString E (u_Object latest) [''status'', ''message''];
               state = ToLower (TrimSpace phase) in
           if state = ''available'' then State_Monad.return (Some (Inr latest))
           else if state = ''unavailable'' then
             State_Monad.return (Some (Inl (Errorf (''BackupStorageLocation '' @ what @ '' Unavailable: '' @
               (if TrimSpace message = '''' then ''BackupStorageLocation is Unavailable'' else message)))))
           else do {
             now \<leftarrow> Now E;
             if now > deadline then
               State_Monad.return (Some (Inl (Errorf
                 (if boundByExpiry
                  then ''BackupStorageLocation '' @ what @ '': job expired while waiting for Available''
                  else if phase = ''''
                  then ''timed out waiting for BackupStorageLocation '' @ what @ '' Available (no status.phase yet)''
                  else ''timed out waiting for BackupStorageLocation '' @ what @ '' Available (phase='' @ phase @
                         '' message='' @ message @ '')''))))
             else do {
               cancelled \<leftarrow> ask (context_done E) (Sleep bslAvailablePoll);
               case cancelled of
                 Some err \<Rightarrow> State_Monad.return (Some (Inl err))
               | None \<Rightarrow> bsl_loop E n obj deadline boundByExpiry
             }
           })
    })"

definition waitForBSLAvailable ::
  "env \<Rightarrow> nat \<Rightarrow> Unstructured \<Rightarrow> time \<Rightarrow> Unstructured result option prog" where
  "waitForBSLAvailable E fuel obj expiresAt = do {
     now \<leftarrow> Now E;
     let deadline = now + bslAvailableTimeout;
     if \<not> IsZero expiresAt \<and> expiresAt < deadline then bsl_loop E fuel obj expiresAt True
     else bsl_loop E fuel obj deadline False
   }"

definition applyManifest :: "env \<Rightarrow> nat \<Rightarrow> Applier \<Rightarrow> Job \<Rightarrow> AppliedRef result option prog" where
  "applyManifest E fuel a job =
     (case decode_object E (Payload job) of
        Inl err \<Rightarrow> State_Monad.return (Some (Inl (Wrapf ''decode apply payload: '' err [])))
      | Inr obj \<Rightarrow>
          (let obj = ensureManagedLabels a obj in do {
           err \<leftarrow> ensureTargetNamespace E (Namespace (u_meta obj));
           case err of
             Some err \<Rightarrow> State_Monad.return (Some (Inl err))
           | None \<Rightarrow> do {
               err \<leftarrow> patchApply E (ApplyObject obj);
               case err of
                 Some err \<Rightarrow> State_Monad.return (Some (Inl err))
               | None \<Rightarrow> do {
                   latest \<leftarrow> ask (get_object E) (GetObject (u_gvk obj) (Namespace (u_meta obj)) (Name (u_meta obj)));
                   case latest of
                     Inl err \<Rightarrow> State_Monad.return (Some (Inl (Wrapf ''get applied object: '' err [])))
                   | Inr latest \<Rightarrow>
                       if isVeleroBackupStorageLocation latest then do {
                         ready \<leftarrow> waitForBSLAvailable E fuel latest (ExpiresAt job);
                         State_Monad.return (map_option (map_sum id objectRef) ready)
                       }
                       else State_Monad.return (Some (Inr (objectRef latest)))
                 }
             }
         }))"

record objectReference =
  obr_APIVersion :: string
  obr_Kind :: string
  obr_Name :: string
  obr_Namespace :: string

definition objectReference_fields :: "objectReference fields" where
  "objectReference_fields =
     [(''apiVersion'', dec_string obr_APIVersion_update), (''kind'', dec_string obr_Kind_update),
      (''name'', dec_string obr_Name_update), (''namespace'', dec_string obr_Namespace_update)]"

definition unmarshal_payload :: "string \<Rightarrow> string \<Rightarrow> 'a fields \<Rightarrow> 'a \<Rightarrow> 'a result" where
  "unmarshal_payload what payload fs a =
     (case json_Unmarshal payload of
        None \<Rightarrow> Inl (Wrapf what json_syntax_error [])
      | Some doc \<Rightarrow>
          (case unmarshal_struct fs doc a of None \<Rightarrow> Inl (Wrapf what json_type_error []) | Some v \<Rightarrow> Inr v))"

definition deleteObject :: "env \<Rightarrow> string \<Rightarrow> AppliedRef result prog" where
  "deleteObject E payload =
     (case unmarshal_payload ''decode delete payload: '' payload objectReference_fields
             \<lparr>obr_APIVersion = '''', obr_Kind = '''', obr_Name = '''', obr_Namespace = ''''\<rparr> of
        Inl err \<Rightarrow> State_Monad.return (Inl err)
      | Inr ref \<Rightarrow>
          if obr_APIVersion ref = '''' \<or> obr_Kind ref = '''' \<or> obr_Name ref = ''''
          then State_Monad.return (Inl (Errorf ''delete payload requires apiVersion, kind, and name''))
          else case ParseGroupVersion E (obr_APIVersion ref) of
            Inl err \<Rightarrow> State_Monad.return (Inl (Wrapf ''parse apiVersion: '' err []))
          | Inr gv \<Rightarrow> do {
              err \<leftarrow> ask (write_result E) (DeleteObject
                \<lparr>u_gvk = (gv, obr_Kind ref),
                 u_meta = meta0\<lparr>Name := obr_Name ref, Namespace := obr_Namespace ref\<rparr>, u_Object = JObject []\<rparr>);
              let applied = \<lparr>ar_APIVersion = obr_APIVersion ref, ar_Kind = obr_Kind ref,
                ar_Namespace = obr_Namespace ref, ar_Name = obr_Name ref, ar_UID = '''', ar_Generation = 0\<rparr>;
              State_Monad.return
                (case err of
                   None \<Rightarrow> Inr applied
                 | Some err \<Rightarrow>
                     if IsNotFound err then Inr applied
                     else Inl (Wrapf (''delete '' @ obr_Kind ref @ ''/'' @ obr_Name ref @ '': '') err []))
            })"

record intentPayload =
  in_Intent :: string
  in_ApplicationInstance :: "ApplicationInstance option"
  in_Operation :: "Operation option"
  in_Name :: string
  in_Namespace :: string

definition dec_pointer ::
  "(json \<Rightarrow> 'v option \<Rightarrow> 'v option) \<Rightarrow> (('v option \<Rightarrow> 'v option) \<Rightarrow> 'a \<Rightarrow> 'a) \<Rightarrow> ('a \<Rightarrow> 'v option) \<Rightarrow>
   json \<Rightarrow> 'a \<Rightarrow> 'a option" where
  "dec_pointer decode upd sel j a =
     (case j of
        JNull \<Rightarrow> Some (upd (\<lambda>_. None) a)
      | _ \<Rightarrow> map_option (\<lambda>v. upd (\<lambda>_. Some v) a) (decode j (sel a)))"

definition intent_fields :: "env \<Rightarrow> intentPayload fields" where
  "intent_fields E =
     [(''intent'', dec_string in_Intent_update),
      (''applicationInstance'',
         dec_pointer (decode_app E) in_ApplicationInstance_update in_ApplicationInstance),
      (''operation'', dec_pointer (decode_operation E) in_Operation_update in_Operation),
      (''name'', dec_string in_Name_update), (''namespace'', dec_string in_Namespace_update)]"

definition typedRef :: "env \<Rightarrow> string \<Rightarrow> ObjectMeta \<Rightarrow> AppliedRef result" where
  "typedRef E kind m =
     (case GVKForObject E kind of
        Inl err \<Rightarrow> Inl (Wrapf ''resolve GVK: '' err [])
      | Inr gvk \<Rightarrow> Inr (ResourceRefFromMeta gvk m))"

definition ensureNamespacesForApplicationInstance :: "env \<Rightarrow> ApplicationInstance \<Rightarrow> go_error option prog" where
  "ensureNamespacesForApplicationInstance E app = do {
     err \<leftarrow> ensureTargetNamespace E (Namespace (app_meta app));
     case err of
       Some err \<Rightarrow> State_Monad.return (Some err)
     | None \<Rightarrow>
         (let releaseNS = (case as_Release (app_Spec app) of None \<Rightarrow> '''' | Some rel \<Rightarrow> TrimSpace (rel_Namespace rel)) in
          if releaseNS \<noteq> '''' \<and> releaseNS \<noteq> Namespace (app_meta app)
          then ensureTargetNamespace E releaseNS else State_Monad.return None)
   }"

text \<open>The three intents, each the branch of the switch.\<close>

definition ensureApplicationInstance :: "env \<Rightarrow> Applier \<Rightarrow> ApplicationInstance \<Rightarrow> AppliedRef result prog" where
  "ensureApplicationInstance E a app =
     (let app = app\<lparr>app_meta := managed_labels a (app_meta app)\<rparr> in do {
      err \<leftarrow> ensureNamespacesForApplicationInstance E app;
      case err of
        Some err \<Rightarrow> State_Monad.return (Inl err)
      | None \<Rightarrow> do {
          err \<leftarrow> patchApply E (ApplyApplicationInstance app);
          case err of
            Some err \<Rightarrow> State_Monad.return (Inl err)
          | None \<Rightarrow> do {
              latest \<leftarrow> ask (get_app E) (GetApplicationInstance (Namespace (app_meta app)) (Name (app_meta app)));
              State_Monad.return
                (case latest of
                   Inl err \<Rightarrow> Inl (Wrapf ''get application instance: '' err [])
                 | Inr latest \<Rightarrow> typedRef E ''ApplicationInstance'' (app_meta latest))
            }
        }
    })"

definition requestOperation :: "env \<Rightarrow> Applier \<Rightarrow> Operation \<Rightarrow> AppliedRef result prog" where
  "requestOperation E a op =
     (let op = op\<lparr>op_meta := managed_labels a (op_meta op)\<rparr> in do {
      err \<leftarrow> ensureTargetNamespace E (Namespace (op_meta op));
      case err of
        Some err \<Rightarrow> State_Monad.return (Inl err)
      | None \<Rightarrow> do {
          err \<leftarrow> patchApply E (ApplyOperation op);
          case err of
            Some err \<Rightarrow> State_Monad.return (Inl err)
          | None \<Rightarrow> do {
              latest \<leftarrow> ask (get_operation E) (GetOperation (Namespace (op_meta op)) (Name (op_meta op)));
              State_Monad.return
                (case latest of
                   Inl err \<Rightarrow> Inl (Wrapf ''get operation: '' err [])
                 | Inr latest \<Rightarrow> typedRef E ''Operation'' (op_meta latest))
            }
        }
    })"

definition deleteApplicationInstance :: "env \<Rightarrow> string \<Rightarrow> string \<Rightarrow> AppliedRef result prog" where
  "deleteApplicationInstance E ns name = do {
     app \<leftarrow> ask (get_app E) (GetApplicationInstance ns name);
     case app of
       Inl err \<Rightarrow>
         State_Monad.return
           (if IsNotFound err
            then Inr \<lparr>ar_APIVersion = ''apps.vworkspace.io/v1alpha1'', ar_Kind = ''ApplicationInstance'',
                      ar_Namespace = ns, ar_Name = name, ar_UID = '''', ar_Generation = 0\<rparr>
            else Inl (Wrapf ''get application instance: '' err []))
     | Inr app \<Rightarrow> do {
         err \<leftarrow> ask (write_result E) (DeleteApplicationInstance app);
         State_Monad.return
           (case err of
              None \<Rightarrow> typedRef E ''ApplicationInstance'' (app_meta app)
            | Some err \<Rightarrow>
                if IsNotFound err then typedRef E ''ApplicationInstance'' (app_meta app)
                else Inl (Wrapf ''delete application instance: '' err []))
       }
   }"

definition applyIntent :: "env \<Rightarrow> Applier \<Rightarrow> string \<Rightarrow> AppliedRef result prog" where
  "applyIntent E a payload =
     (case unmarshal_payload ''decode intent payload: '' payload (intent_fields E)
             \<lparr>in_Intent = '''', in_ApplicationInstance = None, in_Operation = None, in_Name = '''', in_Namespace = ''''\<rparr> of
        Inl err \<Rightarrow> State_Monad.return (Inl err)
      | Inr intent \<Rightarrow>
          if in_Intent intent = ''ensure-application-instance'' then
            (case in_ApplicationInstance intent of
               None \<Rightarrow> State_Monad.return (Inl (Errorf ''ensure-application-instance requires applicationInstance''))
             | Some app \<Rightarrow> ensureApplicationInstance E a app)
          else if in_Intent intent = ''request-operation'' then
            (case in_Operation intent of
               None \<Rightarrow> State_Monad.return (Inl (Errorf ''request-operation requires operation''))
             | Some op \<Rightarrow> requestOperation E a op)
          else if in_Intent intent = ''delete-application-instance'' then
            (if in_Name intent = ''''
             then State_Monad.return (Inl (Errorf ''delete-application-instance requires name''))
             else deleteApplicationInstance E (in_Namespace intent) (in_Name intent))
          else State_Monad.return (Inl (Errorf (''unsupported intent '' @ Quote (in_Intent intent)))))"

definition job_result :: "string \<Rightarrow> string \<Rightarrow> AppliedRef option \<Rightarrow> time \<Rightarrow> JobResult" where
  "job_result outcome err ref now =
     \<lparr>Outcome = outcome, jr_Error = err, jr_AppliedRef = ref, jr_Timestamp = now\<rparr>"

text \<open>The switch on the kind of the job.\<close>

definition performJob :: "env \<Rightarrow> nat \<Rightarrow> Applier \<Rightarrow> Job \<Rightarrow> AppliedRef result option prog" where
  "performJob E fuel a job =
     (if j_Kind job = ''apply'' then applyManifest E fuel a job
      else if j_Kind job = ''delete'' then do {
        ref \<leftarrow> deleteObject E (Payload job); State_Monad.return (Some ref) }
      else if j_Kind job = ''intent'' then do {
        ref \<leftarrow> applyIntent E a (Payload job); State_Monad.return (Some ref) }
      else State_Monad.return (Some (Inl (Errorf (''unsupported job kind '' @ Quote (j_Kind job))))))"

definition seenBefore :: "env \<Rightarrow> Applier \<Rightarrow> Job \<Rightarrow> bool result prog" where
  "seenBefore E a job =
     (if IdempotencyKey job = '''' then State_Monad.return (Inr False)
      else case ap_Idempotency a of
        None \<Rightarrow> State_Monad.return (Inr False)
      | Some s \<Rightarrow> Idempotency_Contains E s (IdempotencyKey job))"

definition recordApplied :: "env \<Rightarrow> Applier \<Rightarrow> Job \<Rightarrow> go_error option prog" where
  "recordApplied E a job =
     (if IdempotencyKey job = '''' then State_Monad.return None
      else case ap_Idempotency a of
        None \<Rightarrow> State_Monad.return None
      | Some s \<Rightarrow> Idempotency_Record E s (IdempotencyKey job))"

definition ApplyJob :: "env \<Rightarrow> nat \<Rightarrow> Applier \<Rightarrow> Job \<Rightarrow> ApplyOutcome result option prog" where
  "ApplyJob E fuel a job = do {
     now \<leftarrow> Now E;
     if \<not> IsZero (ExpiresAt job) \<and> now > ExpiresAt job then
       State_Monad.return (Some (Inr \<lparr>ao_Result = job_result OutcomeNoop ''expired'' None now, Idempotent = False\<rparr>))
     else do {
       seen \<leftarrow> seenBefore E a job;
       case seen of
         Inl err \<Rightarrow> State_Monad.return (Some (Inl (Wrapf ''check idempotency key: '' err [])))
       | Inr True \<Rightarrow>
           State_Monad.return (Some (Inr \<lparr>ao_Result = job_result OutcomeNoop '''' None now, Idempotent = True\<rparr>))
       | Inr False \<Rightarrow> do {
           done_ref \<leftarrow> performJob E fuel a job;
           case done_ref of
             None \<Rightarrow> State_Monad.return None
           | Some (Inl err) \<Rightarrow> State_Monad.return (Some (Inl err))
           | Some (Inr ref) \<Rightarrow> do {
               err \<leftarrow> recordApplied E a job;
               State_Monad.return (Some
                 (case err of
                    Some err \<Rightarrow> Inl (Wrapf ''record idempotency key: '' err [])
                  | None \<Rightarrow> Inr \<lparr>ao_Result = job_result OutcomeSucceeded '''' (Some ref) now, Idempotent = False\<rparr>))
             }
         }
     }
   }"

definition IsConflict :: "go_error option \<Rightarrow> bool" where
  "IsConflict err = (case err of None \<Rightarrow> False | Some err \<Rightarrow> Contains (Error err) ''conflict'')"

definition ConflictResult :: "time \<Rightarrow> go_error \<Rightarrow> JobResult" where
  "ConflictResult now err = job_result OutcomeConflict (Error err) None now"

definition MarkApplied :: "string \<Rightarrow> int \<Rightarrow> string" where
  "MarkApplied uid generation = uid @ ''@'' @ Itoa generation"

section \<open>The poller\<close>

abbreviation defaultLongPollWait :: int where "defaultLongPollWait \<equiv> 30"

record AgentPoller =
  pl_Client :: "AgentClient option"
  pl_Applier :: "Applier option"
  WaitSecs :: int

text \<open>\<open>None\<close> when the application of the job does not come back.\<close>

definition processJob :: "env \<Rightarrow> nat \<Rightarrow> AgentClient \<Rightarrow> Applier \<Rightarrow> Job \<Rightarrow> go_error option option prog" where
  "processJob E fuel cl a job = do {
     err \<leftarrow> AckJob cl (j_ID job);
     case err of
       Some err \<Rightarrow> State_Monad.return (Some (Some (Wrapf (''ack job '' @ j_ID job @ '': '') err [])))
     | None \<Rightarrow> do {
         outcome \<leftarrow> ApplyJob E fuel a job;
         case outcome of
           None \<Rightarrow> State_Monad.return None
         | Some (Inl err) \<Rightarrow> do {
             now \<leftarrow> Now E;
             reportErr \<leftarrow> ReportResult cl (j_ID job)
               (if IsConflict (Some err) then ConflictResult now err
                else job_result OutcomeFailed (Error err) None now);
             State_Monad.return (Some
               (case reportErr of
                  Some reportErr \<Rightarrow> Some (Wrapf ''report failed result: '' reportErr [])
                | None \<Rightarrow> Some err))
           }
         | Some (Inr outcome) \<Rightarrow> do {
             reportErr \<leftarrow> ReportResult cl (j_ID job) (ao_Result outcome);
             State_Monad.return (Some
               (case reportErr of
                  Some reportErr \<Rightarrow> Some (Wrapf ''report result: '' reportErr [])
                | None \<Rightarrow> None))
           }
       }
   }"

fun processJobs :: "env \<Rightarrow> nat \<Rightarrow> AgentClient \<Rightarrow> Applier \<Rightarrow> Job list \<Rightarrow> go_error option \<Rightarrow> go_error option option prog" where
  "processJobs E fuel cl a [] firstErr = State_Monad.return (Some firstErr)"
| "processJobs E fuel cl a (job # jobs) firstErr = do {
     err \<leftarrow> processJob E fuel cl a job;
     case err of
       None \<Rightarrow> State_Monad.return None
     | Some err \<Rightarrow> processJobs E fuel cl a jobs (if firstErr = None then err else firstErr)
   }"

definition PollOnce :: "env \<Rightarrow> nat \<Rightarrow> AgentPoller \<Rightarrow> go_error option option prog" where
  "PollOnce E fuel p =
     (case (pl_Client p, pl_Applier p) of
        (Some cl, Some a) \<Rightarrow> do {
          jobs \<leftarrow> FetchJobs cl 0;
          case jobs of
            Inl err \<Rightarrow> State_Monad.return (Some (Some (Wrapf ''fetch jobs: '' err [])))
          | Inr jobs \<Rightarrow> processJobs E fuel cl a jobs None
        }
      | _ \<Rightarrow> State_Monad.return (Some (Some (Errorf ''poller client and applier are required''))))"

definition backoff :: "env \<Rightarrow> int \<Rightarrow> unit prog" where
  "backoff E d = do { _ \<leftarrow> ask (context_done E) (Sleep d); State_Monad.return () }"

text \<open>
  The loop of \<^verbatim>\<open>Run\<close>, for at most \<open>n\<close> rounds: \<open>Some ()\<close> when it has returned because the context
  was cancelled.
\<close>

fun poll_loop :: "env \<Rightarrow> nat \<Rightarrow> nat \<Rightarrow> AgentClient \<Rightarrow> Applier \<Rightarrow> int \<Rightarrow> unit option prog" where
  "poll_loop E 0 fuel cl a wait = State_Monad.return None"
| "poll_loop E (Suc n) fuel cl a wait = do {
     cancelled \<leftarrow> peek (\<lambda>w. context_done E (hist w));
     if cancelled \<noteq> None then State_Monad.return (Some ())
     else do {
       jobs \<leftarrow> FetchJobs cl wait;
       case jobs of
         Inl err \<Rightarrow> do {
           cancelled \<leftarrow> peek (\<lambda>w. context_done E (hist w));
           if cancelled \<noteq> None then State_Monad.return (Some ())
           else do {
             _ \<leftarrow> backoff E (seconds 2);
             poll_loop E n fuel cl a wait
           }
         }
       | Inr jobs \<Rightarrow> do {
           finished \<leftarrow> processJobs E fuel cl a jobs None;
           case finished of
             None \<Rightarrow> State_Monad.return None
           | Some _ \<Rightarrow> poll_loop E n fuel cl a wait
         }
     }
   }"

definition Run :: "env \<Rightarrow> nat \<Rightarrow> nat \<Rightarrow> AgentPoller \<Rightarrow> unit option prog" where
  "Run E n fuel p =
     (case (pl_Client p, pl_Applier p) of
        (Some cl, Some a) \<Rightarrow>
          poll_loop E n fuel cl a (if WaitSecs p \<le> 0 then defaultLongPollWait else WaitSecs p)
      | _ \<Rightarrow> State_Monad.return (Some ()))"

section \<open>The runtime\<close>

record RuntimeConfig =
  rc_SecretNamespace :: string
  rc_SecretName :: string
  PollInterval :: int
  rc_Idempotency :: "IdempotencyStore option"
  rc_EventBatcher :: bool

definition setEventBatcherClient :: "RuntimeConfig \<Rightarrow> Credentials option \<Rightarrow> unit prog" where
  "setEventBatcherClient cfg c =
     (if \<not> rc_EventBatcher cfg then State_Monad.return () else poke (events_client_update (\<lambda>_. c)))"

definition stopPoller :: "RuntimeConfig \<Rightarrow> unit prog" where
  "stopPoller cfg = do {
     _ \<leftarrow> poke (poller_update (\<lambda>_. None));
     setEventBatcherClient cfg None
   }"

definition resolveCredentialsTarget :: "env \<Rightarrow> RuntimeConfig \<Rightarrow> (string \<times> string \<times> bool) result prog" where
  "resolveCredentialsTarget E cfg =
     (let defaultNS = (if TrimSpace (rc_SecretNamespace cfg) = '''' then ''vworkspace-system''
                       else TrimSpace (rc_SecretNamespace cfg));
          defaultName = (if TrimSpace (rc_SecretName cfg) = '''' then DefaultCredentialsSecret
                         else TrimSpace (rc_SecretName cfg)) in do {
      clusters \<leftarrow> ask (list_clusters E) ListClusters;
      State_Monad.return
        (case clusters of
           Inl err \<Rightarrow> Inl err
         | Inr [] \<Rightarrow> Inr (defaultNS, defaultName, False)
         | Inr (cluster # _) \<Rightarrow>
             if being_deleted (cl_meta cluster) then Inr ('''', '''', False)
             else case CredentialsSecretRef (cl_Status cluster) of
               None \<Rightarrow> Inr (defaultNS, defaultName, True)
             | Some ref \<Rightarrow>
                 if TrimSpace (sr_Name ref) = '''' then Inr (defaultNS, defaultName, True)
                 else Inr (if TrimSpace (sr_Namespace ref) = '''' then defaultNS else TrimSpace (sr_Namespace ref),
                           TrimSpace (sr_Name ref), True))
    })"

text \<open>Stopping the old poller and starting one with the given credentials.\<close>

definition startPoller :: "RuntimeConfig \<Rightarrow> Credentials \<Rightarrow> go_error option prog" where
  "startPoller cfg creds = do {
     _ \<leftarrow> stopPoller cfg;
     _ \<leftarrow> setEventBatcherClient cfg None;
     case NewHTTPClient creds of
       Inl err \<Rightarrow> State_Monad.return (Some (Wrapf ''configure agent client: '' err []))
     | Inr _ \<Rightarrow> do {
         _ \<leftarrow> poke (poller_update (\<lambda>_. Some creds));
         _ \<leftarrow> setEventBatcherClient cfg (Some creds);
         State_Monad.return None
       }
   }"

text \<open>The poller that is started with the credentials.\<close>

definition runtime_poller :: "env \<Rightarrow> RuntimeConfig \<Rightarrow> Credentials \<Rightarrow> AgentPoller" where
  "runtime_poller E cfg creds =
     \<lparr>pl_Client = (case NewHTTPClient creds of Inl _ \<Rightarrow> None | Inr c \<Rightarrow> Some (http_client E c)),
      pl_Applier = Some \<lparr>ap_ClusterID = cr_ClusterID creds, ap_Idempotency = rc_Idempotency cfg\<rparr>,
      WaitSecs = PollInterval cfg div seconds 1\<rparr>"

definition ensurePoller :: "env \<Rightarrow> RuntimeConfig \<Rightarrow> go_error option prog" where
  "ensurePoller E cfg = do {
     target \<leftarrow> resolveCredentialsTarget E cfg;
     case target of
       Inl err \<Rightarrow> State_Monad.return (Some err)
     | Inr (secretNS, secretName, clusterPresent) \<Rightarrow>
         if \<not> clusterPresent then do {
           _ \<leftarrow> stopPoller cfg;
           State_Monad.return (Some (Errorf ''no Cluster resource found''))
         }
         else do {
           secret \<leftarrow> GetCredentialsSecret E secretNS secretName;
           case secret of
             Inl err \<Rightarrow> State_Monad.return (Some err)
           | Inr None \<Rightarrow> do {
               _ \<leftarrow> stopPoller cfg;
               State_Monad.return (Some (Errorf (''credentials secret '' @ secretNS @ ''/'' @ secretName @ '' not found'')))
             }
           | Inr (Some secret) \<Rightarrow>
               (case CredentialsFromSecret (Some secret) of
                  Inl err \<Rightarrow> State_Monad.return (Some err)
                | Inr creds \<Rightarrow> do {
                    current \<leftarrow> peek poller;
                    if map_option cr_ClusterID current = Some (cr_ClusterID creds) then State_Monad.return None
                    else startPoller cfg creds
                  })
         }
   }"

text \<open>The loop of \<^verbatim>\<open>Start\<close>, for at most \<open>n\<close> ticks.\<close>

fun runtime_loop :: "env \<Rightarrow> nat \<Rightarrow> RuntimeConfig \<Rightarrow> unit option prog" where
  "runtime_loop E 0 cfg = State_Monad.return None"
| "runtime_loop E (Suc n) cfg = do {
     _ \<leftarrow> ensurePoller E cfg;
     cancelled \<leftarrow> ask (context_done E) (Sleep (seconds 10));
     if cancelled \<noteq> None then do {
       _ \<leftarrow> stopPoller cfg;
       State_Monad.return (Some ())
     }
     else runtime_loop E n cfg
   }"

definition Runtime_Start :: "env \<Rightarrow> nat \<Rightarrow> RuntimeConfig \<Rightarrow> unit option prog" where
  "Runtime_Start E n cfg =
     runtime_loop E n (cfg\<lparr>rc_SecretName := if rc_SecretName cfg = [] then DefaultCredentialsSecret else rc_SecretName cfg,
       PollInterval := if PollInterval cfg \<le> 0 then seconds 30 else PollInterval cfg\<rparr>)"

section \<open>The wait for a backup storage location ends\<close>

text \<open>
  The clock does not run backwards, and an uninterrupted sleep lets at least its duration pass.
\<close>

definition clock_laws :: "env \<Rightarrow> bool" where
  "clock_laws E \<longleftrightarrow>
     (\<forall>c h. clock E h \<le> clock E (c # h))
     \<and> (\<forall>d h. context_done E (Sleep d # h) = None \<longrightarrow> clock E h + d \<le> clock E (Sleep d # h))"

declare bsl_loop.simps [simp del]

lemma bsl_loop_returns:
  assumes "clock_laws E" and "deadline < clock E (hist w) + bslAvailablePoll * int n"
  shows "\<exists>r w'. run_state (bsl_loop E (Suc n) obj deadline b) w = (Some r, w')
           \<and> length (hist w') \<le> length (hist w) + 2 * Suc n"
  using assms(2)
proof (induction n arbitrary: w)
  case 0
  let ?w = "w\<lparr>hist := GetObject (u_gvk obj) (Namespace (u_meta obj)) (Name (u_meta obj)) # hist w\<rparr>"
  have "clock E (hist w) \<le> clock E (hist ?w)" using assms(1) by (simp add: clock_laws_def)
  with 0 have "deadline < clock E (hist ?w)" by simp
  then show ?case by (simp add: bsl_loop.simps go_run split: sum.split)
next
  case (Suc n)
  let ?h = "GetObject (u_gvk obj) (Namespace (u_meta obj)) (Name (u_meta obj)) # hist w"
  let ?w = "w\<lparr>hist := Sleep bslAvailablePoll # ?h\<rparr>"
  have later: "deadline < clock E (hist ?w) + bslAvailablePoll * int n" if "context_done E (hist ?w) = None"
  proof -
    have "clock E (hist w) + bslAvailablePoll \<le> clock E (hist ?w)"
      using assms(1) that by (simp add: clock_laws_def) (meson add_mono_thms_linordered_semiring(3) order_trans)
    with Suc.prems show ?thesis by (simp add: distrib_left)
  qed
  show ?case
  proof (cases "context_done E (hist ?w)")
    case None
    from Suc.IH [OF later [OF None]] obtain r w' where
      "run_state (bsl_loop E (Suc n) obj deadline b) ?w = (Some r, w')"
      "length (hist w') \<le> length (hist ?w) + 2 * Suc n" by blast
    with None show ?thesis
      by (subst bsl_loop.simps) (simp add: go_run split: sum.split)
  next
    case (Some err)
    then show ?thesis
      by (subst bsl_loop.simps) (simp add: go_run split: sum.split)
  qed
qed

text \<open>C18: waiting for a backup storage location comes back after at most 47 looks at it, whatever
  the server answers, provided that sleeping lets time pass.\<close>

theorem waitForBSLAvailable_returns:
  assumes "clock_laws E"
  shows "\<exists>r w'. run_state (waitForBSLAvailable E 47 obj expiresAt) w = (Some r, w')
           \<and> length (hist w') \<le> length (hist w) + 2 * 47"
proof -
  let ?t = "clock E (hist w)"
  have "?t + bslAvailableTimeout < ?t + bslAvailablePoll * int 46"
    by (simp add: bslAvailableTimeout_def bslAvailablePoll_def seconds_def)
  then have enough: "deadline < ?t + bslAvailablePoll * int 46" if "deadline \<le> ?t + bslAvailableTimeout" for deadline
    using that by linarith
  have "\<exists>r w'. run_state (bsl_loop E 47 obj deadline b) w = (Some r, w')
      \<and> length (hist w') \<le> length (hist w) + 2 * 47" if "deadline \<le> ?t + bslAvailableTimeout" for deadline b
    using bsl_loop_returns [OF assms enough [OF that], of obj b] by simp
  then show ?thesis by (simp add: waitForBSLAvailable_def go_run)
qed

section \<open>Applied keys\<close>

lemma parse_elements_strings:
  assumes "keys \<noteq> []" and "\<forall>k \<in> set keys. valid_utf8 k" and "n > length keys"
  shows "parse_elements n (join_with '','' (map json_string keys) @ CHR '']'' # rest) = Some (map JString keys, rest)"
  using assms
proof (induction keys arbitrary: n)
  case (Cons k keys)
  define m where "m = n - 2"
  with Cons.prems(3) have n: "n = Suc (Suc m)" by simp
  have parse: "parse_value (Suc m) (json_string k @ s) = Some (JString k, s)" for s
    using Cons.prems(2) by (intro parse_json_string) simp
  show ?case
  proof (cases keys)
    case Nil
    then show ?thesis using parse by (simp add: n del: parse_value.simps)
  next
    case (Cons k' keys')
    with Cons.IH [of "Suc m"] Cons.prems n have
      "parse_elements (Suc m) (join_with '','' (map json_string keys) @ CHR '']'' # rest) = Some (map JString keys, rest)"
      by simp
    with Cons show ?thesis using parse by (simp add: n del: parse_value.simps)
  qed
qed simp

lemma elem_strings_map [simp]: "elem_strings (map JString keys) = Some keys"
  by (induction keys) (simp_all add: elem_string_def)

lemma decode_marshal_keys:
  assumes "\<forall>k \<in> set keys. valid_utf8 k"
  shows "decode_keys (marshal_keys keys) = Inr keys"
proof (cases keys)
  case Nil
  moreover have "decode_keys ''[]'' = Inr []" by code_simp
  ultimately show ?thesis by (simp add: marshal_keys_def)
next
  case (Cons k ks)
  let ?s = "marshal_keys keys" and ?n = "Suc (2 * length (marshal_keys keys) + length keys)"
  have "parse_elements ?n (join_with '','' (map json_string keys) @ CHR '']'' # []) = Some (map JString keys, [])"
    by (rule parse_elements_strings) (use Cons assms in simp_all)
  then have "parse_value (Suc ?n) ?s = Some (JArray (map JString keys), [])"
    unfolding marshal_keys_def Cons by (cases ks) (simp_all add: json_string_def)
  then have "json_Unmarshal ?s = Some (JArray (map JString keys))"
    using json_Unmarshal_fuel [of ?s "Suc ?n"] by simp
  then show ?thesis by (simp add: decode_keys_def)
qed

text \<open>The invariant of the cache: its keys are trimmed and not empty.\<close>

definition proper_keys :: "string list \<Rightarrow> bool" where
  "proper_keys keys \<longleftrightarrow> (\<forall>k \<in> set keys. TrimSpace k = k \<and> k \<noteq> '''' \<and> valid_utf8 k)"

lemma key_set_proper: "proper_keys keys \<Longrightarrow> set (key_set keys) = set keys"
  by (auto simp: key_set_def proper_keys_def image_iff)

lemma marshal_keys_not_blank: "TrimSpace (marshal_keys keys) \<noteq> ''''"
proof -
  have "hd (marshal_keys keys) = CHR ''[''" "last (marshal_keys keys) = CHR '']''"
    by (simp_all add: marshal_keys_def)
  then have "TrimSpace (marshal_keys keys) = marshal_keys keys"
    by (intro TrimSpace_id) (simp_all add: graphic_def)
  then show ?thesis by (simp add: marshal_keys_def)
qed

lemma stored_keys:
  assumes "iteration_laws E" and "proper_keys keys"
  shows "\<exists>ks. keys_of_configmap (cm\<lparr>cfg_Data := (cfg_Data cm)(idempotencyDataKey \<mapsto> marshal_keys (map_order E h keys))\<rparr>)
            = Inr ks \<and> set (key_set ks) = set keys"
proof -
  have order: "set (map_order E h keys) = set keys" using assms(1) by (simp add: iteration_laws_def)
  with assms(2) have proper: "proper_keys (map_order E h keys)" by (simp add: proper_keys_def)
  then have "decode_keys (marshal_keys (map_order E h keys)) = Inr (map_order E h keys)"
    by (intro decode_marshal_keys) (simp add: proper_keys_def)
  with proper order show ?thesis
    by (simp add: keys_of_configmap_def marshal_keys_not_blank key_set_proper)
qed

text \<open>C17: the keys applied so far survive a restart. Recording a key stores all of them, and a new
  store that finds this ConfigMap knows exactly the same keys.\<close>

theorem applied_keys_survive_restart:
  assumes "iteration_laws E" and "applied_keys w = Some keys" and "proper_keys keys"
    and "TrimSpace key \<notin> set keys" and "TrimSpace key \<noteq> ''''" and "valid_utf8 (TrimSpace key)"
    and "run_state (Idempotency_Record E s key) w = (None, w1)"
  shows "\<exists>cm. hd (hist w1) = StoreConfigMap cm
    \<and> (applied_keys w2 = None \<and> is_Namespace s \<noteq> ''''
         \<and> get_configmap E (GetConfigMap (is_Namespace s) (store_name s) # hist w2) = Inr cm \<longrightarrow>
       (\<exists>w3. run_state (ensureLoaded E s) w2 = (None, w3)
          \<and> set (cached w3) = insert (TrimSpace key) (set keys)))"
proof -
  let ?keys = "keys @ [TrimSpace key]"
  let ?h = "LoadConfigMap \<lparr>cfg_meta = meta0\<lparr>Name := store_name s, Namespace := is_Namespace s\<rparr>, cfg_Data = Map.empty\<rparr> # hist w"
  have proper: "proper_keys ?keys" using assms(3,5,6) by (simp add: proper_keys_def)
  obtain old where "load_configmap E ?h = Inr old"
    and w1: "hist w1 = StoreConfigMap (old\<lparr>cfg_Data := (cfg_Data old)(idempotencyDataKey \<mapsto> marshal_keys (map_order E (hist w) ?keys))\<rparr>) # ?h"
    using assms(2,4,5,7)
    by (auto simp: Idempotency_Record_def ensureLoaded_def persistLocked_def CreateOrUpdateConfigMap_def
        create_or_update_def cached_def go_run split: sum.splits)
  let ?cm = "old\<lparr>cfg_Data := (cfg_Data old)(idempotencyDataKey \<mapsto> marshal_keys (map_order E (hist w) ?keys))\<rparr>"
  obtain ks where ks: "keys_of_configmap ?cm = Inr ks" "set (key_set ks) = set ?keys"
    using stored_keys [OF assms(1) proper] by blast
  then have "\<exists>w3. run_state (ensureLoaded E s) w2 = (None, w3) \<and> set (cached w3) = insert (TrimSpace key) (set keys)"
    if "applied_keys w2 = None \<and> is_Namespace s \<noteq> ''''
      \<and> get_configmap E (GetConfigMap (is_Namespace s) (store_name s) # hist w2) = Inr ?cm"
    using that by (auto simp: ensureLoaded_def go_run cached_def)
  with w1 show ?thesis by auto
qed

section \<open>A job is applied once\<close>

lemma ensureLoaded_loaded:
  assumes "run_state (ensureLoaded E s) w = (None, w1)"
  shows "applied_keys w1 \<noteq> None"
  using assms by (auto simp: ensureLoaded_def go_run split: sum.splits if_splits)

lemma ensureLoaded_again: "applied_keys w \<noteq> None \<Longrightarrow> run_state (ensureLoaded E s) w = (None, w)"
  by (simp add: ensureLoaded_def go_run)

lemma persistLocked_keeps: "applied_keys (snd (run_state (persistLocked E s) w)) = applied_keys w"
  by (auto simp: persistLocked_def CreateOrUpdateConfigMap_def create_or_update_def go_run split: sum.split)

lemma Record_caches:
  assumes "run_state (Idempotency_Record E s key) w = (None, w1)" and "TrimSpace key \<noteq> ''''"
  shows "\<exists>keys. applied_keys w1 = Some keys \<and> TrimSpace key \<in> set keys"
proof -
  obtain r w0 where load: "run_state (ensureLoaded E s) w = (r, w0)" by (cases "run_state (ensureLoaded E s) w")
  with assms have r: "r = None" by (auto simp: Idempotency_Record_def go_run split: option.splits)
  with load ensureLoaded_loaded obtain keys where keys: "applied_keys w0 = Some keys" by blast
  show ?thesis
  proof (cases "TrimSpace key \<in> set keys")
    case True
    with assms load r keys show ?thesis by (simp add: Idempotency_Record_def go_run cached_def)
  next
    case False
    let ?w = "w0\<lparr>applied_keys := Some (keys @ [TrimSpace key])\<rparr>"
    from False assms load r keys have "run_state (persistLocked E s) ?w = (None, w1)"
      by (simp add: Idempotency_Record_def go_run cached_def)
    with persistLocked_keeps [of E s ?w] show ?thesis by simp
  qed
qed

text \<open>C16: a job that was applied under an idempotency key is not applied again. When it is
  delivered once more to an agent that still has the key, the answer is a no-op and the cluster
  is not touched.\<close>

theorem redelivered_job_not_applied:
  assumes "ap_Idempotency a = Some s" and "TrimSpace (IdempotencyKey job) \<noteq> ''''"
    and "run_state (ApplyJob E fuel a job) w = (Some (Inr out), w1)"
    and "Outcome (ao_Result out) = OutcomeSucceeded" and "applied_keys w2 = applied_keys w1"
  shows "\<exists>res. run_state (ApplyJob E fuel' a job) w2 = (Some (Inr res), w2) \<and> Outcome (ao_Result res) = OutcomeNoop"
proof -
  have key: "IdempotencyKey job \<noteq> ''''" using assms(2) by auto
  obtain w0 where "run_state (Idempotency_Record E s (IdempotencyKey job)) w0 = (None, w1)"
    using assms(1,3,4) key
    by (auto simp: ApplyJob_def go_run recordApplied_def job_result_def
        split: if_splits sum.splits bool.splits option.splits prod.splits)
  from Record_caches [OF this assms(2)] assms(5) obtain keys where
    keys: "applied_keys w2 = Some keys" "TrimSpace (IdempotencyKey job) \<in> set keys" by auto
  then have "run_state (seenBefore E a job) w2 = (Inr True, w2)"
    using assms(1,2) key
    by (simp add: seenBefore_def Idempotency_Contains_def go_run ensureLoaded_again cached_def)
  then show ?thesis by (simp add: ApplyJob_def go_run job_result_def)
qed

section \<open>What the agent writes\<close>

definition managed :: "Applier \<Rightarrow> ObjectMeta \<Rightarrow> bool" where
  "managed a m \<longleftrightarrow> Labels m ManagedByKey = Some ManagedByControlPlane
     \<and> (ap_ClusterID a = '''' \<or> Labels m ClusterIDKey = Some (ap_ClusterID a))"

fun agent_call :: "Applier \<Rightarrow> call \<Rightarrow> bool" where
  "agent_call a (ApplyObject obj) = managed a (u_meta obj)"
| "agent_call a (ApplyApplicationInstance app) = managed a (app_meta app)"
| "agent_call a (ApplyOperation op) = managed a (op_meta op)"
| "agent_call a (CreateNamespace m) = (Labels m NamespaceGateKey = Some NamespaceGateValue)"
| "agent_call a (DeleteObject _) = True"
| "agent_call a (DeleteApplicationInstance _) = True"
| "agent_call a (LoadConfigMap _) = (ap_Idempotency a \<noteq> None)"
| "agent_call a (StoreConfigMap _) = (ap_Idempotency a \<noteq> None)"
| "agent_call a (Sleep _) = True"
| "agent_call a c = is_read c"

lemma managed_managed_labels [simp]: "managed a (managed_labels a m)"
  by (simp add: managed_def managed_labels_def Let_def)

lemma emits_ensureTargetNamespace: "emits (agent_call a) (ensureTargetNamespace E name) w"
  unfolding ensureTargetNamespace_def Let_def by (intro emits_rules) auto

lemma emits_ensureNamespaces: "emits (agent_call a) (ensureNamespacesForApplicationInstance E app) w"
  unfolding ensureNamespacesForApplicationInstance_def Let_def
  by (intro emits_rules emits_ensureTargetNamespace)

lemma emits_patchApply: "agent_call a c \<Longrightarrow> emits (agent_call a) (patchApply E c) w"
  unfolding patchApply_def by (intro emits_rules)

lemma emits_bsl_loop: "emits (agent_call a) (bsl_loop E n obj deadline b) w"
proof (induction n arbitrary: w)
  case 0
  show ?case by (subst bsl_loop.simps) (intro emits_rules)
next
  case (Suc n)
  show ?case by (subst bsl_loop.simps) (unfold Let_def, intro emits_rules Suc, simp_all)
qed

lemma emits_applyManifest: "emits (agent_call a) (applyManifest E fuel a job) w"
  unfolding applyManifest_def waitForBSLAvailable_def Let_def
  by (intro emits_rules emits_ensureTargetNamespace emits_patchApply emits_bsl_loop)
     (simp_all add: ensureManagedLabels_def)

lemma emits_deleteObject: "emits (agent_call a) (deleteObject E payload) w"
  unfolding deleteObject_def Let_def by (intro emits_rules) simp

lemma emits_applyIntent: "emits (agent_call a) (applyIntent E a payload) w"
  unfolding applyIntent_def ensureApplicationInstance_def requestOperation_def deleteApplicationInstance_def Let_def
  by (intro emits_rules emits_ensureNamespaces emits_ensureTargetNamespace emits_patchApply) simp_all

lemma emits_performJob: "emits (agent_call a) (performJob E fuel a job) w"
  unfolding performJob_def
  by (intro emits_rules emits_applyManifest emits_deleteObject emits_applyIntent)

lemma emits_ensureLoaded: "emits (agent_call a) (ensureLoaded E s) w"
  unfolding ensureLoaded_def by (intro emits_rules) simp_all

lemma emits_seenBefore: "emits (agent_call a) (seenBefore E a job) w"
  unfolding seenBefore_def Idempotency_Contains_def Let_def by (intro emits_rules emits_ensureLoaded)

lemma emits_recordApplied: "emits (agent_call a) (recordApplied E a job) w"
  unfolding recordApplied_def Idempotency_Record_def persistLocked_def Let_def
  by (intro emits_rules emits_ensureLoaded) simp_all

lemma emits_bool [emits_rules]:
  "(b \<Longrightarrow> emits P m w) \<Longrightarrow> (\<not> b \<Longrightarrow> emits P m' w) \<Longrightarrow> emits P (case b of True \<Rightarrow> m | False \<Rightarrow> m') w"
  by (cases b) auto

lemma emits_ApplyJob: "emits (agent_call a) (ApplyJob E fuel a job) w"
  unfolding ApplyJob_def
  by (intro emits_rules emits_seenBefore emits_performJob emits_recordApplied)

section \<open>The protocol of a job\<close>

definition post_request :: "HTTPClient \<Rightarrow> string \<Rightarrow> http_body \<Rightarrow> call" where
  "post_request c endpoint body = HttpDo
     \<lparr>http_Method = ''POST'', http_Endpoint = endpoint,
      http_Headers = [(''Authorization'', ''Bearer '' @ hc_token c), (''Accept'', mediaTypeV1)] @
        (if body = NoBody then [] else [(''Content-Type'', mediaTypeV1)]),
      http_Body = body\<rparr>"

lemma run_post_expecting:
  assumes "\<And>u. url_error E u = None" and "\<And>b. marshal_error E b = None"
  obtains r where "run_state (post_expecting E c accepted endpoint body) w
      = (r, w\<lparr>hist := post_request c endpoint body # hist w\<rparr>)"
  by (cases "body = NoBody") (simp_all add: post_expecting_def http_send_def assms go_run post_request_def)

lemma run_AckJob:
  assumes "\<And>u. url_error E u = None" and "\<And>b. marshal_error E b = None"
  obtains r where "run_state (AckJob (http_client E c) i) w
      = (r, w\<lparr>hist := post_request c (job_endpoint c i ''/ack'') NoBody # hist w\<rparr>)"
  using run_post_expecting [OF assms, of c "[204, 409]" "job_endpoint c i ''/ack''" NoBody w]
  by (auto simp: http_client_def HTTPClient_AckJob_def)

lemma run_ReportResult:
  assumes "\<And>u. url_error E u = None" and "\<And>b. marshal_error E b = None"
  obtains r where "run_state (ReportResult (http_client E c) i res) w
      = (r, w\<lparr>hist := post_request c (job_endpoint c i ''/result'') (ResultBody res) # hist w\<rparr>)"
  using run_post_expecting [OF assms, of c "[204, 409]" "job_endpoint c i ''/result''" "ResultBody res" w]
  by (auto simp: http_client_def HTTPClient_ReportResult_def)

definition reported_outcomes :: "string list" where
  "reported_outcomes = [OutcomeSucceeded, OutcomeNoop, OutcomeFailed, OutcomeConflict]"

lemma ApplyJob_outcome:
  assumes "run_state (ApplyJob E fuel a job) w = (Some (Inr out), w1)"
  shows "Outcome (ao_Result out) \<in> set reported_outcomes"
  using assms
  by (auto simp: ApplyJob_def go_run job_result_def reported_outcomes_def
      split: if_splits sum.splits bool.splits option.splits prod.splits)

text \<open>After the acknowledgement, a job that has been applied is reported once.\<close>

lemma apply_reported:
  assumes "\<And>u. url_error E u = None" and "\<And>b. marshal_error E b = None"
    and "run_state (AckJob (http_client E c) (j_ID job)) w = (None, w0)"
    and "run_state (ApplyJob E fuel a job) w0 = (Some res, w1)"
    and "run_state (processJob E fuel (http_client E c) a job) w = (Some r, w')"
  shows "\<exists>res. hist w' = post_request c (job_endpoint c (j_ID job) ''/result'') (ResultBody res) # hist w1
    \<and> Outcome res \<in> set reported_outcomes"
proof -
  let ?failed = "\<lambda>err. if IsConflict (Some err) then ConflictResult (clock E (hist w1)) err
                  else job_result OutcomeFailed (Error err) None (clock E (hist w1))"
  define posted where "posted = (case res of Inl err \<Rightarrow> ?failed err | Inr out \<Rightarrow> ao_Result out)"
  obtain r' where "run_state (ReportResult (http_client E c) (j_ID job) posted) w1
      = (r', w1\<lparr>hist := post_request c (job_endpoint c (j_ID job) ''/result'') (ResultBody posted) # hist w1\<rparr>)"
    using run_ReportResult [OF assms(1,2)] by metis
  with assms(3-5) have "hist w' = post_request c (job_endpoint c (j_ID job) ''/result'') (ResultBody posted) # hist w1"
    by (cases res) (auto simp: processJob_def go_run posted_def)
  moreover have "Outcome posted \<in> set reported_outcomes"
    using ApplyJob_outcome assms(4)
    by (cases res) (auto simp: posted_def reported_outcomes_def ConflictResult_def job_result_def)
  ultimately show ?thesis by blast
qed


section \<open>The running poller\<close>

text \<open>The credentials that the Secret the runtime looks at holds.\<close>

definition stored_credentials :: "env \<Rightarrow> RuntimeConfig \<Rightarrow> world \<Rightarrow> Credentials \<Rightarrow> bool" where
  "stored_credentials E cfg w creds \<longleftrightarrow>
     (\<exists>ns name secret. run_state (resolveCredentialsTarget E cfg) w = (Inr (ns, name, True), w\<lparr>hist := ListClusters # hist w\<rparr>)
        \<and> get_secret E (GetSecret ns (if name = '''' then DefaultCredentialsSecret else name) # ListClusters # hist w) = Inr secret
        \<and> CredentialsFromSecret (Some secret) = Inr creds)"

lemma run_resolveCredentialsTarget:
  obtains r where "run_state (resolveCredentialsTarget E cfg) w = (r, w\<lparr>hist := ListClusters # hist w\<rparr>)"
  by (simp add: resolveCredentialsTarget_def go_run)

lemma run_startPoller:
  "CredentialsFromSecret secret = Inr creds \<Longrightarrow>
   \<exists>w'. run_state (startPoller cfg creds) w = (None, w') \<and> poller w' = Some creds \<and> hist w' = hist w
     \<and> events_client w' = (if rc_EventBatcher cfg then Some creds else events_client w)"
  by (simp add: startPoller_def stopPoller_def setEventBatcherClient_def go_run credentials_configure)

lemma ensurePoller_run:
  assumes "stored_credentials E cfg w creds"
  obtains w' where "run_state (ensurePoller E cfg) w = (None, w')"
    and "poller w' = (if map_option cr_ClusterID (poller w) = Some (cr_ClusterID creds) then poller w else Some creds)"
    and "rc_EventBatcher cfg \<Longrightarrow>
      events_client w' = (if map_option cr_ClusterID (poller w) = Some (cr_ClusterID creds) then events_client w else Some creds)"
proof -
  obtain ns name secret where
    target: "run_state (resolveCredentialsTarget E cfg) w = (Inr (ns, name, True), w\<lparr>hist := ListClusters # hist w\<rparr>)"
    and secret: "get_secret E (GetSecret ns (if name = '''' then DefaultCredentialsSecret else name) # ListClusters # hist w) = Inr secret"
    and creds: "CredentialsFromSecret (Some secret) = Inr creds"
    using assms unfolding stored_credentials_def by blast
  let ?w = "w\<lparr>hist := GetSecret ns (if name = '''' then DefaultCredentialsSecret else name) # ListClusters # hist w\<rparr>"
  obtain w1 where start: "run_state (startPoller cfg creds) ?w = (None, w1)" "poller w1 = Some creds"
      "rc_EventBatcher cfg \<Longrightarrow> events_client w1 = Some creds"
    using run_startPoller [OF creds, of cfg ?w] by auto
  have run: "run_state (ensurePoller E cfg) w =
      (if map_option cr_ClusterID (poller w) = Some (cr_ClusterID creds) then (None, ?w)
       else run_state (startPoller cfg creds) ?w)"
    using target secret creds
    by (cases "poller w") (auto simp: ensurePoller_def GetCredentialsSecret_def go_run)
  show ?thesis
  proof (cases "map_option cr_ClusterID (poller w) = Some (cr_ClusterID creds)")
    case True
    show ?thesis
    proof (rule that)
      show "run_state (ensurePoller E cfg) w = (None, ?w)" unfolding run if_P [OF True] ..
      show "poller ?w = (if map_option cr_ClusterID (poller w) = Some (cr_ClusterID creds) then poller w else Some creds)"
        unfolding if_P [OF True] by simp
      show "events_client ?w = (if map_option cr_ClusterID (poller w) = Some (cr_ClusterID creds) then events_client w else Some creds)"
        unfolding if_P [OF True] by simp
    qed
  next
    case False
    show ?thesis by (rule that [of w1]) (simp_all only: run False if_False start)
  qed
qed

text \<open>C40: after the credentials have been rotated, the poller that is already running for the
  cluster goes on with the old token: the runtime compares only the cluster identifier.\<close>

theorem rotated_token_not_picked_up:
  assumes "poller w = Some old" and "stored_credentials E cfg w creds"
    and "cr_ClusterID creds = cr_ClusterID old" and "Token creds \<noteq> Token old"
  shows "\<exists>w'. run_state (ensurePoller E cfg) w = (None, w') \<and> map_option Token (poller w') \<noteq> Some (Token creds)"
proof -
  obtain w' where "run_state (ensurePoller E cfg) w = (None, w')" "poller w' = poller w"
    using ensurePoller_run [OF assms(2)] assms(1,3) by (metis option.simps(9))
  with assms(1,4) show ?thesis by simp
qed

section \<open>Witnesses\<close>

text \<open>A clock that only sleeping moves.\<close>

fun slept :: "call list \<Rightarrow> int" where
  "slept [] = 0"
| "slept (Sleep d # h) = max 0 d + slept h"
| "slept (_ # h) = slept h"

lemma slept_laws: "clock_laws (demo_env\<lparr>clock := slept\<rparr>)"
proof -
  have "slept h \<le> slept (c # h)" for c h by (cases c) auto
  then show ?thesis by (simp add: clock_laws_def)
qed

theorem waitForBSLAvailable_returns_witness:
  "\<exists>r w'. run_state (waitForBSLAvailable (demo_env\<lparr>clock := slept\<rparr>) 47
       \<lparr>u_gvk = (''velero.io/v1'', ''BackupStorageLocation''), u_meta = meta0\<lparr>Name := ''bsl'', Namespace := ''velero''\<rparr>,
        u_Object = JObject []\<rparr> 0) demo_world = (Some r, w')
     \<and> length (hist w') \<le> 94"
  using waitForBSLAvailable_returns [OF slept_laws, of _ 0 demo_world] by (simp add: demo_world_def)

text \<open>A store, and a server on which it holds one key.\<close>

abbreviation demo_store :: IdempotencyStore where
  "demo_store \<equiv> \<lparr>is_Namespace = ''vworkspace-system'', is_Name = ''''\<rparr>"

definition one_key :: ConfigMap where
  "one_key = \<lparr>cfg_meta = meta0\<lparr>Name := DefaultIdempotencyConfigMap, Namespace := ''vworkspace-system''\<rparr>,
     cfg_Data = [idempotencyDataKey \<mapsto> ''[\"k1\"]'']\<rparr>"

theorem applied_keys_survive_restart_witness:
  "\<exists>w3. run_state (ensureLoaded (demo_env\<lparr>get_configmap := (\<lambda>_. Inr one_key)\<rparr>) demo_store) demo_world = (None, w3)
     \<and> set (cached w3) = {''k1''}"
proof -
  let ?E = "demo_env\<lparr>get_configmap := (\<lambda>_. Inr one_key)\<rparr>"
  let ?w = "demo_world\<lparr>applied_keys := Some []\<rparr>"
  have laws: "iteration_laws ?E" by (simp add: iteration_laws_def demo_env_def)
  have text_of: "marshal_keys [''k1''] = ''[\"k1\"]''" by code_simp
  have key: "TrimSpace ''k1'' = ''k1''" "valid_utf8 ''k1''" by code_simp+
  obtain w1 where run: "run_state (Idempotency_Record ?E demo_store ''k1'') ?w = (None, w1)"
    and stored: "hd (hist w1) = StoreConfigMap one_key"
    by (simp add: Idempotency_Record_def ensureLoaded_def persistLocked_def cached_def key go_run
        CreateOrUpdateConfigMap_def create_or_update_def demo_env_def text_of one_key_def store_name_def)
  have "applied_keys ?w = Some []" "proper_keys []" "TrimSpace ''k1'' \<notin> set []" "TrimSpace ''k1'' \<noteq> []"
      "valid_utf8 (TrimSpace ''k1'')"
    by (simp_all only: key) (simp_all add: proper_keys_def)
  note restart = applied_keys_survive_restart [OF laws this run, of demo_world]
  have "applied_keys demo_world = None" by (simp add: demo_world_def)
  with restart stored show ?thesis by (simp add: key(1))
qed

text \<open>A delete job.\<close>

definition demo_job_payload :: string where
  "demo_job_payload = ''{\"apiVersion\":\"v1\",\"kind\":\"Secret\",\"name\":\"s\",\"namespace\":\"ns\"}''"

definition delete_job :: Job where
  "delete_job = \<lparr>j_ID = ''job-1'', j_Kind = ''delete'', Payload = demo_job_payload, IdempotencyKey = ''k1'',
     CreatedAt = zero_time, ExpiresAt = zero_time, Signature = ''''\<rparr>"

abbreviation demo_applier :: Applier where
  "demo_applier \<equiv> \<lparr>ap_ClusterID = ''c1'', ap_Idempotency = Some demo_store\<rparr>"

lemma delete_job_payload:
  "unmarshal_payload ''decode delete payload: '' (Payload delete_job) objectReference_fields
     \<lparr>obr_APIVersion = '''', obr_Kind = '''', obr_Name = '''', obr_Namespace = ''''\<rparr>
   = Inr \<lparr>obr_APIVersion = ''v1'', obr_Kind = ''Secret'', obr_Name = ''s'', obr_Namespace = ''ns''\<rparr>"
  by code_simp

lemma delete_job_runs:
  obtains out w1 where "run_state (ApplyJob demo_env fuel demo_applier delete_job) demo_world = (Some (Inr out), w1)"
    and "Outcome (ao_Result out) = OutcomeSucceeded"
proof -
  have key: "TrimSpace ''k1'' = ''k1''" by code_simp
  have "\<exists>out w1. run_state (ApplyJob demo_env fuel demo_applier delete_job) demo_world = (Some (Inr out), w1)
      \<and> Outcome (ao_Result out) = OutcomeSucceeded"
    unfolding ApplyJob_def performJob_def deleteObject_def delete_job_payload seenBefore_def recordApplied_def
    by (simp add: delete_job_def Idempotency_Contains_def Idempotency_Record_def ensureLoaded_def persistLocked_def cached_def
        key go_run CreateOrUpdateConfigMap_def create_or_update_def demo_env_def demo_world_def job_result_def IsZero_def)
  with that show ?thesis by blast
qed

theorem redelivered_job_not_applied_witness:
  "\<exists>out w1 res w2. run_state (ApplyJob demo_env 0 demo_applier delete_job) demo_world = (Some (Inr out), w1)
     \<and> Outcome (ao_Result out) = OutcomeSucceeded
     \<and> run_state (ApplyJob demo_env 0 demo_applier delete_job) w1 = (Some (Inr res), w2)
     \<and> Outcome (ao_Result res) = OutcomeNoop"
proof -
  obtain out w1 where run: "run_state (ApplyJob demo_env 0 demo_applier delete_job) demo_world = (Some (Inr out), w1)"
    and outcome: "Outcome (ao_Result out) = OutcomeSucceeded" by (rule delete_job_runs)
  have "TrimSpace (IdempotencyKey delete_job) \<noteq> ''''" by code_simp
  from redelivered_job_not_applied [OF _ this run outcome refl] run outcome show ?thesis by fastforce
qed

abbreviation demo_client :: HTTPClient where
  "demo_client \<equiv> \<lparr>hc_baseURL = ''https://cp'', hc_clusterID = ''c1'', hc_token = ''t''\<rparr>"


text \<open>A registered cluster whose Secret holds a new token.\<close>

definition rotated_secret :: Secret where
  "rotated_secret = \<lparr>sec_meta = meta0\<lparr>Name := DefaultCredentialsSecret, Namespace := ''vworkspace-system''\<rparr>, sec_Type = ''Opaque'',
     sec_Data = [SecretKeyControlPlaneBaseURL \<mapsto> ''https://cp'', SecretKeyClusterID \<mapsto> ''c1'', SecretKeyToken \<mapsto> ''new'']\<rparr>"

definition registered_cluster :: Cluster where
  "registered_cluster =
     \<lparr>cl_meta = meta0\<lparr>Name := ''cluster'', Namespace := ''vworkspace-system''\<rparr>,
      cl_Spec = \<lparr>cs_ClusterID = ''c1'', ControlPlaneEndpoint = '''', ControlPlaneBaseURL = ''https://cp'',
        RegistrationTokenSecretRef = None, RegistrationToken = '''', Capabilities = None, RotateCredentials = False\<rparr>,
      cl_Status = \<lparr>cst_Phase = ClusterPhaseConnected, cst_Conditions = [], LastHeartbeat = None, CredentialStatus = None,
        CredentialsSecretRef = None, ObservedToken = ''''\<rparr>\<rparr>"

theorem rotated_token_not_picked_up_witness:
  "\<exists>w'. run_state (ensurePoller (demo_env\<lparr>list_clusters := (\<lambda>_. Inr [registered_cluster]), get_secret := (\<lambda>_. Inr rotated_secret)\<rparr>)
         \<lparr>rc_SecretNamespace = '''', rc_SecretName = '''', PollInterval = 0, rc_Idempotency = None,
         rc_EventBatcher = True\<rparr>)
       (demo_world\<lparr>poller := Some \<lparr>BaseURL = ''https://cp'', cr_ClusterID = ''c1'', Token = ''old''\<rparr>\<rparr>) = (None, w')
     \<and> map_option Token (poller w') \<noteq> Some ''new''"
proof -
  let ?E = "demo_env\<lparr>list_clusters := (\<lambda>_. Inr [registered_cluster]), get_secret := (\<lambda>_. Inr rotated_secret)\<rparr>"
  let ?cfg = "\<lparr>rc_SecretNamespace = '''', rc_SecretName = '''', PollInterval = 0, rc_Idempotency = None,
         rc_EventBatcher = True\<rparr>"
  let ?old = "\<lparr>BaseURL = ''https://cp'', cr_ClusterID = ''c1'', Token = ''old''\<rparr>"
  let ?new = "\<lparr>BaseURL = ''https://cp'', cr_ClusterID = ''c1'', Token = ''new''\<rparr>"
  have creds: "CredentialsFromSecret (Some rotated_secret) = Inr ?new" by code_simp
  have "stored_credentials ?E ?cfg (demo_world\<lparr>poller := Some ?old\<rparr>) ?new"
    unfolding stored_credentials_def
    by (simp add: creds resolveCredentialsTarget_def go_run demo_env_def registered_cluster_def being_deleted_def meta0_def TrimSpace_def)
  from rotated_token_not_picked_up [OF _ this] show ?thesis by simp
qed

end
