(* ===== verification/Cluster_Controller.thy ===== *)
theory Cluster_Controller
  imports Agent Operation_Controller
begin

text \<open>
  The Cluster controller (\<^verbatim>\<open>internal/controller/cluster_controller.go\<close>): the exchange of the
  registration token for credentials, their rotation, and the heartbeat that sets the connectivity
  conditions. The Cluster that the Go code changes through a pointer is passed along; a function
  whose caller goes on with the changed Cluster returns it.

  The reporter and the overflow state are those of the one event buffer that \<^verbatim>\<open>cmd/main.go\<close> makes.
  \<^verbatim>\<open>retry.RetryOnConflict\<close> of client-go is a parameter, described by \<open>retry_laws\<close>. Metrics and logging
  are left out.
\<close>

section \<open>Retrying on conflicts\<close>

text \<open>
  At most \<open>n\<close> more attempts, each made only when the one before ended in a conflict.
\<close>

fun attempts :: "nat \<Rightarrow> go_error option prog \<Rightarrow> go_error option prog" where
  "attempts 0 fn = fn"
| "attempts (Suc n) fn = do {
     err \<leftarrow> fn;
     case err of
       None \<Rightarrow> State_Monad.return None
     | Some err \<Rightarrow> if IsConflictErr err then attempts n fn else State_Monad.return (Some err)
   }"

definition retry_laws :: "(go_error option prog \<Rightarrow> go_error option prog) \<Rightarrow> bool" where
  "retry_laws retry \<longleftrightarrow> (\<forall>fn w. \<exists>n. run_state (retry fn) w = run_state (attempts n fn) w)"

section \<open>The reconciler\<close>

record ClusterReconciler =
  rec_AgentClient :: "AgentClient option"
  RegistrationClient :: "(string \<Rightarrow> string \<Rightarrow> string \<Rightarrow> RegisterResponse result prog) option"
  CredentialsSecret :: string
  OperatorNamespace :: string
  Recorder :: bool
  RetryOnConflict :: "go_error option prog \<Rightarrow> go_error option prog"

definition credentialsSecretName :: "ClusterReconciler \<Rightarrow> string" where
  "credentialsSecretName r =
     (if TrimSpace (CredentialsSecret r) \<noteq> '''' then CredentialsSecret r else DefaultCredentialsSecret)"

definition operatorNamespace :: "env \<Rightarrow> ClusterReconciler \<Rightarrow> string" where
  "operatorNamespace E r =
     (if TrimSpace (OperatorNamespace r) \<noteq> '''' then OperatorNamespace r
      else if Getenv E ''POD_NAMESPACE'' \<noteq> '''' then Getenv E ''POD_NAMESPACE''
      else ''vworkspace-system'')"

definition controlPlaneEndpoint :: "Cluster \<Rightarrow> string" where
  "controlPlaneEndpoint cluster =
     (let endpoint = TrimSpace (ControlPlaneEndpoint (cl_Spec cluster)) in
      if endpoint \<noteq> '''' then endpoint else TrimSpace (ControlPlaneBaseURL (cl_Spec cluster)))"

definition reRegisterRequested :: "Cluster \<Rightarrow> bool" where
  "reRegisterRequested cluster =
     (let v = TrimSpace (go_get (Annotations (cl_meta cluster)) ClusterReRegisterAnnotation) in
      if v = '''' then False else ToLower v \<noteq> ''false'')"

definition tokenFingerprint :: "string \<Rightarrow> string" where
  "tokenFingerprint token = take 16 (hex_EncodeToString (sha256 token))"

definition loadStoredCredentials :: "env \<Rightarrow> string \<Rightarrow> string \<Rightarrow> Credentials result prog" where
  "loadStoredCredentials E ns secretName = do {
     secret \<leftarrow> GetCredentialsSecret E ns secretName;
     State_Monad.return
       (case secret of
          Inl err \<Rightarrow> Inl err
        | Inr None \<Rightarrow> Inl (Errorf ''credentials secret not found'')
        | Inr (Some secret) \<Rightarrow> CredentialsFromSecret (Some secret))
   }"

abbreviation tokenSourceSecret :: string where "tokenSourceSecret \<equiv> ''secret''"
abbreviation tokenSourceInline :: string where "tokenSourceInline \<equiv> ''inline''"

definition resolveRegistrationToken :: "env \<Rightarrow> Cluster \<Rightarrow> string \<Rightarrow> (string \<times> string) result prog" where
  "resolveRegistrationToken E cluster ns =
     (case RegistrationTokenSecretRef (cl_Spec cluster) of
        Some ref \<Rightarrow>
          if TrimSpace (skr_Name ref) = ''''
          then State_Monad.return (Inl (Errorf ''registrationTokenSecretRef.name must not be empty''))
          else
            (let key = (if TrimSpace (skr_Key ref) = '''' then DefaultRegistrationTokenKey else TrimSpace (skr_Key ref));
                 what = ''registration token secret '' @ ns @ ''/'' @ skr_Name ref in do {
             secret \<leftarrow> ask (get_secret E) (GetSecret ns (TrimSpace (skr_Name ref)));
             State_Monad.return
               (case secret of
                  Inl err \<Rightarrow>
                    if IsNotFound err then Inl (Errorf (what @ '' not found''))
                    else Inl (Wrapf (''get '' @ what @ '': '') err [])
                | Inr secret \<Rightarrow>
                    (let tok = TrimSpace (go_get (sec_Data secret) key) in
                     if tok = '''' then Inl (Errorf (what @ '' has no value for key '' @ Quote key))
                     else Inr (tok, tokenSourceSecret)))
           })
      | None \<Rightarrow>
          (let tok = TrimSpace (RegistrationToken (cl_Spec cluster)) in
           State_Monad.return (if tok \<noteq> '''' then Inr (tok, tokenSourceInline) else Inr ('''', ''''))))"

section \<open>Status writes\<close>

abbreviation cluster_conditions :: "Cluster \<Rightarrow> Condition list" where
  "cluster_conditions cluster \<equiv> cst_Conditions (cl_Status cluster)"

definition set_condition ::
  "time \<Rightarrow> string \<Rightarrow> string \<Rightarrow> string \<Rightarrow> string \<Rightarrow> ClusterStatus \<Rightarrow> ClusterStatus" where
  "set_condition now typ status reason message st =
     st\<lparr>cst_Conditions := Set (cst_Conditions st) typ status reason message now\<rparr>"

definition overflow_condition :: "time \<Rightarrow> EventBatcher option \<Rightarrow> ClusterStatus \<Rightarrow> ClusterStatus" where
  "overflow_condition now eb st =
     (case eb of
        None \<Rightarrow> st
      | Some b \<Rightarrow>
          (let (active, dropped) = OverflowState b in
           if active \<and> dropped > 0
           then set_condition now ConditionBufferOverflow ConditionTrue ''EventBufferFull'' (BufferOverflowMessage dropped) st
           else set_condition now ConditionBufferOverflow ConditionFalse ''BufferDrained''
                  ''Outbound event buffer has drained successfully'' st))"

definition syncBufferOverflowCondition :: "env \<Rightarrow> Cluster \<Rightarrow> Cluster prog" where
  "syncBufferOverflowCondition E cluster = do {
     eb \<leftarrow> peek batcher;
     now \<leftarrow> Now E;
     State_Monad.return (cluster\<lparr>cl_Status := overflow_condition now eb (cl_Status cluster)\<rparr>)
   }"

definition cluster_ref :: "Cluster \<Rightarrow> AppliedRef" where
  "cluster_ref cluster = ResourceRefFromMeta (ops_GroupVersion, ''Cluster'') (cl_meta cluster)"

definition report_conditions :: "env \<Rightarrow> Cluster \<Rightarrow> Condition list \<Rightarrow> unit prog" where
  "report_conditions E cluster prev = report E (cluster_ref cluster) prev (cluster_conditions cluster) None"

text \<open>
  The end of every branch that writes the status: the overflow condition, the write, the report.
\<close>

definition finish_status :: "env \<Rightarrow> string \<Rightarrow> Cluster \<Rightarrow> Condition list \<Rightarrow> int \<Rightarrow> reconciled prog" where
  "finish_status E what cluster prev after = do {
     cluster \<leftarrow> syncBufferOverflowCondition E cluster;
     res \<leftarrow> ask (write_result E) (UpdateClusterStatus cluster);
     case res of
       Some err \<Rightarrow> State_Monad.return (no_requeue, Some (Wrapf what err []))
     | None \<Rightarrow> do {
         _ \<leftarrow> report_conditions E cluster prev;
         State_Monad.return (requeue_after after, None)
       }
   }"

section \<open>Registration\<close>

definition registered_status :: "time \<Rightarrow> time \<Rightarrow> string \<Rightarrow> string \<Rightarrow> string \<Rightarrow> ClusterStatus \<Rightarrow> ClusterStatus" where
  "registered_status registeredAt now fingerprint secretName ns st =
     set_condition now ConditionConnected ConditionTrue ''ControlPlaneReachable'' ''registration exchange succeeded''
       (set_condition now ConditionAuthenticated ConditionTrue ''RegistrationComplete''
          ''registration token exchanged for bootstrap credential''
          (st\<lparr>cst_Phase := ClusterPhaseRegistering, ObservedToken := fingerprint,
              CredentialsSecretRef := Some \<lparr>sr_Name = secretName, sr_Namespace = ns\<rparr>,
              CredentialStatus := Some \<lparr>SecretName = secretName, SecretNamespace = ns,
                RegisteredAt = Some registeredAt, RegistrationTokenConsumed = True\<rparr>\<rparr>))"

text \<open>The spec and the annotations after a successful exchange, and whether they changed.\<close>

definition registered_spec :: "string \<Rightarrow> string \<Rightarrow> Cluster \<Rightarrow> Cluster \<times> bool" where
  "registered_spec clusterID tokenSource cluster =
     (let new_id = TrimSpace (cs_ClusterID (cl_Spec cluster)) = '''';
          cluster1 = (if new_id then cluster\<lparr>cl_Spec := (cl_Spec cluster)\<lparr>cs_ClusterID := clusterID\<rparr>\<rparr> else cluster);
          clear = (tokenSource = tokenSourceInline \<and> RegistrationToken (cl_Spec cluster1) \<noteq> '''');
          cluster2 = (if clear then cluster1\<lparr>cl_Spec := (cl_Spec cluster1)\<lparr>RegistrationToken := ''''\<rparr>\<rparr> else cluster1);
          forced = reRegisterRequested cluster2;
          cluster3 = (if forced then cluster2\<lparr>cl_meta := (cl_meta cluster2)
              \<lparr>Annotations := (Annotations (cl_meta cluster2))(ClusterReRegisterAnnotation := None)\<rparr>\<rparr> else cluster2)
      in (cluster3, new_id \<or> clear \<or> forced))"

definition recordRegistration :: "env \<Rightarrow> Cluster \<Rightarrow> (time \<Rightarrow> ClusterStatus \<Rightarrow> ClusterStatus) \<Rightarrow> string \<Rightarrow> go_error option prog" where
  "recordRegistration E cluster status what = do {
     fresh \<leftarrow> ask (get_cluster E) (GetCluster (Namespace (cl_meta cluster)) (Name (cl_meta cluster)));
     case fresh of
       Inl err \<Rightarrow> State_Monad.return (Some (Wrapf what err []))
     | Inr fresh \<Rightarrow> do {
         now \<leftarrow> Now E;
         ask (write_result E) (UpdateClusterStatus (fresh\<lparr>cl_Status := status now (cl_Status fresh)\<rparr>))
       }
   }"

definition registerCluster ::
  "env \<Rightarrow> ClusterReconciler \<Rightarrow> Cluster \<Rightarrow> string \<Rightarrow> string \<Rightarrow> string \<Rightarrow> string \<Rightarrow> (go_error option \<times> Cluster) prog" where
  "registerCluster E r cluster token tokenSource secretName ns =
     (let baseURL = controlPlaneEndpoint cluster in
      if baseURL = '''' then State_Monad.return (Some (Errorf
        ''spec.controlPlaneEndpoint (or the deprecated spec.controlPlaneBaseUrl) is required for registration''), cluster)
      else do {
        resp \<leftarrow> (case RegistrationClient r of None \<Rightarrow> Register E | Some reg \<Rightarrow> reg) baseURL token (cs_ClusterID (cl_Spec cluster));
        case resp of
          Inl err \<Rightarrow> State_Monad.return (Some err, cluster)
        | Inr resp \<Rightarrow> do {
            err \<leftarrow> PersistCredentials E ns secretName
              \<lparr>BaseURL = baseURL, cr_ClusterID = rsp_ClusterID resp, Token = rsp_Token resp\<rparr> (Some (cl_meta cluster));
            case err of
              Some err \<Rightarrow> State_Monad.return (Some err, cluster)
            | None \<Rightarrow> do {
                registeredAt \<leftarrow> Now E;
                let (cluster, specChanged) = registered_spec (rsp_ClusterID resp) tokenSource cluster;
                err \<leftarrow> (if specChanged then ask (write_result E) (UpdateCluster cluster) else State_Monad.return None);
                case err of
                  Some err \<Rightarrow> State_Monad.return (Some (Wrapf ''persist post-registration spec: '' err []), cluster)
                | None \<Rightarrow> do {
                    err \<leftarrow> RetryOnConflict r (recordRegistration E cluster
                      (\<lambda>now. registered_status registeredAt now (tokenFingerprint token) secretName ns)
                      ''reload cluster after registration: '');
                    State_Monad.return (err, cluster)
                  }
              }
          }
      })"

definition adopted_status :: "string \<Rightarrow> string \<Rightarrow> string \<Rightarrow> time \<Rightarrow> ClusterStatus \<Rightarrow> ClusterStatus" where
  "adopted_status fingerprint secretName ns now st =
     (let st = st\<lparr>ObservedToken := fingerprint,
                  CredentialsSecretRef :=
                    (case CredentialsSecretRef st of
                       None \<Rightarrow> Some \<lparr>sr_Name = secretName, sr_Namespace = ns\<rparr>
                     | Some ref \<Rightarrow> Some ref)\<rparr> in
      st\<lparr>CredentialStatus := Some
           (case CredentialStatus st of
              None \<Rightarrow> \<lparr>SecretName = secretName, SecretNamespace = ns, RegisteredAt = Some now,
                       RegistrationTokenConsumed = True\<rparr>
            | Some cs \<Rightarrow> cs\<lparr>RegistrationTokenConsumed := True\<rparr>)\<rparr>)"

definition adoptExistingRegistration ::
  "env \<Rightarrow> ClusterReconciler \<Rightarrow> Cluster \<Rightarrow> string \<Rightarrow> string \<Rightarrow> string \<Rightarrow> go_error option prog" where
  "adoptExistingRegistration E r cluster fingerprint secretName ns =
     RetryOnConflict r (recordRegistration E cluster (adopted_status fingerprint secretName ns)
       ''reload cluster for adoption: '')"

text \<open>
  The steps of \<^verbatim>\<open>Reconcile\<close> either stop it with its result, \<open>Inl\<close>, or let it go on, \<open>Inr\<close>.
\<close>

definition reload_cluster :: "env \<Rightarrow> string \<Rightarrow> string \<Rightarrow> string \<Rightarrow> (reconciled + Cluster) prog" where
  "reload_cluster E what ns name = do {
     cluster \<leftarrow> ask (get_cluster E) (GetCluster ns name);
     State_Monad.return
       (case cluster of
          Inl err \<Rightarrow> Inl (no_requeue, Some (Wrapf what err []))
        | Inr cluster \<Rightarrow> Inr cluster)
   }"

definition adopt_and_reload ::
  "env \<Rightarrow> ClusterReconciler \<Rightarrow> string \<times> string \<Rightarrow> Cluster \<Rightarrow> string \<Rightarrow> string \<Rightarrow> string \<Rightarrow> (reconciled + Cluster) prog" where
  "adopt_and_reload E r req cluster token secretName ns = do {
     err \<leftarrow> adoptExistingRegistration E r cluster (tokenFingerprint token) secretName ns;
     case err of
       Some err \<Rightarrow> State_Monad.return (Inl (no_requeue, Some err))
     | None \<Rightarrow> reload_cluster E ''reload cluster after adoption: '' (fst req) (snd req)
   }"

definition registration_failed_status :: "time \<Rightarrow> go_error \<Rightarrow> ClusterStatus \<Rightarrow> ClusterStatus" where
  "registration_failed_status now err st =
     set_condition now ConditionConnected ConditionFalse ''RegistrationPending'' ''registration token exchange failed''
       (set_condition now ConditionAuthenticated ConditionFalse ''RegistrationFailed'' (Error err)
          (st\<lparr>cst_Phase := ClusterPhaseError\<rparr>))"

text \<open>Whether valid credentials are stored; not asked when a new registration is forced.\<close>

definition already_registered :: "env \<Rightarrow> bool \<Rightarrow> string \<Rightarrow> string \<Rightarrow> bool prog" where
  "already_registered E forceReRegister ns secretName =
     (if forceReRegister then State_Monad.return False
      else do {
        creds \<leftarrow> loadStoredCredentials E ns secretName;
        State_Monad.return (case creds of Inl _ \<Rightarrow> False | Inr _ \<Rightarrow> True)
      })"

text \<open>Registering with a resolved token: \<^verbatim>\<open>reconcileRegistration\<close> after the resolution.\<close>

definition exchange_token ::
  "env \<Rightarrow> ClusterReconciler \<Rightarrow> string \<times> string \<Rightarrow> Cluster \<Rightarrow> string \<Rightarrow> string \<Rightarrow> string \<Rightarrow> string \<Rightarrow>
   (reconciled + Cluster) prog" where
  "exchange_token E r req cluster token tokenSource secretName ns =
     (let prev = cluster_conditions cluster; forceReRegister = reRegisterRequested cluster in
      if token = '''' \<or> tokenFingerprint token = ObservedToken (cl_Status cluster) \<and> \<not> forceReRegister
      then State_Monad.return (Inr cluster)
      else do {
        stored \<leftarrow> already_registered E forceReRegister ns secretName;
        if stored then adopt_and_reload E r req cluster token secretName ns
        else do {
          (err, cluster) \<leftarrow> registerCluster E r cluster token tokenSource secretName ns;
          case err of
            None \<Rightarrow> do {
              _ \<leftarrow> (if tokenSource = tokenSourceInline \<and> Recorder r
                   then ask (\<lambda>_. ()) (RecordEvent ''Warning'' ''DeprecatedField''
                     ''spec.registrationToken is deprecated; store the token in a Secret and use spec.registrationTokenSecretRef'')
                   else State_Monad.return ());
              reload_cluster E ''reload cluster after registration: '' (fst req) (snd req)
            }
          | Some err \<Rightarrow> do {
              stored \<leftarrow> already_registered E forceReRegister ns secretName;
              if stored then adopt_and_reload E r req cluster token secretName ns
              else do {
                now \<leftarrow> Now E;
                res \<leftarrow> finish_status E ''update registration failure status: ''
                  (cluster\<lparr>cl_Status := registration_failed_status now err (cl_Status cluster)\<rparr>) prev 30;
                State_Monad.return (Inl res)
              }
            }
        }
      })"

definition token_missing_status :: "time \<Rightarrow> go_error \<Rightarrow> ClusterStatus \<Rightarrow> ClusterStatus" where
  "token_missing_status now err st =
     set_condition now ConditionConnected ConditionFalse ''RegistrationPending''
       ''registration token is not yet resolvable''
       (set_condition now ConditionAuthenticated ConditionFalse ''TokenSecretMissing'' (Error err)
          (st\<lparr>cst_Phase := ClusterPhasePending\<rparr>))"

definition reconcileRegistration ::
  "env \<Rightarrow> ClusterReconciler \<Rightarrow> string \<times> string \<Rightarrow> Cluster \<Rightarrow> string \<Rightarrow> string \<Rightarrow> (reconciled + Cluster) prog" where
  "reconcileRegistration E r req cluster secretName ns = do {
     token \<leftarrow> resolveRegistrationToken E cluster ns;
     case token of
       Inr (token, tokenSource) \<Rightarrow> exchange_token E r req cluster token tokenSource secretName ns
     | Inl err \<Rightarrow> do {
         creds \<leftarrow> loadStoredCredentials E ns secretName;
         case creds of
           Inr _ \<Rightarrow> exchange_token E r req cluster '''' '''' secretName ns
         | Inl _ \<Rightarrow> do {
             now \<leftarrow> Now E;
             res \<leftarrow> finish_status E ''update pending status: ''
               (cluster\<lparr>cl_Status := token_missing_status now err (cl_Status cluster)\<rparr>) (cluster_conditions cluster) 30;
             State_Monad.return (Inl res)
           }
       }
   }"

section \<open>Rotation\<close>

definition rotateCredentials ::
  "env \<Rightarrow> ClusterReconciler \<Rightarrow> Cluster \<Rightarrow> string \<Rightarrow> string \<Rightarrow> (go_error option \<times> Cluster) prog" where
  "rotateCredentials E r cluster secretName ns = do {
     creds \<leftarrow> loadStoredCredentials E ns secretName;
     case creds of
       Inl err \<Rightarrow> State_Monad.return (Some (Wrapf ''load stored credentials: '' err []), cluster)
     | Inr creds \<Rightarrow>
         (case (case rec_AgentClient r of Some c \<Rightarrow> Inr c | None \<Rightarrow> map_sum id (http_client E) (NewHTTPClient creds)) of
            Inl err \<Rightarrow> State_Monad.return (Some (Wrapf ''configure rotate client: '' err []), cluster)
          | Inr rotateClient \<Rightarrow> do {
              resp \<leftarrow> Client_RotateCredentials rotateClient;
              case resp of
                Inl err \<Rightarrow> State_Monad.return (Some err, cluster)
              | Inr resp \<Rightarrow> do {
                  err \<leftarrow> PersistCredentials E ns secretName (creds\<lparr>Token := rot_Token resp\<rparr>) (Some (cl_meta cluster));
                  case err of
                    Some err \<Rightarrow> State_Monad.return (Some err, cluster)
                  | None \<Rightarrow>
                      (let cluster = cluster\<lparr>cl_Spec := (cl_Spec cluster)\<lparr>RotateCredentials := False\<rparr>\<rparr> in do {
                       err \<leftarrow> ask (write_result E) (UpdateCluster cluster);
                       case err of
                         Some err \<Rightarrow> State_Monad.return (Some (Wrapf ''clear rotate credentials flag: '' err []), cluster)
                       | None \<Rightarrow> do {
                           now \<leftarrow> Now E;
                           _ \<leftarrow> poke (batcher_update (ReportAudit now (cluster_ref cluster) ''CredentialRotated''
                             [\<lparr>c_Type = ConditionAuthenticated, c_Status = ConditionTrue, c_Reason = ''CredentialRotated'',
                               c_Message = ''Bootstrap credential rotated successfully'', LastTransitionTime = zero_time\<rparr>]));
                           State_Monad.return (None, cluster)
                         }
                     })
                }
            })
   }"

definition rotation_failed_status :: "time \<Rightarrow> go_error \<Rightarrow> ClusterStatus \<Rightarrow> ClusterStatus" where
  "rotation_failed_status now err st =
     set_condition now ConditionAuthenticated ConditionFalse ''RotationFailed'' (Error err)
       (st\<lparr>cst_Phase := ClusterPhaseError\<rparr>)"

definition reconcileRotation ::
  "env \<Rightarrow> ClusterReconciler \<Rightarrow> string \<times> string \<Rightarrow> Cluster \<Rightarrow> string \<Rightarrow> string \<Rightarrow> (reconciled + Cluster) prog" where
  "reconcileRotation E r req cluster secretName ns =
     (if \<not> RotateCredentials (cl_Spec cluster) then State_Monad.return (Inr cluster)
      else do {
        (err, cluster') \<leftarrow> rotateCredentials E r cluster secretName ns;
        case err of
          None \<Rightarrow> reload_cluster E ''reload cluster after rotation: '' (fst req) (snd req)
        | Some err \<Rightarrow> do {
            now \<leftarrow> Now E;
            res \<leftarrow> finish_status E ''update rotation failure status: ''
              (cluster'\<lparr>cl_Status := rotation_failed_status now err (cl_Status cluster')\<rparr>) (cluster_conditions cluster) 60;
            State_Monad.return (Inl res)
          }
      })"

section \<open>Heartbeat\<close>

definition credential_missing_status :: "time \<Rightarrow> ClusterStatus \<Rightarrow> ClusterStatus" where
  "credential_missing_status now st =
     set_condition now ConditionAuthenticated ConditionFalse ''CredentialMissing'' ''bootstrap credential is not available''
       (set_condition now ConditionConnected ConditionFalse ''CredentialMissing'' ''bootstrap credential is not available''
          (st\<lparr>cst_Phase := ClusterPhasePending\<rparr>))"

definition unreachable_status :: "time \<Rightarrow> go_error \<Rightarrow> ClusterStatus \<Rightarrow> ClusterStatus" where
  "unreachable_status now err st =
     set_condition now ConditionAuthenticated ConditionFalse ''ControlPlaneAuthenticationFailed'' (Error err)
       (set_condition now ConditionDisconnected ConditionTrue ''NoRecentRoundTrip'' (Error err)
          (set_condition now ConditionConnected ConditionFalse ''ControlPlaneUnreachable'' (Error err)
             (st\<lparr>cst_Phase := ClusterPhaseDisconnected\<rparr>)))"

definition connected_status :: "time \<Rightarrow> ClusterStatus \<Rightarrow> ClusterStatus" where
  "connected_status now st =
     set_condition now ConditionAuthenticated ConditionTrue ''CredentialAccepted'' ''Bearer token accepted''
       (set_condition now ConditionDisconnected ConditionFalse ''Connected'' ''Connection is alive''
          (set_condition now ConditionConnected ConditionTrue ''RoundTripOK''
             ''Recent round-trip to the control plane succeeded''
             (st\<lparr>LastHeartbeat := Some now, cst_Phase := ClusterPhaseConnected\<rparr>)))"

text \<open>
  The client of the heartbeat: none when no credentials are stored. A client that could not be
  configured is a nil pointer inside a non-nil interface, \<open>Inl\<close>; calling it panics.
\<close>

definition heartbeat_client :: "env \<Rightarrow> ClusterReconciler \<Rightarrow> string \<Rightarrow> string \<Rightarrow> AgentClient option result prog" where
  "heartbeat_client E r secretName ns =
     (case rec_AgentClient r of
        Some c \<Rightarrow> State_Monad.return (Inr (Some c))
      | None \<Rightarrow> do {
          creds \<leftarrow> loadStoredCredentials E ns secretName;
          State_Monad.return
            (case creds of
               Inl _ \<Rightarrow> Inr None
             | Inr creds \<Rightarrow>
                 (case NewHTTPClient creds of Inl _ \<Rightarrow> Inl nil_dereference | Inr c \<Rightarrow> Inr (Some (http_client E c))))
        })"

definition reconcileHeartbeat :: "env \<Rightarrow> ClusterReconciler \<Rightarrow> Cluster \<Rightarrow> string \<Rightarrow> string \<Rightarrow> reconciled prog" where
  "reconcileHeartbeat E r cluster secretName ns = do {
     let prev = cluster_conditions cluster;
     client \<leftarrow> heartbeat_client E r secretName ns;
     case client of
       Inl err \<Rightarrow> State_Monad.return (no_requeue, Some err)
     | Inr None \<Rightarrow> do {
         now \<leftarrow> Now E;
         finish_status E ''update disconnected status: ''
           (cluster\<lparr>cl_Status := credential_missing_status now (cl_Status cluster)\<rparr>) prev 60
       }
     | Inr (Some client) \<Rightarrow> do {
         err \<leftarrow> Heartbeat client;
         now \<leftarrow> Now E;
         finish_status E ''update cluster status: ''
           (cluster\<lparr>cl_Status :=
              (case err of
                 Some err \<Rightarrow> unreachable_status now err (cl_Status cluster)
               | None \<Rightarrow> connected_status now (cl_Status cluster))\<rparr>) prev 60
       }
   }"

section \<open>Finalization and the whole reconcile\<close>

definition finalizeCluster :: "env \<Rightarrow> Cluster \<Rightarrow> reconciled prog" where
  "finalizeCluster E cluster =
     (if \<not> ContainsFinalizer E (cl_meta cluster) ClusterFinalizer then State_Monad.return (no_requeue, None)
      else
        (let terminating = (cst_Phase (cl_Status cluster) \<noteq> ClusterPhaseTerminating);
             cluster = (if terminating then cluster\<lparr>cl_Status := (cl_Status cluster)\<lparr>cst_Phase := ClusterPhaseTerminating\<rparr>\<rparr>
                        else cluster) in do {
         err \<leftarrow> (if terminating then ask (write_result E) (UpdateClusterStatus cluster) else State_Monad.return None);
         case err of
           Some err \<Rightarrow> State_Monad.return (no_requeue, Some (Wrapf ''update terminating status: '' err []))
         | None \<Rightarrow> do {
             err \<leftarrow> ask (write_result E)
               (UpdateCluster (cluster\<lparr>cl_meta := RemoveFinalizer E (cl_meta cluster) ClusterFinalizer\<rparr>));
             State_Monad.return (no_requeue, map_option (\<lambda>err. Wrapf ''remove finalizer: '' err []) err)
           }
       }))"

definition reconcileLive :: "env \<Rightarrow> ClusterReconciler \<Rightarrow> string \<times> string \<Rightarrow> Cluster \<Rightarrow> reconciled prog" where
  "reconcileLive E r req cluster =
     (let secretName = credentialsSecretName r; ns = operatorNamespace E r in do {
      step \<leftarrow> reconcileRegistration E r req cluster secretName ns;
      case step of
        Inl res \<Rightarrow> State_Monad.return res
      | Inr cluster \<Rightarrow> do {
          step \<leftarrow> reconcileRotation E r req cluster secretName ns;
          case step of
            Inl res \<Rightarrow> State_Monad.return res
          | Inr cluster \<Rightarrow> reconcileHeartbeat E r cluster secretName ns
        }
    })"

definition Cluster_Reconcile :: "env \<Rightarrow> ClusterReconciler \<Rightarrow> string \<Rightarrow> string \<Rightarrow> reconciled prog" where
  "Cluster_Reconcile E r ns name = do {
     got \<leftarrow> ask (get_cluster E) (GetCluster ns name);
     case got of
       Inl err \<Rightarrow> State_Monad.return (no_requeue, if IsNotFound err then None else Some err)
     | Inr cluster \<Rightarrow>
         if being_deleted (cl_meta cluster) then finalizeCluster E cluster
         else if ContainsFinalizer E (cl_meta cluster) ClusterFinalizer then reconcileLive E r (ns, name) cluster
         else do {
           let cluster = cluster\<lparr>cl_meta := AddFinalizer E (cl_meta cluster) ClusterFinalizer\<rparr>;
           err \<leftarrow> ask (write_result E) (UpdateCluster cluster);
           case err of
             Some err \<Rightarrow> State_Monad.return (no_requeue, Some (Wrapf ''add finalizer: '' err []))
           | None \<Rightarrow> reconcileLive E r (ns, name) cluster
         }
   }"

section \<open>The requests of a reconcile\<close>

text \<open>\<open>yields Q m\<close>: whatever the program \<open>m\<close> returns satisfies \<open>Q\<close>.\<close>

named_theorems yields_rules "what programs return"

definition yields :: "('a \<Rightarrow> bool) \<Rightarrow> 'a prog \<Rightarrow> bool" where
  "yields Q m \<longleftrightarrow> (\<forall>w. Q (fst (run_state m w)))"

lemma yieldsD: "yields Q m \<Longrightarrow> run_state m w = (a, w') \<Longrightarrow> Q a"
  unfolding yields_def by (metis fst_conv)

lemma yields_return [yields_rules]: "Q a \<Longrightarrow> yields Q (State_Monad.return a)"
  by (simp add: yields_def)

lemma yields_bind [yields_rules]: "(\<And>a. yields Q (f a)) \<Longrightarrow> yields Q (State_Monad.bind m f)"
  by (simp add: yields_def go_run split: prod.split)

lemma yields_then: "yields R m \<Longrightarrow> (\<And>a. R a \<Longrightarrow> yields Q (f a)) \<Longrightarrow> yields Q (State_Monad.bind m f)"
  by (simp add: yields_def go_run split: prod.split) (metis fst_conv)

lemma yields_ask: "(\<And>h. Q (f h)) \<Longrightarrow> yields Q (ask f c)"
  by (simp add: yields_def go_run)

lemma yields_if [yields_rules]:
  "(b \<Longrightarrow> yields Q m) \<Longrightarrow> (\<not> b \<Longrightarrow> yields Q m') \<Longrightarrow> yields Q (if b then m else m')"
  by simp

lemma yields_sum [yields_rules]:
  "(\<And>e. s = Inl e \<Longrightarrow> yields Q (f e)) \<Longrightarrow> (\<And>a. s = Inr a \<Longrightarrow> yields Q (g a)) \<Longrightarrow>
   yields Q (case s of Inl e \<Rightarrow> f e | Inr a \<Rightarrow> g a)"
  by (cases s) auto

lemma yields_option [yields_rules]:
  "(s = None \<Longrightarrow> yields Q m) \<Longrightarrow> (\<And>a. s = Some a \<Longrightarrow> yields Q (g a)) \<Longrightarrow>
   yields Q (case s of None \<Rightarrow> m | Some a \<Rightarrow> g a)"
  by (cases s) auto

lemma yields_prod [yields_rules]:
  "(\<And>a b. p = (a, b) \<Longrightarrow> yields Q (f a b)) \<Longrightarrow> yields Q (case p of (a, b) \<Rightarrow> f a b)"
  by (cases p) auto

lemma yields_let [yields_rules]: "yields Q (f a) \<Longrightarrow> yields Q (let x = a in f x)"
  by simp

lemma emits_let [emits_rules]: "emits P (f a) w \<Longrightarrow> emits P (let x = a in f x) w"
  by simp

lemma emits_attempts: "(\<And>w. emits P fn w) \<Longrightarrow> emits P (attempts n fn) w"
  by (induction n arbitrary: w) (auto intro!: emits_rules)

lemma emits_RetryOnConflict:
  assumes "retry_laws (RetryOnConflict r)" and "\<And>w. emits P fn w"
  shows "emits P (RetryOnConflict r fn) w"
proof -
  obtain n where "run_state (RetryOnConflict r fn) w = run_state (attempts n fn) w"
    using assms(1) unfolding retry_laws_def by blast
  with emits_attempts [OF assms(2), of n w] show ?thesis by (simp add: emits_def wp_def)
qed

lemma registered_spec_status:
  "(cluster', changed) = registered_spec clusterID tokenSource cluster \<Longrightarrow> cl_Status cluster' = cl_Status cluster"
  "registered_spec clusterID tokenSource cluster = (cluster', changed) \<Longrightarrow> cl_Status cluster' = cl_Status cluster"
  by (auto simp: registered_spec_def Let_def)

lemma yields_registerCluster:
  "yields (\<lambda>(err, cluster'). cl_Status cluster' = cl_Status cluster) (registerCluster E r cluster token tokenSource secretName ns)"
  unfolding registerCluster_def
  by (intro yields_rules) (auto dest: registered_spec_status)

lemma yields_rotateCredentials:
  "yields (\<lambda>(err, cluster'). cl_Status cluster' = cl_Status cluster) (rotateCredentials E r cluster secretName ns)"
  unfolding rotateCredentials_def by (intro yields_rules) auto

lemma credentialsSecretName_nonempty [simp]: "credentialsSecretName r \<noteq> ''''"
  by (auto simp: credentialsSecretName_def)

definition cluster_phases :: "string list" where
  "cluster_phases = [ClusterPhasePending, ClusterPhaseRegistering, ClusterPhaseConnected, ClusterPhaseDisconnected,
     ClusterPhaseError, ClusterPhaseTerminating]"

definition is_registration :: "call \<Rightarrow> bool" where
  "is_registration c = (case c of HttpDo req \<Rightarrow> (case http_Body req of RegisterBody _ \<Rightarrow> True | _ \<Rightarrow> False) | _ \<Rightarrow> False)"

text \<open>
  The requests of a reconcile satisfy \<open>P\<close> when \<open>P\<close> admits the reads, the Secrets, requests to the
  control plane other than registrations, and the writes of clusters whose status satisfies \<open>T\<close>,
  a property that the status updates of the controller keep.
\<close>

locale cluster_writes =
  fixes P :: "call \<Rightarrow> bool" and T :: "ClusterStatus \<Rightarrow> bool"
  assumes reads: "P (GetCluster a b)" "P (GetSecret a b)" "P (LoadSecret s)" "P (StoreSecret s)" "P (RecordEvent a b d)"
    and http: "\<not> is_registration (HttpDo req) \<Longrightarrow> P (HttpDo req)"
    and writes: "T (cl_Status c) \<Longrightarrow> P (UpdateCluster c)" "T (cl_Status c) \<Longrightarrow> P (UpdateClusterStatus c)"
    and condition: "T st \<Longrightarrow> T (set_condition now typ status reason message st)"
    and phase: "T st \<Longrightarrow> p \<in> set cluster_phases \<Longrightarrow> T (st\<lparr>cst_Phase := p\<rparr>)"
    and other: "T st \<Longrightarrow> T (st\<lparr>LastHeartbeat := hb\<rparr>)" "T st \<Longrightarrow> T (st\<lparr>CredentialStatus := cs\<rparr>)"
      "T st \<Longrightarrow> T (st\<lparr>CredentialsSecretRef := ref\<rparr>)" "T st \<Longrightarrow> T (st\<lparr>ObservedToken := tok\<rparr>)"
begin

lemma statuses:
  assumes "T st"
  shows "T (overflow_condition now eb st)" "T (registered_status at now fp secretName ns st)"
    "T (adopted_status fp secretName ns now st)" "T (registration_failed_status now err st)"
    "T (token_missing_status now err st)" "T (rotation_failed_status now err st)"
    "T (credential_missing_status now st)" "T (unreachable_status now err st)" "T (connected_status now st)"
  unfolding overflow_condition_def registered_status_def adopted_status_def registration_failed_status_def
    token_missing_status_def rotation_failed_status_def credential_missing_status_def unreachable_status_def
    connected_status_def Let_def
  by (auto intro!: condition phase other assms simp: cluster_phases_def split: option.split prod.split)

lemma emits_recordRegistration:
  assumes "\<And>h c. get_cluster E h = Inr c \<Longrightarrow> T (cl_Status c)" and "\<And>now st. T st \<Longrightarrow> T (status now st)"
  shows "emits P (recordRegistration E cluster status what) w"
  unfolding recordRegistration_def using assms by (intro emits_rules reads) (auto simp: go_run intro!: writes)

lemma emits_finish_status:
  assumes "T (cl_Status cluster)"
  shows "emits P (finish_status E what cluster prev after) w"
  unfolding finish_status_def syncBufferOverflowCondition_def report_conditions_def
  by (intro emits_rules) (auto simp: go_run intro!: writes statuses assms)

lemma emits_loadStoredCredentials: "emits P (loadStoredCredentials E ns secretName) w"
  unfolding loadStoredCredentials_def GetCredentialsSecret_def by (intro emits_rules reads)

lemma emits_already_registered: "emits P (already_registered E force ns secretName) w"
  unfolding already_registered_def by (intro emits_rules emits_loadStoredCredentials)

lemma emits_resolveRegistrationToken: "emits P (resolveRegistrationToken E cluster ns) w"
  unfolding resolveRegistrationToken_def by (intro emits_rules reads)

lemma emits_persist: "emits P (PersistCredentials E ns name cred owner) w"
  unfolding PersistCredentials_def by (intro emits_rules reads)

lemma emits_adopt_and_reload:
  assumes "retry_laws (RetryOnConflict r)" and "\<And>h c. get_cluster E h = Inr c \<Longrightarrow> T (cl_Status c)"
  shows "emits P (adopt_and_reload E r req cluster token secretName ns) w"
  unfolding adopt_and_reload_def adoptExistingRegistration_def reload_cluster_def
  by (intro emits_rules emits_RetryOnConflict emits_recordRegistration assms reads statuses)

lemma emits_client: "emits P (Heartbeat (http_client E c)) w" "emits P (Client_RotateCredentials (http_client E c)) w"
  unfolding http_client_def HTTPClient_Heartbeat_def HTTPClient_PostEvents_def post_expecting_def http_send_def
    HTTPClient_RotateCredentials_def
  by (simp_all, (intro emits_rules; simp add: http is_registration_def)+)

lemma emits_rotateCredentials:
  assumes "rec_AgentClient r = None" and "T (cl_Status cluster)"
  shows "emits P (rotateCredentials E r cluster secretName ns) w"
  unfolding rotateCredentials_def
  by (intro emits_rules emits_loadStoredCredentials emits_persist)
     (auto simp: assms map_sum_def split: sum.splits intro!: emits_client writes)

lemma emits_reconcileRotation:
  assumes "rec_AgentClient r = None" and "T (cl_Status cluster)"
  shows "emits P (reconcileRotation E r req cluster secretName ns) w"
  unfolding reconcileRotation_def reload_cluster_def
  by (intro emits_rules emits_rotateCredentials emits_finish_status assms reads)
     (auto dest!: yieldsD [OF yields_rotateCredentials] intro!: statuses assms)

lemma emits_reconcileHeartbeat:
  assumes "rec_AgentClient r = None" and "T (cl_Status cluster)"
  shows "emits P (reconcileHeartbeat E r cluster secretName ns) w"
proof -
  have "yields (\<lambda>c. \<forall>cl. c = Inr (Some cl) \<longrightarrow> (\<exists>hc. cl = http_client E hc)) (heartbeat_client E r secretName ns)"
    unfolding heartbeat_client_def assms by (simp, intro yields_rules) (auto split: sum.splits)
  note client = yieldsD [OF this]
  show ?thesis
    unfolding reconcileHeartbeat_def heartbeat_client_def
    by (intro emits_rules emits_finish_status emits_loadStoredCredentials)
       (auto dest!: client [unfolded heartbeat_client_def] intro!: emits_client statuses assms split: option.split)
qed

lemma emits_finalizeCluster:
  assumes "T (cl_Status cluster)"
  shows "emits P (finalizeCluster E cluster) w"
  unfolding finalizeCluster_def
  by (intro emits_rules) (auto intro!: writes phase assms simp: cluster_phases_def)

lemma yields_reload:
  assumes "\<And>h c. get_cluster E h = Inr c \<Longrightarrow> T (cl_Status c)"
  shows "yields (\<lambda>s. \<forall>c. s = Inr c \<longrightarrow> T (cl_Status c)) (reload_cluster E what ns name)"
  unfolding reload_cluster_def
  by (rule yields_then [OF yields_ask, of "\<lambda>a. \<forall>c. a = Inr c \<longrightarrow> T (cl_Status c)"])
     (auto intro!: yields_rules simp: assms split: sum.splits)

lemma yields_steps:
  assumes "T (cl_Status cluster)" and "\<And>h c. get_cluster E h = Inr c \<Longrightarrow> T (cl_Status c)"
  shows "yields (\<lambda>s. \<forall>c. s = Inr c \<longrightarrow> T (cl_Status c)) (reconcileRegistration E r req cluster secretName ns)"
    and "yields (\<lambda>s. \<forall>c. s = Inr c \<longrightarrow> T (cl_Status c)) (reconcileRotation E r req cluster secretName ns)"
  unfolding reconcileRegistration_def exchange_token_def adopt_and_reload_def reconcileRotation_def
  by (intro yields_rules yields_reload; simp add: assms)+

lemma emits_reconcileLive:
  assumes "rec_AgentClient r = None" and "T (cl_Status cluster)" and "\<And>h c. get_cluster E h = Inr c \<Longrightarrow> T (cl_Status c)"
    and "emits P (reconcileRegistration E r req cluster (credentialsSecretName r) (operatorNamespace E r)) w"
  shows "emits P (reconcileLive E r req cluster) w"
proof -
  have registered: "T (cl_Status c)"
    if "run_state (reconcileRegistration E r req cluster (credentialsSecretName r) (operatorNamespace E r)) w1 = (Inr c, w2)" for c w1 w2
    using yieldsD [OF yields_steps(1) [OF assms(2,3)] that] by simp
  have rotated: "T (cl_Status c)"
    if "run_state (reconcileRotation E r req c' (credentialsSecretName r) (operatorNamespace E r)) w1 = (Inr c, w2)"
      and "T (cl_Status c')" for c c' w1 w2
    using yieldsD [OF yields_steps(2) [OF that(2) assms(3)] that(1)] by simp
  show ?thesis
    unfolding reconcileLive_def
    by (intro emits_rules assms(4) emits_reconcileRotation emits_reconcileHeartbeat assms(1))
       (auto dest!: registered intro: rotated)
qed

lemma emits_Cluster_Reconcile:
  assumes "rec_AgentClient r = None" and "\<And>h c. get_cluster E h = Inr c \<Longrightarrow> T (cl_Status c)"
    and "\<And>cluster m w'. get_cluster E (GetCluster ns name # hist w) = Inr cluster \<Longrightarrow>
           m = cl_meta cluster \<or> m = AddFinalizer E (cl_meta cluster) ClusterFinalizer \<Longrightarrow>
           emits P (reconcileRegistration E r (ns, name) (cluster\<lparr>cl_meta := m\<rparr>)
             (credentialsSecretName r) (operatorNamespace E r)) w'"
  shows "emits P (Cluster_Reconcile E r ns name) w"
proof -
  have same: "cluster\<lparr>cl_meta := cl_meta cluster\<rparr> = cluster" for cluster :: Cluster by simp
  show ?thesis
    unfolding Cluster_Reconcile_def
  proof (intro emits_rules reads emits_finalizeCluster)
    fix got w1 cluster
    assume "run_state (ask (get_cluster E) (GetCluster ns name)) w = (got, w1)" and "got = Inr cluster"
    then have got: "get_cluster E (GetCluster ns name # hist w) = Inr cluster" by (simp add: go_run)
    then show T: "T (cl_Status cluster)" by (rule assms(2))
    show "emits P (reconcileLive E r (ns, name) cluster) w1"
      using assms(3) [OF got, of "cl_meta cluster" w1] by (intro emits_reconcileLive assms(1,2) T) (simp_all add: same)
    show "P (UpdateCluster (cluster\<lparr>cl_meta := AddFinalizer E (cl_meta cluster) ClusterFinalizer\<rparr>))"
      using T by (intro writes) simp
    show "emits P (reconcileLive E r (ns, name) (cluster\<lparr>cl_meta := AddFinalizer E (cl_meta cluster) ClusterFinalizer\<rparr>)) w2" for w2
      using assms(3) [OF got] T by (intro emits_reconcileLive [OF assms(1) _ assms(2)]) simp_all
  qed
qed

end

text \<open>Registering, when every request to the control plane is admitted.\<close>

context cluster_writes
begin

lemma emits_registerCluster:
  assumes "\<And>req. P (HttpDo req)" and "RegistrationClient r = None" and "retry_laws (RetryOnConflict r)"
    and "T (cl_Status cluster)" and "\<And>h c. get_cluster E h = Inr c \<Longrightarrow> T (cl_Status c)"
  shows "emits P (registerCluster E r cluster token tokenSource secretName ns) w"
proof -
  have reg: "emits P (Register E a b d) w" for a b d w
    unfolding Register_def by (intro emits_rules assms(1))
  show ?thesis
    unfolding registerCluster_def assms(2) option.case
    by (intro emits_rules reg emits_persist emits_RetryOnConflict assms(3) emits_recordRegistration assms(5) statuses)
       (auto intro!: writes simp: assms(4) dest!: registered_spec_status)
qed

lemma emits_reconcileRegistration:
  assumes "\<And>req. P (HttpDo req)" and "RegistrationClient r = None" and "retry_laws (RetryOnConflict r)"
    and "T (cl_Status cluster)" and "\<And>h c. get_cluster E h = Inr c \<Longrightarrow> T (cl_Status c)"
  shows "emits P (reconcileRegistration E r req cluster secretName ns) w"
  unfolding reconcileRegistration_def exchange_token_def reload_cluster_def
  by (intro emits_rules emits_resolveRegistrationToken emits_already_registered emits_loadStoredCredentials
      emits_adopt_and_reload [OF assms(3,5)] emits_registerCluster [OF assms] emits_finish_status reads)
     (auto dest!: yieldsD [OF yields_registerCluster] intro!: statuses assms(4))

end

text \<open>A status whose phase is one of the declared phases and whose conditions have distinct types.\<close>

definition typed_status :: "ClusterStatus \<Rightarrow> bool" where
  "typed_status st \<longleftrightarrow>
     (cst_Phase st = '''' \<or> cst_Phase st \<in> set cluster_phases) \<and> distinct (map c_Type (cst_Conditions st))"

definition typed_write :: "call \<Rightarrow> bool" where
  "typed_write c =
     (case c of
        UpdateCluster cluster \<Rightarrow> typed_status (cl_Status cluster)
      | UpdateClusterStatus cluster \<Rightarrow> typed_status (cl_Status cluster)
      | _ \<Rightarrow> True)"

interpretation typed: cluster_writes typed_write typed_status
  by unfold_locales (auto simp: typed_write_def typed_status_def set_condition_def types_Set)

interpretation unregistered: cluster_writes "\<lambda>c. \<not> is_registration c" "\<lambda>_. True"
  by unfold_locales (auto simp: is_registration_def)

text \<open>Every Cluster that a reconcile writes has one of the declared phases and at most one
  condition of each type, provided that the Clusters it reads do.\<close>

theorem cluster_writes_typed:
  assumes "rec_AgentClient r = None" and "RegistrationClient r = None" and "retry_laws (RetryOnConflict r)"
    and "\<And>h c. get_cluster E h = Inr c \<Longrightarrow> typed_status (cl_Status c)"
  shows "emits typed_write (Cluster_Reconcile E r ns name) w"
proof (rule typed.emits_Cluster_Reconcile [OF assms(1,4)])
  fix cluster m w'
  assume "get_cluster E (GetCluster ns name # hist w) = Inr cluster"
  from assms(4) [OF this] have T: "typed_status (cl_Status (cluster\<lparr>cl_meta := m\<rparr>))" by simp
  have http: "typed_write (HttpDo req)" for req by (simp add: typed_write_def)
  show "emits typed_write (reconcileRegistration E r (ns, name) (cluster\<lparr>cl_meta := m\<rparr>)
          (credentialsSecretName r) (operatorNamespace E r)) w'"
    by (rule typed.emits_reconcileRegistration [OF http assms(2,3) T assms(4)])
qed

section \<open>A registration token is exchanged once\<close>

lemma stored_credentials_load:
  assumes "\<And>h. get_secret E (GetSecret ns secretName # h) = Inr secret" and "CredentialsFromSecret (Some secret) = Inr creds"
    and "secretName \<noteq> ''''"
  shows "run_state (loadStoredCredentials E ns secretName) w = (Inr creds, w\<lparr>hist := GetSecret ns secretName # hist w\<rparr>)"
  using assms by (simp add: loadStoredCredentials_def GetCredentialsSecret_def go_run)

lemma finalizer_annotations:
  assumes "finalizer_laws E"
  shows "Annotations (AddFinalizer E m f) = Annotations m"
proof -
  obtain fs where "AddFinalizer E m f = m\<lparr>Finalizers := fs\<rparr>" using assms unfolding finalizer_laws_def by blast
  then show ?thesis by simp
qed

text \<open>C22: while valid credentials are stored, a reconcile does not exchange a registration token,
  unless the reregister annotation asks for it.\<close>

theorem registered_cluster_keeps_registration:
  assumes "rec_AgentClient r = None" and "retry_laws (RetryOnConflict r)" and "finalizer_laws E"
    and "\<And>cluster. get_cluster E (GetCluster ns name # hist w) = Inr cluster \<Longrightarrow> \<not> reRegisterRequested cluster"
    and "\<And>h. get_secret E (GetSecret (operatorNamespace E r) (credentialsSecretName r) # h) = Inr secret"
    and "CredentialsFromSecret (Some secret) = Inr creds"
  shows "emits (\<lambda>c. \<not> is_registration c) (Cluster_Reconcile E r ns name) w"
proof (rule unregistered.emits_Cluster_Reconcile [OF assms(1) TrueI])
  fix cluster m w'
  assume got: "get_cluster E (GetCluster ns name # hist w) = Inr cluster"
    and "m = cl_meta cluster \<or> m = AddFinalizer E (cl_meta cluster) ClusterFinalizer"
  with assms(3) have "Annotations m = Annotations (cl_meta cluster)"
    by (auto simp: finalizer_annotations)
  with assms(4) [OF got] have not_forced: "\<not> reRegisterRequested (cluster\<lparr>cl_meta := m\<rparr>)"
    by (simp add: reRegisterRequested_def)
  have stored: "run_state (already_registered E False (operatorNamespace E r) (credentialsSecretName r)) w1
      = (True, w1\<lparr>hist := GetSecret (operatorNamespace E r) (credentialsSecretName r) # hist w1\<rparr>)" for w1
    using stored_credentials_load [OF assms(5,6)] by (simp add: already_registered_def go_run)
  show "emits (\<lambda>c. \<not> is_registration c) (reconcileRegistration E r (ns, name) (cluster\<lparr>cl_meta := m\<rparr>)
          (credentialsSecretName r) (operatorNamespace E r)) w'"
    unfolding reconcileRegistration_def exchange_token_def
    by (intro emits_rules unregistered.emits_resolveRegistrationToken unregistered.emits_already_registered
        unregistered.emits_loadStoredCredentials unregistered.emits_adopt_and_reload assms(2) unregistered.emits_finish_status)
       (auto simp: not_forced stored)
qed

lemma attempts_None: "run_state (attempts n fn) w = (None, w') \<Longrightarrow> \<exists>w1. run_state fn w1 = (None, w')"
  by (induction n arbitrary: w) (auto simp: go_run split: prod.splits option.splits if_splits)

lemma RetryOnConflict_None:
  assumes "retry_laws (RetryOnConflict r)" and "run_state (RetryOnConflict r fn) w = (None, w')"
  obtains w1 where "run_state fn w1 = (None, w')"
  using assms attempts_None unfolding retry_laws_def by metis

lemma recordRegistration_None:
  "run_state (recordRegistration E cluster status what) w = (None, w') \<Longrightarrow>
   \<exists>fresh now. hd (hist w') = UpdateClusterStatus (fresh\<lparr>cl_Status := status now (cl_Status fresh)\<rparr>)"
  by (auto simp: recordRegistration_def go_run split: sum.splits) blast

lemma retry_grows:
  assumes "retry_laws (RetryOnConflict r)"
    and "run_state (RetryOnConflict r (recordRegistration E cluster status what)) w = (a, w')"
  shows "\<exists>cs. hist w' = cs @ hist w"
proof -
  have "emits (\<lambda>_. True) (RetryOnConflict r (recordRegistration E cluster status what)) w"
    by (intro emits_RetryOnConflict assms(1)) (simp add: recordRegistration_def, intro emits_rules, simp_all)
  from emitsD [OF this assms(2)] show ?thesis by blast
qed

lemma emits_PersistCredentials_any: "emits (\<lambda>_. True) (PersistCredentials E ns name cred owner) w"
  unfolding PersistCredentials_def by (intro emits_rules TrueI)

lemma PersistCredentials_None:
  assumes "run_state (PersistCredentials E ns secretName cred owner) w = (None, w')"
  shows "\<exists>secret. hd (hist w') = StoreSecret secret \<and> CredentialsFromSecret (Some secret) = Inr (trimmed cred)"
proof -
  have "complete (trimmed cred)"
    using assms by (auto simp: PersistCredentials_def go_run split: if_splits)
  with assms show ?thesis
    by (auto simp: PersistCredentials_def go_run CreateOrUpdateSecret_def create_or_update_def
        intro!: secret_gives_credentials split: if_splits sum.splits option.splits)
qed

lemma registerCluster_None:
  assumes "RegistrationClient r = None"
    and "run_state (registerCluster E r cluster token tokenSource secretName ns) w = ((None, cluster'), w')"
  shows "\<exists>reg w1 w2 w3 at.
    run_state (Register E (controlPlaneEndpoint cluster) token (cs_ClusterID (cl_Spec cluster))) w = (Inr reg, w1)
    \<and> run_state (PersistCredentials E ns secretName \<lparr>BaseURL = controlPlaneEndpoint cluster,
      cr_ClusterID = rsp_ClusterID reg, Token = rsp_Token reg\<rparr> (Some (cl_meta cluster))) w1 = (None, w2)
    \<and> (w3 = w2 \<or> w3 = w2\<lparr>hist := UpdateCluster cluster' # hist w2\<rparr>)
    \<and> run_state (RetryOnConflict r (recordRegistration E cluster'
      (\<lambda>now. registered_status at now (tokenFingerprint token) secretName ns) ''reload cluster after registration: '')) w3 = (None, w')"
  using assms
  by (auto simp: registerCluster_def go_run Let_def split: if_splits prod.splits sum.splits option.splits)

lemma Register_Inr:
  assumes "run_state (Register E baseURL token clusterID) w = (Inr reg, w1)"
  shows "\<exists>req resp. is_registration (HttpDo req) \<and> hist w1 = HttpDo req # hist w
    \<and> http_do E (HttpDo req # hist w) = Inr resp \<and> register_response E resp = Inr reg"
  using assms
  by (auto simp: Register_def Let_def go_run is_registration_def split: if_splits sum.splits option.splits)

lemma exchange_skips:
  "ObservedToken (cl_Status cluster) = tokenFingerprint token \<Longrightarrow> \<not> reRegisterRequested cluster \<Longrightarrow>
   run_state (exchange_token E r req cluster token source secretName ns) w = (Inr cluster, w)"
  by (simp add: exchange_token_def)

lemma registerCluster_recorded:
  assumes "retry_laws (RetryOnConflict r)" and "RegistrationClient r = None"
    and "run_state (registerCluster E r cluster token tokenSource secretName ns) w = ((None, cluster'), w')"
  shows "\<exists>fresh at now cs secret req resp reg.
    hist w' = cs @ HttpDo req # hist w \<and> is_registration (HttpDo req) \<and> http_do E (HttpDo req # hist w) = Inr resp
    \<and> register_response E resp = Inr reg \<and> StoreSecret secret \<in> set cs
    \<and> CredentialsFromSecret (Some secret) = Inr \<lparr>BaseURL = controlPlaneEndpoint cluster,
        cr_ClusterID = rsp_ClusterID reg, Token = rsp_Token reg\<rparr>
    \<and> hd cs = UpdateClusterStatus
        (fresh\<lparr>cl_Status := registered_status at now (tokenFingerprint token) secretName ns (cl_Status fresh)\<rparr>)"
proof -
  obtain reg w1 wa wb at where
    reg: "run_state (Register E (controlPlaneEndpoint cluster) token (cs_ClusterID (cl_Spec cluster))) w = (Inr reg, w1)"
    and persist: "run_state (PersistCredentials E ns secretName \<lparr>BaseURL = controlPlaneEndpoint cluster,
      cr_ClusterID = rsp_ClusterID reg, Token = rsp_Token reg\<rparr> (Some (cl_meta cluster))) w1 = (None, wa)"
    and update: "wb = wa \<or> wb = wa\<lparr>hist := UpdateCluster cluster' # hist wa\<rparr>"
    and retry: "run_state (RetryOnConflict r (recordRegistration E cluster'
      (\<lambda>now. registered_status at now (tokenFingerprint token) secretName ns) ''reload cluster after registration: '')) wb = (None, w')"
    using registerCluster_None [OF assms(2,3)] by blast
  let ?creds = "\<lparr>BaseURL = controlPlaneEndpoint cluster, cr_ClusterID = rsp_ClusterID reg, Token = rsp_Token reg\<rparr>"
  obtain req resp where req: "is_registration (HttpDo req)" "hist w1 = HttpDo req # hist w"
    "http_do E (HttpDo req # hist w) = Inr resp" "register_response E resp = Inr reg" using Register_Inr [OF reg] by blast
  have trimmed: "trimmed ?creds = ?creds"
    using req(4) by (auto simp: trimmed_def register_response_def controlPlaneEndpoint_def Let_def split: if_splits sum.splits)
  obtain secret where secret: "hd (hist wa) = StoreSecret secret" "CredentialsFromSecret (Some secret) = Inr ?creds"
    using PersistCredentials_None [OF persist] trimmed by auto
  obtain cs1 where cs1: "hist wa = cs1 @ hist w1" "cs1 \<noteq> []"
    using emitsD [OF emits_PersistCredentials_any persist] secret(1) req by (cases "hist wa = hist w1") auto
  obtain cs2 where cs2: "hist w' = cs2 @ hist wb" using retry_grows [OF assms(1) retry] by blast
  obtain w3 where "run_state (recordRegistration E cluster'
      (\<lambda>now. registered_status at now (tokenFingerprint token) secretName ns) ''reload cluster after registration: '') w3 = (None, w')"
    using RetryOnConflict_None [OF assms(1) retry] .
  from recordRegistration_None [OF this] obtain fresh now where
    fresh: "hd (hist w') = UpdateClusterStatus (fresh\<lparr>cl_Status := registered_status at now (tokenFingerprint token) secretName ns (cl_Status fresh)\<rparr>)"
    by blast
  let ?fresh = "fresh\<lparr>cl_Status := registered_status at now (tokenFingerprint token) secretName ns (cl_Status fresh)\<rparr>"
  let ?cs = "cs2 @ (if wb = wa then [] else [UpdateCluster cluster']) @ cs1"
  have grown: "hist w' = ?cs @ HttpDo req # hist w"
    using cs2 cs1(1) req(2) update by auto
  moreover have "StoreSecret secret \<in> set ?cs" using secret(1) cs1 by (cases cs1) auto
  moreover have "hd (hist w') = hd ?cs" unfolding grown by (rule hd_append2) (simp add: cs1(2))
  with fresh have "hd ?cs = UpdateClusterStatus ?fresh" by simp
  ultimately show ?thesis using req(1,3,4) secret(2) by blast
qed

text \<open>C23: when the exchange of a token has succeeded, the Secret that was stored gives the credentials
  of the control plane's answer, and the status that was written makes the controller skip that token
  from then on.\<close>

theorem exchanged_token_recorded:
  assumes "retry_laws (RetryOnConflict r)" and "RegistrationClient r = None"
    and "run_state (registerCluster E r cluster token tokenSource secretName ns) w = ((None, cluster'), w')"
  shows "\<exists>fresh cs secret req resp reg.
    hist w' = cs @ HttpDo req # hist w \<and> is_registration (HttpDo req) \<and> http_do E (HttpDo req # hist w) = Inr resp
    \<and> register_response E resp = Inr reg \<and> StoreSecret secret \<in> set cs
    \<and> CredentialsFromSecret (Some secret) = Inr \<lparr>BaseURL = controlPlaneEndpoint cluster,
        cr_ClusterID = rsp_ClusterID reg, Token = rsp_Token reg\<rparr>
    \<and> hd cs = UpdateClusterStatus fresh
    \<and> (\<not> reRegisterRequested fresh \<longrightarrow>
         run_state (exchange_token E r request fresh token source secretName ns) w2 = (Inr fresh, w2))"
proof -
  obtain fresh at now cs secret req resp reg where
    recorded: "hist w' = cs @ HttpDo req # hist w" "is_registration (HttpDo req)" "http_do E (HttpDo req # hist w) = Inr resp"
      "register_response E resp = Inr reg" "StoreSecret secret \<in> set cs"
      "CredentialsFromSecret (Some secret) = Inr \<lparr>BaseURL = controlPlaneEndpoint cluster, cr_ClusterID = rsp_ClusterID reg, Token = rsp_Token reg\<rparr>"
      "hd cs = UpdateClusterStatus (fresh\<lparr>cl_Status := registered_status at now (tokenFingerprint token) secretName ns (cl_Status fresh)\<rparr>)"
    using registerCluster_recorded [OF assms] by blast
  moreover have "run_state (exchange_token E r request f token source secretName ns) w2 = (Inr f, w2)"
    if "\<not> reRegisterRequested f" "f = fresh\<lparr>cl_Status := registered_status at now (tokenFingerprint token) secretName ns (cl_Status fresh)\<rparr>" for f
    by (rule exchange_skips [OF _ that(1)]) (simp add: that(2) registered_status_def set_condition_def)
  ultimately show ?thesis by blast
qed

section \<open>The heartbeat\<close>

lemma status_views:
  "cst_Phase (set_condition now typ st reason message status) = cst_Phase status"
  "IsTrue (cst_Conditions (set_condition now typ st reason message status)) t =
     (if t = typ then st = ConditionTrue else IsTrue (cst_Conditions status) t)"
  "cst_Phase (overflow_condition now eb status) = cst_Phase status"
  "t \<noteq> ConditionBufferOverflow \<Longrightarrow>
     IsTrue (cst_Conditions (overflow_condition now eb status)) t = IsTrue (cst_Conditions status) t"
  by (auto simp: set_condition_def overflow_condition_def Let_def split: option.split prod.split)

definition beat_accepted :: "env \<Rightarrow> history \<Rightarrow> bool" where
  "beat_accepted E h \<longleftrightarrow> (case http_do E h of Inl _ \<Rightarrow> False | Inr resp \<Rightarrow> StatusCode resp = 204)"

lemma run_Heartbeat:
  assumes "\<And>u. url_error E u = None" and "\<And>b. marshal_error E b = None"
  shows "\<exists>body err. run_state (Heartbeat (http_client E c)) w
      = (err, w\<lparr>hist := post_request c (hc_baseURL c @ ''/api/agent/events'') body # hist w\<rparr>)
    \<and> (err = None) = beat_accepted E (post_request c (hc_baseURL c @ ''/api/agent/events'') body # hist w)"
proof -
  let ?beat = "\<lambda>evs. post_request c (hc_baseURL c @ ''/api/agent/events'') (EventsBody evs)"
  have post: "\<exists>err. run_state (HTTPClient_PostEvents E c evs) w = (err, w\<lparr>hist := ?beat evs # hist w\<rparr>)
      \<and> (err = None) = beat_accepted E (?beat evs # hist w)" for evs
    by (simp add: HTTPClient_PostEvents_def post_expecting_def http_send_def assms go_run post_request_def beat_accepted_def
        split: sum.split)
  have "\<exists>evs. run_state (Heartbeat (http_client E c)) w = run_state (HTTPClient_PostEvents E c evs) w"
    by (simp add: http_client_def HTTPClient_Heartbeat_def run_Now) blast
  then obtain evs where "run_state (Heartbeat (http_client E c)) w = run_state (HTTPClient_PostEvents E c evs) w" by blast
  with post [of evs] show ?thesis by metis
qed

text \<open>C24: with stored credentials, one heartbeat authorised by the stored token is sent and one status
  is written; the Cluster is Connected, and its conditions say so, exactly when the control plane
  accepted the heartbeat.\<close>

theorem heartbeat_decides_connectivity:
  assumes "rec_AgentClient r = None" and "\<And>u. url_error E u = None" and "\<And>b. marshal_error E b = None"
    and "get_secret E (GetSecret ns secretName # hist w) = Inr secret"
    and "CredentialsFromSecret (Some secret) = Inr creds" and "secretName \<noteq> ''''"
  shows "\<exists>cluster' c body. let beat = post_request c (TrimRight (CHR ''/'') (BaseURL creds) @ ''/api/agent/events'') body;
      ok = beat_accepted E (beat # GetSecret ns secretName # hist w) in
    hist (snd (run_state (reconcileHeartbeat E r cluster secretName ns) w))
      = UpdateClusterStatus cluster' # beat # GetSecret ns secretName # hist w
    \<and> hc_token c = Token creds
    \<and> cst_Phase (cl_Status cluster') = (if ok then ClusterPhaseConnected else ClusterPhaseDisconnected)
    \<and> IsTrue (cluster_conditions cluster') ConditionConnected = ok
    \<and> IsTrue (cluster_conditions cluster') ConditionAuthenticated = ok
    \<and> IsTrue (cluster_conditions cluster') ConditionDisconnected = (\<not> ok)"
proof -
  let ?c = "\<lparr>hc_baseURL = TrimRight (CHR ''/'') (BaseURL creds), hc_clusterID = cr_ClusterID creds, hc_token = Token creds\<rparr>"
  let ?w = "w\<lparr>hist := GetSecret ns secretName # hist w\<rparr>"
  have client: "run_state (heartbeat_client E r secretName ns) w = (Inr (Some (http_client E ?c)), ?w)"
    using assms(1,4-6) credentials_configure [OF assms(5)]
    by (simp add: heartbeat_client_def loadStoredCredentials_def GetCredentialsSecret_def go_run)
  obtain body err where beat: "run_state (Heartbeat (http_client E ?c)) ?w
      = (err, ?w\<lparr>hist := post_request ?c (hc_baseURL ?c @ ''/api/agent/events'') body # hist ?w\<rparr>)"
    and err: "(err = None) = beat_accepted E (post_request ?c (hc_baseURL ?c @ ''/api/agent/events'') body # hist ?w)"
    using run_Heartbeat [OF assms(2,3)] by blast
  let ?beat = "post_request ?c (TrimRight (CHR ''/'') (BaseURL creds) @ ''/api/agent/events'') body"
  define now where "now = clock E (?beat # hist ?w)"
  define st where "st = (case err of Some err \<Rightarrow> unreachable_status now err (cl_Status cluster)
    | None \<Rightarrow> connected_status now (cl_Status cluster))"
  have hist: "hist (snd (run_state (reconcileHeartbeat E r cluster secretName ns) w)) =
      UpdateClusterStatus (cluster\<lparr>cl_Status := overflow_condition now (batcher w) st\<rparr>) # ?beat # GetSecret ns secretName # hist w"
    using client beat
    by (simp add: reconcileHeartbeat_def finish_status_def syncBufferOverflowCondition_def report_conditions_def
        go_run now_def st_def split: option.split)
  have ok: "(err = None) = beat_accepted E (?beat # GetSecret ns secretName # hist w)" using err by simp
  show ?thesis
    unfolding Let_def
    by (rule exI [of _ "cluster\<lparr>cl_Status := overflow_condition now (batcher w) st\<rparr>"], rule exI [of _ ?c], rule exI [of _ body])
       (simp add: hist ok [symmetric], auto simp: st_def status_views unreachable_status_def connected_status_def split: option.split)
qed

text \<open>
  When a forced registration fails at any point, also after the exchange itself has succeeded and
  the credentials are stored, the Cluster is put into the Error phase.
\<close>

theorem forced_registration_failure_is_error:
  assumes "reRegisterRequested cluster" and "token \<noteq> ''''"
    and "run_state (registerCluster E r cluster token source secretName ns) w = ((Some err, cluster'), w1)"
  shows "\<exists>c. hd (hist (snd (run_state (exchange_token E r req cluster token source secretName ns) w))) = UpdateClusterStatus c
    \<and> cst_Phase (cl_Status c) = ClusterPhaseError"
  using assms
  by (auto simp: exchange_token_def already_registered_def go_run finish_status_def syncBufferOverflowCondition_def
      report_conditions_def registration_failed_status_def status_views split: option.split)

section \<open>Witnesses\<close>

lemma attempts_laws: "retry_laws (attempts n)"
  by (auto simp: retry_laws_def)

abbreviation demo_cluster_reconciler :: ClusterReconciler where
  "demo_cluster_reconciler \<equiv> \<lparr>rec_AgentClient = None, RegistrationClient = None, CredentialsSecret = '''',
     OperatorNamespace = '''', Recorder = True, RetryOnConflict = attempts 4\<rparr>"

text \<open>A server that knows the cluster and its Secret, and a control plane that answers registrations.\<close>

definition cluster_server :: env where
  "cluster_server = demo_env\<lparr>get_cluster := (\<lambda>_. Inr registered_cluster), get_secret := (\<lambda>_. Inr rotated_secret),
     http_do := (\<lambda>_. Inr \<lparr>StatusCode = 200, http_Status = ''200 OK'', Body = ''{\"clusterId\":\"c1\",\"token\":\"t\"}''\<rparr>)\<rparr>"

lemma cluster_server_answers:
  "get_cluster cluster_server h = Inr registered_cluster" "get_secret cluster_server h = Inr rotated_secret"
  "url_error cluster_server u = None" "marshal_error cluster_server b = None" "finalizer_laws cluster_server"
  by (auto simp: cluster_server_def demo_env_def finalizer_laws_def)

lemma rotated_secret_credentials:
  "CredentialsFromSecret (Some rotated_secret) = Inr \<lparr>BaseURL = ''https://cp'', cr_ClusterID = ''c1'', Token = ''new''\<rparr>"
  by code_simp

theorem cluster_writes_typed_witness:
  "emits typed_write (Cluster_Reconcile cluster_server demo_cluster_reconciler ''vworkspace-system'' ''cluster'') demo_world"
proof (rule cluster_writes_typed)
  have "typed_status (cl_Status registered_cluster)" by code_simp
  then show "typed_status (cl_Status c)" if "get_cluster cluster_server h = Inr c" for h c
    using that by (simp add: cluster_server_answers)
qed (simp_all add: attempts_laws)

theorem registered_cluster_keeps_registration_witness:
  "emits (\<lambda>c. \<not> is_registration c)
     (Cluster_Reconcile cluster_server demo_cluster_reconciler ''vworkspace-system'' ''cluster'') demo_world"
proof (rule registered_cluster_keeps_registration [where secret = rotated_secret])
  have "\<not> reRegisterRequested registered_cluster" by code_simp
  then show "\<not> reRegisterRequested cluster"
    if "get_cluster cluster_server (GetCluster ''vworkspace-system'' ''cluster'' # hist demo_world) = Inr cluster" for cluster
    using that by (simp add: cluster_server_answers)
qed (simp_all add: attempts_laws cluster_server_answers rotated_secret_credentials)

abbreviation demo_registration :: RegisterResponse where
  "demo_registration \<equiv> \<lparr>rsp_ClusterID = ''c1'', rsp_Token = ''t'', rsp_ExpiresAt = None\<rparr>"

lemma demo_trims:
  "controlPlaneEndpoint registered_cluster = ''https://cp''" "TrimRight (CHR ''/'') ''https://cp'' = ''https://cp''"
  "TrimSpace ''one-time'' = ''one-time''" "TrimSpace ''vworkspace-system'' = ''vworkspace-system''"
  "TrimSpace DefaultCredentialsSecret = DefaultCredentialsSecret"
  "cs_ClusterID (cl_Spec registered_cluster) = ''c1''" "TrimSpace ''https://cp'' = ''https://cp''"
  "TrimSpace ''c1'' = ''c1''" "TrimSpace ''t'' = ''t''"
  "\<not> reRegisterRequested registered_cluster"
  by code_simp+

lemma demo_registered_spec:
  "registered_spec ''c1'' tokenSourceSecret registered_cluster = (registered_cluster, False)"
  by (simp add: registered_spec_def demo_trims)

lemma attempts_done: "run_state fn w = (None, w') \<Longrightarrow> run_state (attempts n fn) w = (None, w')"
  by (cases n) (simp_all add: go_run)

lemma demo_register:
  "\<exists>w1. run_state (Register cluster_server ''https://cp'' ''one-time'' ''c1'') w = (Inr demo_registration, w1)"
proof -
  have "register_response cluster_server
      \<lparr>StatusCode = 200, http_Status = ''200 OK'', Body = ''{\"clusterId\":\"c1\",\"token\":\"t\"}''\<rparr> = Inr demo_registration"
    by code_simp
  then show ?thesis
    by (simp add: Register_def Let_def demo_trims cluster_server_answers go_run) (simp add: cluster_server_def)
qed

lemma demo_persist:
  "\<exists>w2. run_state (PersistCredentials cluster_server ''vworkspace-system'' DefaultCredentialsSecret
      \<lparr>BaseURL = ''https://cp'', cr_ClusterID = ''c1'', Token = ''t''\<rparr> owner) w = (None, w2)"
  by (simp add: PersistCredentials_def Let_def demo_trims trimmed_def complete_def go_run CreateOrUpdateSecret_def
      create_or_update_def cluster_server_def demo_env_def split: option.split)

lemma demo_record: "\<exists>w2. run_state (attempts 4 (recordRegistration cluster_server c status what)) w = (None, w2)"
proof -
  have "\<exists>w2. run_state (recordRegistration cluster_server c status what) w = (None, w2)"
    by (simp add: recordRegistration_def go_run cluster_server_def demo_env_def)
  then show ?thesis using attempts_done by blast
qed

lemma demo_registered:
  assumes "RegistrationClient r = None" and "RetryOnConflict r = attempts 4"
  shows "\<exists>w'. run_state (registerCluster cluster_server r registered_cluster ''one-time''
      tokenSourceSecret DefaultCredentialsSecret ''vworkspace-system'') demo_world = ((None, registered_cluster), w')"
proof -
  obtain w1 where reg: "run_state (Register cluster_server ''https://cp'' ''one-time'' ''c1'') demo_world = (Inr demo_registration, w1)"
    using demo_register by (rule exE)
  obtain w2 where persist: "run_state (PersistCredentials cluster_server ''vworkspace-system'' DefaultCredentialsSecret
      \<lparr>BaseURL = ''https://cp'', cr_ClusterID = ''c1'', Token = ''t''\<rparr> (Some (cl_meta registered_cluster))) w1 = (None, w2)"
    using demo_persist by (rule exE)
  obtain w' where recorded: "run_state (attempts 4 (recordRegistration cluster_server registered_cluster
      (\<lambda>now. registered_status (clock cluster_server (hist w2)) now (tokenFingerprint ''one-time'') DefaultCredentialsSecret
         ''vworkspace-system'') ''reload cluster after registration: '')) w2 = (None, w')"
    using demo_record by (rule exE)
  have "run_state (registerCluster cluster_server r registered_cluster ''one-time''
      tokenSourceSecret DefaultCredentialsSecret ''vworkspace-system'') demo_world = ((None, registered_cluster), w')"
    using reg persist recorded by (simp add: registerCluster_def demo_trims demo_registered_spec go_run assms)
  then show ?thesis ..
qed

theorem exchanged_token_recorded_witness:
  "\<exists>cluster' w' cs req. run_state (registerCluster cluster_server demo_cluster_reconciler registered_cluster ''one-time''
         tokenSourceSecret DefaultCredentialsSecret ''vworkspace-system'') demo_world = ((None, cluster'), w')
     \<and> hist w' = cs @ [HttpDo req] \<and> is_registration (HttpDo req)"
proof -
  have laws: "retry_laws (RetryOnConflict demo_cluster_reconciler)" "RegistrationClient demo_cluster_reconciler = None"
    by (simp_all add: attempts_laws)
  obtain w' where run: "run_state (registerCluster cluster_server demo_cluster_reconciler registered_cluster ''one-time''
      tokenSourceSecret DefaultCredentialsSecret ''vworkspace-system'') demo_world = ((None, registered_cluster), w')"
    using demo_registered [of demo_cluster_reconciler] by auto
  from exchanged_token_recorded [OF laws run, of "(''vworkspace-system'', ''cluster'')" tokenSourceSecret demo_world] obtain cs req where
    "hist w' = cs @ HttpDo req # hist demo_world" "is_registration (HttpDo req)" by (elim exE conjE) (rule that)
  moreover have "hist demo_world = []" by (simp add: demo_world_def)
  ultimately show ?thesis using run by metis
qed

theorem heartbeat_decides_connectivity_witness:
  "\<exists>cluster'. hd (hist (snd (run_state (reconcileHeartbeat (cluster_server\<lparr>http_do :=
         (\<lambda>_. Inr \<lparr>StatusCode = 401, http_Status = ''401 Unauthorized'', Body = ''''\<rparr>)\<rparr>)
       demo_cluster_reconciler registered_cluster DefaultCredentialsSecret ''vworkspace-system'') demo_world)))
     = UpdateClusterStatus cluster' \<and> cst_Phase (cl_Status cluster') = ClusterPhaseDisconnected"
proof -
  let ?E = "cluster_server\<lparr>http_do := (\<lambda>_. Inr \<lparr>StatusCode = 401, http_Status = ''401 Unauthorized'', Body = ''''\<rparr>)\<rparr>"
  have "beat_accepted ?E h = False" for h by (simp add: beat_accepted_def)
  with heartbeat_decides_connectivity [of demo_cluster_reconciler ?E "''vworkspace-system''" DefaultCredentialsSecret demo_world
      rotated_secret _ registered_cluster] rotated_secret_credentials
  show ?thesis by (auto simp: cluster_server_answers Let_def)
qed

end
