(* ===== verification/App_Controller.thy ===== *)
theory App_Controller
  imports App_Engines Cluster_Controller
begin

text \<open>
  The ApplicationInstance controller (\<^verbatim>\<open>internal/controller/applicationinstance_controller.go\<close>): the
  reconcile of Helm, Seaweed and placeholder instances, their finalization, and the delivery of
  managed-storage credentials to the control plane, which annotations and three maps in memory
  keep from happening twice.

  The maps \<^verbatim>\<open>storageInFlight\<close>, \<^verbatim>\<open>storagePosting\<close> and \<^verbatim>\<open>storageAckPending\<close> are fields of the world; the mutex
  makes every operation on them atomic. The instance that the Go code changes through a pointer is
  passed along, and a write that succeeds leaves it as it was sent. The conditions that one branch sets
  share a clock reading. A panic, which controller-runtime recovers, ends the reconcile with the error
  \<open>nil_dereference\<close>. Logging is left out.
\<close>

section \<open>The reconciler\<close>

abbreviation reportedManagedStorageAccessKeyAnnotation :: string where
  "reportedManagedStorageAccessKeyAnnotation \<equiv> ''vworkspace.io/reported-managed-storage-key''"
abbreviation managedStorageAckRetryAnnotation :: string where
  "managedStorageAckRetryAnnotation \<equiv> ''vworkspace.io/managed-storage-ack-retry''"
abbreviation seaweedEndpointsAckRetryAnnotation :: string where
  "seaweedEndpointsAckRetryAnnotation \<equiv> ''vworkspace.io/seaweed-endpoints-ack-retry''"
abbreviation managedStorageFailedAckRetryAnnotation :: string where
  "managedStorageFailedAckRetryAnnotation \<equiv> ''vworkspace.io/managed-storage-failed-ack-retry''"
abbreviation managedStorageClaimAnnotation :: string where
  "managedStorageClaimAnnotation \<equiv> ''vworkspace.io/managed-storage-claim''"
abbreviation managedStoragePostedAnnotation :: string where
  "managedStoragePostedAnnotation \<equiv> ''vworkspace.io/managed-storage-posted''"
abbreviation managedStorageFailedPostedAnnotation :: string where
  "managedStorageFailedPostedAnnotation \<equiv> ''vworkspace.io/managed-storage-failed-posted''"
abbreviation reportedManagedStorageFailedAnnotation :: string where
  "reportedManagedStorageFailedAnnotation \<equiv> ''vworkspace.io/reported-managed-storage-failed''"
abbreviation reportedSeaweedEndpointsAnnotation :: string where
  "reportedSeaweedEndpointsAnnotation \<equiv> ''vworkspace.io/reported-seaweed-endpoints''"
abbreviation managedStorageFailedAnnotationValue :: string where
  "managedStorageFailedAnnotationValue \<equiv> ''true''"

record ApplicationInstanceReconciler =
  air_Engine :: "ReleaseEngine option"
  air_SeaweedEngine :: "StorageEngine option"

abbreviation app_conditions :: "ApplicationInstance \<Rightarrow> Condition list" where
  "app_conditions app \<equiv> ast_Conditions (app_Status app)"

definition set_app_condition ::
  "time \<Rightarrow> string \<Rightarrow> string \<Rightarrow> string \<Rightarrow> string \<Rightarrow> ApplicationInstanceStatus \<Rightarrow> ApplicationInstanceStatus" where
  "set_app_condition now typ status reason message st =
     st\<lparr>ast_Conditions := Set (ast_Conditions st) typ status reason message now\<rparr>"

definition app_ref :: "ApplicationInstance \<Rightarrow> AppliedRef" where
  "app_ref app = ResourceRefFromMeta (apps_GroupVersion, ''ApplicationInstance'') (app_meta app)"

definition report_app :: "env \<Rightarrow> ApplicationInstance \<Rightarrow> Condition list \<Rightarrow> unit prog" where
  "report_app E app prev = report E (app_ref app) prev (app_conditions app) None"

text \<open>A status write and the report that follows it; the rest of the branch goes on after both.\<close>

definition write_status ::
  "env \<Rightarrow> string \<Rightarrow> ApplicationInstance \<Rightarrow> Condition list \<Rightarrow> reconciled prog \<Rightarrow> reconciled prog" where
  "write_status E what app prev cont = do {
     err \<leftarrow> ask (write_result E) (UpdateApplicationInstanceStatus app);
     case err of
       Some err \<Rightarrow> State_Monad.return (no_requeue, Some (Wrapf what err []))
     | None \<Rightarrow> do {
         _ \<leftarrow> report_app E app prev;
         cont
       }
   }"

definition setBlocked :: "env \<Rightarrow> ApplicationInstance \<Rightarrow> string \<Rightarrow> string \<Rightarrow> reconciled prog" where
  "setBlocked E app reason message = do {
     now \<leftarrow> Now E;
     write_status E ''update blocked status: ''
       (app\<lparr>app_Status := set_app_condition now ConditionReady ConditionFalse reason message
          (set_app_condition now ConditionBlocked ConditionTrue reason message (app_Status app))\<rparr>)
       (app_conditions app) (State_Monad.return (no_requeue, None))
   }"

section \<open>Managed-storage bookkeeping\<close>

definition storageDeliveryKey :: "string \<Rightarrow> string \<Rightarrow> string" where
  "storageDeliveryKey ns name = ns @ ''/'' @ name"

definition markStorageInFlight :: "string \<Rightarrow> string \<Rightarrow> string \<Rightarrow> unit prog" where
  "markStorageInFlight ns name reportKey =
     poke (storageInFlight_update (\<lambda>m. m(storageDeliveryKey ns name \<mapsto> reportKey)))"

definition inFlightStorageReportKey :: "string \<Rightarrow> string \<Rightarrow> string option prog" where
  "inFlightStorageReportKey ns name = peek (\<lambda>w. storageInFlight w (storageDeliveryKey ns name))"

definition clearStorageInFlight :: "string \<Rightarrow> string \<Rightarrow> unit prog" where
  "clearStorageInFlight ns name =
     poke (storageInFlight_update (\<lambda>m. m(storageDeliveryKey ns name := None)))"

definition markStorageAckPending :: "string \<Rightarrow> string \<Rightarrow> string \<Rightarrow> unit prog" where
  "markStorageAckPending ns name reportKey =
     poke (storageAckPending_update (\<lambda>m. m(storageDeliveryKey ns name \<mapsto> reportKey)))"

definition pendingStorageAckReportKey :: "string \<Rightarrow> string \<Rightarrow> string option prog" where
  "pendingStorageAckReportKey ns name = peek (\<lambda>w. storageAckPending w (storageDeliveryKey ns name))"

definition clearStorageAckPending :: "string \<Rightarrow> string \<Rightarrow> unit prog" where
  "clearStorageAckPending ns name =
     poke (storageAckPending_update (\<lambda>m. m(storageDeliveryKey ns name := None)))"

definition markStoragePosting :: "string \<Rightarrow> string \<Rightarrow> string \<Rightarrow> unit prog" where
  "markStoragePosting ns name reportKey =
     poke (storagePosting_update (\<lambda>m. m(storageDeliveryKey ns name \<mapsto> reportKey)))"

definition postingStorageReportKey :: "string \<Rightarrow> string \<Rightarrow> string option prog" where
  "postingStorageReportKey ns name = peek (\<lambda>w. storagePosting w (storageDeliveryKey ns name))"

definition clearStoragePosting :: "string \<Rightarrow> string \<Rightarrow> string \<Rightarrow> unit prog" where
  "clearStoragePosting ns name reportKey =
     poke (storagePosting_update (\<lambda>m. if go_get m (storageDeliveryKey ns name) = reportKey
                                        then m(storageDeliveryKey ns name := None) else m))"

definition clearStorageDeliveryState :: "string \<Rightarrow> string \<Rightarrow> unit prog" where
  "clearStorageDeliveryState ns name =
     (let key = storageDeliveryKey ns name in
      poke (\<lambda>w. w\<lparr>storageInFlight := (storageInFlight w)(key := None), storagePosting := (storagePosting w)(key := None),
                   storageAckPending := (storageAckPending w)(key := None)\<rparr>))"

definition managedStorageReportKey :: "ManagedStorageSnapshot \<Rightarrow> string" where
  "managedStorageReportKey ms =
     hex_EncodeToString (take 8 (sha256 (mss_AccessKeyID ms @ [CHR 0x00] @ mss_SecretAccessKey ms)))"

definition seaweedEndpointsReportKey :: "EndpointPayload list \<Rightarrow> string" where
  "seaweedEndpointsReportKey endpoints =
     hex_EncodeToString (take 8 (sha256 (concat (map (\<lambda>ep. epp_Name ep @ [CHR 0x00] @ epp_URL ep @ [CHR 0x00]) endpoints))))"

definition agentEndpointsFromStatus :: "EndpointStatus list \<Rightarrow> EndpointPayload list" where
  "agentEndpointsFromStatus endpoints =
     map (\<lambda>ep. \<lparr>epp_Name = ep_Name ep, epp_URL = ep_URL ep\<rparr>) (filter (\<lambda>ep. ep_URL ep \<noteq> '''') endpoints)"

section \<open>Annotations\<close>

abbreviation annotation :: "ApplicationInstance \<Rightarrow> string \<Rightarrow> string" where
  "annotation app k \<equiv> go_get (Annotations (app_meta app)) k"

definition set_annotation :: "string \<Rightarrow> string option \<Rightarrow> ApplicationInstance \<Rightarrow> ApplicationInstance" where
  "set_annotation k v app = app\<lparr>app_meta := (app_meta app)\<lparr>Annotations := (Annotations (app_meta app))(k := v)\<rparr>\<rparr>"

text \<open>Setting an annotation of the stored instance to a value, unless it has it already.\<close>

definition patch_annotation :: "env \<Rightarrow> string \<Rightarrow> string \<Rightarrow> string \<Rightarrow> string \<Rightarrow> go_error option prog" where
  "patch_annotation E ns name k v = do {
     app \<leftarrow> ask (get_app E) (GetApplicationInstance ns name);
     case app of
       Inl err \<Rightarrow> State_Monad.return (Some (Wrapf ''get ApplicationInstance: '' err []))
     | Inr app \<Rightarrow>
         if annotation app k = v then State_Monad.return None
         else do {
           err \<leftarrow> ask (write_result E) (PatchApplicationInstance app (set_annotation k (Some v) app));
           State_Monad.return (map_option (\<lambda>err. Wrapf ''patch ApplicationInstance: '' err []) err)
         }
   }"

definition patchSeaweedEndpointsAck :: "env \<Rightarrow> string \<Rightarrow> string \<Rightarrow> string \<Rightarrow> go_error option prog" where
  "patchSeaweedEndpointsAck E ns name reportKey = patch_annotation E ns name reportedSeaweedEndpointsAnnotation reportKey"

definition patchManagedStorageFailedAck :: "env \<Rightarrow> string \<Rightarrow> string \<Rightarrow> go_error option prog" where
  "patchManagedStorageFailedAck E ns name =
     patch_annotation E ns name reportedManagedStorageFailedAnnotation managedStorageFailedAnnotationValue"

definition patchManagedStorageFailedPosted :: "env \<Rightarrow> string \<Rightarrow> string \<Rightarrow> go_error option prog" where
  "patchManagedStorageFailedPosted E ns name =
     patch_annotation E ns name managedStorageFailedPostedAnnotation managedStorageFailedAnnotationValue"

definition patchManagedStoragePosted :: "env \<Rightarrow> string \<Rightarrow> string \<Rightarrow> string \<Rightarrow> go_error option prog" where
  "patchManagedStoragePosted E ns name reportKey = patch_annotation E ns name managedStoragePostedAnnotation reportKey"

definition clearAnnotation :: "env \<Rightarrow> string \<Rightarrow> string \<Rightarrow> string \<Rightarrow> unit prog" where
  "clearAnnotation E ns name k = do {
     app \<leftarrow> ask (get_app E) (GetApplicationInstance ns name);
     case app of
       Inl _ \<Rightarrow> State_Monad.return ()
     | Inr app \<Rightarrow>
         if annotation app k = '''' then State_Monad.return ()
         else do {
           _ \<leftarrow> ask (write_result E) (PatchApplicationInstance app (set_annotation k None app));
           State_Monad.return ()
         }
   }"

definition clearManagedStorageClaim :: "env \<Rightarrow> ApplicationInstance \<Rightarrow> (go_error option \<times> ApplicationInstance) prog" where
  "clearManagedStorageClaim E app =
     (if annotation app managedStorageClaimAnnotation = '''' then State_Monad.return (None, app)
      else
        (let app' = set_annotation managedStorageClaimAnnotation None app in do {
         err \<leftarrow> ask (write_result E) (PatchApplicationInstance app app');
         State_Monad.return (err, app')
       }))"

text \<open>Whether the delivery is claimed, whether to come back, an error, and the instance.\<close>

definition claimManagedStorageDelivery ::
  "env \<Rightarrow> ApplicationInstance \<Rightarrow> string \<Rightarrow> (bool \<times> bool \<times> go_error option \<times> ApplicationInstance) prog" where
  "claimManagedStorageDelivery E app reportKey =
     (if annotation app reportedManagedStorageAccessKeyAnnotation = reportKey
      then State_Monad.return (False, False, None, app)
      else if annotation app managedStorageClaimAnnotation = reportKey
      then State_Monad.return (annotation app managedStoragePostedAnnotation \<noteq> reportKey, False, None, app)
      else
        (let app' = set_annotation managedStorageClaimAnnotation (Some reportKey) app in do {
         err \<leftarrow> ask (write_result E) (PatchApplicationInstance app app');
         State_Monad.return
           (case err of
              None \<Rightarrow> (True, False, None, app')
            | Some err \<Rightarrow> if IsConflictErr err then (False, True, None, app') else (False, False, Some err, app'))
       }))"

definition triggerAckRetry :: "env \<Rightarrow> string \<Rightarrow> string \<Rightarrow> string \<Rightarrow> unit prog" where
  "triggerAckRetry E ns name k = do {
     app \<leftarrow> ask (get_app E) (GetApplicationInstance ns name);
     case app of
       Inl _ \<Rightarrow> State_Monad.return ()
     | Inr app \<Rightarrow> do {
         now \<leftarrow> Now E;
         _ \<leftarrow> ask (write_result E) (PatchApplicationInstance app (set_annotation k (Some (time_Format E now)) app));
         State_Monad.return ()
       }
   }"

definition triggerManagedStorageAckRetry :: "env \<Rightarrow> string \<Rightarrow> string \<Rightarrow> unit prog" where
  "triggerManagedStorageAckRetry E ns name = triggerAckRetry E ns name managedStorageAckRetryAnnotation"

definition triggerSeaweedEndpointsAckRetry :: "env \<Rightarrow> string \<Rightarrow> string \<Rightarrow> unit prog" where
  "triggerSeaweedEndpointsAckRetry E ns name = triggerAckRetry E ns name seaweedEndpointsAckRetryAnnotation"

definition triggerManagedStorageFailedAckRetry :: "env \<Rightarrow> string \<Rightarrow> string \<Rightarrow> unit prog" where
  "triggerManagedStorageFailedAckRetry E ns name = triggerAckRetry E ns name managedStorageFailedAckRetryAnnotation"

text \<open>The annotations after the delivery has been acknowledged.\<close>

definition acked :: "string \<Rightarrow> ApplicationInstance \<Rightarrow> ApplicationInstance" where
  "acked reportKey app =
     set_annotation managedStoragePostedAnnotation None
       (set_annotation managedStorageClaimAnnotation None
          (set_annotation reportedManagedStorageAccessKeyAnnotation (Some reportKey) app))"

text \<open>The three attempts: the error of the last one that was made.\<close>

fun ack_attempts :: "env \<Rightarrow> string \<Rightarrow> string \<Rightarrow> string \<Rightarrow> nat list \<Rightarrow> go_error option \<Rightarrow> go_error option prog" where
  "ack_attempts E ns name reportKey [] patchErr =
     State_Monad.return (Some (Wrapf ''patch ApplicationInstance: '' (case patchErr of None \<Rightarrow> Errorf ''%!w(<nil>)'' | Some err \<Rightarrow> err) []))"
| "ack_attempts E ns name reportKey (attempt # later) patchErr = do {
     _ \<leftarrow> (if attempt > 0 then ask (\<lambda>_. ()) (Sleep (int attempt * (seconds 1 div 10))) else State_Monad.return ());
     app \<leftarrow> ask (get_app E) (GetApplicationInstance ns name);
     case app of
       Inl err \<Rightarrow> State_Monad.return (Some (Wrapf ''get ApplicationInstance: '' err []))
     | Inr app \<Rightarrow>
         if annotation app reportedManagedStorageAccessKeyAnnotation = reportKey then do {
           _ \<leftarrow> clearStorageDeliveryState ns name;
           State_Monad.return None
         }
         else do {
           err \<leftarrow> ask (write_result E) (PatchApplicationInstance app (acked reportKey app));
           case err of
             None \<Rightarrow> do {
               _ \<leftarrow> clearStorageDeliveryState ns name;
               State_Monad.return None
             }
           | Some err \<Rightarrow>
               if IsConflictErr err then ack_attempts E ns name reportKey later (Some err)
               else ack_attempts E ns name reportKey [] (Some err)
         }
   }"

definition patchManagedStorageAck :: "env \<Rightarrow> string \<Rightarrow> string \<Rightarrow> string \<Rightarrow> go_error option prog" where
  "patchManagedStorageAck E ns name reportKey = ack_attempts E ns name reportKey [0, 1, 2] None"

definition retryManagedStorageAck :: "env \<Rightarrow> string \<Rightarrow> string \<Rightarrow> string \<Rightarrow> go_error option prog" where
  "retryManagedStorageAck E ns name reportKey = do {
     _ \<leftarrow> markStorageAckPending ns name reportKey;
     patchManagedStorageAck E ns name reportKey
   }"

section \<open>Delivery of managed-storage credentials\<close>

definition has_pending :: "string \<Rightarrow> bool prog" where
  "has_pending eventKey = peek (\<lambda>w. HasPendingEvent (batcher w) eventKey)"

definition enqueue_report ::
  "env \<Rightarrow> (time \<Rightarrow> EventBatcher option \<Rightarrow> bool \<times> EventBatcher option) \<Rightarrow> bool prog" where
  "enqueue_report E rep = do {
     now \<leftarrow> Now E;
     accepted \<leftarrow> peek (\<lambda>w. fst (rep now (batcher w)));
     _ \<leftarrow> poke (batcher_update (\<lambda>b. snd (rep now b)));
     State_Monad.return accepted
   }"

definition reportSeaweedEndpointsIfNeeded :: "env \<Rightarrow> ApplicationInstance \<Rightarrow> unit prog" where
  "reportSeaweedEndpointsIfNeeded E app =
     (let endpoints = agentEndpointsFromStatus (Endpoints (app_Status app)); reportKey = seaweedEndpointsReportKey endpoints;
          ns = Namespace (app_meta app); name = Name (app_meta app) in
      if endpoints = [] \<or> annotation app reportedSeaweedEndpointsAnnotation = reportKey then State_Monad.return ()
      else if annotation app seaweedEndpointsAckRetryAnnotation \<noteq> '''' then do {
        err \<leftarrow> patchSeaweedEndpointsAck E ns name reportKey;
        case err of
          Some _ \<Rightarrow> State_Monad.return ()
        | None \<Rightarrow> clearAnnotation E ns name seaweedEndpointsAckRetryAnnotation
      }
      else case Get (app_conditions app) ConditionReady of
        None \<Rightarrow> State_Monad.return ()
      | Some ready \<Rightarrow>
          if c_Status ready \<noteq> ConditionTrue then State_Monad.return ()
          else do {
            pending \<leftarrow> has_pending (EndpointsEventKey (app_ref app) reportKey);
            if pending then State_Monad.return ()
            else do {
              _ \<leftarrow> enqueue_report E (\<lambda>now. ReportSeaweedEndpoints now (app_ref app) ready endpoints reportKey);
              State_Monad.return ()
            }
          })"

text \<open>The acknowledgement of a failure report that has been posted.\<close>

definition ackManagedStorageFailed :: "env \<Rightarrow> ApplicationInstance \<Rightarrow> reconciled prog" where
  "ackManagedStorageFailed E app =
     (let ns = Namespace (app_meta app); name = Name (app_meta app) in do {
      err \<leftarrow> patchManagedStorageFailedAck E ns name;
      case err of
        Some _ \<Rightarrow> State_Monad.return (requeue_after 30, None)
      | None \<Rightarrow> do {
          _ \<leftarrow> clearAnnotation E ns name managedStorageFailedPostedAnnotation;
          _ \<leftarrow> clearAnnotation E ns name managedStorageFailedAckRetryAnnotation;
          State_Monad.return (no_requeue, None)
        }
    })"

definition reportManagedStorageFailed :: "env \<Rightarrow> ApplicationInstance \<Rightarrow> reconciled prog" where
  "reportManagedStorageFailed E app =
     (let ref = app_ref app; eventKey = ''ManagedStorageFailed/'' @ ar_UID ref @ ''/'' @ ConditionReady in
      if annotation app reportedManagedStorageFailedAnnotation = managedStorageFailedAnnotationValue
      then State_Monad.return (no_requeue, None)
      else if annotation app managedStorageFailedPostedAnnotation = managedStorageFailedAnnotationValue
      then ackManagedStorageFailed E app
      else if annotation app managedStorageFailedAckRetryAnnotation \<noteq> ''''
      then ackManagedStorageFailed E app
      else do {
        pending \<leftarrow> has_pending eventKey;
        if pending then State_Monad.return (no_requeue, None)
        else do {
          now \<leftarrow> Now E;
          _ \<leftarrow> poke (batcher_update (ReportAuditWithEventKey now ref ''ManagedStorageFailed''
            [\<lparr>c_Type = ConditionReady, c_Status = ConditionTrue, c_Reason = ''ManagedStorageFailed'',
              c_Message = ''Matching S3Credentials CRs are unavailable for managed storage reporting'',
              LastTransitionTime = zero_time\<rparr>] eventKey));
          State_Monad.return (no_requeue, None)
        }
      })"

text \<open>A delivery whose acknowledgement is pending: the result when it ends the reconcile.\<close>

definition resume_ack :: "env \<Rightarrow> ApplicationInstance \<Rightarrow> string \<Rightarrow> reconciled option prog" where
  "resume_ack E app reportKey =
     (let ns = Namespace (app_meta app); name = Name (app_meta app) in do {
      pendingKey \<leftarrow> pendingStorageAckReportKey ns name;
      case pendingKey of
        None \<Rightarrow> State_Monad.return None
      | Some pendingKey \<Rightarrow>
          if pendingKey \<noteq> reportKey then do {
            _ \<leftarrow> clearStorageAckPending ns name;
            State_Monad.return None
          }
          else do {
            err \<leftarrow> patchManagedStorageAck E ns name reportKey;
            State_Monad.return (Some (if err = None then no_requeue else requeue_after 30, None))
          }
    })"

text \<open>Whether a delivery with this key is on its way; one that was lost is forgotten.\<close>

definition delivery_in_flight :: "ApplicationInstance \<Rightarrow> string \<Rightarrow> string \<Rightarrow> bool prog" where
  "delivery_in_flight app reportKey eventKey =
     (let ns = Namespace (app_meta app); name = Name (app_meta app) in do {
      inFlightKey \<leftarrow> inFlightStorageReportKey ns name;
      case inFlightKey of
        None \<Rightarrow> State_Monad.return False
      | Some inFlightKey \<Rightarrow>
          if inFlightKey \<noteq> reportKey then do {
            _ \<leftarrow> clearStorageInFlight ns name;
            State_Monad.return False
          }
          else do {
            pending \<leftarrow> has_pending eventKey;
            if pending then State_Monad.return True
            else do {
              postingKey \<leftarrow> postingStorageReportKey ns name;
              if postingKey = Some reportKey then State_Monad.return True
              else do {
                _ \<leftarrow> clearStorageInFlight ns name;
                State_Monad.return False
              }
            }
          }
    })"

text \<open>Claiming the delivery and putting the event into the buffer.\<close>

definition deliver :: "env \<Rightarrow> ApplicationInstance \<Rightarrow> ManagedStorageSnapshot \<Rightarrow> Condition \<Rightarrow> string \<Rightarrow> reconciled prog" where
  "deliver E app ms ready reportKey = do {
     (claimed, requeue, err, app') \<leftarrow> claimManagedStorageDelivery E app reportKey;
     if err \<noteq> None then State_Monad.return (requeue_after 30, None)
     else if requeue then State_Monad.return (requeue_after 1, None)
     else if \<not> claimed then State_Monad.return (no_requeue, None)
     else do {
       accepted \<leftarrow> enqueue_report E (\<lambda>now. ReportManagedStorageReady now (app_ref app) ready
         \<lparr>ex_Endpoints = agentEndpointsFromStatus (Endpoints (app_Status app')),
          ex_ManagedStorage = Some \<lparr>AccessKeyID = mss_AccessKeyID ms, SecretAccessKey = mss_SecretAccessKey ms,
                                    BucketName = mss_BucketName ms\<rparr>\<rparr> reportKey);
       if accepted then do {
         _ \<leftarrow> markStorageInFlight (Namespace (app_meta app')) (Name (app_meta app')) reportKey;
         State_Monad.return (no_requeue, None)
       }
       else do {
         (err, _) \<leftarrow> clearManagedStorageClaim E app';
         State_Monad.return (if err = None then no_requeue else requeue_after 30, None)
       }
     }
   }"

text \<open>Sending the credentials, from the check of the stale claim on.\<close>

definition send_storage :: "env \<Rightarrow> ApplicationInstance \<Rightarrow> ManagedStorageSnapshot \<Rightarrow> Condition \<Rightarrow> string \<Rightarrow> reconciled prog" where
  "send_storage E app ms ready reportKey =
     (let eventKey = ManagedStorageEventKey (app_ref app) ready reportKey in do {
      resumed \<leftarrow> resume_ack E app reportKey;
      case resumed of
        Some res \<Rightarrow> State_Monad.return res
      | None \<Rightarrow> do {
          moving \<leftarrow> delivery_in_flight app reportKey eventKey;
          if moving then State_Monad.return (no_requeue, None)
          else do {
            pending \<leftarrow> has_pending eventKey;
            if pending then State_Monad.return (no_requeue, None)
            else if annotation app managedStoragePostedAnnotation = reportKey then do {
              err \<leftarrow> retryManagedStorageAck E (Namespace (app_meta app)) (Name (app_meta app)) reportKey;
              State_Monad.return (if err = None then no_requeue else requeue_after 30, None)
            }
            else deliver E app ms ready reportKey
          }
        }
    })"

definition reportManagedStorage :: "env \<Rightarrow> ApplicationInstance \<Rightarrow> ManagedStorageSnapshot \<Rightarrow> reconciled prog" where
  "reportManagedStorage E app ms =
     (case Get (app_conditions app) ConditionReady of
        None \<Rightarrow> State_Monad.return (no_requeue, None)
      | Some ready \<Rightarrow> do {
          now \<leftarrow> Now E;
          let ready = ready\<lparr>LastTransitionTime := now, c_Reason := ''ManagedStorageReady'',
                c_Message := ''Inline S3 credentials available for control-plane registry sync''\<rparr>;
          let reportKey = managedStorageReportKey ms;
          if annotation app reportedManagedStorageAccessKeyAnnotation = reportKey then do {
            _ \<leftarrow> clearStorageDeliveryState (Namespace (app_meta app)) (Name (app_meta app));
            State_Monad.return (no_requeue, None)
          }
          else do {
            (err, app') \<leftarrow> (if annotation app managedStorageClaimAnnotation \<notin> {'''', reportKey}
                            then clearManagedStorageClaim E app else State_Monad.return (None, app));
            if err \<noteq> None then State_Monad.return (requeue_after 30, None)
            else send_storage E app' ms ready reportKey
          }
        })"

definition reconcileSeaweedManagedStorage ::
  "env \<Rightarrow> StorageEngine \<Rightarrow> ApplicationInstance \<Rightarrow> reconciled prog" where
  "reconcileSeaweedManagedStorage E eng app =
     (if \<not> IsTrue (app_conditions app) ConditionReady then State_Monad.return (no_requeue, None)
      else do {
        _ \<leftarrow> reportSeaweedEndpointsIfNeeded E app;
        (ms, pending, failed, err) \<leftarrow> se_ResolveManagedStorageState eng app;
        if err \<noteq> None then State_Monad.return (requeue_after 30, None)
        else case ms of
          Some ms \<Rightarrow> reportManagedStorage E app ms
        | None \<Rightarrow>
            if pending then State_Monad.return (requeue_after 30, None)
            else if failed then reportManagedStorageFailed E app
            else State_Monad.return (no_requeue, None)
      })"

section \<open>Hooks of the event buffer\<close>

fun PrepareManagedStoragePost :: "Event list \<Rightarrow> unit prog" where
  "PrepareManagedStoragePost [] = State_Monad.return ()"
| "PrepareManagedStoragePost (event # evs) = do {
     _ \<leftarrow> (case ManagedStorageReportKeyFromEventKey (EventKey event) of
            None \<Rightarrow> State_Monad.return ()
          | Some reportKey \<Rightarrow>
              markStoragePosting (ar_Namespace (ResourceRef event)) (ar_Name (ResourceRef event)) reportKey);
     PrepareManagedStoragePost evs
   }"

fun AbortManagedStoragePost :: "Event list \<Rightarrow> unit prog" where
  "AbortManagedStoragePost [] = State_Monad.return ()"
| "AbortManagedStoragePost (event # evs) = do {
     _ \<leftarrow> (case ManagedStorageReportKeyFromEventKey (EventKey event) of
            None \<Rightarrow> State_Monad.return ()
          | Some reportKey \<Rightarrow>
              clearStoragePosting (ar_Namespace (ResourceRef event)) (ar_Name (ResourceRef event)) reportKey);
     AbortManagedStoragePost evs
   }"

text \<open>One event that the control plane has accepted.\<close>

definition ackEvent :: "env \<Rightarrow> Event \<Rightarrow> unit prog" where
  "ackEvent E event =
     (let ns = ar_Namespace (ResourceRef event); name = ar_Name (ResourceRef event) in
      if ev_Kind event = ''ManagedStorageFailed'' then do {
        err \<leftarrow> patchManagedStorageFailedPosted E ns name;
        if err \<noteq> None then triggerManagedStorageFailedAckRetry E ns name
        else do {
          err \<leftarrow> patchManagedStorageFailedAck E ns name;
          if err \<noteq> None then triggerManagedStorageFailedAckRetry E ns name else State_Monad.return ()
        }
      }
      else case EndpointsReportKeyFromEventKey (EventKey event) of
        Some reportKey \<Rightarrow> do {
          err \<leftarrow> patchSeaweedEndpointsAck E ns name reportKey;
          if err \<noteq> None then triggerSeaweedEndpointsAckRetry E ns name else State_Monad.return ()
        }
      | None \<Rightarrow>
          (case ManagedStorageReportKeyFromEventKey (EventKey event) of
             None \<Rightarrow> State_Monad.return ()
           | Some reportKey \<Rightarrow> do {
               _ \<leftarrow> markStorageAckPending ns name reportKey;
               _ \<leftarrow> clearStorageInFlight ns name;
               _ \<leftarrow> clearStoragePosting ns name reportKey;
               err \<leftarrow> patchManagedStoragePosted E ns name reportKey;
               if err \<noteq> None then triggerManagedStorageAckRetry E ns name
               else do {
                 err \<leftarrow> patchManagedStorageAck E ns name reportKey;
                 if err \<noteq> None then triggerManagedStorageAckRetry E ns name else State_Monad.return ()
               }
             }))"

fun AckManagedStorageDelivered :: "env \<Rightarrow> Event list \<Rightarrow> unit prog" where
  "AckManagedStorageDelivered E [] = State_Monad.return ()"
| "AckManagedStorageDelivered E (event # evs) = do {
     _ \<leftarrow> ackEvent E event;
     AckManagedStorageDelivered E evs
   }"

section \<open>Status snapshots\<close>

definition applyHelmStatusSnapshot ::
  "time \<Rightarrow> HelmSnapshot option \<Rightarrow> ApplicationInstanceStatus \<Rightarrow> ApplicationInstanceStatus" where
  "applyHelmStatusSnapshot now snapshot st =
     (case snapshot of
        None \<Rightarrow> set_app_condition now ConditionReady ConditionUnknown ''Reconciling'' ''Waiting for HelmRelease status'' st
      | Some s \<Rightarrow>
          (let st = (if snap_Reconciling s
                     then set_app_condition now ConditionReconciling ConditionTrue (snap_Reason s) (snap_Message s) st
                     else set_app_condition now ConditionReconciling ConditionFalse ''Stable'' ''No reconciliation in flight'' st);
               st = (if snap_Degraded s
                     then set_app_condition now ConditionDegraded ConditionTrue (snap_Reason s) (snap_Message s) st
                     else set_app_condition now ConditionDegraded ConditionFalse ''Recovered'' ''Release is healthy'' st) in
           if snap_Ready s
           then set_app_condition now ConditionBlocked ConditionFalse ''Unblocked'' ''Reconciliation can proceed''
                  (set_app_condition now ConditionReady ConditionTrue ''HelmReleaseReady'' (snap_Message s) st)
           else set_app_condition now ConditionReady ConditionUnknown
                  (if snap_Reason s = '''' then ''Reconciling'' else snap_Reason s) (snap_Message s) st))"

definition applySeaweedStatusSnapshot ::
  "time \<Rightarrow> SeaweedSnapshot option \<Rightarrow> ApplicationInstanceStatus \<Rightarrow> ApplicationInstanceStatus" where
  "applySeaweedStatusSnapshot now snapshot st =
     (case snapshot of
        None \<Rightarrow>
          set_app_condition now ConditionReady ConditionUnknown ''Reconciling'' ''Waiting for Seaweed status''
            (set_app_condition now ConditionDegraded ConditionFalse ''Reconciling'' ''Seaweed status not yet available''
               (set_app_condition now ConditionReconciling ConditionTrue ''Reconciling'' ''Waiting for Seaweed status''
                  (st\<lparr>Endpoints := []\<rparr>)))
      | Some s \<Rightarrow>
          (let st = st\<lparr>Endpoints := (if snap_S3Endpoint s \<noteq> ''''
                  then [\<lparr>ep_Name = ''s3'', ep_URL = snap_S3Endpoint s, ep_Type = ''s3'',
                         ep_Notes = ''In-cluster SeaweedFS S3 gateway (port 8333)''\<rparr>] else [])\<rparr>;
               st = (if snap_Reconciling s
                     then set_app_condition now ConditionReconciling ConditionTrue (snap_Reason s) (snap_Message s) st
                     else set_app_condition now ConditionReconciling ConditionFalse ''Stable'' ''No reconciliation in flight'' st);
               st = (if snap_Degraded s
                     then set_app_condition now ConditionDegraded ConditionTrue (snap_Reason s) (snap_Message s) st
                     else set_app_condition now ConditionDegraded ConditionFalse ''Recovered'' ''Seaweed cluster is healthy'' st);
               unblocked = set_app_condition now ConditionBlocked ConditionFalse ''Unblocked'' ''Reconciliation can proceed'';
               reason = (if snap_Reason s = '''' then ''Reconciling'' else snap_Reason s) in
           if snap_Ready s \<and> HasS3 s \<and> snap_S3Endpoint s = ''''
           then set_app_condition now ConditionReady ConditionUnknown ''WaitingForS3Endpoint''
                  ''Seaweed is ready but S3 endpoint is not yet available'' st
           else if snap_Ready s
           then unblocked (set_app_condition now ConditionReady ConditionTrue ''SeaweedReady'' (snap_Message s) st)
           else unblocked (set_app_condition now ConditionReady
                  (if snap_Degraded s \<or> reason = ''SeaweedFailed'' then ConditionFalse else ConditionUnknown)
                  reason (snap_Message s) st)))"

section \<open>Reconciling\<close>

definition chart_snapshot :: "ChartSpec \<Rightarrow> ChartSnapshot" where
  "chart_snapshot chart =
     \<lparr>sn_SourceType = ch_SourceType chart, sn_URL = ch_URL chart, sn_Name = ch_Name chart, sn_Version = ch_Version chart\<rparr>"

text \<open>
  The snapshot of an engine: an error other than NotFound ends the reconcile. A panic ends it with
  no result.
\<close>

definition snapshot_of :: "string \<Rightarrow> 's result \<Rightarrow> reconciled + 's option" where
  "snapshot_of what s =
     (case s of
        Inr s \<Rightarrow> Inr (Some s)
      | Inl err \<Rightarrow>
          if err = nil_dereference then Inl (no_requeue, Some err)
          else if IsNotFound err then Inr None
          else Inl (no_requeue, Some (Wrapf what err [])))"

text \<open>After the release has been ensured: the status of the HelmRelease becomes that of the instance.\<close>

definition finish_helm :: "env \<Rightarrow> ReleaseEngine \<Rightarrow> Condition list \<Rightarrow> ApplicationInstance \<Rightarrow> reconciled prog" where
  "finish_helm E eng prev app =
     (case (as_Release (app_Spec app), as_Chart (app_Spec app)) of
        (Some release, Some chart) \<Rightarrow> do {
          let app = app\<lparr>app_Status := (app_Status app)
            \<lparr>ast_HelmReleaseRef := Some \<lparr>hrr_Name = rel_Name release, hrr_Namespace = Namespace (app_meta app)\<rparr>,
             LastAppliedChart := Some (chart_snapshot chart)\<rparr>\<rparr>;
          synced \<leftarrow> re_SyncStatus eng app;
          case snapshot_of ''sync helm status: '' synced of
            Inl res \<Rightarrow> State_Monad.return res
          | Inr snapshot \<Rightarrow> do {
              now \<leftarrow> Now E;
              write_status E ''update status: ''
                (app\<lparr>app_Status := applyHelmStatusSnapshot now snapshot (app_Status app)\<rparr>) prev
                (State_Monad.return
                  (case snapshot of
                     None \<Rightarrow> (no_requeue, None)
                   | Some s \<Rightarrow> (if snap_Ready s then no_requeue else requeue_after 30, None)))
            }
        }
      | _ \<Rightarrow> State_Monad.return (no_requeue, Some nil_dereference))"

definition reconcileHelm :: "env \<Rightarrow> ApplicationInstanceReconciler \<Rightarrow> ApplicationInstance \<Rightarrow> reconciled prog" where
  "reconcileHelm E r app =
     (case air_Engine r of
        None \<Rightarrow> setBlocked E app ''MissingDependencies'' ''helm engine is not configured''
      | Some eng \<Rightarrow> do {
          let prev = app_conditions app;
          now \<leftarrow> Now E;
          let app = app\<lparr>app_Status := set_app_condition now ConditionReconciling ConditionTrue ''HelmReleaseInstalling''
            ''Ensuring HelmRelease'' ((app_Status app)\<lparr>ObservedGeneration := Generation (app_meta app), LastReconcileTime := Some now\<rparr>)\<rparr>;
          err \<leftarrow> re_EnsureRelease eng app;
          case err of
            Some err \<Rightarrow>
              if err = nil_dereference then State_Monad.return (no_requeue, Some err)
              else do {
                now \<leftarrow> Now E;
                write_status E ''update status after ensure failure: ''
                  (app\<lparr>app_Status := set_app_condition now ConditionReconciling ConditionFalse ''Stable'' ''Reconciliation failed''
                     (set_app_condition now ConditionReady ConditionFalse ''HelmReleaseFailed'' (Error err) (app_Status app))\<rparr>)
                  prev (State_Monad.return (requeue_after 30, Some err))
              }
          | None \<Rightarrow> finish_helm E eng prev app
        })"

text \<open>After the Seaweed resource has been ensured.\<close>

definition finish_seaweed :: "env \<Rightarrow> StorageEngine \<Rightarrow> Condition list \<Rightarrow> ApplicationInstance \<Rightarrow> reconciled prog" where
  "finish_seaweed E sea prev app = do {
     now \<leftarrow> Now E;
     let app = app\<lparr>app_Status := (app_Status app)\<lparr>ObservedGeneration := Generation (app_meta app),
       LastReconcileTime := Some now, LastAppliedChart := map_option chart_snapshot (as_Chart (app_Spec app))\<rparr>\<rparr>;
     synced \<leftarrow> se_SyncStatus sea app;
     case snapshot_of ''sync Seaweed status: '' synced of
       Inl res \<Rightarrow> State_Monad.return res
     | Inr snapshot \<Rightarrow> do {
         now \<leftarrow> Now E;
         let app = app\<lparr>app_Status := applySeaweedStatusSnapshot now snapshot (app_Status app)\<rparr>;
         write_status E ''update status: '' app prev
           (case snapshot of
              None \<Rightarrow> State_Monad.return (requeue_after 30, None)
            | Some s \<Rightarrow>
                if \<not> snap_Ready s \<or> snap_S3Endpoint s = '''' \<and> HasS3 s
                then State_Monad.return (requeue_after 30, None)
                else reconcileSeaweedManagedStorage E sea app)
       }
   }"

text \<open>The status when the Seaweed resource could not be ensured.\<close>

definition seaweed_failed :: "time \<Rightarrow> go_error \<Rightarrow> ApplicationInstanceStatus \<Rightarrow> ApplicationInstanceStatus" where
  "seaweed_failed now err st =
     set_app_condition now ConditionBlocked ConditionFalse ''Unblocked'' ''Reconciliation can proceed''
       (set_app_condition now ConditionDegraded ConditionTrue ''SeaweedFailed'' (Error err)
         (set_app_condition now ConditionReconciling ConditionFalse ''SeaweedFailed'' (Error err)
           (set_app_condition now ConditionReady ConditionFalse ''SeaweedFailed'' (Error err)
              (st\<lparr>Endpoints := []\<rparr>))))"

definition reconcileSeaweed :: "env \<Rightarrow> ApplicationInstanceReconciler \<Rightarrow> ApplicationInstance \<Rightarrow> reconciled prog" where
  "reconcileSeaweed E r app =
     (case (air_SeaweedEngine r, air_Engine r) of
        (None, _) \<Rightarrow> setBlocked E app ''MissingDependencies'' ''seaweed engine is not configured''
      | (Some _, None) \<Rightarrow> setBlocked E app ''MissingDependencies''
          ''helm engine is not configured; required to detect legacy Helm releases during Seaweed migration''
      | (Some sea, Some helm) \<Rightarrow> do {
          exists \<leftarrow> re_ReleaseExists helm app;
          case exists of
            Inl err \<Rightarrow> setBlocked E app ''HelmMigrationFailed'' (''check legacy Helm release: '' @ Error err)
          | Inr True \<Rightarrow> setBlocked E app ''HelmMigrationRequired''
              ''legacy Helm release detected; remove the HelmRelease manually or recreate the ApplicationInstance before native Seaweed reconciliation''
          | Inr False \<Rightarrow> do {
              let prev = app_conditions app;
              now \<leftarrow> Now E;
              let app = app\<lparr>app_Status := set_app_condition now ConditionReconciling ConditionTrue ''SeaweedReconciling'' ''Ensuring Seaweed CR''
                ((set_app_condition now ConditionBlocked ConditionFalse ''Unblocked'' ''Reconciliation can proceed''
                   (app_Status app))\<lparr>ast_HelmReleaseRef := None\<rparr>)\<rparr>;
              err \<leftarrow> se_EnsureSeaweed sea app;
              case err of
                Some err \<Rightarrow> do {
                  now \<leftarrow> Now E;
                  write_status E ''update status after ensure failure: ''
                    (app\<lparr>app_Status := seaweed_failed now err (app_Status app)\<rparr>)
                    prev (State_Monad.return (requeue_after 30, None))
                }
              | None \<Rightarrow> finish_seaweed E sea prev app
            }
        })"

definition reconcilePlaceholder :: "env \<Rightarrow> ApplicationInstance \<Rightarrow> reconciled prog" where
  "reconcilePlaceholder E app = do {
     now \<leftarrow> Now E;
     write_status E ''update placeholder status: ''
       (app\<lparr>app_Status :=
          set_app_condition now ConditionBlocked ConditionFalse ''Unblocked'' ''Reconciliation can proceed''
            (set_app_condition now ConditionReady ConditionTrue ''Placeholder'' ''Placeholder instance is ready (no Helm release)''
              (set_app_condition now ConditionDegraded ConditionFalse ''Recovered'' ''Placeholder instance owns no workload''
                (set_app_condition now ConditionReconciling ConditionFalse ''Stable'' ''Placeholder instance has no reconciliation in flight''
                  ((app_Status app)\<lparr>ObservedGeneration := Generation (app_meta app), LastReconcileTime := Some now,
                     ast_HelmReleaseRef := None, LastAppliedChart := None, Endpoints := []\<rparr>))))\<rparr>)
       (app_conditions app) (State_Monad.return (no_requeue, None))
   }"

section \<open>Finalization\<close>

definition remove_app_finalizer :: "env \<Rightarrow> ApplicationInstance \<Rightarrow> reconciled prog" where
  "remove_app_finalizer E app = do {
     err \<leftarrow> ask (write_result E) (UpdateApplicationInstance
       (app\<lparr>app_meta := RemoveFinalizer E (app_meta app) ApplicationInstanceFinalizer\<rparr>));
     State_Monad.return (no_requeue, map_option (\<lambda>err. Wrapf ''remove finalizer: '' err []) err)
   }"

text \<open>Writing that the instance is being deleted, before going on.\<close>

definition write_deleting ::
  "env \<Rightarrow> ApplicationInstance \<Rightarrow> string \<Rightarrow> string \<Rightarrow> (ApplicationInstance \<Rightarrow> reconciled prog) \<Rightarrow> reconciled prog" where
  "write_deleting E app reason message cont = do {
     now \<leftarrow> Now E;
     let app' = app\<lparr>app_Status := set_app_condition now ConditionDeleting ConditionTrue reason message (app_Status app)\<rparr>;
     write_status E ''update deleting status: '' app' (app_conditions app) (cont app')
   }"

text \<open>The result when deleting a workload has failed; a panic has no result.\<close>

definition delete_failed :: "go_error \<Rightarrow> reconciled" where
  "delete_failed err = (if err = nil_dereference then no_requeue else requeue_after 15, Some err)"

text \<open>Whether a legacy Helm release is still there; without an engine there is none.\<close>

definition legacy_release :: "ReleaseEngine option \<Rightarrow> ApplicationInstance \<Rightarrow> bool result prog" where
  "legacy_release eng app =
     (case eng of
        None \<Rightarrow> State_Monad.return (Inr False)
      | Some eng \<Rightarrow> do {
          exists \<leftarrow> re_ReleaseExists eng app;
          State_Monad.return
            (case exists of
               Inl err \<Rightarrow> Inl (Wrapf ''check legacy Helm release: '' err [])
             | Inr b \<Rightarrow> Inr b)
        })"

definition finish_seaweed_finalize ::
  "env \<Rightarrow> ApplicationInstanceReconciler \<Rightarrow> StorageEngine \<Rightarrow> ApplicationInstance \<Rightarrow> reconciled prog" where
  "finish_seaweed_finalize E r sea app = do {
     exists \<leftarrow> se_SeaweedExists sea app;
     case exists of
       Inl err \<Rightarrow> State_Monad.return (requeue_after 15, Some err)
     | Inr True \<Rightarrow> State_Monad.return (requeue_after 15, None)
     | Inr False \<Rightarrow> do {
         helmExists \<leftarrow> legacy_release (air_Engine r) app;
         case helmExists of
           Inl err \<Rightarrow> State_Monad.return (requeue_after 15, Some err)
         | Inr True \<Rightarrow> State_Monad.return (requeue_after 15, None)
         | Inr False \<Rightarrow> remove_app_finalizer E app
       }
   }"

definition finalize_seaweed :: "env \<Rightarrow> ApplicationInstanceReconciler \<Rightarrow> Condition list \<Rightarrow> ApplicationInstance \<Rightarrow> reconciled prog" where
  "finalize_seaweed E r prev app =
     (case air_SeaweedEngine r of
        None \<Rightarrow> do {
          now \<leftarrow> Now E;
          write_status E ''update blocked status during finalize: ''
            (app\<lparr>app_Status := set_app_condition now ConditionDeleting ConditionTrue ''Blocked''
                 ''Cannot uninstall Seaweed CR until seaweed engine is configured''
               (set_app_condition now ConditionBlocked ConditionTrue ''MissingDependencies'' ''seaweed engine is not configured''
                  (app_Status app))\<rparr>)
            prev (State_Monad.return (requeue_after 15, None))
        }
      | Some sea \<Rightarrow> do {
          err \<leftarrow> se_DeleteSeaweed sea app;
          case err of
            Some err \<Rightarrow> State_Monad.return (requeue_after 15, Some err)
          | None \<Rightarrow> do {
              helmExists \<leftarrow> legacy_release (air_Engine r) app;
              case helmExists of
                Inl err \<Rightarrow> State_Monad.return (requeue_after 15, Some err)
              | Inr helmExists \<Rightarrow> do {
                  err \<leftarrow> (case air_Engine r of
                           Some eng \<Rightarrow> if helmExists then re_DeleteRelease eng app else State_Monad.return None
                         | None \<Rightarrow> State_Monad.return None);
                  case err of
                    Some err \<Rightarrow> State_Monad.return (delete_failed err)
                  | None \<Rightarrow> finish_seaweed_finalize E r sea app
                }
            }
        })"

definition finalize_helm :: "env \<Rightarrow> ApplicationInstanceReconciler \<Rightarrow> ApplicationInstance \<Rightarrow> reconciled prog" where
  "finalize_helm E r app = do {
     err \<leftarrow> (case air_Engine r of None \<Rightarrow> State_Monad.return None | Some eng \<Rightarrow> re_DeleteRelease eng app);
     case err of
       Some err \<Rightarrow> State_Monad.return (delete_failed err)
     | None \<Rightarrow> remove_app_finalizer E app
   }"

definition finalize :: "env \<Rightarrow> ApplicationInstanceReconciler \<Rightarrow> ApplicationInstance \<Rightarrow> reconciled prog" where
  "finalize E r app =
     (if IsPlaceholder (app_Spec app)
      then write_deleting E app ''Deleting'' ''Removing placeholder instance (nothing to uninstall)'' (remove_app_finalizer E)
      else if IsSeaweedWorkload (Some app)
      then write_deleting E app ''Uninstalling'' ''Removing Seaweed CR'' (finalize_seaweed E r (app_conditions app))
      else write_deleting E app ''Uninstalling'' ''Removing HelmRelease'' (finalize_helm E r))"

definition App_Reconcile :: "env \<Rightarrow> ApplicationInstanceReconciler \<Rightarrow> string \<Rightarrow> string \<Rightarrow> reconciled prog" where
  "App_Reconcile E r ns name = do {
     got \<leftarrow> ask (get_app E) (GetApplicationInstance ns name);
     case got of
       Inl err \<Rightarrow> State_Monad.return (no_requeue, if IsNotFound err then None else Some err)
     | Inr app \<Rightarrow>
         if \<not> ContainsFinalizer E (app_meta app) ApplicationInstanceFinalizer then do {
           err \<leftarrow> ask (write_result E) (UpdateApplicationInstance
             (app\<lparr>app_meta := AddFinalizer E (app_meta app) ApplicationInstanceFinalizer\<rparr>));
           State_Monad.return
             (case err of
                Some err \<Rightarrow> (no_requeue, Some (Wrapf ''add finalizer: '' err []))
              | None \<Rightarrow> (\<lparr>Requeue = True, RequeueAfter = 0\<rparr>, None))
         }
         else if being_deleted (app_meta app) then finalize E r app
         else case ValidateApplicationInstanceSpec (Some app) of
           Some err \<Rightarrow> setBlocked E app ''ValidationFailed'' (Error err)
         | None \<Rightarrow>
             if IsPlaceholder (app_Spec app) then reconcilePlaceholder E app
             else if IsSeaweedWorkload (Some app) then reconcileSeaweed E r app
             else reconcileHelm E r app
   }"

section \<open>The watch on S3 credentials\<close>

definition applicationInstancesForSeaweedRef :: "ApplicationInstance list \<Rightarrow> string \<Rightarrow> string \<Rightarrow> (string \<times> string) list" where
  "applicationInstancesForSeaweedRef items releaseName ns =
     map (\<lambda>app. (Namespace (app_meta app), Name (app_meta app)))
       (filter (\<lambda>app. IsSeaweedWorkload (Some app)
          \<and> (case as_Release (app_Spec app) of
               None \<Rightarrow> False
             | Some release \<Rightarrow> rel_Name release = releaseName
                 \<and> (if rel_Namespace release = '''' then Namespace (app_meta app) else rel_Namespace release) = ns)) items)"

definition mapS3CredentialsToApplicationInstance :: "env \<Rightarrow> Unstructured \<Rightarrow> (string \<times> string) list prog" where
  "mapS3CredentialsToApplicationInstance E cred =
     (let releaseName = NestedString E (u_Object cred) [''spec'', ''seaweedRef'', ''name''] in
      if snd (u_gvk cred) \<noteq> ''S3Credentials'' \<or> releaseName = '''' then State_Monad.return []
      else do {
        items \<leftarrow> ask (list_apps E) (ListApplicationInstances (Namespace (u_meta cred)));
        State_Monad.return
          (case items of
             Inl _ \<Rightarrow> []
           | Inr items \<Rightarrow> applicationInstancesForSeaweedRef items releaseName (Namespace (u_meta cred)))
      })"

section \<open>Report keys\<close>

lemma length_managedStorageReportKey: "length (managedStorageReportKey ms) = 16"
  by (simp add: managedStorageReportKey_def)

lemma managedStorageReportKey_nonempty [simp]:
  "managedStorageReportKey ms \<noteq> ''''" "'''' \<noteq> managedStorageReportKey ms"
  using length_managedStorageReportKey [of ms] by auto

section \<open>The delivery of credentials\<close>

text \<open>
  A delivery is on its way when it is marked as in flight and its event is in the buffer or being
  posted.
\<close>

definition on_its_way :: "ApplicationInstance \<Rightarrow> string \<Rightarrow> string \<Rightarrow> world \<Rightarrow> bool" where
  "on_its_way app reportKey eventKey w \<longleftrightarrow>
     (let key = storageDeliveryKey (Namespace (app_meta app)) (Name (app_meta app)) in
      storageInFlight w key = Some reportKey
      \<and> (HasPendingEvent (batcher w) eventKey \<or> storagePosting w key = Some reportKey))"

lemmas storage_defs = markStorageInFlight_def inFlightStorageReportKey_def clearStorageInFlight_def
  markStorageAckPending_def pendingStorageAckReportKey_def clearStorageAckPending_def
  postingStorageReportKey_def clearStorageDeliveryState_def has_pending_def

lemma set_annotation_simps [simp]:
  "Name (app_meta (set_annotation k v app)) = Name (app_meta app)"
  "Namespace (app_meta (set_annotation k v app)) = Namespace (app_meta app)"
  "app_Status (set_annotation k v app) = app_Status app"
  "app_ref (set_annotation k v app) = app_ref app"
  by (simp_all add: set_annotation_def app_ref_def ResourceRefFromMeta_def)

lemma get_set_annotation [simp]:
  "annotation (set_annotation k v app) k' = (if k' = k then (case v of None \<Rightarrow> '''' | Some s \<Rightarrow> s) else annotation app k')"
  by (simp add: set_annotation_def go_get_def)

lemma run_enqueue_report [go_run]:
  "run_state (enqueue_report E rep) w =
     (fst (rep (clock E (hist w)) (batcher w)), w\<lparr>batcher := snd (rep (clock E (hist w)) (batcher w))\<rparr>)"
  by (cases w) (simp add: enqueue_report_def go_run)

lemma Get_type: "Get cs t = Some c \<Longrightarrow> c_Type c = t"
  by (induction cs) (auto split: if_splits)

lemma ack_attempts_batcher: "batcher (snd (run_state (ack_attempts E ns name reportKey as e) w)) = batcher w"
proof (induction as arbitrary: e w)
  case (Cons a as)
  then show ?case by (auto simp: go_run storage_defs Let_def split: sum.splits option.splits)
qed simp

lemma clear_claim_run:
  "\<exists>e h app'. run_state (clearManagedStorageClaim E app) w = ((e, app'), w\<lparr>hist := h\<rparr>)
     \<and> (app' = app \<or> app' = set_annotation managedStorageClaimAnnotation None app)"
proof (cases "annotation app managedStorageClaimAnnotation = ''''")
  case True
  then show ?thesis by (auto simp: clearManagedStorageClaim_def go_run intro!: exI [of _ "hist w"])
qed (auto simp: clearManagedStorageClaim_def go_run Let_def)

lemma send_storage_on_its_way:
  assumes "on_its_way app reportKey (ManagedStorageEventKey (app_ref app) ready reportKey) w"
  shows "batcher (snd (run_state (send_storage E app ms ready reportKey) w)) = batcher w"
proof -
  obtain r w1 where ack: "run_state (patchManagedStorageAck E (Namespace (app_meta app)) (Name (app_meta app)) reportKey) w = (r, w1)"
    by (cases "run_state (patchManagedStorageAck E (Namespace (app_meta app)) (Name (app_meta app)) reportKey) w")
  have "batcher w1 = batcher w"
    using ack_attempts_batcher [of E "Namespace (app_meta app)" "Name (app_meta app)" reportKey "[0, 1, 2]" None w]
    by (simp only: patchManagedStorageAck_def [symmetric] ack snd_conv)
  with assms ack show ?thesis
    by (auto simp: send_storage_def resume_ack_def delivery_in_flight_def on_its_way_def storage_defs go_run Let_def
        split: option.splits)
qed

lemma storage_event_key:
  "ManagedStorageEventKey ref (ready\<lparr>LastTransitionTime := t, c_Reason := r, c_Message := m\<rparr>) k =
     ManagedStorageEventKey ref ready k"
  by (simp add: ManagedStorageEventKey_def)

lemma on_its_way_hist: "on_its_way app k ek (w\<lparr>hist := h\<rparr>) = on_its_way app k ek w"
  by (simp add: on_its_way_def Let_def)

lemma on_its_way_set_annotation: "on_its_way (set_annotation a v app) k ek w = on_its_way app k ek w"
  by (simp add: on_its_way_def)

lemma report_on_its_way:
  assumes "Get (app_conditions app) ConditionReady = Some ready"
    and "on_its_way app (managedStorageReportKey ms) (ManagedStorageEventKey (app_ref app) ready (managedStorageReportKey ms)) w"
  shows "batcher (snd (run_state (reportManagedStorage E app ms) w)) = batcher w"
proof -
  let ?k = "managedStorageReportKey ms"
  let ?ready = "ready\<lparr>LastTransitionTime := clock E (hist w), c_Reason := ''ManagedStorageReady'',
                c_Message := ''Inline S3 credentials available for control-plane registry sync''\<rparr>"
  obtain e h app' where clear: "run_state (clearManagedStorageClaim E app) w = ((e, app'), w\<lparr>hist := h\<rparr>)"
    and app': "app' = app \<or> app' = set_annotation managedStorageClaimAnnotation None app"
    using clear_claim_run by blast
  have send: "batcher (snd (run_state (send_storage E a ms ?ready ?k) (w\<lparr>hist := h'\<rparr>))) = batcher w"
    if "a = app \<or> a = set_annotation managedStorageClaimAnnotation None app" for a h'
    using send_storage_on_its_way [of a ?k ?ready "w\<lparr>hist := h'\<rparr>" E ms] assms(2) that
    by (auto simp: storage_event_key on_its_way_hist on_its_way_set_annotation)
  have here: "batcher (snd (run_state (send_storage E app ms ?ready ?k) w)) = batcher w"
    using send [of app "hist w"] by simp
  show ?thesis
    using assms(1) clear app' send [of app' h] here
    by (auto simp: reportManagedStorage_def storage_defs go_run Let_def)
qed

lemma enqueued_is_pending:
  assumes "ReportManagedStorageReady now ref ready extras k b = (True, b')"
  shows "HasPendingEvent b' (ManagedStorageEventKey ref ready k)"
proof -
  obtain b0 e where b': "b' = Some (Enqueue now e b0)" and e: "EventKey e = ManagedStorageEventKey ref ready k"
    using assms by (auto simp: ReportManagedStorageReady_def split: option.splits)
  have "stamp now e \<in> set (events (Enqueue now e b0))"
    by (cases "nat (bufferCap b0)") (use bufferCap_pos [of b0] in \<open>auto simp: events_Enqueue keep_last_def\<close>)
  moreover have "EventKey (stamp now e) = EventKey e" by (simp add: stamp_def)
  ultimately show ?thesis
    using b' e by (auto simp: HasPendingEvent_def HasEventKey_def list_ex_iff ManagedStorageEventKey_def)
qed

text \<open>What it takes for the event to be put into the buffer.\<close>

definition claimed :: "env \<Rightarrow> ApplicationInstance \<Rightarrow> string \<Rightarrow> call list \<Rightarrow> bool" where
  "claimed E app reportKey h \<longleftrightarrow>
     annotation app managedStorageClaimAnnotation = reportKey
     \<or> (\<exists>old new before. h = PatchApplicationInstance old new # before
          \<and> write_result E h = None \<and> annotation new managedStorageClaimAnnotation = reportKey)"

lemma claim_run:
  "\<exists>c q e app' h. run_state (claimManagedStorageDelivery E app reportKey) w = ((c, q, e, app'), w\<lparr>hist := h\<rparr>)
     \<and> app_ref app' = app_ref app \<and> storageDeliveryKey (Namespace (app_meta app')) (Name (app_meta app')) =
       storageDeliveryKey (Namespace (app_meta app)) (Name (app_meta app))
     \<and> (c \<longrightarrow> annotation app reportedManagedStorageAccessKeyAnnotation \<noteq> reportKey \<and> claimed E app reportKey h)"
proof (cases "annotation app reportedManagedStorageAccessKeyAnnotation = reportKey
    \<or> annotation app managedStorageClaimAnnotation = reportKey")
  case True
  let ?c = "annotation app reportedManagedStorageAccessKeyAnnotation \<noteq> reportKey
    \<and> annotation app managedStoragePostedAnnotation \<noteq> reportKey"
  have "run_state (claimManagedStorageDelivery E app reportKey) w = ((?c, False, None, app), w\<lparr>hist := hist w\<rparr>)"
    using True by (auto simp: claimManagedStorageDelivery_def go_run)
  moreover have "?c \<Longrightarrow> claimed E app reportKey (hist w)" using True by (simp add: claimed_def)
  ultimately show ?thesis by blast
next
  case False
  let ?app' = "set_annotation managedStorageClaimAnnotation (Some reportKey) app"
  let ?h = "PatchApplicationInstance app ?app' # hist w"
  let ?r = "write_result E ?h"
  have run: "run_state (claimManagedStorageDelivery E app reportKey) w =
      ((?r = None, case ?r of None \<Rightarrow> False | Some err \<Rightarrow> IsConflictErr err,
        case ?r of None \<Rightarrow> None | Some err \<Rightarrow> if IsConflictErr err then None else Some err, ?app'), w\<lparr>hist := ?h\<rparr>)"
    using False by (simp add: claimManagedStorageDelivery_def go_run Let_def split: option.split)
  have "claimed E app reportKey ?h" if "?r = None"
    unfolding claimed_def using that by (intro disjI2 exI [of _ app] exI [of _ ?app'] exI [of _ "hist w"]) simp
  with False show ?thesis
    by - (intro exI conjI, rule run, simp_all)
qed

text \<open>The event that carries the credentials, and a buffer into which it has just been put.\<close>

definition credential_event :: "ApplicationInstance \<Rightarrow> Condition \<Rightarrow> string \<Rightarrow> Event \<Rightarrow> bool" where
  "credential_event app ready reportKey e \<longleftrightarrow>
     EventKey e = ManagedStorageEventKey (app_ref app) ready reportKey
     \<and> ev_Kind e = ''ConditionTransition'' \<and> ResourceRef e = app_ref app"

definition enqueued ::
  "ApplicationInstance \<Rightarrow> Condition \<Rightarrow> string \<Rightarrow> EventBatcher option \<Rightarrow> EventBatcher option \<Rightarrow> bool" where
  "enqueued app ready reportKey b b' \<longleftrightarrow>
     (\<exists>now e b0. b = Some b0 \<and> b' = Some (Enqueue now e b0) \<and> credential_event app ready reportKey e)"

lemma enqueued_by_report:
  assumes "ReportManagedStorageReady now (app_ref app) ready extras k b = (True, b')"
  shows "enqueued app ready k b b'"
proof -
  let ?e = "(ConditionTransitionEvent now (app_ref app) [ready])\<lparr>EventKey := ManagedStorageEventKey (app_ref app) ready k,
    ev_Endpoints := ex_Endpoints extras, ManagedStorage := ex_ManagedStorage extras\<rparr>"
  obtain b0 where "b = Some b0" "b' = Some (Enqueue now ?e b0)"
    using assms by (auto simp: ReportManagedStorageReady_def split: option.splits)
  moreover have "credential_event app ready k ?e" by (simp add: credential_event_def ConditionTransitionEvent_def)
  ultimately show ?thesis unfolding enqueued_def by blast
qed

lemma enqueued_simps [simp]:
  "enqueued (set_annotation a v app) ready k b b' = enqueued app ready k b b'"
  "enqueued app (ready\<lparr>LastTransitionTime := t, c_Reason := r, c_Message := m\<rparr>) k b b' = enqueued app ready k b b'"
  by (simp_all add: enqueued_def credential_event_def storage_event_key)

lemma deliver_queues:
  assumes "run_state (deliver E app ms ready reportKey) w = (res, w')" and "batcher w' \<noteq> batcher w"
  shows "annotation app reportedManagedStorageAccessKeyAnnotation \<noteq> reportKey \<and> claimed E app reportKey (hist w')
    \<and> on_its_way app reportKey (ManagedStorageEventKey (app_ref app) ready reportKey) w'
    \<and> HasPendingEvent (batcher w') (ManagedStorageEventKey (app_ref app) ready reportKey)
    \<and> enqueued app ready reportKey (batcher w) (batcher w')"
proof -
  obtain c q e app' h where claim: "run_state (claimManagedStorageDelivery E app reportKey) w = ((c, q, e, app'), w\<lparr>hist := h\<rparr>)"
    and key: "storageDeliveryKey (Namespace (app_meta app')) (Name (app_meta app')) =
       storageDeliveryKey (Namespace (app_meta app)) (Name (app_meta app))"
    and c: "c \<Longrightarrow> annotation app reportedManagedStorageAccessKeyAnnotation \<noteq> reportKey \<and> claimed E app reportKey h"
    using claim_run by blast
  let ?extras = "\<lparr>ex_Endpoints = agentEndpointsFromStatus (Endpoints (app_Status app')),
          ex_ManagedStorage = Some \<lparr>AccessKeyID = mss_AccessKeyID ms, SecretAccessKey = mss_SecretAccessKey ms,
                                    BucketName = mss_BucketName ms\<rparr>\<rparr>"
  obtain ok b' where report: "ReportManagedStorageReady (clock E h) (app_ref app) ready ?extras reportKey (batcher w) = (ok, b')"
    by (cases "ReportManagedStorageReady (clock E h) (app_ref app) ready ?extras reportKey (batcher w)")
  obtain e2 h2 app2 where clear: "run_state (clearManagedStorageClaim E app') (w\<lparr>hist := h, batcher := b'\<rparr>) =
      ((e2, app2), w\<lparr>hist := h, batcher := b'\<rparr>\<lparr>hist := h2\<rparr>)"
    using clear_claim_run by blast
  have "\<not> ok \<Longrightarrow> b' = batcher w" using report by (auto simp: ReportManagedStorageReady_def split: option.splits)
  with assms claim report clear have "ok" "e = None" "\<not> q" "c"
    and w': "w' = w\<lparr>hist := h, batcher := b',
      storageInFlight := (storageInFlight w)(storageDeliveryKey (Namespace (app_meta app)) (Name (app_meta app)) \<mapsto> reportKey)\<rparr>"
    by (auto simp: deliver_def storage_defs go_run key split: if_splits)
  moreover have "HasPendingEvent b' (ManagedStorageEventKey (app_ref app) ready reportKey)"
    by (rule enqueued_is_pending) (use report \<open>ok\<close> in simp)
  moreover have "enqueued app ready reportKey (batcher w) b'"
    by (rule enqueued_by_report) (use report \<open>ok\<close> in simp)
  ultimately show ?thesis
    using c by (simp add: on_its_way_def Let_def)
qed

lemma send_queues:
  assumes "run_state (send_storage E app ms ready reportKey) w = (res, w')" and "batcher w' \<noteq> batcher w"
  shows "annotation app reportedManagedStorageAccessKeyAnnotation \<noteq> reportKey
    \<and> annotation app managedStoragePostedAnnotation \<noteq> reportKey \<and> claimed E app reportKey (hist w')
    \<and> \<not> HasPendingEvent (batcher w) (ManagedStorageEventKey (app_ref app) ready reportKey)
    \<and> on_its_way app reportKey (ManagedStorageEventKey (app_ref app) ready reportKey) w'
    \<and> HasPendingEvent (batcher w') (ManagedStorageEventKey (app_ref app) ready reportKey)
    \<and> enqueued app ready reportKey (batcher w) (batcher w')"
proof -
  have ack: "batcher v' = batcher v" if "run_state (patchManagedStorageAck E ns name k) v = (r, v')" for ns name k v r v'
    using ack_attempts_batcher [of E ns name k "[0, 1, 2]" None v] that
    by (simp only: patchManagedStorageAck_def snd_conv)
  obtain w1 where run: "run_state (deliver E app ms ready reportKey) w1 = (res, w')" and "batcher w1 = batcher w"
    and "annotation app managedStoragePostedAnnotation \<noteq> reportKey"
    and "\<not> HasPendingEvent (batcher w) (ManagedStorageEventKey (app_ref app) ready reportKey)"
    using assms
    by (auto dest!: ack simp: send_storage_def resume_ack_def delivery_in_flight_def retryManagedStorageAck_def storage_defs go_run
        Let_def split: if_splits option.splits prod.splits)
  with deliver_queues [OF run] assms(2) show ?thesis by simp
qed

lemma report_queues:
  assumes "Get (app_conditions app) ConditionReady = Some ready"
    and "run_state (reportManagedStorage E app ms) w = (res, w')" and "batcher w' \<noteq> batcher w"
  shows "annotation app reportedManagedStorageAccessKeyAnnotation \<noteq> managedStorageReportKey ms
    \<and> annotation app managedStoragePostedAnnotation \<noteq> managedStorageReportKey ms
    \<and> claimed E app (managedStorageReportKey ms) (hist w')
    \<and> \<not> HasPendingEvent (batcher w) (ManagedStorageEventKey (app_ref app) ready (managedStorageReportKey ms))
    \<and> on_its_way app (managedStorageReportKey ms) (ManagedStorageEventKey (app_ref app) ready (managedStorageReportKey ms)) w'
    \<and> HasPendingEvent (batcher w') (ManagedStorageEventKey (app_ref app) ready (managedStorageReportKey ms))
    \<and> enqueued app ready (managedStorageReportKey ms) (batcher w) (batcher w')"
proof -
  let ?k = "managedStorageReportKey ms"
  let ?ready = "ready\<lparr>LastTransitionTime := clock E (hist w), c_Reason := ''ManagedStorageReady'',
                c_Message := ''Inline S3 credentials available for control-plane registry sync''\<rparr>"
  obtain e h app' where clear: "run_state (clearManagedStorageClaim E app) w = ((e, app'), w\<lparr>hist := h\<rparr>)"
    and app': "app' = app \<or> app' = set_annotation managedStorageClaimAnnotation None app"
    using clear_claim_run by blast
  have unreported: "annotation app reportedManagedStorageAccessKeyAnnotation \<noteq> ?k"
    using assms by (auto simp: reportManagedStorage_def storage_defs go_run Let_def)
  obtain a h' where send: "run_state (send_storage E a ms ?ready ?k) (w\<lparr>hist := h'\<rparr>) = (res, w')"
    and a: "a = app \<or> a = set_annotation managedStorageClaimAnnotation None app"
  proof (cases "annotation app managedStorageClaimAnnotation \<in> {'''', ?k}")
    case True
    with assms(1,2) unreported have "run_state (send_storage E app ms ?ready ?k) (w\<lparr>hist := hist w\<rparr>) = (res, w')"
      by (auto simp: reportManagedStorage_def go_run Let_def split: if_splits)
    with that show ?thesis by blast
  next
    case False
    with that [of app' h] clear app' assms unreported show ?thesis
      by (cases e) (auto simp: reportManagedStorage_def go_run Let_def)
  qed
  have claim: "annotation app managedStorageClaimAnnotation = ?k" if "annotation a managedStorageClaimAnnotation = ?k"
    using that a by (auto split: if_splits)
  have "claimed E a ?k h \<Longrightarrow> claimed E app ?k h" for h
    unfolding claimed_def using claim by blast
  with send_queues [OF send] assms(3) show ?thesis
    using a unreported by (auto simp: storage_event_key on_its_way_set_annotation)
qed

text \<open>C7: storage credentials enter the event buffer only when they have not been reported or posted,
  no event for them waits there, and the claim on the delivery is on the stored instance. From then
  on they are in flight with their event pending, and reconciling the instance again with the same
  credentials leaves the buffer alone for as long as the event waits or is being posted.\<close>

theorem storage_credentials_queued_once:
  assumes "Get (app_conditions app) ConditionReady = Some ready"
    and "run_state (reportManagedStorage E app ms) w = (res, w1)" and "batcher w1 \<noteq> batcher w"
    and "Get (app_conditions app2) ConditionReady = Some ready2" and "c_Status ready2 = c_Status ready"
    and "Namespace (app_meta app2) = Namespace (app_meta app)" and "Name (app_meta app2) = Name (app_meta app)"
    and "storageInFlight w2 = storageInFlight w1" and "HasPendingEvent (batcher w2) key \<or>
      storagePosting w2 (storageDeliveryKey (Namespace (app_meta app)) (Name (app_meta app))) = Some (managedStorageReportKey ms)"
    and "key = ManagedStorageEventKey (app_ref app) ready (managedStorageReportKey ms)"
  shows "annotation app reportedManagedStorageAccessKeyAnnotation \<noteq> managedStorageReportKey ms
    \<and> annotation app managedStoragePostedAnnotation \<noteq> managedStorageReportKey ms
    \<and> claimed E app (managedStorageReportKey ms) (hist w1)
    \<and> \<not> HasPendingEvent (batcher w) key \<and> HasPendingEvent (batcher w1) key
    \<and> batcher (snd (run_state (reportManagedStorage E2 app2 ms) w2)) = batcher w2"
proof -
  have types: "c_Type ready = ConditionReady" "c_Type ready2 = ConditionReady"
    using assms(1,4) by (simp_all add: Get_type)
  have key: "ManagedStorageEventKey (app_ref app2) ready2 k = ManagedStorageEventKey (app_ref app) ready k" for k
    using assms(5-7) types by (simp add: ManagedStorageEventKey_def app_ref_def ResourceRefFromMeta_def)
  note queued = report_queues [OF assms(1-3), folded assms(10)]
  then have "on_its_way app2 (managedStorageReportKey ms) key w2"
    using assms(6-9) by (auto simp: on_its_way_def Let_def)
  then have "batcher (snd (run_state (reportManagedStorage E2 app2 ms) w2)) = batcher w2"
    by (intro report_on_its_way [OF assms(4)]) (simp add: key assms(10))
  with queued show ?thesis by simp
qed

text \<open>
  The event leaves the buffer before \<^verbatim>\<open>PrepareManagedStoragePost\<close> marks it as being posted, and
  \<^verbatim>\<open>AbortManagedStoragePost\<close> takes the mark away before the batch is put back. A reconcile in
  between takes the event for lost and queues a second one.
\<close>

theorem extracted_credentials_queued_again:
  assumes "Get (app_conditions app) ConditionReady = Some ready"
    and "key = storageDeliveryKey (Namespace (app_meta app)) (Name (app_meta app))"
    and "eventKey = ManagedStorageEventKey (app_ref app) ready (managedStorageReportKey ms)"
    and "Flush_extract b = (batch, b')" and "e \<in> set batch" and "EventKey e = eventKey"
    and "batcher w = Some b'" and "\<not> HasEventKey b' eventKey"
    and "storageInFlight w key = Some (managedStorageReportKey ms)" and "storagePosting w key = None"
    and "storageAckPending w key = None"
    and "annotation app managedStorageClaimAnnotation = managedStorageReportKey ms"
    and "annotation app managedStoragePostedAnnotation \<noteq> managedStorageReportKey ms"
    and "annotation app reportedManagedStorageAccessKeyAnnotation \<noteq> managedStorageReportKey ms"
  shows "\<exists>b''. batcher (snd (run_state (reportManagedStorage E app ms) w)) = Some b'' \<and> HasEventKey b'' eventKey"
proof -
  let ?ready = "ready\<lparr>LastTransitionTime := clock E (hist w), c_Reason := ''ManagedStorageReady'',
                c_Message := ''Inline S3 credentials available for control-plane registry sync''\<rparr>"
  let ?extras = "\<lparr>ex_Endpoints = agentEndpointsFromStatus (Endpoints (app_Status app)),
          ex_ManagedStorage = Some \<lparr>AccessKeyID = mss_AccessKeyID ms, SecretAccessKey = mss_SecretAccessKey ms,
                                    BucketName = mss_BucketName ms\<rparr>\<rparr>"
  let ?report = "ReportManagedStorageReady (clock E (hist w)) (app_ref app) ?ready ?extras (managedStorageReportKey ms) (Some b')"
  have key: "ManagedStorageEventKey (app_ref app) ?ready (managedStorageReportKey ms) = eventKey"
    using assms(3) by (simp add: storage_event_key)
  obtain b'' where report: "?report = (True, Some b'')" by (simp add: ReportManagedStorageReady_def)
  have "HasPendingEvent (Some b'') eventKey" using enqueued_is_pending [OF report] by (simp add: key)
  moreover have "\<not> HasPendingEvent (Some b') eventKey" using assms(8) by (simp add: HasPendingEvent_def)
  ultimately show ?thesis
    using assms(1,2,7,9-14) report
    by (simp add: reportManagedStorage_def send_storage_def resume_ack_def delivery_in_flight_def deliver_def
        claimManagedStorageDelivery_def storage_defs go_run Let_def key HasPendingEvent_def split: if_splits)
qed

section \<open>Finalization\<close>

text \<open>What the API server has answered, read off the history.\<close>

definition deleted_in :: "env \<Rightarrow> Unstructured \<Rightarrow> call list \<Rightarrow> bool" where
  "deleted_in E obj h \<longleftrightarrow>
     (\<exists>before. suffix (DeleteObject obj # before) h
        \<and> (case write_result E (DeleteObject obj # before) of None \<Rightarrow> True | Some err \<Rightarrow> IsNotFound err))"

definition absent_in :: "env \<Rightarrow> gvk \<Rightarrow> string \<Rightarrow> string \<Rightarrow> call list \<Rightarrow> bool" where
  "absent_in E gvk ns name h \<longleftrightarrow>
     (\<exists>before err. suffix (GetObject gvk ns name # before) h
        \<and> get_object E (GetObject gvk ns name # before) = Inl err \<and> IsNotFound err)"

definition uninstalled :: "env \<Rightarrow> ApplicationInstance \<Rightarrow> call list \<Rightarrow> bool" where
  "uninstalled E app h \<longleftrightarrow>
     (\<exists>release. as_Release (app_Spec app) = Some release
        \<and> (if IsSeaweedWorkload (Some app)
           then deleted_in E (empty_object seaweedGVK (releaseNamespace app) (rel_Name release)) h
                \<and> absent_in E seaweedGVK (releaseNamespace app) (rel_Name release) h
                \<and> absent_in E helmReleaseGVK (Namespace (app_meta app)) (rel_Name release) h
           else \<forall>obj \<in> set (release_objects app release). deleted_in E obj h))"

text \<open>Requests that do not update the instance itself.\<close>

definition quiet :: "call list \<Rightarrow> call list \<Rightarrow> bool" where
  "quiet h h' \<longleftrightarrow> (\<exists>cs. h' = cs @ h \<and> (\<forall>a. UpdateApplicationInstance a \<notin> set cs))"

lemma quiet_refl [simp]: "quiet h h" by (simp add: quiet_def)

lemma quiet_Cons: "quiet h h' \<Longrightarrow> (\<And>a. c \<noteq> UpdateApplicationInstance a) \<Longrightarrow> quiet h (c # h')"
  unfolding quiet_def by (metis append_Cons set_ConsD)

lemma quiet_trans: "quiet h1 h2 \<Longrightarrow> quiet h2 h3 \<Longrightarrow> quiet h1 h3"
  unfolding quiet_def by (metis append.assoc Un_iff set_append)

lemma quiet_suffix: "quiet h h' \<Longrightarrow> suffix h h'"
  by (auto simp: quiet_def suffix_def)

lemma in_quiet:
  "deleted_in E obj h \<Longrightarrow> quiet h h' \<Longrightarrow> deleted_in E obj h'"
  "absent_in E gvk ns name h \<Longrightarrow> quiet h h' \<Longrightarrow> absent_in E gvk ns name h'"
  unfolding deleted_in_def absent_in_def by (meson quiet_suffix suffix_order.order_trans)+

lemma delete_all_gone:
  "wp (delete_all E objs) (\<lambda>err w'. quiet (hist w) (hist w') \<and> (err = None \<longrightarrow> (\<forall>obj \<in> set objs. deleted_in E obj (hist w')))) w"
proof (induction objs arbitrary: w)
  case (Cons obj objs)
  let ?w1 = "w\<lparr>hist := DeleteObject obj # hist w\<rparr>"
  have q: "quiet (hist w) (hist ?w1)" by (simp add: quiet_Cons)
  have d: "deleted_in E obj (hist ?w1)"
    if "case write_result E (DeleteObject obj # hist w) of None \<Rightarrow> True | Some err \<Rightarrow> IsNotFound err"
    unfolding deleted_in_def using that by (intro exI [of _ "hist w"]) simp
  show ?case
    using Cons [of ?w1] q d
    by (auto simp: wp_def go_run split: prod.splits option.splits intro: in_quiet quiet_trans)
qed (simp add: wp_rules)

lemma DeleteRelease_gone:
  "wp (DeleteRelease E app) (\<lambda>err w'. quiet (hist w) (hist w') \<and> (err = None \<longrightarrow>
     (\<exists>release. as_Release (app_Spec app) = Some release \<and> (\<forall>obj \<in> set (release_objects app release). deleted_in E obj (hist w'))))) w"
  using delete_all_gone by (auto simp: DeleteRelease_def wp_def split: option.split)

lemma DeleteSeaweed_gone:
  "wp (DeleteSeaweed E app) (\<lambda>err w'. quiet (hist w) (hist w') \<and> (err = None \<longrightarrow>
     (\<exists>release. as_Release (app_Spec app) = Some release \<and> rel_Name release \<noteq> ''''
        \<and> deleted_in E (empty_object seaweedGVK (releaseNamespace app) (rel_Name release)) (hist w')))) w"
  using delete_all_gone [of E "[empty_object seaweedGVK (releaseNamespace app) n]" w for n]
  by (auto simp: DeleteSeaweed_def validateReleaseRef_def wp_def simp del: delete_all.simps split: option.split)

lemma absent_answer:
  "get_object E (GetObject gvk ns name # h) = Inl err \<Longrightarrow> IsNotFound err \<Longrightarrow> absent_in E gvk ns name (GetObject gvk ns name # h)"
  unfolding absent_in_def by (intro exI [of _ h] exI [of _ err]) simp

lemma ReleaseExists_absent:
  "wp (ReleaseExists E app) (\<lambda>b w'. quiet (hist w) (hist w') \<and> (b = Inr False \<longrightarrow>
     (\<forall>release. as_Release (app_Spec app) = Some release \<and> rel_Name release \<noteq> '''' \<longrightarrow>
        absent_in E helmReleaseGVK (Namespace (app_meta app)) (rel_Name release) (hist w')))) w"
  by (auto simp: ReleaseExists_def wp_def go_run intro: quiet_Cons absent_answer split: option.split sum.split)

lemma SeaweedExists_absent:
  "wp (SeaweedExists E app) (\<lambda>b w'. quiet (hist w) (hist w') \<and> (b = Inr False \<longrightarrow>
     (\<forall>release. as_Release (app_Spec app) = Some release \<longrightarrow>
        absent_in E seaweedGVK (releaseNamespace app) (rel_Name release) (hist w')))) w"
  by (auto simp: SeaweedExists_def validateReleaseRef_def wp_def go_run intro: quiet_Cons absent_answer
      split: option.split sum.split)

lemma engine_simps [simp]:
  "re_EnsureRelease (FluxEngine E) = EnsureRelease E" "re_DeleteRelease (FluxEngine E) = DeleteRelease E"
  "re_ReleaseExists (FluxEngine E) = ReleaseExists E" "re_SyncStatus (FluxEngine E) = Flux_SyncStatus E"
  "se_EnsureSeaweed (SeaweedEngine E) = EnsureSeaweed E" "se_DeleteSeaweed (SeaweedEngine E) = DeleteSeaweed E"
  "se_SeaweedExists (SeaweedEngine E) = SeaweedExists E" "se_SyncStatus (SeaweedEngine E) = Seaweed_SyncStatus E"
  "se_ResolveManagedStorageState (SeaweedEngine E) = ResolveManagedStorageState E"
  by (simp_all add: FluxEngine_def SeaweedEngine_def)

text \<open>The two ways in which a finalization ends.\<close>

definition finalized :: "env \<Rightarrow> ApplicationInstance \<Rightarrow> call list \<Rightarrow> call list \<Rightarrow> bool" where
  "finalized E app h h' \<longleftrightarrow>
     (\<exists>app' h1. h' = UpdateApplicationInstance app' # h1 \<and> quiet h h1 \<and> uninstalled E app h1
        \<and> app_meta app' = RemoveFinalizer E (app_meta app) ApplicationInstanceFinalizer)
     \<or> quiet h h'"

lemma finalized_quiet: "quiet h h1 \<Longrightarrow> finalized E app h1 h2 \<Longrightarrow> finalized E app h h2"
  unfolding finalized_def by (elim disjE exE conjE) (auto dest: quiet_trans)

lemma remove_finalized:
  "uninstalled E app (hist w) \<Longrightarrow> wp (remove_app_finalizer E app) (\<lambda>_ w'. finalized E app (hist w) (hist w')) w"
  by (auto simp: remove_app_finalizer_def wp_rules finalized_def)

lemma wp_step:
  assumes "wp m Q w" and "\<And>a w'. Q a w' \<Longrightarrow> wp (f a) R w'"
  shows "wp (State_Monad.bind m f) R w"
  unfolding wp_bind using assms by (rule wp_mono)

lemma finalized_same:
  assumes "app_meta app = app_meta app2" and "app_Spec app = app_Spec app2"
  shows "finalized E app h h' = finalized E app2 h h'"
  unfolding finalized_def uninstalled_def IsSeaweedWorkload_def releaseNamespace_def release_objects_def option.case assms ..

lemma write_deleting_finalized:
  assumes "\<And>app' w1. app_meta app' = app_meta app \<Longrightarrow> app_Spec app' = app_Spec app \<Longrightarrow>
    wp (cont app') (\<lambda>_ w'. finalized E app' (hist w1) (hist w')) w1"
  shows "wp (write_deleting E app reason message cont) (\<lambda>_ w'. finalized E app (hist w) (hist w')) w"
proof -
  let ?app' = "app\<lparr>app_Status := set_app_condition (clock E (hist w)) ConditionDeleting ConditionTrue reason message (app_Status app)\<rparr>"
  let ?h = "UpdateApplicationInstanceStatus ?app' # hist w"
  have same: "finalized E ?app' h h' = finalized E app h h'" for h h'
    by (rule finalized_same) simp_all
  have q: "quiet (hist w) ?h" by (simp add: quiet_Cons)
  have "wp (cont ?app') (\<lambda>_ w'. finalized E app (hist w) (hist w')) w1" if "hist w1 = ?h" for w1
    by (rule wp_mono [OF assms]) (use finalized_quiet [OF q] that same in auto)
  with q show ?thesis
    by (simp add: write_deleting_def write_status_def report_app_def wp_rules Let_def finalized_def split: option.split)
qed

lemma seaweed_same: "app_Spec app = app_Spec app2 \<Longrightarrow> IsSeaweedWorkload (Some app) = IsSeaweedWorkload (Some app2)"
  by (simp add: IsSeaweedWorkload_def)

text \<open>
  What finalization relies on of the engines: none of their operations updates the instance, a
  deletion that succeeds has been answered by the API server for every object of the workload, and
  a workload that is said not to exist has been looked up and not found.
\<close>

locale uninstaller =
  fixes E :: env and helm :: ReleaseEngine and sea :: StorageEngine
  assumes delete_release:
    "wp (re_DeleteRelease helm app) (\<lambda>err w'. quiet (hist w) (hist w') \<and> (err = None \<longrightarrow>
       (\<exists>release. as_Release (app_Spec app) = Some release \<and> (\<forall>obj \<in> set (release_objects app release). deleted_in E obj (hist w'))))) w"
    and release_absent:
    "wp (re_ReleaseExists helm app) (\<lambda>b w'. quiet (hist w) (hist w') \<and> (b = Inr False \<longrightarrow>
       (\<forall>release. as_Release (app_Spec app) = Some release \<and> rel_Name release \<noteq> '''' \<longrightarrow>
          absent_in E helmReleaseGVK (Namespace (app_meta app)) (rel_Name release) (hist w')))) w"
    and delete_seaweed:
    "wp (se_DeleteSeaweed sea app) (\<lambda>err w'. quiet (hist w) (hist w') \<and> (err = None \<longrightarrow>
       (\<exists>release. as_Release (app_Spec app) = Some release \<and> rel_Name release \<noteq> ''''
          \<and> deleted_in E (empty_object seaweedGVK (releaseNamespace app) (rel_Name release)) (hist w')))) w"
    and seaweed_absent:
    "wp (se_SeaweedExists sea app) (\<lambda>b w'. quiet (hist w) (hist w') \<and> (b = Inr False \<longrightarrow>
       (\<forall>release. as_Release (app_Spec app) = Some release \<longrightarrow>
          absent_in E seaweedGVK (releaseNamespace app) (rel_Name release) (hist w')))) w"
begin

abbreviation engines :: ApplicationInstanceReconciler where
  "engines \<equiv> \<lparr>air_Engine = Some helm, air_SeaweedEngine = Some sea\<rparr>"

lemma finalize_helm_finalized:
  assumes "\<not> IsSeaweedWorkload (Some app)"
  shows "wp (finalize_helm E (engines) app) (\<lambda>_ w'. finalized E app (hist w) (hist w')) w"
proof -
  have "wp (re_DeleteRelease helm app \<bind> (\<lambda>err. case err of Some err \<Rightarrow> State_Monad.return (delete_failed err)
      | None \<Rightarrow> remove_app_finalizer E app)) (\<lambda>_ w'. finalized E app (hist w) (hist w')) w"
  proof (rule wp_step [OF delete_release], elim conjE)
    fix err :: "go_error option" and w' :: world
    assume q: "quiet (hist w) (hist w')" and gone: "err = None \<longrightarrow> (\<exists>release. as_Release (app_Spec app) = Some release
      \<and> (\<forall>obj \<in> set (release_objects app release). deleted_in E obj (hist w')))"
    show "wp (case err of None \<Rightarrow> remove_app_finalizer E app | Some err \<Rightarrow> State_Monad.return (delete_failed err))
        (\<lambda>_ w'. finalized E app (hist w) (hist w')) w'"
    proof (cases err)
      case None
      with gone assms have "uninstalled E app (hist w')" by (simp add: uninstalled_def)
      from wp_mono [OF remove_finalized [OF this]] show ?thesis using None finalized_quiet [OF q] by simp
    next
      case (Some e)
      with q show ?thesis by (simp add: wp_rules finalized_def)
    qed
  qed
  then show ?thesis by (simp add: finalize_helm_def)
qed

lemma legacy_release_absent:
  "wp (legacy_release (Some helm) app) (\<lambda>b w'. quiet (hist w) (hist w') \<and> (b = Inr False \<longrightarrow>
     (\<forall>release. as_Release (app_Spec app) = Some release \<and> rel_Name release \<noteq> '''' \<longrightarrow>
        absent_in E helmReleaseGVK (Namespace (app_meta app)) (rel_Name release) (hist w')))) w"
proof -
  have "wp (re_ReleaseExists helm app \<bind> (\<lambda>exists. State_Monad.return (case exists of
      Inl err \<Rightarrow> Inl (Wrapf ''check legacy Helm release: '' err []) | Inr b \<Rightarrow> Inr b)))
    (\<lambda>b w'. quiet (hist w) (hist w') \<and> (b = Inr False \<longrightarrow>
     (\<forall>release. as_Release (app_Spec app) = Some release \<and> rel_Name release \<noteq> '''' \<longrightarrow>
        absent_in E helmReleaseGVK (Namespace (app_meta app)) (rel_Name release) (hist w')))) w"
    by (rule wp_step [OF release_absent]) (auto simp: wp_return split: sum.splits)
  then show ?thesis by (simp add: legacy_release_def)
qed

lemma finish_seaweed_finalized:
  assumes "IsSeaweedWorkload (Some app)" and "as_Release (app_Spec app) = Some release" and "rel_Name release \<noteq> ''''"
    and "deleted_in E (empty_object seaweedGVK (releaseNamespace app) (rel_Name release)) (hist w)"
  shows "wp (finish_seaweed_finalize E (engines) sea app) (\<lambda>_ w'. finalized E app (hist w) (hist w')) w"
  unfolding finish_seaweed_finalize_def
proof (rule wp_step [where Q = "\<lambda>b w'. quiet (hist w) (hist w') \<and> (b = Inr False \<longrightarrow>
     absent_in E seaweedGVK (releaseNamespace app) (rel_Name release) (hist w'))"], goal_cases)
  case 1
  show ?case using wp_mono [OF seaweed_absent [of app w]] assms(2) by simp
next
  case (2 b w1)
  have remove: "wp (case helmExists of Inl err \<Rightarrow> State_Monad.return (requeue_after 15, Some err)
      | Inr True \<Rightarrow> State_Monad.return (requeue_after 15, None) | Inr False \<Rightarrow> remove_app_finalizer E app)
      (\<lambda>_ w'. finalized E app (hist w) (hist w')) w2"
    if b: "b = Inr False" and q: "quiet (hist w1) (hist w2)" and helm: "helmExists = Inr False \<longrightarrow>
      absent_in E helmReleaseGVK (Namespace (app_meta app)) (rel_Name release) (hist w2)" for helmExists w2
  proof -
    have q2: "quiet (hist w) (hist w2)" using 2 q quiet_trans by blast
    have "absent_in E seaweedGVK (releaseNamespace app) (rel_Name release) (hist w2)"
      using 2 b in_quiet(2) [OF _ q] by blast
    with in_quiet(1) [OF assms(4) q2] helm assms(1,2) have "helmExists = Inr False \<Longrightarrow> uninstalled E app (hist w2)"
      by (simp add: uninstalled_def)
    from wp_mono [OF remove_finalized [OF this] finalized_quiet [OF q2]] q2 show ?thesis
      by (simp add: wp_return finalized_def split: sum.split bool.split)
  qed
  show ?case
  proof (cases "b = Inr False")
    case True
    have "wp (legacy_release (air_Engine (engines)) app \<bind> (\<lambda>helmExists. case helmExists of
        Inl err \<Rightarrow> State_Monad.return (requeue_after 15, Some err)
      | Inr True \<Rightarrow> State_Monad.return (requeue_after 15, None) | Inr False \<Rightarrow> remove_app_finalizer E app))
      (\<lambda>_ w'. finalized E app (hist w) (hist w')) w1"
      unfolding ApplicationInstanceReconciler.simps
      by (rule wp_step [OF legacy_release_absent]) (rule remove [OF True], use assms in auto)
    with True show ?thesis by simp
  next
    case False
    with 2 show ?thesis by (auto simp: wp_return finalized_def split: sum.split bool.split)
  qed
qed

text \<open>Deleting the legacy release, when there is one.\<close>

lemma legacy_delete_quiet:
  "wp (if b then re_DeleteRelease helm app else State_Monad.return None) (\<lambda>_ w'. quiet (hist w) (hist w')) w"
  using wp_mono [OF delete_release [of app w], of "\<lambda>_ w'. quiet (hist w) (hist w')"] by (simp add: wp_return)

lemma finalize_seaweed_finalized:
  assumes "IsSeaweedWorkload (Some app)"
  shows "wp (finalize_seaweed E (engines) prev app) (\<lambda>_ w'. finalized E app (hist w) (hist w')) w"
proof -
  let ?R = "\<lambda>_ w'. finalized E app (hist w) (hist w')"
  let ?finish = "finish_seaweed_finalize E (engines) sea app"
  let ?clean = "\<lambda>helmExists. (if helmExists then re_DeleteRelease helm app else State_Monad.return None) \<bind>
    (\<lambda>err. case err of None \<Rightarrow> ?finish | Some err \<Rightarrow> State_Monad.return (delete_failed err))"
  let ?legacy = "legacy_release (Some helm) app \<bind> (\<lambda>helmExists.
    case helmExists of Inl err \<Rightarrow> State_Monad.return (requeue_after 15, Some err) | Inr b \<Rightarrow> ?clean b)"
  have legacy: "wp ?legacy ?R w1"
    if q1: "quiet (hist w) (hist w1)" and release: "as_Release (app_Spec app) = Some release" "rel_Name release \<noteq> ''''"
      and gone: "deleted_in E (empty_object seaweedGVK (releaseNamespace app) (rel_Name release)) (hist w1)" for w1 release
  proof (rule wp_step [OF legacy_release_absent], elim conjE)
    fix b and w2 :: world
    assume "quiet (hist w1) (hist w2)"
    then have q2: "quiet (hist w) (hist w2)" and gone2: "deleted_in E (empty_object seaweedGVK (releaseNamespace app) (rel_Name release)) (hist w2)"
      using quiet_trans [OF q1] in_quiet(1) [OF gone] by blast+
    have "wp (?clean exists) ?R w2" for exists
    proof (rule wp_step [OF legacy_delete_quiet])
      fix err :: "go_error option" and w3 :: world
      assume "quiet (hist w2) (hist w3)"
      then have q3: "quiet (hist w) (hist w3)" and gone3: "deleted_in E (empty_object seaweedGVK (releaseNamespace app) (rel_Name release)) (hist w3)"
        using quiet_trans [OF q2] in_quiet(1) [OF gone2] by blast+
      show "wp (case err of None \<Rightarrow> ?finish | Some err \<Rightarrow> State_Monad.return (delete_failed err)) ?R w3"
        using wp_mono [OF finish_seaweed_finalized [OF assms release gone3] finalized_quiet [OF q3]] q3
        by (simp add: wp_return finalized_def split: option.split)
    qed
    with q2 show "wp (case b of Inl err \<Rightarrow> State_Monad.return (requeue_after 15, Some err) | Inr b \<Rightarrow> ?clean b) ?R w2"
      by (simp add: wp_return finalized_def split: sum.split)
  qed
  have "wp (se_DeleteSeaweed sea app \<bind> (\<lambda>err. case err of Some err \<Rightarrow> State_Monad.return (requeue_after 15, Some err) | None \<Rightarrow> ?legacy)) ?R w"
    by (rule wp_step [OF delete_seaweed]) (use legacy in \<open>auto simp: wp_return finalized_def split: option.split\<close>)
  then show ?thesis
    unfolding finalize_seaweed_def ApplicationInstanceReconciler.simps option.case .
qed

lemma finalize_finalized:
  assumes "\<not> IsPlaceholder (app_Spec app)"
  shows "wp (finalize E engines app) (\<lambda>_ w'. finalized E app (hist w) (hist w')) w"
proof (cases "IsSeaweedWorkload (Some app)")
  case True
  show ?thesis
    unfolding finalize_def if_not_P [OF assms] if_P [OF True]
    by (rule write_deleting_finalized, rule finalize_seaweed_finalized) (simp add: seaweed_same True)
next
  case False
  show ?thesis
    unfolding finalize_def if_not_P [OF assms] if_not_P [OF False]
    by (rule write_deleting_finalized, rule finalize_helm_finalized) (simp add: seaweed_same False)
qed

end

abbreviation operator :: "env \<Rightarrow> ApplicationInstanceReconciler" where
  "operator E \<equiv> \<lparr>air_Engine = Some (FluxEngine E), air_SeaweedEngine = Some (SeaweedEngine E)\<rparr>"

interpretation uninst: uninstaller E "FluxEngine E" "SeaweedEngine E" for E
  by unfold_locales (simp_all only: engine_simps DeleteRelease_gone ReleaseExists_absent DeleteSeaweed_gone SeaweedExists_absent)

lemma deleted_instance_finalized:
  assumes "finalizer_laws E" and "get_app E (GetApplicationInstance ns name # hist w) = Inr app"
    and "ApplicationInstanceFinalizer \<in> set (Finalizers (app_meta app))" and "being_deleted (app_meta app)"
    and "\<not> IsPlaceholder (app_Spec app)"
    and "run_state (App_Reconcile E (operator E) ns name) w = (res, w')"
  shows "finalized E app (hist w) (hist w')"
proof -
  let ?w1 = "w\<lparr>hist := GetApplicationInstance ns name # hist w\<rparr>"
  have "ContainsFinalizer E (app_meta app) ApplicationInstanceFinalizer"
    using assms(1,3) by (simp add: finalizer_laws_def)
  then have run: "run_state (finalize E (operator E) app) ?w1 = (res, w')"
    using assms(2,4,6) by (simp add: App_Reconcile_def go_run)
  from wpD [OF uninst.finalize_finalized [OF assms(5)] run] show ?thesis
    by (rule finalized_quiet [rotated]) (simp add: quiet_Cons)
qed

text \<open>C5: the finalizer of a deleted instance is taken away only after its workload is gone. For a Helm
  instance the release and both chart sources have been deleted, or were not there; for a Seaweed
  instance the Seaweed resource has been deleted and both it and a legacy release have been looked
  up and not found. Otherwise the instance is not updated at all.\<close>

theorem finalizer_removed_after_uninstall:
  assumes "finalizer_laws E" and "get_app E (GetApplicationInstance ns name # hist w) = Inr app"
    and "ApplicationInstanceFinalizer \<in> set (Finalizers (app_meta app))" and "being_deleted (app_meta app)"
    and "\<not> IsPlaceholder (app_Spec app)"
    and "run_state (App_Reconcile E (operator E) ns name) w = (res, w')"
  shows "(\<exists>app' h. hist w' = UpdateApplicationInstance app' # h \<and> quiet (hist w) h \<and> uninstalled E app h
            \<and> set (Finalizers (app_meta app')) = set (Finalizers (app_meta app)) - {ApplicationInstanceFinalizer})
         \<or> quiet (hist w) (hist w')"
proof -
  obtain fs where "RemoveFinalizer E (app_meta app) ApplicationInstanceFinalizer = (app_meta app)\<lparr>Finalizers := fs\<rparr>"
    and "set (Finalizers (app_meta app)) - {ApplicationInstanceFinalizer} = set fs"
    using assms(1) unfolding finalizer_laws_def by metis
  with deleted_instance_finalized [OF assms] show ?thesis by (auto simp: finalized_def)
qed

text \<open>
  An instance without \<^verbatim>\<open>spec.release\<close>, which the controller blocks with ValidationFailed after giving
  it the finalizer, can never be deleted: every reconcile ends in an error and the finalizer stays.
\<close>

theorem instance_without_release_stuck:
  assumes "finalizer_laws E" and "get_app E (GetApplicationInstance ns name # hist w) = Inr app"
    and "ApplicationInstanceFinalizer \<in> set (Finalizers (app_meta app))" and "being_deleted (app_meta app)"
    and "\<not> IsPlaceholder (app_Spec app)" and "as_Release (app_Spec app) = None"
    and "run_state (App_Reconcile E (operator E) ns name) w = ((res, err), w')"
  shows "err \<noteq> None \<and> quiet (hist w) (hist w')"
proof
  have "\<not> uninstalled E app h" for h using assms(6) by (simp add: uninstalled_def)
  with deleted_instance_finalized [OF assms(1-5,7)] show "quiet (hist w) (hist w')" by (auto simp: finalized_def)
  have "ContainsFinalizer E (app_meta app) ApplicationInstanceFinalizer"
    using assms(1,3) by (simp add: finalizer_laws_def)
  then have run: "run_state (finalize E (operator E) app) (w\<lparr>hist := GetApplicationInstance ns name # hist w\<rparr>) = ((res, err), w')"
    using assms(2,4,7) by (simp add: App_Reconcile_def go_run)
  show "err \<noteq> None"
    using run assms(5,6)
    by (auto simp: finalize_def write_deleting_def write_status_def report_app_def go_run finalize_seaweed_def
        finalize_helm_def DeleteSeaweed_def validateReleaseRef_def DeleteRelease_def delete_failed_def Let_def
        split: if_splits option.splits)
qed

section \<open>The Ready condition\<close>

text \<open>The workload of an instance has been read and says that it is ready.\<close>

definition workload_read :: "ApplicationInstance \<Rightarrow> ReleaseSpec \<Rightarrow> call" where
  "workload_read app release =
     (if IsSeaweedWorkload (Some app) then GetObject seaweedGVK (releaseNamespace app) (rel_Name release)
      else GetObject helmReleaseGVK (Namespace (app_meta app)) (rel_Name release))"

definition workload_ready :: "env \<Rightarrow> ApplicationInstance \<Rightarrow> call list \<Rightarrow> bool" where
  "workload_ready E app h \<longleftrightarrow>
     (\<exists>release before obj conds. as_Release (app_Spec app) = Some release
        \<and> suffix (workload_read app release # before) h \<and> get_object E (workload_read app release # before) = Inr obj
        \<and> NestedSlice E (u_Object obj) [''status'', ''conditions''] = Some conds
        \<and> has_condition ''Ready'' ''True'' conds)"

definition honest :: "env \<Rightarrow> ApplicationInstance \<Rightarrow> call list \<Rightarrow> call list \<Rightarrow> bool" where
  "honest E app h h' \<longleftrightarrow>
     (\<exists>cs. h' = cs @ h \<and> (\<forall>app'. UpdateApplicationInstanceStatus app' \<in> set cs \<and> IsTrue (app_conditions app') ConditionReady
        \<longrightarrow> workload_ready E app h'))"

definition no_status :: "call \<Rightarrow> bool" where
  "no_status c \<longleftrightarrow> (\<forall>a. c \<noteq> UpdateApplicationInstanceStatus a)"

lemma no_status_simps [simp]:
  "no_status (GetApplicationInstance ns name)" "no_status (PatchApplicationInstance a a')" "no_status (Sleep d)"
  "no_status (GetObject gvk ns name)" "no_status (GetSecret ns name)" "no_status (GetConfigMap ns name)"
  "no_status (GetService ns name)" "no_status (ListObjectsIn gvk ns)" "no_status (LoadForUpdate obj)" "no_status (StoreObject obj)"
  "no_status (UpdateApplicationInstance a)"
  by (simp_all add: no_status_def)

lemma workload_ready_suffix: "workload_ready E app h \<Longrightarrow> suffix h h' \<Longrightarrow> workload_ready E app h'"
  unfolding workload_ready_def by (meson suffix_order.order_trans)

lemma honest_suffix: "honest E app h h' \<Longrightarrow> suffix h h'"
  by (auto simp: honest_def suffix_def)

lemma honest_refl [simp]: "honest E app h h"
  by (simp add: honest_def)

lemma honest_trans:
  assumes "honest E app h1 h2" and "honest E app h2 h3"
  shows "honest E app h1 h3"
proof -
  obtain cs ds where "h2 = cs @ h1" "h3 = ds @ h2"
    and "\<forall>app'. UpdateApplicationInstanceStatus app' \<in> set cs \<and> IsTrue (app_conditions app') ConditionReady \<longrightarrow> workload_ready E app h2"
    and "\<forall>app'. UpdateApplicationInstanceStatus app' \<in> set ds \<and> IsTrue (app_conditions app') ConditionReady \<longrightarrow> workload_ready E app h3"
    using assms unfolding honest_def by blast
  moreover from this have "workload_ready E app h2 \<Longrightarrow> workload_ready E app h3"
    by (auto intro: workload_ready_suffix simp: suffix_def)
  ultimately show ?thesis unfolding honest_def by (intro exI [of _ "ds @ cs"]) auto
qed

lemma honest_emits: "emits no_status m w \<Longrightarrow> wp m (\<lambda>_ w'. honest E app (hist w) (hist w')) w"
  unfolding emits_def by (erule wp_mono) (auto simp: honest_def no_status_def list_all_iff)

lemma workload_ready_same:
  assumes "app_meta app = app_meta app2" and "app_Spec app = app_Spec app2"
  shows "workload_ready E app h = workload_ready E app2 h"
  unfolding workload_ready_def workload_read_def IsSeaweedWorkload_def releaseNamespace_def option.case assms ..

subsection \<open>Programs that leave the status alone\<close>

lemma emits_buildValues [emits_rules]: "emits no_status (buildValues E app) w"
  unfolding buildValues_def loadValuesFromSecret_def loadValuesFromConfigMap_def Let_def by (intro emits_rules) simp_all

lemma emits_EnsureRelease: "emits no_status (EnsureRelease E app) w"
  unfolding EnsureRelease_def ensureChartSource_def ensureHelmRelease_def CreateOrUpdateWith_def Let_def
  by (intro emits_rules) simp_all

lemma emits_EnsureSeaweed: "emits no_status (EnsureSeaweed E app) w"
  unfolding EnsureSeaweed_def loadValues_def loadValuesFromSecret_def loadValuesFromConfigMap_def Let_def
  by (intro emits_rules) simp_all

lemma emits_storage_maps [emits_rules]:
  "emits P (markStorageInFlight ns name k) w" "emits P (inFlightStorageReportKey ns name) w"
  "emits P (clearStorageInFlight ns name) w" "emits P (markStorageAckPending ns name k) w"
  "emits P (pendingStorageAckReportKey ns name) w" "emits P (clearStorageAckPending ns name) w"
  "emits P (postingStorageReportKey ns name) w" "emits P (clearStorageDeliveryState ns name) w"
  "emits P (has_pending ek) w" "emits P (enqueue_report E rep) w"
  unfolding storage_defs enqueue_report_def Let_def by (auto intro!: emits_rules)

lemma emits_patches [emits_rules]:
  "emits no_status (patch_annotation E ns name k v) w" "emits no_status (clearAnnotation E ns name k) w"
  "emits no_status (clearManagedStorageClaim E app) w" "emits no_status (claimManagedStorageDelivery E app k) w"
  unfolding patch_annotation_def clearAnnotation_def clearManagedStorageClaim_def claimManagedStorageDelivery_def Let_def
  by (auto intro!: emits_rules)

lemma emits_ack_attempts [emits_rules]: "emits no_status (ack_attempts E ns name k as e) w"
proof (induction as arbitrary: e w)
  case (Cons a as)
  show ?case unfolding ack_attempts.simps by (intro emits_rules Cons) simp_all
qed (simp add: emits_rules)

lemma emits_first_usable [emits_rules]: "emits no_status (first_usable E ns r p items m u) w"
proof (induction items arbitrary: m u w)
  case (Cons item items)
  show ?case unfolding first_usable.simps snapshotFromS3Credentials_def by (intro emits_rules Cons) simp_all
qed (simp add: emits_rules)

lemma emits_resolve [emits_rules]: "emits no_status (ResolveManagedStorageState E app) w"
  unfolding ResolveManagedStorageState_def listMatchingS3Credentials_def Let_def by (intro emits_rules) simp_all

lemma emits_reports [emits_rules]:
  "emits no_status (reportSeaweedEndpointsIfNeeded E app) w" "emits no_status (reportManagedStorageFailed E app) w"
  unfolding reportSeaweedEndpointsIfNeeded_def reportManagedStorageFailed_def ackManagedStorageFailed_def
    patchSeaweedEndpointsAck_def patchManagedStorageFailedAck_def Let_def
  by (auto intro!: emits_rules)

lemma emits_reportManagedStorage [emits_rules]: "emits no_status (reportManagedStorage E app ms) w"
  unfolding reportManagedStorage_def send_storage_def resume_ack_def delivery_in_flight_def deliver_def
    patchManagedStorageAck_def retryManagedStorageAck_def Let_def
  by (intro emits_rules)


subsection \<open>What the status says\<close>

lemma app_Set_simps [simp]:
  "IsTrue (ast_Conditions (set_app_condition now t s r m st)) t' \<longleftrightarrow>
     (if t' = t then s = ConditionTrue else IsTrue (ast_Conditions st) t')"
  "ast_Conditions (st\<lparr>Endpoints := eps\<rparr>) = ast_Conditions st"
  by (simp_all add: set_app_condition_def)

lemma applyHelm_ready:
  "IsTrue (ast_Conditions (applyHelmStatusSnapshot now s st)) ConditionReady \<longleftrightarrow> (\<exists>snap. s = Some snap \<and> snap_Ready snap)"
  by (simp add: applyHelmStatusSnapshot_def Let_def split: option.split)

lemma applySeaweed_ready:
  "IsTrue (ast_Conditions (applySeaweedStatusSnapshot now s st)) ConditionReady \<longleftrightarrow>
     (\<exists>snap. s = Some snap \<and> snap_Ready snap \<and> (HasS3 snap \<longrightarrow> snap_S3Endpoint snap \<noteq> ''''))"
  by (auto simp: applySeaweedStatusSnapshot_def Let_def split: option.split)

lemma write_status_honest:
  assumes "IsTrue (app_conditions app') ConditionReady \<Longrightarrow> workload_ready E app (hist w)"
    and "\<And>w1. hist w1 = UpdateApplicationInstanceStatus app' # hist w \<Longrightarrow>
      wp cont (\<lambda>_ w'. honest E app (hist w1) (hist w')) w1"
  shows "wp (write_status E what app' prev cont) (\<lambda>_ w'. honest E app (hist w) (hist w')) w"
proof -
  let ?h = "UpdateApplicationInstanceStatus app' # hist w"
  have step: "honest E app (hist w) ?h"
    unfolding honest_def using assms(1) by (intro exI [of _ "[UpdateApplicationInstanceStatus app']"])
      (auto intro: workload_ready_suffix suffix_ConsI)
  have "wp cont (\<lambda>_ w'. honest E app (hist w) (hist w')) w1" if "hist w1 = ?h" for w1
    using wp_mono [OF assms(2) [OF that]] honest_trans [OF step] that by simp
  with step show ?thesis
    by (simp add: write_status_def report_app_def wp_rules split: option.split)
qed

lemma setBlocked_honest: "wp (setBlocked E app2 reason message) (\<lambda>_ w'. honest E app (hist w) (hist w')) w"
  unfolding setBlocked_def wp_bind wp_Now by (rule write_status_honest) (simp_all add: wp_return)

lemma Flux_SyncStatus_ready:
  assumes "\<not> IsSeaweedWorkload (Some app)"
  shows "wp (Flux_SyncStatus E app) (\<lambda>s w'. honest E app (hist w) (hist w') \<and>
     (\<forall>snap. s = Inr snap \<and> snap_Ready snap \<longrightarrow> workload_ready E app (hist w'))) w"
proof (cases "as_Release (app_Spec app)")
  case (Some release)
  let ?h = "workload_read app release # hist w"
  have read: "workload_read app release = GetObject helmReleaseGVK (Namespace (app_meta app)) (rel_Name release)"
    using assms by (simp add: workload_read_def)
  have "honest E app (hist w) ?h" by (simp add: honest_def read)
  moreover have "workload_ready E app ?h" if "get_object E ?h = Inr hr"
    and "NestedSlice E (u_Object hr) [''status'', ''conditions''] = Some conds" and "has_condition ''Ready'' ''True'' conds" for hr conds
    unfolding workload_ready_def using that Some by (intro exI [of _ release] exI [of _ "hist w"]) simp
  ultimately show ?thesis
    using Some by (auto simp: Flux_SyncStatus_def wp_rules read mapped_ready Let_def split: sum.splits option.splits)
qed (simp add: Flux_SyncStatus_def wp_return)

lemma Seaweed_SyncStatus_ready:
  assumes "IsSeaweedWorkload (Some app)"
  shows "wp (Seaweed_SyncStatus E app) (\<lambda>s w'. honest E app (hist w) (hist w') \<and>
     (\<forall>snap. s = Inr snap \<and> snap_Ready snap \<longrightarrow> workload_ready E app (hist w'))) w"
proof (cases "validateReleaseRef app")
  case (Inr release)
  let ?h = "workload_read app release # hist w"
  have release: "as_Release (app_Spec app) = Some release"
    using Inr by (auto simp: validateReleaseRef_def split: option.splits if_splits)
  have read: "workload_read app release = GetObject seaweedGVK (releaseNamespace app) (rel_Name release)"
    using assms by (simp add: workload_read_def)
  have ready: "workload_ready E app h" if "suffix ?h h" and "get_object E ?h = Inr sw"
    and "NestedSlice E (u_Object sw) [''status'', ''conditions''] = Some conds" and "has_condition ''Ready'' ''True'' conds" for h sw conds
    unfolding workload_ready_def using that release by (intro exI [of _ release] exI [of _ "hist w"]) simp
  have "honest E app (hist w) (cs @ ?h)" if "list_all no_status cs" for cs
    unfolding honest_def using that by (intro exI [of _ "cs @ [workload_read app release]"]) (auto simp: read no_status_def list_all_iff)
  from this [of "[]"] this [of "[GetService ns n]" for ns n] ready show ?thesis
    using Inr by (auto simp: Seaweed_SyncStatus_def s3ServiceExists_def wp_rules read mapped_ready Let_def suffix_ConsI
        split: sum.splits option.splits)
qed (simp add: Seaweed_SyncStatus_def wp_return)

lemma snapshot_of_ready: "snapshot_of what s = Inr (Some snap) \<Longrightarrow> s = Inr snap"
  by (auto simp: snapshot_of_def split: sum.splits if_splits)

lemma honest_same:
  assumes "app_meta app = app_meta app2" and "app_Spec app = app_Spec app2"
  shows "honest E app h h' = honest E app2 h h'"
  unfolding honest_def workload_ready_same [OF assms] ..

text \<open>
  What the reconcile relies on of the engines: they do not write the status of the instance, and
  the status they report is ready only if the workload was read and says so.
\<close>

locale workload_engine =
  fixes E :: env and helm :: ReleaseEngine and sea :: StorageEngine
  assumes ensure_release: "emits no_status (re_EnsureRelease helm app) w"
    and release_exists: "emits no_status (re_ReleaseExists helm app) w"
    and helm_ready: "\<not> IsSeaweedWorkload (Some app) \<Longrightarrow>
      wp (re_SyncStatus helm app) (\<lambda>s w'. honest E app (hist w) (hist w') \<and>
        (\<forall>snap. s = Inr snap \<and> snap_Ready snap \<longrightarrow> workload_ready E app (hist w'))) w"
    and ensure_seaweed: "emits no_status (se_EnsureSeaweed sea app) w"
    and seaweed_ready: "IsSeaweedWorkload (Some app) \<Longrightarrow>
      wp (se_SyncStatus sea app) (\<lambda>s w'. honest E app (hist w) (hist w') \<and>
        (\<forall>snap. s = Inr snap \<and> snap_Ready snap \<longrightarrow> workload_ready E app (hist w'))) w"
    and resolve: "emits no_status (se_ResolveManagedStorageState sea app) w"
begin

abbreviation engines :: ApplicationInstanceReconciler where
  "engines \<equiv> \<lparr>air_Engine = Some helm, air_SeaweedEngine = Some sea\<rparr>"

lemma emits_managedStorage: "emits no_status (reconcileSeaweedManagedStorage E sea app) w"
  unfolding reconcileSeaweedManagedStorage_def by (intro emits_rules resolve)

lemma finish_helm_honest:
  assumes "\<not> IsSeaweedWorkload (Some app)"
  shows "wp (finish_helm E helm prev app) (\<lambda>_ w'. honest E app (hist w) (hist w')) w"
proof (cases "\<exists>release chart. as_Release (app_Spec app) = Some release \<and> as_Chart (app_Spec app) = Some chart")
  case True
  then obtain release chart where spec: "as_Release (app_Spec app) = Some release" "as_Chart (app_Spec app) = Some chart" by blast
  define app1 where "app1 = app\<lparr>app_Status := (app_Status app)
            \<lparr>ast_HelmReleaseRef := Some \<lparr>hrr_Name = rel_Name release, hrr_Namespace = Namespace (app_meta app)\<rparr>,
             LastAppliedChart := Some (chart_snapshot chart)\<rparr>\<rparr>"
  have same: "app_meta app1 = app_meta app" "app_Spec app1 = app_Spec app" by (simp_all add: app1_def)
  then have nosea: "\<not> IsSeaweedWorkload (Some app1)" using assms seaweed_same by blast
  show ?thesis
    unfolding finish_helm_def spec prod.case option.case Let_def app1_def [symmetric]
  proof (rule wp_step [OF helm_ready [OF nosea]], elim conjE)
    fix synced :: "HelmSnapshot result" and w1 :: world
    assume h: "honest E app1 (hist w) (hist w1)"
      and ready: "\<forall>snap. synced = Inr snap \<and> snap_Ready snap \<longrightarrow> workload_ready E app1 (hist w1)"
    note h = h [unfolded honest_same [OF same]] and ready = ready [unfolded workload_ready_same [OF same]]
    show "wp (case snapshot_of ''sync helm status: '' synced of
        Inl res \<Rightarrow> State_Monad.return res
      | Inr snapshot \<Rightarrow> do {
          now \<leftarrow> Now E;
          write_status E ''update status: '' (app1\<lparr>app_Status := applyHelmStatusSnapshot now snapshot (app_Status app1)\<rparr>) prev
            (State_Monad.return (case snapshot of None \<Rightarrow> (no_requeue, None)
               | Some s \<Rightarrow> (if snap_Ready s then no_requeue else requeue_after 30, None)))
        }) (\<lambda>_ w'. honest E app (hist w) (hist w')) w1"
    proof (cases "snapshot_of ''sync helm status: '' synced")
      case (Inl res)
      with h show ?thesis by (simp add: wp_return)
    next
      case (Inr snapshot)
      have "wp (write_status E ''update status: '' (app1\<lparr>app_Status := applyHelmStatusSnapshot (clock E (hist w1)) snapshot (app_Status app1)\<rparr>) prev
          (State_Monad.return r)) (\<lambda>_ w'. honest E app (hist w1) (hist w')) w1" for r
        by (rule write_status_honest) (use Inr ready in \<open>auto simp: applyHelm_ready wp_return dest!: snapshot_of_ready\<close>)
      from wp_mono [OF this honest_trans [OF h]] Inr show ?thesis by (simp add: wp_rules)
    qed
  qed
qed (auto simp: finish_helm_def wp_return split: option.split)

lemma reconcileHelm_honest:
  assumes "\<not> IsSeaweedWorkload (Some app)"
  shows "wp (reconcileHelm E engines app) (\<lambda>_ w'. honest E app (hist w) (hist w')) w"
proof -
  define app1 where "app1 = app\<lparr>app_Status := set_app_condition (clock E (hist w)) ConditionReconciling ConditionTrue ''HelmReleaseInstalling''
      ''Ensuring HelmRelease'' ((app_Status app)\<lparr>ObservedGeneration := Generation (app_meta app), LastReconcileTime := Some (clock E (hist w))\<rparr>)\<rparr>"
  have same: "app_meta app1 = app_meta app" "app_Spec app1 = app_Spec app" by (simp_all add: app1_def)
  then have nosea: "\<not> IsSeaweedWorkload (Some app1)" using assms seaweed_same by blast
  show ?thesis
    unfolding reconcileHelm_def ApplicationInstanceReconciler.simps option.case Let_def wp_bind wp_Now
      app1_def [symmetric]
  proof (rule wp_mono [OF honest_emits [where E = E and app = app, OF ensure_release]])
    fix err :: "go_error option" and w1 :: world
    assume h: "honest E app (hist w) (hist w1)"
    have fail: "wp (write_status E what (app1\<lparr>app_Status := set_app_condition now ConditionReconciling ConditionFalse ''Stable'' msg
        (set_app_condition now ConditionReady ConditionFalse ''HelmReleaseFailed'' m (app_Status app1))\<rparr>) prev (State_Monad.return r))
        (\<lambda>_ w'. honest E app (hist w1) (hist w')) w1" for what now msg m prev r
      by (rule write_status_honest) (simp_all add: wp_return)
    note finish = finish_helm_honest [OF nosea, of "app_conditions app" w1, unfolded honest_same [OF same]]
    show "wp (case err of
          None \<Rightarrow> finish_helm E helm (app_conditions app) app1
        | Some err \<Rightarrow> if err = nil_dereference then State_Monad.return (no_requeue, Some err)
            else Now E \<bind> (\<lambda>now. write_status E ''update status after ensure failure: ''
                  (app1\<lparr>app_Status := set_app_condition now ConditionReconciling ConditionFalse ''Stable'' ''Reconciliation failed''
                     (set_app_condition now ConditionReady ConditionFalse ''HelmReleaseFailed'' (Error err) (app_Status app1))\<rparr>)
                  (app_conditions app) (State_Monad.return (requeue_after 30, Some err))))
        (\<lambda>_ w'. honest E app (hist w) (hist w')) w1"
      using wp_mono [OF fail honest_trans [OF h]] wp_mono [OF finish honest_trans [OF h]] h
      by (simp add: wp_rules split: option.split)
  qed
qed

lemma finish_seaweed_honest:
  assumes "IsSeaweedWorkload (Some app)"
  shows "wp (finish_seaweed E sea prev app) (\<lambda>_ w'. honest E app (hist w) (hist w')) w"
proof -
  define app1 where "app1 = app\<lparr>app_Status := (app_Status app)\<lparr>ObservedGeneration := Generation (app_meta app),
       LastReconcileTime := Some (clock E (hist w)), LastAppliedChart := map_option chart_snapshot (as_Chart (app_Spec app))\<rparr>\<rparr>"
  have same: "app_meta app1 = app_meta app" "app_Spec app1 = app_Spec app" by (simp_all add: app1_def)
  then have seaweed: "IsSeaweedWorkload (Some app1)" using assms seaweed_same by blast
  show ?thesis
    unfolding finish_seaweed_def Let_def wp_bind wp_Now app1_def [symmetric]
  proof (rule wp_mono [OF seaweed_ready [OF seaweed]], elim conjE)
    fix synced :: "SeaweedSnapshot result" and w1 :: world
    assume h: "honest E app1 (hist w) (hist w1)"
      and ready: "\<forall>snap. synced = Inr snap \<and> snap_Ready snap \<longrightarrow> workload_ready E app1 (hist w1)"
    note h = h [unfolded honest_same [OF same]] and ready = ready [unfolded workload_ready_same [OF same]]
    let ?app2 = "\<lambda>now snapshot. app1\<lparr>app_Status := applySeaweedStatusSnapshot now snapshot (app_Status app1)\<rparr>"
    let ?cont = "\<lambda>now snapshot. (case snapshot of None \<Rightarrow> State_Monad.return (requeue_after 30, None)
       | Some s \<Rightarrow> if \<not> snap_Ready s \<or> snap_S3Endpoint s = '''' \<and> HasS3 s then State_Monad.return (requeue_after 30, None)
                   else reconcileSeaweedManagedStorage E sea (?app2 now snapshot))"
    have cont: "wp (?cont now snapshot) (\<lambda>_ w'. honest E app (hist v) (hist w')) v" for now snapshot v
      using honest_emits [where E = E and app = app, OF emits_managedStorage] by (simp add: wp_return split: option.split)
    show "wp (case snapshot_of ''sync Seaweed status: '' synced of
        Inl res \<Rightarrow> State_Monad.return res
      | Inr snapshot \<Rightarrow> Now E \<bind> (\<lambda>now. write_status E ''update status: '' (?app2 now snapshot) prev (?cont now snapshot)))
      (\<lambda>_ w'. honest E app (hist w) (hist w')) w1"
    proof (cases "snapshot_of ''sync Seaweed status: '' synced")
      case (Inl res)
      with h show ?thesis by (simp add: wp_return)
    next
      case (Inr snapshot)
      have "wp (write_status E ''update status: '' (?app2 now snapshot) prev (?cont now snapshot))
          (\<lambda>_ w'. honest E app (hist w1) (hist w')) w1" for now
        by (rule write_status_honest [OF _ cont]) (use Inr ready in \<open>auto simp: applySeaweed_ready dest!: snapshot_of_ready\<close>)
      from wp_mono [OF this honest_trans [OF h]] show ?thesis unfolding Inr sum.case wp_bind wp_Now .
    qed
  qed
qed

lemma reconcileSeaweed_honest:
  assumes "IsSeaweedWorkload (Some app)"
  shows "wp (reconcileSeaweed E engines app) (\<lambda>_ w'. honest E app (hist w) (hist w')) w"
proof -
  let ?app1 = "\<lambda>now. app\<lparr>app_Status := set_app_condition now ConditionReconciling ConditionTrue ''SeaweedReconciling'' ''Ensuring Seaweed CR''
                ((set_app_condition now ConditionBlocked ConditionFalse ''Unblocked'' ''Reconciliation can proceed''
                   (app_Status app))\<lparr>ast_HelmReleaseRef := None\<rparr>)\<rparr>"
  have same: "app_meta (?app1 now) = app_meta app" "app_Spec (?app1 now) = app_Spec app" for now by simp_all
  have seaweed: "IsSeaweedWorkload (Some (?app1 now))" for now using assms seaweed_same [OF same(2)] by blast
  note finish = finish_seaweed_honest [OF seaweed, unfolded honest_same [OF same]]
  have fail: "wp (write_status E what (a\<lparr>app_Status := seaweed_failed now err (app_Status a)\<rparr>) prev (State_Monad.return r))
        (\<lambda>_ w'. honest E app (hist v) (hist w')) v" for what a now err prev r v
    by (rule write_status_honest) (simp_all add: wp_return seaweed_failed_def)
  let ?rest = "\<lambda>now err. case err of
      None \<Rightarrow> finish_seaweed E sea (app_conditions app) (?app1 now)
    | Some err \<Rightarrow> Now E \<bind> (\<lambda>now'. write_status E ''update status after ensure failure: ''
        ((?app1 now)\<lparr>app_Status := seaweed_failed now' err (app_Status (?app1 now))\<rparr>) (app_conditions app)
        (State_Monad.return (requeue_after 30, None)))"
  have rest: "wp (?rest now err) (\<lambda>_ w'. honest E app (hist v) (hist w')) v" for now err v
    by (cases err) (simp_all only: option.case finish wp_bind wp_Now fail)
  have ensure: "wp (se_EnsureSeaweed sea (?app1 now) \<bind> ?rest now) (\<lambda>_ w'. honest E app (hist v) (hist w')) v" for now v
    by (rule wp_step [OF honest_emits [where E = E and app = app, OF ensure_seaweed]])
      (rule wp_mono [OF rest], rule honest_trans)
  show ?thesis
    unfolding reconcileSeaweed_def ApplicationInstanceReconciler.simps prod.case option.case Let_def
  proof (rule wp_step [OF honest_emits [where E = E and app = app, OF release_exists]])
    fix ex :: "bool result" and w1 :: world
    assume h: "honest E app (hist w) (hist w1)"
    show "wp (case ex of
          Inl err \<Rightarrow> setBlocked E app ''HelmMigrationFailed'' (''check legacy Helm release: '' @ Error err)
        | Inr True \<Rightarrow> setBlocked E app ''HelmMigrationRequired''
              ''legacy Helm release detected; remove the HelmRelease manually or recreate the ApplicationInstance before native Seaweed reconciliation''
        | Inr False \<Rightarrow> Now E \<bind> (\<lambda>now. se_EnsureSeaweed sea (?app1 now) \<bind> ?rest now))
        (\<lambda>_ w'. honest E app (hist w) (hist w')) w1"
      using wp_mono [OF ensure honest_trans [OF h]] wp_mono [OF setBlocked_honest honest_trans [OF h]]
      by (auto simp only: wp_bind [of "Now E"] wp_Now split: sum.split bool.split)
  qed
qed

end

lemma emits_ReleaseExists: "emits no_status (ReleaseExists E app) w"
  unfolding ReleaseExists_def by (intro emits_rules) simp

interpretation workload: workload_engine E "FluxEngine E" "SeaweedEngine E" for E
  by (unfold_locales; unfold engine_simps)
    (rule emits_EnsureRelease emits_ReleaseExists Flux_SyncStatus_ready emits_EnsureSeaweed Seaweed_SyncStatus_ready
       emits_resolve, assumption?)+


section \<open>Witnesses\<close>

definition live_app :: "string \<Rightarrow> time option \<Rightarrow> ApplicationInstance" where
  "live_app raw deleted =
     (let app = inline_app raw in
      app\<lparr>app_meta := (app_meta app)\<lparr>Finalizers := [ApplicationInstanceFinalizer], DeletionTimestamp := deleted\<rparr>,
          app_Status := (app_Status app)\<lparr>ast_Conditions :=
            [\<lparr>c_Type = ConditionReady, c_Status = ConditionTrue, c_Reason = ''SeaweedReady'', c_Message = '''', LastTransitionTime = 0\<rparr>]\<rparr>\<rparr>)"

lemma live_app_simps [simp]:
  "app_Spec (live_app raw deleted) = app_Spec (inline_app raw)"
  "Namespace (app_meta (live_app raw deleted)) = ''ns''"
  "Finalizers (app_meta (live_app raw deleted)) = [ApplicationInstanceFinalizer]"
  "DeletionTimestamp (app_meta (live_app raw deleted)) = deleted"
  "Annotations (app_meta (live_app raw deleted)) = Map.empty"
  "CatalogID (as_AppRef (app_Spec (inline_app raw))) = ''catalog''" "Mode (app_Spec (inline_app raw)) = ''''"
  by (simp_all add: live_app_def inline_app_def demo_app_def meta0_def Let_def)

definition app_server :: "ApplicationInstance \<Rightarrow> Unstructured result \<Rightarrow> env" where
  "app_server app obj = demo_env\<lparr>get_app := (\<lambda>_. Inr app), get_object := (\<lambda>_. obj)\<rparr>"

lemma app_server_answers:
  "get_app (app_server app obj) h = Inr app" "get_object (app_server app obj) h = obj"
  "write_result (app_server app obj) h = None" "load_object (app_server app obj) (LoadForUpdate o' # h) = Inr o'"
  "SetOwnerReference (app_server app obj) m m' = Inr m'" "SetNestedField (app_server app obj) = set_path"
  "ContainsFinalizer (app_server app obj) m f \<longleftrightarrow> f \<in> set (Finalizers m)"
  "finalizer_laws (app_server app obj)"
  by (auto simp: app_server_def demo_env_def finalizer_laws_def)

theorem finalizer_removed_after_uninstall_witness:
  "let app = live_app ''{}'' (Some 1); E = app_server app (Inl (ApiStatus NotFound ''not found'')) in
   \<exists>app' h. hist (snd (run_state (App_Reconcile E (operator E) ''ns'' ''app'') demo_world)) = UpdateApplicationInstance app' # h
     \<and> uninstalled E app h \<and> set (Finalizers (app_meta app')) = {}"
proof -
  let ?app = "live_app ''{}'' (Some 1)" and ?gone = "Inl (ApiStatus NotFound ''not found'') :: Unstructured result"
  let ?E = "app_server ?app ?gone"
  have app: "get_app ?E (GetApplicationInstance ''ns'' ''app'' # hist demo_world) = Inr ?app"
    "ApplicationInstanceFinalizer \<in> set (Finalizers (app_meta ?app))" "being_deleted (app_meta ?app)" "\<not> IsPlaceholder (app_Spec ?app)"
    by (simp_all add: app_server_answers being_deleted_def IsZero_def zero_time_def IsPlaceholder_def)
  obtain res w' where run: "run_state (App_Reconcile ?E (operator ?E) ''ns'' ''app'') demo_world = (res, w')"
    by (cases "run_state (App_Reconcile ?E (operator ?E) ''ns'' ''app'') demo_world")
  then have "\<exists>a h. hist w' = UpdateApplicationInstance a # h"
    using app
    by (auto simp: App_Reconcile_def go_run app_server_answers finalize_def write_deleting_def write_status_def report_app_def
        IsSeaweedWorkload_def finalize_helm_def DeleteRelease_def release_objects_def remove_app_finalizer_def Let_def)
  then have "\<not> quiet (hist demo_world) (hist w')" by (auto simp: quiet_def demo_world_def)
  with finalizer_removed_after_uninstall [OF app_server_answers(8) app run] run show ?thesis by auto
qed

definition ready_release :: Unstructured where
  "ready_release = (empty_object helmReleaseGVK ''ns'' ''shop'')\<lparr>u_Object := JObject [(''status'', JObject [(''conditions'',
     JArray [JObject [(''type'', JString ''Ready''), (''status'', JString ''True''), (''message'', JString ''installed'')]])])]\<rparr>"


definition demo_storage :: ManagedStorageSnapshot where
  "demo_storage = \<lparr>mss_AccessKeyID = ''AK'', mss_SecretAccessKey = ''SK'', mss_BucketName = ''shop''\<rparr>"

lemma live_app_ready: "\<exists>ready. Get (app_conditions (live_app raw deleted)) ConditionReady = Some ready \<and> c_Status ready = ConditionTrue"
  by (simp add: live_app_def Let_def)

lemma demo_storage_queued:
  assumes "batcher w = Some NewEventBatcher" and "storageAckPending w = Map.empty" and "storageInFlight w = Map.empty"
    and run: "run_state (reportManagedStorage demo_env (live_app [] None) demo_storage) w = (res, w1)"
  shows "batcher w1 \<noteq> batcher w" "events_client w1 = events_client w"
proof -
  let ?app = "live_app [] None" and ?k = "managedStorageReportKey demo_storage"
  obtain ready where ready: "Get (app_conditions ?app) ConditionReady = Some ready" using live_app_ready by blast
  let ?ready = "ready\<lparr>LastTransitionTime := clock demo_env (hist w), c_Reason := ''ManagedStorageReady'',
                c_Message := ''Inline S3 credentials available for control-plane registry sync''\<rparr>"
  have none: "go_get Map.empty a = []" for a by (simp add: go_get_def)
  have "\<not> HasPendingEvent (batcher w) key" for key
    by (simp add: HasPendingEvent_def HasEventKey_def assms(1) NewEventBatcher_def)
  then have "run_state (send_storage demo_env ?app demo_storage ?ready ?k) w =
      run_state (deliver demo_env ?app demo_storage ?ready ?k) w"
    by (simp add: send_storage_def resume_ack_def delivery_in_flight_def storage_defs go_run none assms(2,3))
  moreover have "run_state (reportManagedStorage demo_env ?app demo_storage) w =
      run_state (send_storage demo_env ?app demo_storage ?ready ?k) w"
    using ready by (simp add: reportManagedStorage_def go_run none Let_def)
  ultimately have "run_state (deliver demo_env ?app demo_storage ?ready ?k) w = (res, w1)" using run by simp
  then show "batcher w1 \<noteq> batcher w" "events_client w1 = events_client w"
    by (auto simp: deliver_def claimManagedStorageDelivery_def go_run none demo_answers storage_defs ReportManagedStorageReady_def
        assms(1) NewEventBatcher_def Enqueue_def bufferCap_def Let_def)
qed

theorem storage_credentials_queued_once_witness:
  "let w1 = snd (run_state (reportManagedStorage demo_env (live_app '''' None) demo_storage) demo_world) in
   \<exists>key. HasPendingEvent (batcher w1) key
     \<and> batcher (snd (run_state (reportManagedStorage demo_env (live_app '''' None) demo_storage) w1)) = batcher w1"
proof -
  let ?app = "live_app '''' None" and ?k = "managedStorageReportKey demo_storage"
  obtain ready where ready: "Get (app_conditions ?app) ConditionReady = Some ready" using live_app_ready by blast
  obtain res w1 where run: "run_state (reportManagedStorage demo_env ?app demo_storage) demo_world = (res, w1)"
    by (cases "run_state (reportManagedStorage demo_env ?app demo_storage) demo_world")
  have changed: "batcher w1 \<noteq> batcher demo_world"
    by (rule demo_storage_queued(1) [OF _ _ _ run]) (simp_all add: demo_world_def)
  have pending: "HasPendingEvent (batcher w1) key \<or>
      storagePosting w1 (storageDeliveryKey (Namespace (app_meta ?app)) (Name (app_meta ?app))) = Some ?k"
    if "key = ManagedStorageEventKey (app_ref ?app) ready ?k" for key
    using report_queues [OF ready run changed] that by simp
  from storage_credentials_queued_once [OF ready run changed ready refl refl refl refl pending [OF refl] refl] run
  show ?thesis by (auto simp: Let_def)
qed

definition claimed_app :: ApplicationInstance where
  "claimed_app = set_annotation managedStorageClaimAnnotation (Some (managedStorageReportKey demo_storage)) (live_app '''' None)"

theorem extracted_credentials_queued_again_witness:
  "\<exists>w key b''. storageInFlight w (storageDeliveryKey ''ns'' ''app'') = Some (managedStorageReportKey demo_storage)
     \<and> \<not> HasPendingEvent (batcher w) key
     \<and> batcher (snd (run_state (reportManagedStorage demo_env claimed_app demo_storage) w)) = Some b'' \<and> HasEventKey b'' key"
proof -
  let ?k = "managedStorageReportKey demo_storage"
  obtain ready where ready: "Get (app_conditions claimed_app) ConditionReady = Some ready"
    using live_app_ready by (auto simp: claimed_app_def)
  let ?key = "ManagedStorageEventKey (app_ref claimed_app) ready ?k"
  let ?e = "(ConditionTransitionEvent 1 (app_ref claimed_app) [ready])\<lparr>EventKey := ?key\<rparr>"
  let ?b = "NewEventBatcher\<lparr>events := [?e]\<rparr>"
  let ?w = "demo_world\<lparr>batcher := Some NewEventBatcher, storageInFlight := [storageDeliveryKey ''ns'' ''app'' \<mapsto> ?k]\<rparr>"
  have deliveryKey: "storageDeliveryKey ''ns'' ''app'' = storageDeliveryKey (Namespace (app_meta claimed_app)) (Name (app_meta claimed_app))"
    by (simp add: claimed_app_def live_app_def inline_app_def demo_app_def Let_def)
  have extracted: "Flush_extract ?b = ([?e], NewEventBatcher)"
    by (simp add: Flush_extract_def NewEventBatcher_def batchCap_def Let_def)
  have key: "?key \<noteq> ''''" by (simp add: ManagedStorageEventKey_def)
  have annotations: "annotation claimed_app managedStorageClaimAnnotation = ?k"
    "annotation claimed_app managedStoragePostedAnnotation \<noteq> ?k" "annotation claimed_app reportedManagedStorageAccessKeyAnnotation \<noteq> ?k"
    by (simp_all add: claimed_app_def set_annotation_def go_get_def)
  have fresh: "\<not> HasEventKey NewEventBatcher ?key" by (simp add: HasEventKey_def NewEventBatcher_def)
  have flight: "storageInFlight ?w (storageDeliveryKey ''ns'' ''app'') = Some ?k" by simp
  have "\<exists>b''. batcher (snd (run_state (reportManagedStorage demo_env claimed_app demo_storage) ?w)) = Some b'' \<and> HasEventKey b'' ?key"
    by (rule extracted_credentials_queued_again [where e = ?e, OF ready deliveryKey refl extracted _ _ _ fresh flight _ _ annotations])
      (simp_all add: demo_world_def)
  moreover have "\<not> HasPendingEvent (batcher ?w) ?key" using fresh by (simp add: HasPendingEvent_def)
  ultimately show ?thesis using flight by blast
qed

end
