(* ===== verification/Event_Delivery.thy ===== *)
theory Event_Delivery
  imports App_Controller
begin

text \<open>
  Delivery of buffered events: \<^verbatim>\<open>EventBatcher.Start\<close> and \<^verbatim>\<open>EventBatcher.Flush\<close> of \<^verbatim>\<open>internal/agent/events.go\<close>
  as programs over the world, with the HTTP client that the agent runtime has installed and the three
  hooks through which \<^verbatim>\<open>cmd/main.go\<close> connects the buffer with the ApplicationInstance controller. The
  locale \<open>batch_hooks\<close> is what the buffer relies on of the hooks; under it \<open>EventBatcher_Flush\<close> refines
  the function \<open>Flush\<close> on the buffer. Nothing else touches the buffer during the flush here; the
  interleavings with other goroutines are the subject of \<open>buf_step\<close>.
\<close>

section \<open>The flush\<close>

record flush_hooks =
  OnBeforePostEvents :: "(Event list \<Rightarrow> unit prog) option"
  OnEventsPostFailed :: "(Event list \<Rightarrow> unit prog) option"
  OnEventsDelivered :: "(Event list \<Rightarrow> unit prog) option"

definition run_hook :: "(Event list \<Rightarrow> unit prog) option \<Rightarrow> Event list \<Rightarrow> unit prog" where
  "run_hook hook batch = (case hook of None \<Rightarrow> State_Monad.return () | Some f \<Rightarrow> f batch)"

text \<open>\<^verbatim>\<open>b.Client\<close>: the client that the runtime has made from the credentials.\<close>

definition batcher_client :: "env \<Rightarrow> world \<Rightarrow> AgentClient option" where
  "batcher_client E w =
     (case events_client w of
        None \<Rightarrow> None
      | Some creds \<Rightarrow> (case NewHTTPClient creds of Inl _ \<Rightarrow> None | Inr c \<Rightarrow> Some (http_client E c)))"

definition update_buffer :: "(EventBatcher \<Rightarrow> EventBatcher) \<Rightarrow> unit prog" where
  "update_buffer f = poke (batcher_update (map_option f))"

text \<open>Posting a batch that has been taken out of the buffer.\<close>

definition post_batch :: "flush_hooks \<Rightarrow> AgentClient \<Rightarrow> Event list \<Rightarrow> unit prog" where
  "post_batch hooks client batch = do {
     _ \<leftarrow> run_hook (OnBeforePostEvents hooks) batch;
     err \<leftarrow> PostEvents client batch;
     case err of
       Some _ \<Rightarrow> do {
         _ \<leftarrow> run_hook (OnEventsPostFailed hooks) batch;
         update_buffer (requeue batch)
       }
     | None \<Rightarrow> do {
         _ \<leftarrow> run_hook (OnEventsDelivered hooks) batch;
         update_buffer Flush_finish
       }
   }"

definition EventBatcher_Flush :: "env \<Rightarrow> flush_hooks \<Rightarrow> unit prog" where
  "EventBatcher_Flush E hooks = do {
     b \<leftarrow> peek batcher;
     case b of
       None \<Rightarrow> State_Monad.return ()
     | Some b \<Rightarrow>
         if events b = [] then State_Monad.return ()
         else do {
           _ \<leftarrow> poke (batcher_update (\<lambda>_. Some (snd (Flush_extract b))));
           client \<leftarrow> peek (batcher_client E);
           case client of
             None \<Rightarrow> State_Monad.return ()
           | Some client \<Rightarrow> post_batch hooks client (fst (Flush_extract b))
         }
   }"

text \<open>The loop of \<^verbatim>\<open>Start\<close>, for at most \<open>n\<close> ticks: the buffer is flushed once more when the context ends.\<close>

fun flush_loop :: "env \<Rightarrow> nat \<Rightarrow> flush_hooks \<Rightarrow> int \<Rightarrow> unit option prog" where
  "flush_loop E 0 hooks wait = State_Monad.return None"
| "flush_loop E (Suc n) hooks wait = do {
     cancelled \<leftarrow> ask (context_done E) (Sleep wait);
     _ \<leftarrow> EventBatcher_Flush E hooks;
     if cancelled \<noteq> None then State_Monad.return (Some ()) else flush_loop E n hooks wait
   }"

definition EventBatcher_Start :: "env \<Rightarrow> nat \<Rightarrow> flush_hooks \<Rightarrow> unit option prog" where
  "EventBatcher_Start E n hooks = do {
     b \<leftarrow> peek batcher;
     flush_loop E n hooks (case b of None \<Rightarrow> defaultFlushWait | Some b \<Rightarrow> flushWait b)
   }"

text \<open>The hooks of the ApplicationInstance controller.\<close>

definition storage_hooks :: "env \<Rightarrow> flush_hooks" where
  "storage_hooks E =
     \<lparr>OnBeforePostEvents = Some PrepareManagedStoragePost, OnEventsPostFailed = Some AbortManagedStoragePost,
      OnEventsDelivered = Some (AckManagedStorageDelivered E)\<rparr>"

section \<open>What the buffer relies on of the hooks\<close>

lemma run_update_buffer [go_run]:
  "run_state (update_buffer f) w = ((), w\<lparr>batcher := map_option f (batcher w)\<rparr>)"
  by (cases w) (simp add: update_buffer_def go_run)

text \<open>A program that only makes requests.\<close>

abbreviation history_only :: "world \<Rightarrow> 'a \<Rightarrow> world \<Rightarrow> bool" where
  "history_only w \<equiv> (\<lambda>_ w'. \<exists>cs. w' = w\<lparr>hist := cs @ hist w\<rparr>)"

lemma history_refl: "\<exists>cs. w = w\<lparr>hist := cs @ hist w\<rparr>"
  by (rule exI [of _ "[]"]) simp

lemma history_Cons: "\<exists>cs. w\<lparr>hist := c # hist w\<rparr> = w\<lparr>hist := cs @ hist w\<rparr>"
  "\<exists>cs. w\<lparr>hist := c # d # hist w\<rparr> = w\<lparr>hist := cs @ hist w\<rparr>"
  by (rule exI [of _ "[c]"], simp) (rule exI [of _ "[c, d]"], simp)

text \<open>A post changes nothing but the history.\<close>

lemma wp_history:
  assumes "wp m (history_only w) w"
  obtains r cs where "run_state m w = (r, w\<lparr>hist := cs @ hist w\<rparr>)"
  using assms by (auto simp: wp_def split: prod.splits)

lemma http_send_history: "wp (http_send E c m e b) (history_only w) w"
  unfolding http_send_def using history_refl [of w] history_Cons [where w = w]
  by (auto simp: wp_rules split: option.split)

lemma run_PostEvents:
  obtains r cs where "run_state (PostEvents (http_client E c) batch) w = (r, w\<lparr>hist := cs @ hist w\<rparr>)"
proof (rule wp_history)
  show "wp (PostEvents (http_client E c) batch) (history_only w) w"
    unfolding http_client_def HTTPClient_PostEvents_def post_expecting_def AgentClient.simps wp_bind wp_return
    by (rule http_send_history)
qed

lemma batcher_client_http: "batcher_client E w = Some client \<Longrightarrow> \<exists>c. client = http_client E c"
  by (auto simp: batcher_client_def split: option.splits sum.splits)

text \<open>Whether the client takes a batch: the answer depends on the requests made so far only.\<close>

definition posted :: "env \<Rightarrow> world \<Rightarrow> Event list \<Rightarrow> bool" where
  "posted E w batch =
     (case batcher_client E w of
        None \<Rightarrow> False
      | Some client \<Rightarrow> fst (run_state (PostEvents client batch) w) = None)"

lemma http_send_result: "hist w = hist w' \<Longrightarrow> fst (run_state (http_send E c m e b) w) = fst (run_state (http_send E c m e b) w')"
  unfolding http_send_def by (simp add: go_run split: option.split)

lemma fst_run_return: "fst (run_state (m \<bind> (\<lambda>a. State_Monad.return (f a))) w) = f (fst (run_state m w))"
  by (cases "run_state m w") (simp add: run_state_bind)

lemma PostEvents_result:
  assumes "hist w = hist w'"
  shows "fst (run_state (PostEvents (http_client E c) batch) w) = fst (run_state (PostEvents (http_client E c) batch) w')"
  unfolding http_client_def HTTPClient_PostEvents_def post_expecting_def AgentClient.simps fst_run_return
    http_send_result [OF assms] ..

locale batch_hooks =
  fixes E :: env and hooks :: flush_hooks
  assumes before_buffer: "batcher (snd (run_state (run_hook (OnBeforePostEvents hooks) batch) w)) = batcher w"
    and before_history: "hist (snd (run_state (run_hook (OnBeforePostEvents hooks) batch) w)) = hist w"
    and failed_buffer: "batcher (snd (run_state (run_hook (OnEventsPostFailed hooks) batch) w)) = batcher w"
    and delivered_buffer: "batcher (snd (run_state (run_hook (OnEventsDelivered hooks) batch) w)) = batcher w"
begin

lemma post_batch_buffer:
  assumes "run_state (run_hook (OnBeforePostEvents hooks) batch) w = ((), w1)"
  shows "batcher (snd (run_state (post_batch hooks (http_client E c) batch) w)) =
    map_option (if fst (run_state (PostEvents (http_client E c) batch) w1) = None then Flush_finish else requeue batch)
      (batcher w)"
proof -
  obtain r cs where "run_state (PostEvents (http_client E c) batch) w1 = (r, w1\<lparr>hist := cs @ hist w1\<rparr>)"
    by (rule run_PostEvents)
  then obtain h where r: "run_state (PostEvents (http_client E c) batch) w1 = (r, w1\<lparr>hist := h\<rparr>)" by blast
  have w1: "batcher w1 = batcher w" using before_buffer [of batch w] assms by simp
  have "batcher (snd (run_state (run_hook (OnEventsPostFailed hooks) batch) (w1\<lparr>hist := h\<rparr>))) = batcher w"
    "batcher (snd (run_state (run_hook (OnEventsDelivered hooks) batch) (w1\<lparr>hist := h\<rparr>))) = batcher w"
    by (simp_all add: failed_buffer delivered_buffer w1)
  then show ?thesis
    using assms r by (cases r) (auto simp: post_batch_def go_run split: prod.splits)
qed

text \<open>The flush refines \<open>Flush\<close>: the client of the buffer accepts exactly when the post succeeds.\<close>

lemma flush_refines:
  "batcher (snd (run_state (EventBatcher_Flush E hooks) w)) =
     map_option (Flush (map_option (\<lambda>_. posted E w) (batcher_client E w))) (batcher w)"
proof (cases "batcher w")
  case None
  then show ?thesis by (simp add: EventBatcher_Flush_def go_run)
next
  case (Some b)
  let ?w = "w\<lparr>batcher := Some (snd (Flush_extract b))\<rparr>" and ?batch = "fst (Flush_extract b)"
  have client: "batcher_client E ?w = batcher_client E w" by (simp add: batcher_client_def)
  show ?thesis
  proof (cases "events b = [] \<or> batcher_client E w = None")
    case True
    with Some client show ?thesis
      by (auto simp: EventBatcher_Flush_def Flush_def go_run split: prod.split)
  next
    case False
    then obtain hc where c: "batcher_client E w = Some (http_client E hc)" "events b \<noteq> []"
      using batcher_client_http by blast
    obtain w1 where w1: "run_state (run_hook (OnBeforePostEvents hooks) ?batch) ?w = ((), w1)"
      by (cases "run_state (run_hook (OnBeforePostEvents hooks) ?batch) ?w") auto
    have run: "run_state (EventBatcher_Flush E hooks) w = run_state (post_batch hooks (http_client E hc) ?batch) ?w"
      using Some c client by (simp add: EventBatcher_Flush_def go_run)
    have "hist w1 = hist w" using before_history [of ?batch ?w] w1 by simp
    then have "posted E w ?batch \<longleftrightarrow> fst (run_state (PostEvents (http_client E hc) ?batch) w1) = None"
      using PostEvents_result [of w1 w] c(1) by (simp add: posted_def)
    then show ?thesis
      unfolding run post_batch_buffer [OF w1] c(1) Some by (auto simp: Flush_def c(2) split: prod.split)
  qed
qed

end

section \<open>The hooks of the ApplicationInstance controller\<close>

text \<open>The delivery that an event belongs to: the key of its instance and the report key.\<close>

definition storage_delivery :: "Event \<Rightarrow> (string \<times> string) option" where
  "storage_delivery e =
     map_option (Pair (storageDeliveryKey (ar_Namespace (ResourceRef e)) (ar_Name (ResourceRef e))))
       (ManagedStorageReportKeyFromEventKey (EventKey e))"

text \<open>Writing annotations makes requests and changes nothing else.\<close>

lemma patch_annotation_history: "wp (patch_annotation E ns name k v) (history_only w) w"
  unfolding patch_annotation_def using history_refl [of w] history_Cons [where w = w]
  by (auto simp: wp_rules split: sum.split)

lemma triggerAckRetry_history: "wp (triggerAckRetry E ns name k) (history_only w) w"
  unfolding triggerAckRetry_def using history_refl [of w] history_Cons [where w = w]
  by (auto simp: wp_rules split: sum.split)

lemmas ack_history = patch_annotation_history triggerAckRetry_history

lemmas ack_annotation_defs = patchManagedStorageFailedPosted_def patchManagedStorageFailedAck_def patchSeaweedEndpointsAck_def
  patchManagedStoragePosted_def triggerManagedStorageFailedAckRetry_def triggerSeaweedEndpointsAckRetry_def
  triggerManagedStorageAckRetry_def

text \<open>
  \<open>acknowledged E ns name k h h'\<close>: between the histories \<open>h\<close> and \<open>h'\<close> the server has accepted the
  acknowledgement of the delivery \<open>k\<close>, or has shown the instance with it.
\<close>

fun ack_seen :: "env \<Rightarrow> string \<Rightarrow> string \<Rightarrow> string \<Rightarrow> history \<Rightarrow> bool" where
  "ack_seen E ns name k (PatchApplicationInstance old new # h) =
     (new = acked k old \<and> write_result E (PatchApplicationInstance old new # h) = None)"
| "ack_seen E ns name k (GetApplicationInstance ns' name' # h) =
     (ns' = ns \<and> name' = name \<and>
      (case get_app E (GetApplicationInstance ns' name' # h) of
         Inl _ \<Rightarrow> False
       | Inr app \<Rightarrow> annotation app reportedManagedStorageAccessKeyAnnotation = k))"
| "ack_seen E ns name k _ = False"

definition acknowledged :: "env \<Rightarrow> string \<Rightarrow> string \<Rightarrow> string \<Rightarrow> history \<Rightarrow> history \<Rightarrow> bool" where
  "acknowledged E ns name k h h' \<longleftrightarrow> (\<exists>c cs ds. h' = cs @ c # ds @ h \<and> ack_seen E ns name k (c # ds @ h))"

lemma acknowledged_later:
  assumes "acknowledged E ns name k (ds @ h) h'"
  shows "acknowledged E ns name k h (cs @ h')"
proof -
  obtain c cs' ds' where "h' = cs' @ c # ds' @ ds @ h" "ack_seen E ns name k (c # ds' @ ds @ h)"
    using assms unfolding acknowledged_def by blast
  then have "cs @ h' = (cs @ cs') @ c # (ds' @ ds) @ h" "ack_seen E ns name k (c # (ds' @ ds) @ h)" by simp_all
  then show ?thesis unfolding acknowledged_def by blast
qed

text \<open>
  \<open>acks E ns name k w w'\<close>: from \<open>w\<close> to \<open>w'\<close> requests were made and the pending acknowledgement of the
  instance, if it changed at all, changed after it was acknowledged.
\<close>

definition acks :: "env \<Rightarrow> string \<Rightarrow> string \<Rightarrow> string \<Rightarrow> world \<Rightarrow> world \<Rightarrow> bool" where
  "acks E ns name k w w' \<longleftrightarrow>
     (\<exists>cs. hist w' = cs @ hist w) \<and> batcher w' = batcher w
     \<and> (\<forall>X. X \<noteq> storageDeliveryKey ns name \<longrightarrow>
          storageAckPending w' X = storageAckPending w X \<and> storageInFlight w' X = storageInFlight w X)
     \<and> (storageAckPending w' (storageDeliveryKey ns name) = storageAckPending w (storageDeliveryKey ns name)
        \<or> acknowledged E ns name k (hist w) (hist w'))"

lemma acks_history: "acks E ns name k w (w\<lparr>hist := cs @ hist w\<rparr>)"
  by (simp add: acks_def)

lemma acks_refl: "acks E ns name k w w"
  using acks_history [of E ns name k w "[]"] by simp

lemma acks_trans:
  assumes "acks E ns name k w w1" and "acks E ns name k w1 w2"
  shows "acks E ns name k w w2"
proof -
  obtain cs ds where h: "hist w1 = cs @ hist w" "hist w2 = ds @ hist w1" using assms by (auto simp: acks_def)
  have "acknowledged E ns name k (hist w) (hist w2)" if "acknowledged E ns name k (hist w) (hist w1)"
    using acknowledged_later [of E ns name k "[]" "hist w" "hist w1" ds] that h by simp
  moreover have "acknowledged E ns name k (hist w) (hist w2)" if "acknowledged E ns name k (hist w1) (hist w2)"
    using acknowledged_later [of E ns name k cs "hist w" "hist w2" "[]"] that h by simp
  ultimately show ?thesis using assms h by (auto simp: acks_def)
qed

lemma acks_bind:
  assumes "wp m (\<lambda>_. acks E ns name k w) w" and "\<And>a w1. wp (f a) (\<lambda>_. acks E ns name k w1) w1"
  shows "wp (m \<bind> f) (\<lambda>_. acks E ns name k w) w"
  unfolding wp_bind by (rule wp_mono [OF assms(1)]) (rule wp_mono [OF assms(2)], erule (1) acks_trans)

lemma acks_wp: "wp m (history_only w) w \<Longrightarrow> wp m (\<lambda>_. acks E ns name k w) w"
  by (erule wp_mono) (auto intro: acks_history)

lemma acks_cleared:
  assumes "acknowledged E ns name k (hist w) (cs @ hist w)"
  shows "wp (clearStorageDeliveryState ns name \<bind> (\<lambda>_. State_Monad.return r)) (\<lambda>_. acks E ns name k w) (w\<lparr>hist := cs @ hist w\<rparr>)"
  using assms by (auto simp: wp_rules clearStorageDeliveryState_def Let_def acks_def)

lemma ack_attempts_acks: "wp (ack_attempts E ns name k as e) (\<lambda>_. acks E ns name k w) w"
proof (induction as arbitrary: e w)
  case (Cons a as)
  have attempt: "wp (ask (get_app E) (GetApplicationInstance ns name) \<bind> (\<lambda>app. case app of
      Inl err \<Rightarrow> State_Monad.return (Some (Wrapf ''get ApplicationInstance: '' err []))
    | Inr app \<Rightarrow> if annotation app reportedManagedStorageAccessKeyAnnotation = k
        then clearStorageDeliveryState ns name \<bind> (\<lambda>_. State_Monad.return None)
        else ask (write_result E) (PatchApplicationInstance app (acked k app)) \<bind> (\<lambda>err. case err of
            None \<Rightarrow> clearStorageDeliveryState ns name \<bind> (\<lambda>_. State_Monad.return None)
          | Some err \<Rightarrow> if IsConflictErr err then ack_attempts E ns name k as (Some err)
              else ack_attempts E ns name k [] (Some err)))) (\<lambda>_. acks E ns name k w) w" for w
  proof -
    let ?c = "GetApplicationInstance ns name"
    show ?thesis
    proof (cases "get_app E (?c # hist w)")
      case (Inl err)
      then show ?thesis using acks_history [of E ns name k w "[?c]"] by (simp add: wp_rules)
    next
      case (Inr app)
      let ?p = "PatchApplicationInstance app (acked k app)"
      let ?w2 = "w\<lparr>hist := [?p, ?c] @ hist w\<rparr>"
      show ?thesis
      proof (cases "annotation app reportedManagedStorageAccessKeyAnnotation = k")
        case True
        with Inr have "acknowledged E ns name k (hist w) ([?c] @ hist w)"
          unfolding acknowledged_def by (intro exI [of _ ?c] exI [of _ "[]"]) simp
        from acks_cleared [OF this] True Inr show ?thesis by (simp add: wp_bind wp_ask)
      next
        case False
        have again: "wp (ack_attempts E ns name k bs e') (\<lambda>_. acks E ns name k w) ?w2" if "bs = as \<or> bs = []" for bs e'
        proof (rule wp_mono)
          show "wp (ack_attempts E ns name k bs e') (\<lambda>_. acks E ns name k ?w2) ?w2"
            using that Cons.IH acks_refl by (auto simp: wp_rules)
        qed (rule acks_trans [OF acks_history])
        have "acknowledged E ns name k (hist w) ([?p, ?c] @ hist w)" if "write_result E ([?p, ?c] @ hist w) = None"
          unfolding acknowledged_def using that
          by (intro exI [of _ ?p] exI [of _ "[]"] exI [of _ "[?c]"]) simp
        from acks_cleared [OF this] again False Inr show ?thesis
          by (cases "write_result E ([?p, ?c] @ hist w)") (simp_all add: wp_bind wp_ask del: ack_attempts.simps)
      qed
    qed
  qed
  show ?case
    unfolding ack_attempts.simps(2)
    by (rule acks_bind [OF _ attempt]) (use acks_history [of E ns name k w "[_]"] acks_refl in \<open>auto simp: wp_rules\<close>)
qed (simp add: wp_rules acks_refl)

lemma ackEvent_delivery:
  assumes "ManagedStorageReportKeyFromEventKey (EventKey e) = Some k" and "ev_Kind e \<noteq> ''ManagedStorageFailed''"
  defines "ns \<equiv> ar_Namespace (ResourceRef e)" and "name \<equiv> ar_Name (ResourceRef e)"
  shows "wp (ackEvent E e) (\<lambda>_ w'. \<exists>w1. storageAckPending w1 = (storageAckPending w)(storageDeliveryKey ns name \<mapsto> k)
     \<and> storageInFlight w1 = (storageInFlight w)(storageDeliveryKey ns name := None)
     \<and> hist w1 = hist w \<and> batcher w1 = batcher w \<and> acks E ns name k w1 w') w"
proof -
  let ?K = "storageDeliveryKey ns name"
  let ?w1 = "storagePosting_update (\<lambda>m. if go_get m ?K = k then m(?K := None) else m)
    (storageInFlight_update (\<lambda>m. m(?K := None)) (storageAckPending_update (\<lambda>m. m(?K \<mapsto> k)) w))"
  have no_endpoints: "EndpointsReportKeyFromEventKey (EventKey e) = None"
    using assms(1) by (auto simp: ManagedStorageReportKeyFromEventKey_def EndpointsReportKeyFromEventKey_def HasPrefix_iff split: if_splits)
  let ?rest = "patchManagedStoragePosted E ns name k \<bind> (\<lambda>err. if err \<noteq> None then triggerManagedStorageAckRetry E ns name
    else patchManagedStorageAck E ns name k \<bind> (\<lambda>err. if err \<noteq> None then triggerManagedStorageAckRetry E ns name else State_Monad.return ()))"
  have retry: "wp (triggerManagedStorageAckRetry E ns name) (\<lambda>_. acks E ns name k v) v" for v
    unfolding triggerManagedStorageAckRetry_def by (rule acks_wp [OF triggerAckRetry_history])
  have posted: "wp (patchManagedStoragePosted E ns name k) (\<lambda>_. acks E ns name k v) v" for v
    unfolding patchManagedStoragePosted_def by (rule acks_wp [OF patch_annotation_history])
  have ack: "wp (patchManagedStorageAck E ns name k) (\<lambda>_. acks E ns name k v) v" for v
    unfolding patchManagedStorageAck_def by (rule ack_attempts_acks)
  have "wp ?rest (\<lambda>_. acks E ns name k ?w1) ?w1"
    by (rule acks_bind [OF posted]) (simp add: retry, intro conjI impI acks_bind [OF ack], simp add: retry wp_return acks_refl)
  moreover have "run_state (ackEvent E e) w = run_state ?rest ?w1"
    unfolding ackEvent_def Let_def if_not_P [OF assms(2)] no_endpoints assms(1) option.case ns_def [symmetric] name_def [symmetric]
      markStorageAckPending_def clearStorageInFlight_def clearStoragePosting_def
    by (simp only: run_state_bind run_poke prod.case)
  ultimately have "wp (ackEvent E e) (\<lambda>_. acks E ns name k ?w1) w" by (simp only: wp_def)
  then show ?thesis by (rule wp_mono) (intro exI [of _ ?w1], simp)
qed

lemma history_bind:
  assumes "wp m (history_only w) w" and "\<And>a w1. wp (f a) (history_only w1) w1"
  shows "wp (m \<bind> f) (history_only w) w"
  by (rule wp_step [OF assms(1)], erule exE, rule wp_mono [OF assms(2)]) (auto simp flip: append_assoc)

lemma ackEvent_other:
  assumes "ManagedStorageReportKeyFromEventKey (EventKey e) = None \<or> ev_Kind e = ''ManagedStorageFailed''"
  shows "wp (ackEvent E e) (history_only w) w"
proof -
  have pair: "wp (patch_annotation E ns name a v \<bind> (\<lambda>err. if err \<noteq> None then triggerAckRetry E ns name a' else m))
    (history_only w) w" if "\<And>w. wp m (history_only w) w" for ns name a v a' m w
    by (rule history_bind [OF patch_annotation_history]) (simp add: triggerAckRetry_history that)
  have return: "wp (State_Monad.return ()) (history_only w) w" for w by (simp add: wp_rules history_refl)
  show ?thesis
  proof (cases "ev_Kind e = ''ManagedStorageFailed''")
    case True
    show ?thesis unfolding ackEvent_def Let_def if_P [OF True] ack_annotation_defs by (intro pair return)
  next
    case False
    with assms have none: "ManagedStorageReportKeyFromEventKey (EventKey e) = None" by simp
    show ?thesis unfolding ackEvent_def Let_def if_not_P [OF False] ack_annotation_defs none
      by (cases "EndpointsReportKeyFromEventKey (EventKey e)") (simp_all only: option.case return pair)
  qed
qed

text \<open>
  The delivery \<open>k\<close> of an instance is settled: it is known to be accepted, and its acknowledgement is
  pending or has been written since \<open>h\<close>.
\<close>

definition settled :: "env \<Rightarrow> string \<Rightarrow> string \<Rightarrow> string \<Rightarrow> history \<Rightarrow> world \<Rightarrow> bool" where
  "settled E ns name k h w \<longleftrightarrow>
     storageAckPending w (storageDeliveryKey ns name) = Some k \<or> acknowledged E ns name k h (hist w)"

definition carries :: "string \<Rightarrow> string \<Rightarrow> string \<Rightarrow> Event \<Rightarrow> bool" where
  "carries ns name k e \<longleftrightarrow> storage_delivery e = Some (storageDeliveryKey ns name, k) \<and> ev_Kind e \<noteq> ''ManagedStorageFailed''"

definition no_slash :: "string \<Rightarrow> bool" where
  "no_slash s \<longleftrightarrow> CHR ''/'' \<notin> set s"

lemma storageDeliveryKey_inj:
  assumes "storageDeliveryKey ns' name' = storageDeliveryKey ns name" and "no_slash ns" and "no_slash name"
  shows "ns' = ns" "name' = name"
proof -
  have "ns' @ CHR ''/'' # name' = ns @ CHR ''/'' # name" using assms(1) by (simp add: storageDeliveryKey_def)
  then have "ns' = ns \<and> name' = name"
    using assms(2,3) unfolding no_slash_def by (auto simp: append_eq_append_conv2 Cons_eq_append_conv append_eq_Cons_conv)
  then show "ns' = ns" "name' = name" by auto
qed

text \<open>What one accepted event does to the delivery \<open>k\<close> of the instance, when it carries no other delivery of it.\<close>

definition delivered :: "env \<Rightarrow> string \<Rightarrow> string \<Rightarrow> string \<Rightarrow> history \<Rightarrow> Event list \<Rightarrow> world \<Rightarrow> world \<Rightarrow> bool" where
  "delivered E ns name k h batch w w' \<longleftrightarrow>
     (\<exists>cs. hist w' = cs @ hist w) \<and> batcher w' = batcher w
     \<and> (settled E ns name k h w \<or> (\<exists>e \<in> set batch. carries ns name k e) \<longrightarrow> settled E ns name k h w')
     \<and> ((\<forall>e \<in> set batch. \<forall>k'. storage_delivery e \<noteq> Some (storageDeliveryKey ns name, k')) \<longrightarrow>
          storageInFlight w' (storageDeliveryKey ns name) = storageInFlight w (storageDeliveryKey ns name))"

lemma settled_later:
  assumes "settled E ns name k h w" and "hist w' = cs @ hist w"
    and "storageAckPending w' (storageDeliveryKey ns name) = storageAckPending w (storageDeliveryKey ns name)
      \<or> acknowledged E ns name k (hist w) (hist w')" and "hist w = ds @ h"
  shows "settled E ns name k h w'"
proof -
  have "acknowledged E ns name k h (hist w')" if "acknowledged E ns name k h (hist w)"
    using acknowledged_later [of E ns name k "[]" h "hist w" cs] that assms(2) by simp
  moreover have "acknowledged E ns name k h (hist w')" if "acknowledged E ns name k (hist w) (hist w')"
    using acknowledged_later [of E ns name k ds h "hist w'" "[]"] that assms(4) by simp
  ultimately show ?thesis using assms(1,3) by (auto simp: settled_def)
qed

lemma ackEvent_delivered:
  assumes "no_slash ns" and "no_slash name" and "\<And>k'. storage_delivery e = Some (storageDeliveryKey ns name, k') \<Longrightarrow> k' = k"
    and "hist w = ds @ h"
  shows "wp (ackEvent E e) (\<lambda>_. delivered E ns name k h [e] w) w"
proof (cases "ManagedStorageReportKeyFromEventKey (EventKey e) = None \<or> ev_Kind e = ''ManagedStorageFailed''")
  case True
  then have "\<not> carries ns name k e" by (auto simp: carries_def storage_delivery_def)
  then show ?thesis
    by (intro wp_mono [OF ackEvent_other [OF True]]) (auto simp: delivered_def elim: settled_later [OF _ _ _ assms(4)])
next
  case False
  then obtain k' where k': "ManagedStorageReportKeyFromEventKey (EventKey e) = Some k'" and kind: "ev_Kind e \<noteq> ''ManagedStorageFailed''"
    by auto
  let ?ns = "ar_Namespace (ResourceRef e)" and ?name = "ar_Name (ResourceRef e)"
  let ?K = "storageDeliveryKey ns name" and ?K' = "storageDeliveryKey ?ns ?name"
  have e: "storage_delivery e = Some (?K', k')" by (simp add: storage_delivery_def k')
  show ?thesis
  proof (rule wp_mono [OF ackEvent_delivery [OF k' kind]], elim exE conjE)
    fix a w' w1
    assume w1: "storageAckPending w1 = (storageAckPending w)(?K' \<mapsto> k')" "storageInFlight w1 = (storageInFlight w)(?K' := None)"
      "hist w1 = hist w" "batcher w1 = batcher w" and w': "acks E ?ns ?name k' w1 w'"
    obtain cs where cs: "hist w' = cs @ hist w" using w' w1 by (auto simp: acks_def)
    show "delivered E ns name k h [e] w w'"
    proof (cases "?K' = ?K")
      case True
      with assms(3) e have same: "?ns = ns" "?name = name" "k' = k"
        using storageDeliveryKey_inj [OF True assms(1,2)] by auto
      with w1 have "settled E ns name k h w1" by (simp add: settled_def)
      from settled_later [OF this _ _ ] w' same cs w1 assms(4) have "settled E ns name k h w'"
        by (auto simp: acks_def)
      with cs w' w1 e True show ?thesis by (auto simp: delivered_def acks_def)
    next
      case other: False
      then have "storageAckPending w' ?K = storageAckPending w ?K" "storageInFlight w' ?K = storageInFlight w ?K"
        using w' w1 by (auto simp: acks_def)
      moreover have "\<not> carries ns name k e" using e other by (simp add: carries_def)
      ultimately show ?thesis
        using cs w' w1 settled_later [OF _ cs _ assms(4)] by (auto simp: delivered_def acks_def)
    qed
  qed
qed

lemma AckManagedStorageDelivered_delivered:
  assumes "no_slash ns" and "no_slash name"
    and "\<And>e k'. e \<in> set batch \<Longrightarrow> storage_delivery e = Some (storageDeliveryKey ns name, k') \<Longrightarrow> k' = k"
    and "hist w = ds @ h"
  shows "wp (AckManagedStorageDelivered E batch) (\<lambda>_. delivered E ns name k h batch w) w"
  using assms(3,4)
proof (induction batch arbitrary: w ds)
  case Nil
  then show ?case by (auto simp: wp_rules delivered_def)
next
  case (Cons e batch)
  show ?case
    unfolding AckManagedStorageDelivered.simps
  proof (rule wp_step [OF ackEvent_delivered [OF assms(1,2) _ Cons.prems(2)]])
    fix a w1 assume one: "delivered E ns name k h [e] w w1"
    then obtain cs where w1: "hist w1 = (cs @ ds) @ h" using Cons.prems(2) by (auto simp: delivered_def)
    have "wp (AckManagedStorageDelivered E batch) (\<lambda>_. delivered E ns name k h batch w1) w1"
      by (rule Cons.IH [OF _ w1]) (use Cons.prems(1) in auto)
    then show "wp (AckManagedStorageDelivered E batch) (\<lambda>_. delivered E ns name k h (e # batch) w) w1"
      by (rule wp_mono) (use one in \<open>auto simp: delivered_def simp flip: append_assoc\<close>)
  qed (use Cons.prems(1) in auto)
qed

section \<open>The flush and the next reconcile\<close>

text \<open>Marking and unmarking events as being posted changes one map only.\<close>

lemma run_Prepare: "\<exists>m. run_state (PrepareManagedStoragePost batch) w = ((), w\<lparr>storagePosting := m\<rparr>)"
proof (induction batch arbitrary: w)
  case Nil
  then show ?case by (auto intro: exI [of _ "storagePosting w"])
next
  case (Cons e batch)
  have "\<exists>m. run_state (PrepareManagedStoragePost batch) (w\<lparr>storagePosting := m'\<rparr>) = ((), w\<lparr>storagePosting := m\<rparr>)" for m'
    using Cons [of "w\<lparr>storagePosting := m'\<rparr>"] by simp
  with Cons [of w] show ?case by (cases w) (auto simp: go_run markStoragePosting_def split: option.split)
qed

lemma run_Abort: "\<exists>m. run_state (AbortManagedStoragePost batch) w = ((), w\<lparr>storagePosting := m\<rparr>)"
proof (induction batch arbitrary: w)
  case Nil
  then show ?case by (auto intro: exI [of _ "storagePosting w"])
next
  case (Cons e batch)
  have "\<exists>m. run_state (AbortManagedStoragePost batch) (w\<lparr>storagePosting := m'\<rparr>) = ((), w\<lparr>storagePosting := m\<rparr>)" for m'
    using Cons [of "w\<lparr>storagePosting := m'\<rparr>"] by simp
  with Cons [of w] show ?case by (cases w) (auto simp: go_run clearStoragePosting_def split: option.split)
qed

lemma ackEvent_batcher: "wp (ackEvent E e) (\<lambda>_ w'. batcher w' = batcher w) w"
proof (cases "ManagedStorageReportKeyFromEventKey (EventKey e) = None \<or> ev_Kind e = ''ManagedStorageFailed''")
  case True
  show ?thesis by (rule wp_mono [OF ackEvent_other [OF True]]) auto
next
  case False
  then obtain k where "ManagedStorageReportKeyFromEventKey (EventKey e) = Some k" "ev_Kind e \<noteq> ''ManagedStorageFailed''" by auto
  show ?thesis by (rule wp_mono [OF ackEvent_delivery [OF \<open>_ = Some k\<close> \<open>ev_Kind e \<noteq> _\<close>]]) (auto simp: acks_def)
qed

lemma Ack_batcher: "wp (AckManagedStorageDelivered E batch) (\<lambda>_ w'. batcher w' = batcher w) w"
proof (induction batch arbitrary: w)
  case (Cons e batch)
  show ?case unfolding AckManagedStorageDelivered.simps
    by (rule wp_step [OF ackEvent_batcher]) (rule wp_mono [OF Cons], simp)
qed (simp add: wp_rules)

interpretation storage: batch_hooks E "storage_hooks E" for E
proof unfold_locales
  fix batch w
  show "batcher (snd (run_state (run_hook (OnBeforePostEvents (storage_hooks E)) batch) w)) = batcher w"
    using run_Prepare [of batch w] by (auto simp: run_hook_def storage_hooks_def)
  show "hist (snd (run_state (run_hook (OnBeforePostEvents (storage_hooks E)) batch) w)) = hist w"
    using run_Prepare [of batch w] by (auto simp: run_hook_def storage_hooks_def)
  show "batcher (snd (run_state (run_hook (OnEventsPostFailed (storage_hooks E)) batch) w)) = batcher w"
    using run_Abort [of batch w] by (auto simp: run_hook_def storage_hooks_def)
  show "batcher (snd (run_state (run_hook (OnEventsDelivered (storage_hooks E)) batch) w)) = batcher w"
    using Ack_batcher [of E batch w] by (simp add: run_hook_def storage_hooks_def wp_def split: prod.splits)
qed

text \<open>Reconciling an instance whose delivery is settled leaves the buffer alone.\<close>

lemma report_settled:
  assumes "Get (app_conditions app) ConditionReady = Some ready"
    and "annotation app reportedManagedStorageAccessKeyAnnotation = managedStorageReportKey ms
      \<or> storageAckPending w (storageDeliveryKey (Namespace (app_meta app)) (Name (app_meta app))) = Some (managedStorageReportKey ms)"
  shows "batcher (snd (run_state (reportManagedStorage E app ms) w)) = batcher w"
proof -
  let ?k = "managedStorageReportKey ms"
  let ?ready = "ready\<lparr>LastTransitionTime := clock E (hist w), c_Reason := ''ManagedStorageReady'',
                c_Message := ''Inline S3 credentials available for control-plane registry sync''\<rparr>"
  obtain e h app' where clear: "run_state (clearManagedStorageClaim E app) w = ((e, app'), w\<lparr>hist := h\<rparr>)"
    and app': "app' = app \<or> app' = set_annotation managedStorageClaimAnnotation None app"
    using clear_claim_run by blast
  have send: "batcher (snd (run_state (send_storage E a ms ?ready ?k) (w\<lparr>hist := h'\<rparr>))) = batcher w"
    if "storageAckPending w (storageDeliveryKey (Namespace (app_meta app)) (Name (app_meta app))) = Some ?k"
      and "a = app \<or> a = set_annotation managedStorageClaimAnnotation None app" for a h'
  proof -
    have a: "Namespace (app_meta a) = Namespace (app_meta app)" "Name (app_meta a) = Name (app_meta app)"
      using that(2) by auto
    obtain r w1 where ack: "run_state (patchManagedStorageAck E (Namespace (app_meta app)) (Name (app_meta app)) ?k) (w\<lparr>hist := h'\<rparr>) = (r, w1)"
      by (cases "run_state (patchManagedStorageAck E (Namespace (app_meta app)) (Name (app_meta app)) ?k) (w\<lparr>hist := h'\<rparr>)")
    then have "batcher w1 = batcher w"
      using ack_attempts_batcher [of E "Namespace (app_meta app)" "Name (app_meta app)" ?k "[0, 1, 2]" None "w\<lparr>hist := h'\<rparr>"]
      by (simp only: patchManagedStorageAck_def [symmetric] snd_conv) simp
    with that(1) ack show ?thesis
      by (simp add: send_storage_def resume_ack_def storage_defs go_run Let_def a)
  qed
  show ?thesis
    using assms clear app' send [of app' h] send [of app "hist w"]
    by (auto simp: reportManagedStorage_def storage_defs go_run Let_def)
qed

text \<open>How a flush with a client ends: the batch is back in the buffer, or its events have been acknowledged.\<close>

lemma flush_outcome:
  assumes "batcher w = Some b" and "events b \<noteq> []" and "batcher_client E w \<noteq> None"
    and "run_state (EventBatcher_Flush E (storage_hooks E)) w = ((), w')" and "Flush_extract b = (batch, b')"
  obtains (failed) h m where "w' = w\<lparr>hist := h, storagePosting := m, batcher := Some (requeue batch b')\<rparr>"
  | (accepted) cs m v where "run_state (AckManagedStorageDelivered E batch)
        (w\<lparr>batcher := Some b', storagePosting := m, hist := cs @ hist w\<rparr>) = ((), v)"
      and "w' = v\<lparr>batcher := map_option Flush_finish (batcher v)\<rparr>"
proof -
  let ?w1 = "w\<lparr>batcher := Some b'\<rparr>"
  obtain c where c: "batcher_client E w = Some (http_client E c)" using assms(3) batcher_client_http by blast
  then have client: "batcher_client E ?w1 = Some (http_client E c)" by (simp add: batcher_client_def)
  obtain m where prepare: "run_state (PrepareManagedStoragePost batch) ?w1 = ((), ?w1\<lparr>storagePosting := m\<rparr>)"
    using run_Prepare by blast
  obtain r cs where post: "run_state (PostEvents (http_client E c) batch) (?w1\<lparr>storagePosting := m\<rparr>) =
      (r, ?w1\<lparr>storagePosting := m, hist := cs @ hist w\<rparr>)"
    using run_PostEvents [of E c batch "?w1\<lparr>storagePosting := m\<rparr>"] by auto
  let ?w2 = "?w1\<lparr>storagePosting := m, hist := cs @ hist w\<rparr>"
  obtain m' where abort: "run_state (AbortManagedStoragePost batch) ?w2 = ((), ?w2\<lparr>storagePosting := m'\<rparr>)"
    using run_Abort by blast
  obtain v where ack: "run_state (AckManagedStorageDelivered E batch) ?w2 = ((), v)"
    by (cases "run_state (AckManagedStorageDelivered E batch) ?w2") auto
  have run: "run_state (post_batch (storage_hooks E) (http_client E c) batch) ?w1 = ((), w')"
    using assms(1,2,4,5) client by (simp add: EventBatcher_Flush_def go_run)
  show ?thesis
  proof (cases r)
    case None
    with run prepare post ack have "w' = v\<lparr>batcher := map_option Flush_finish (batcher v)\<rparr>"
      by (simp add: post_batch_def run_hook_def storage_hooks_def go_run)
    with ack show ?thesis by (intro accepted [where cs = cs and m = m and v = v]) simp_all
  next
    case (Some err)
    with run prepare post abort have "w' = w\<lparr>hist := cs @ hist w, storagePosting := m', batcher := Some (requeue batch b')\<rparr>"
      by (simp add: post_batch_def run_hook_def storage_hooks_def go_run)
    then show ?thesis by (rule failed)
  qed
qed

lemma credential_event_carries:
  assumes "credential_event app ready k e" and "c_Type ready = ConditionReady" and "no_slash (c_Status ready)"
    and "no_slash (Namespace (app_meta app))" and "no_slash (Name (app_meta app))" and "no_slash k"
  shows "carries (Namespace (app_meta app)) (Name (app_meta app)) k e"
proof -
  have "ManagedStorageReportKeyFromEventKey (EventKey e) = Some k"
    using assms managed_storage_key_roundtrip [of "app_ref app" ready k]
    by (simp add: credential_event_def no_slash_def app_ref_def ResourceRefFromMeta_def)
  with assms(1) show ?thesis
    by (simp add: carries_def storage_delivery_def credential_event_def app_ref_def ResourceRefFromMeta_def)
qed

lemma no_slash_report_key: "no_slash (managedStorageReportKey ms)"
proof -
  have "CHR ''/'' \<notin> set hex_chars" by code_simp
  then show ?thesis unfolding managedStorageReportKey_def no_slash_def using hex_digest_chars by blast
qed

lemma credential_stamp: "credential_event app ready k (stamp now e) = credential_event app ready k e"
  by (simp add: credential_event_def stamp_def)

lemma pending_iff: "HasPendingEvent (Some b) key \<longleftrightarrow> key \<noteq> '''' \<and> (\<exists>e \<in> set (events b). EventKey e = key)"
  by (auto simp: HasPendingEvent_def HasEventKey_def list_ex_iff)

text \<open>The buffer after the credentials were put into it: they are in it, and nothing else of the instance is.\<close>

lemma enqueued_buffer:
  assumes "enqueued app ready k (Some b) b1" and "int (Len b) \<le> bufferCap b"
    and "\<And>e k'. e \<in> set (events b) \<Longrightarrow> storage_delivery e \<noteq> Some (storageDeliveryKey ns name, k')"
  obtains b' e where "b1 = Some b'" and "e \<in> set (events b')" and "credential_event app ready k e" and "int (Len b') \<le> bufferCap b'"
    and "\<And>e'. e' \<in> set (events b') \<Longrightarrow> e' = e \<or> (\<forall>k'. storage_delivery e' \<noteq> Some (storageDeliveryKey ns name, k'))"
proof -
  obtain now e where e: "b1 = Some (Enqueue now e b)" "credential_event app ready k e" using assms(1) by (auto simp: enqueued_def)
  let ?b = "Enqueue now e b"
  have evs: "events ?b = keep_last (nat (bufferCap b)) (events b @ [stamp now e])" by (rule events_Enqueue)
  have "stamp now e \<in> set (events ?b)"
    unfolding evs by (cases "nat (bufferCap b)") (use bufferCap_pos [of b] in \<open>auto simp: keep_last_def\<close>)
  moreover have "length (events ?b) \<le> nat (bufferCap b)" unfolding evs by simp
  then have "int (Len ?b) \<le> bufferCap ?b" unfolding Len_def caps_kept using bufferCap_pos [of b] by linarith
  moreover have "set (events ?b) \<subseteq> set (events b @ [stamp now e])"
    unfolding evs keep_last_def by (rule set_drop_subset)
  ultimately show ?thesis
    by (intro that [OF e(1), of "stamp now e"]) (use e(2) assms(3) credential_stamp in auto)
qed

text \<open>A flush of a buffer that holds the credentials, and nothing else of the instance.\<close>

lemma flush_keeps_credentials:
  assumes "no_slash ns" and "no_slash name" and "storageInFlight w (storageDeliveryKey ns name) = Some k"
    and "batcher w = Some b" and "e \<in> set (events b)" and "int (Len b) \<le> bufferCap b" and "carries ns name k e" and "EventKey e \<noteq> []"
    and only: "\<And>e'. e' \<in> set (events b) \<Longrightarrow> e' = e \<or> (\<forall>k'. storage_delivery e' \<noteq> Some (storageDeliveryKey ns name, k'))"
    and "batcher_client E w \<noteq> None" and "run_state (EventBatcher_Flush E (storage_hooks E)) w = ((), w')"
  shows "HasPendingEvent (batcher w') (EventKey e) \<and> storageInFlight w' (storageDeliveryKey ns name) = Some k
    \<or> settled E ns name k (hist w) w'"
proof -
  let ?K = "storageDeliveryKey ns name"
  obtain batch b' where ext: "Flush_extract b = (batch, b')" by (cases "Flush_extract b")
  have parts: "events b = batch @ events b'" by (rule evq.content_extract [OF ext])
  have "events b \<noteq> []" using assms(5) by auto
  from assms(4) this assms(10,11) ext show ?thesis
  proof (cases rule: flush_outcome)
    case (failed h m)
    have "events (requeue batch b') = events b"
      using assms(6) caps_kept(3) [of b] ext parts by (simp add: events_requeue keep_last_def Len_def)
    with failed assms(3,5,8) show ?thesis by (auto simp: pending_iff)
  next
    case (accepted cs m v)
    let ?w = "w\<lparr>batcher := Some b', storagePosting := m, hist := cs @ hist w\<rparr>"
    have same: "k' = k" if "e' \<in> set batch" "storage_delivery e' = Some (?K, k')" for e' k'
      using only [of e'] that parts assms(7) by (auto simp: carries_def)
    have "delivered E ns name k (hist w) batch ?w v"
      by (rule wpD [OF AckManagedStorageDelivered_delivered [OF assms(1,2)] accepted(1)]) (erule (1) same, simp)
    then have v: "batcher v = Some b'" "e \<in> set batch \<Longrightarrow> settled E ns name k (hist w) v"
        "(\<forall>e \<in> set batch. \<forall>k'. storage_delivery e \<noteq> Some (?K, k')) \<Longrightarrow> storageInFlight v ?K = Some k"
      using assms(3,7) by (auto simp: delivered_def)
    show ?thesis
    proof (cases "e \<in> set batch")
      case True
      then show ?thesis using v(2) accepted(2) by (simp add: settled_def)
    next
      case False
      then have "HasPendingEvent (batcher w') (EventKey e)" using assms(5,8) parts v(1) accepted(2) by (auto simp: pending_iff)
      moreover have "storageInFlight w' ?K = Some k" using v(3) False only parts accepted(2) by auto
      ultimately show ?thesis by blast
    qed
  qed
qed


text \<open>C19: flushing the event buffer through the HTTP client and the hooks of the ApplicationInstance
  controller does to the buffer exactly what \<open>Flush\<close> does: a batch that the control plane has taken is
  gone, a batch whose post failed is back at the front, and without a client the batch is dropped.\<close>

theorem flush_refines_buffer:
  "batcher (snd (run_state (EventBatcher_Flush E (storage_hooks E)) w)) =
     map_option (Flush (map_option (\<lambda>_. posted E w) (batcher_client E w))) (batcher w)"
  by (rule storage.flush_refines)


section \<open>Witnesses\<close>

definition online_world :: world where
  "online_world = demo_world\<lparr>events_client := Some \<lparr>BaseURL = ''https://cp'', cr_ClusterID = ''c1'', Token = ''t''\<rparr>\<rparr>"


end
