(* ===== verification/Register_Cli.thy ===== *)
theory Register_Cli
  imports Cluster_Controller
begin

text \<open>
  Command lines: the parser of package \<^verbatim>\<open>flag\<close> as far as the operator uses it, and the \<^verbatim>\<open>register\<close> command
  of \<^verbatim>\<open>internal/cli/register.go\<close>, which applies a Cluster with a one-time token and waits until the
  operator has exchanged it.

  A flag set over a record of options is a list of flags, each with its name, whether it is boolean,
  and how it sets the record. The in-cluster and the kubeconfig configuration of client-go and the
  outcome of \<^verbatim>\<open>client.New\<close> are arguments of \<open>RunRegister\<close>; the server behind the client is \<open>env\<close>, which
  also holds the environment variables. The lines that the command prints are part of its result.
\<close>

section \<open>Flags\<close>

type_synonym 'o flag = "string \<times> bool \<times> (string \<Rightarrow> 'o \<Rightarrow> 'o result)"

datatype flag_arg =
    Positional
  | Terminator
  | BadSyntax
  | Flag string "string option"

definition flag_arg :: "string \<Rightarrow> flag_arg" where
  "flag_arg s =
     (if length s < 2 \<or> hd s \<noteq> CHR ''-'' then Positional
      else if s = ''--'' then Terminator
      else
        (let name = (if s ! 1 = CHR ''-'' then drop 2 s else drop 1 s);
             key = takeWhile (\<lambda>c. c \<noteq> CHR ''='') name in
         if name = [] \<or> hd name = CHR ''-'' \<or> hd name = CHR ''='' then BadSyntax
         else Flag key (if CHR ''='' \<in> set name then Some (drop (length key + 1) name) else None)))"

definition ErrHelp :: go_error where
  "ErrHelp = Sentinel ''flag: help requested''"

definition set_flag :: "string \<Rightarrow> string \<Rightarrow> (string \<Rightarrow> 'o \<Rightarrow> 'o result) \<Rightarrow> string \<Rightarrow> 'o \<Rightarrow> 'o result" where
  "set_flag what name setter v opts =
     (case setter v opts of
        Inl err \<Rightarrow> Inl (Errorf (''invalid '' @ what @ '' '' @ Quote v @ '' for '' @
          (if what = ''value'' then ''flag -'' else ''-'') @ name @ '': '' @ Error err))
      | Inr opts \<Rightarrow> Inr opts)"

fun Parse :: "'o flag list \<Rightarrow> string list \<Rightarrow> 'o \<Rightarrow> 'o result" where
  "Parse fs [] opts = Inr opts"
| "Parse fs (s # args) opts =
     (case flag_arg s of
        Positional \<Rightarrow> Inr opts
      | Terminator \<Rightarrow> Inr opts
      | BadSyntax \<Rightarrow> Inl (Errorf (''bad flag syntax: '' @ s))
      | Flag name val \<Rightarrow>
          (case map_of fs name of
             None \<Rightarrow>
               Inl (if name = ''help'' \<or> name = ''h'' then ErrHelp
                    else Errorf (''flag provided but not defined: -'' @ name))
           | Some (True, setter) \<Rightarrow>
               (case set_flag ''boolean value'' name setter (case val of None \<Rightarrow> ''true'' | Some v \<Rightarrow> v) opts of
                  Inl err \<Rightarrow> Inl err
                | Inr opts \<Rightarrow> Parse fs args opts)
           | Some (False, setter) \<Rightarrow>
               (case val of
                  Some v \<Rightarrow>
                    (case set_flag ''value'' name setter v opts of Inl err \<Rightarrow> Inl err | Inr opts \<Rightarrow> Parse fs args opts)
                | None \<Rightarrow>
                    (case args of
                       [] \<Rightarrow> Inl (Errorf (''flag needs an argument: -'' @ name))
                     | v # rest \<Rightarrow>
                         (case set_flag ''value'' name setter v opts of Inl err \<Rightarrow> Inl err | Inr opts \<Rightarrow> Parse fs rest opts)))))"

definition string_flag :: "string \<Rightarrow> ((string \<Rightarrow> string) \<Rightarrow> 'o \<Rightarrow> 'o) \<Rightarrow> 'o flag" where
  "string_flag name update = (name, False, \<lambda>v opts. Inr (update (\<lambda>_. v) opts))"

section \<open>The register command\<close>

record RegisterFlags =
  rf_token :: string
  rf_controlPlaneURL :: string
  rf_clusterName :: string
  rf_clusterID :: string

definition register_flags :: "RegisterFlags flag list" where
  "register_flags =
     [string_flag ''token'' rf_token_update, string_flag ''control-plane-endpoint'' rf_controlPlaneURL_update,
      string_flag ''cluster-name'' rf_clusterName_update, string_flag ''cluster-id'' rf_clusterID_update]"

text \<open>The flags with their defaults filled in.\<close>

definition registerOptions :: "env \<Rightarrow> string list \<Rightarrow> RegisterFlags result" where
  "registerOptions E args =
     (case Parse register_flags args \<lparr>rf_token = '''', rf_controlPlaneURL = '''', rf_clusterName = '''', rf_clusterID = ''''\<rparr> of
        Inl err \<Rightarrow> Inl err
      | Inr f \<Rightarrow>
          if TrimSpace (rf_token f) = '''' then Inl (Errorf ''--token is required'')
          else
            (let f = (if TrimSpace (rf_controlPlaneURL f) = '''' then f\<lparr>rf_controlPlaneURL := Getenv E ''CONTROL_PLANE_BASE_URL''\<rparr> else f) in
             if TrimSpace (rf_controlPlaneURL f) = ''''
             then Inl (Errorf ''--control-plane-endpoint or CONTROL_PLANE_BASE_URL is required'')
             else
               (let f = (if TrimSpace (rf_clusterName f) = '''' then f\<lparr>rf_clusterName := ''cluster-local''\<rparr> else f) in
                Inr (if TrimSpace (rf_clusterID f) = '''' then f\<lparr>rf_clusterID := Getenv E ''VWORKSPACE_CLUSTER_ID''\<rparr> else f))))"

definition restConfig :: "'cfg result \<Rightarrow> 'cfg result \<Rightarrow> 'cfg result" where
  "restConfig inCluster kubeConfig = (case inCluster of Inr cfg \<Rightarrow> Inr cfg | Inl _ \<Rightarrow> kubeConfig)"

definition registrationCluster :: "RegisterFlags \<Rightarrow> Cluster" where
  "registrationCluster f =
     \<lparr>cl_meta = meta0\<lparr>Name := rf_clusterName f\<rparr>,
      cl_Spec = \<lparr>cs_ClusterID = TrimSpace (rf_clusterID f), ControlPlaneEndpoint = '''',
        ControlPlaneBaseURL = TrimSpace (rf_controlPlaneURL f), RegistrationTokenSecretRef = None,
        RegistrationToken = TrimSpace (rf_token f), Capabilities = None, RotateCredentials = False\<rparr>,
      cl_Status = \<lparr>cst_Phase = '''', cst_Conditions = [], LastHeartbeat = None, CredentialStatus = None,
        CredentialsSecretRef = None, ObservedToken = ''''\<rparr>\<rparr>"

fun findCondition :: "Condition list \<Rightarrow> string \<Rightarrow> Condition option" where
  "findCondition [] t = None"
| "findCondition (c # conditions) t = (if c_Type c = t then Some c else findCondition conditions t)"

definition tokenConsumed :: "Cluster \<Rightarrow> bool" where
  "tokenConsumed cluster =
     (case CredentialStatus (cl_Status cluster) of None \<Rightarrow> False | Some st \<Rightarrow> RegistrationTokenConsumed st)"

text \<open>What is printed when the token has been exchanged.\<close>

definition registered_lines :: "Cluster \<Rightarrow> string list" where
  "registered_lines latest =
     [''exchanged registration token for bootstrap credential''] @
     (case CredentialStatus (cl_Status latest) of
        None \<Rightarrow> []
      | Some st \<Rightarrow> [''credential persisted to Secret '' @ SecretNamespace st @ ''/'' @ SecretName st]) @
     (case findCondition (cst_Conditions (cl_Status latest)) ConditionConnected of
        None \<Rightarrow> []
      | Some cond \<Rightarrow>
          if c_Status cond = ConditionTrue
          then [''Cluster '' @ Name (cl_meta latest) @ '' condition Connected=True ('' @ c_Reason cond @ '')''] else [])"

text \<open>The wait for the exchange, for at most \<open>n\<close> rounds.\<close>

fun register_loop :: "env \<Rightarrow> nat \<Rightarrow> string \<Rightarrow> time \<Rightarrow> (string list \<times> go_error option) option prog" where
  "register_loop E 0 name deadline = State_Monad.return None"
| "register_loop E (Suc n) name deadline = do {
     now \<leftarrow> Now E;
     if \<not> now < deadline
     then State_Monad.return (Some ([], Some (Errorf ''timed out waiting for registration to complete'')))
     else do {
       latest \<leftarrow> ask (get_cluster E) (GetCluster '''' name);
       case latest of
         Inl err \<Rightarrow> State_Monad.return (Some ([], Some (Wrapf ''get Cluster CR: '' err [])))
       | Inr latest \<Rightarrow>
           if tokenConsumed latest then State_Monad.return (Some (registered_lines latest, None))
           else do {
             _ \<leftarrow> ask (\<lambda>_. ()) (Sleep (seconds 2));
             register_loop E n name deadline
           }
     }
   }"

definition register_line :: "Cluster \<Rightarrow> string" where
  "register_line cluster =
     ''registering cluster '' @ Name (cl_meta cluster) @ '' with '' @ ControlPlaneBaseURL (cl_Spec cluster) @ '' ...''"

definition RunRegister ::
  "env \<Rightarrow> 'cfg result \<Rightarrow> 'cfg result \<Rightarrow> ('cfg \<Rightarrow> go_error option) \<Rightarrow> nat \<Rightarrow> string list \<Rightarrow>
   (string list \<times> go_error option) option prog" where
  "RunRegister E inCluster kubeConfig client_New n args =
     (case registerOptions E args of
        Inl err \<Rightarrow> State_Monad.return (Some ([], Some err))
      | Inr f \<Rightarrow>
          (case restConfig inCluster kubeConfig of
             Inl err \<Rightarrow> State_Monad.return (Some ([], Some err))
           | Inr cfg \<Rightarrow>
               (case client_New cfg of
                  Some err \<Rightarrow> State_Monad.return (Some ([], Some (Wrapf ''create kubernetes client: '' err [])))
                | None \<Rightarrow>
                    (let cluster = registrationCluster f; line = register_line cluster in do {
                     err \<leftarrow> ask (write_result E) (ApplyCluster cluster);
                     case err of
                       Some err \<Rightarrow> State_Monad.return (Some ([line], Some (Wrapf ''apply Cluster CR: '' err [])))
                     | None \<Rightarrow> do {
                         now \<leftarrow> Now E;
                         waited \<leftarrow> register_loop E n (Name (cl_meta cluster)) (now + seconds 120);
                         State_Monad.return (map_option (\<lambda>(out, err). (line # out, err)) waited)
                       }
                   }))))"

section \<open>The wait ends\<close>

text \<open>The clock does not run backwards and a sleep lets at least its duration pass.\<close>

definition sleep_laws :: "env \<Rightarrow> bool" where
  "sleep_laws E \<longleftrightarrow>
     (\<forall>c h. clock E h \<le> clock E (c # h)) \<and> (\<forall>d h. clock E h + d \<le> clock E (Sleep d # h))"

declare register_loop.simps [simp del]

lemma register_loop_returns:
  assumes "sleep_laws E" and "deadline \<le> clock E (hist w) + seconds 2 * int n"
  shows "\<exists>r w'. run_state (register_loop E (Suc n) name deadline) w = (Some r, w')
           \<and> length (hist w') \<le> length (hist w) + 2 * n"
  using assms(2)
proof (induction n arbitrary: w)
  case 0
  then show ?case by (simp add: register_loop.simps go_run)
next
  case (Suc n)
  let ?h = "GetCluster '''' name # hist w"
  let ?w = "w\<lparr>hist := Sleep (seconds 2) # ?h\<rparr>"
  have "clock E (hist w) \<le> clock E ?h" "clock E ?h + seconds 2 \<le> clock E (hist ?w)"
    using assms(1) by (simp_all add: sleep_laws_def)
  with Suc.prems have "deadline \<le> clock E (hist ?w) + seconds 2 * int n" by (simp add: distrib_left)
  from Suc.IH [OF this] obtain r w' where "run_state (register_loop E (Suc n) name deadline) ?w = (Some r, w')"
    "length (hist w') \<le> length (hist ?w) + 2 * n" by blast
  then show ?case by (subst register_loop.simps) (simp add: go_run split: sum.split)
qed

lemma run_RunRegister:
  assumes "registerOptions E args = Inr f" and "restConfig inCluster kubeConfig = Inr cfg" and "client_New cfg = None"
  shows "run_state (RunRegister E inCluster kubeConfig client_New n args) w =
    (let w1 = w\<lparr>hist := ApplyCluster (registrationCluster f) # hist w\<rparr>; line = register_line (registrationCluster f) in
     case write_result E (hist w1) of
       Some err \<Rightarrow> (Some ([line], Some (Wrapf ''apply Cluster CR: '' err [])), w1)
     | None \<Rightarrow>
         (case run_state (register_loop E n (rf_clusterName f) (clock E (hist w1) + seconds 120)) w1 of (waited, w') \<Rightarrow>
            (map_option (\<lambda>(out, err). (line # out, err)) waited, w')))"
proof -
  have "Name (cl_meta (registrationCluster f)) = rf_clusterName f" by (simp add: registrationCluster_def)
  with assms show ?thesis by (simp add: RunRegister_def go_run split: option.split prod.split)
qed

text \<open>C21: the register command comes back after at most 61 rounds of its wait, and 121 requests in all,
  whatever the server answers, provided that sleeping lets time pass.\<close>

theorem RunRegister_returns:
  assumes "sleep_laws E"
  shows "\<exists>out err w'. run_state (RunRegister E inCluster kubeConfig client_New 61 args) w = (Some (out, err), w')
           \<and> length (hist w') \<le> length (hist w) + 121"
proof -
  have wait: "\<exists>out err w'. run_state (register_loop E 61 name (clock E (hist v) + seconds 120)) v = (Some (out, err), w')
      \<and> length (hist w') \<le> length (hist v) + 120" for name v
    using register_loop_returns [OF assms, of "clock E (hist v) + seconds 120" v 60 name] by (simp add: seconds_def)
  have "\<exists>out err w'. run_state (RunRegister E inCluster kubeConfig client_New 61 args) w = (Some (out, err), w')
      \<and> length (hist w') \<le> length (hist w) + 121"
    if "registerOptions E args = Inr f" "restConfig inCluster kubeConfig = Inr cfg" "client_New cfg = None" for f cfg
    unfolding run_RunRegister [where client_New = client_New, OF that] Let_def
    using wait [of "rf_clusterName f" "w\<lparr>hist := ApplyCluster (registrationCluster f) # hist w\<rparr>"]
    by (auto split: option.split)
  then show ?thesis
    by (cases "registerOptions E args"; cases "restConfig inCluster kubeConfig"; cases "client_New (projr (restConfig inCluster kubeConfig))")
      (auto simp: RunRegister_def go_run)
qed

section \<open>What the command does\<close>

definition waits :: "string \<Rightarrow> call \<Rightarrow> bool" where
  "waits name c \<longleftrightarrow> c = GetCluster '''' name \<or> c = Sleep (seconds 2)"

text \<open>The last request has shown the Cluster with its token exchanged.\<close>

fun exchange_seen :: "env \<Rightarrow> history \<Rightarrow> bool" where
  "exchange_seen E (GetCluster ns name # h) =
     (case get_cluster E (GetCluster ns name # h) of Inl _ \<Rightarrow> False | Inr latest \<Rightarrow> tokenConsumed latest)"
| "exchange_seen E _ = False"

lemma waits_simps [simp]: "waits name (GetCluster [] name)" "waits name (Sleep (seconds 2))"
  by (simp_all add: waits_def)

lemma register_loop_outcome:
  assumes "run_state (register_loop E n name deadline) w = (Some (out, err), w')" and "\<not> exchange_seen E (hist w)"
  shows "\<exists>cs. hist w' = cs @ hist w \<and> list_all (waits name) cs \<and> (err = None \<longleftrightarrow> exchange_seen E (hist w'))"
  using assms
proof (induction n arbitrary: w)
  case 0
  then show ?case by (simp add: register_loop.simps)
next
  case (Suc n)
  let ?h = "GetCluster '''' name # hist w"
  let ?w = "w\<lparr>hist := Sleep (seconds 2) # ?h\<rparr>"
  consider "\<not> clock E (hist w) < deadline" | "clock E (hist w) < deadline" "\<exists>err. get_cluster E ?h = Inl err"
    | latest where "clock E (hist w) < deadline" "get_cluster E ?h = Inr latest" "tokenConsumed latest"
    | latest where "clock E (hist w) < deadline" "get_cluster E ?h = Inr latest" "\<not> tokenConsumed latest"
    by (cases "get_cluster E ?h") auto
  then show ?case
  proof cases
    case 1
    with Suc.prems show ?thesis by (auto simp: register_loop.simps go_run)
  next
    case 2
    with Suc.prems show ?thesis by (auto simp: register_loop.simps go_run intro!: exI [of _ "[GetCluster '''' name]"])
  next
    case 3
    with Suc.prems show ?thesis by (auto simp: register_loop.simps go_run intro!: exI [of _ "[GetCluster '''' name]"])
  next
    case 4
    with Suc.prems have "run_state (register_loop E n name deadline) ?w = (Some (out, err), w')"
      by (simp add: register_loop.simps(2) go_run)
    from Suc.IH [OF this] obtain cs where "hist w' = cs @ Sleep (seconds 2) # ?h" "list_all (waits name) cs"
      "err = None \<longleftrightarrow> exchange_seen E (hist w')" by auto
    then show ?thesis by (intro exI [of _ "cs @ [Sleep (seconds 2), GetCluster '''' name]"]) simp
  qed
qed

text \<open>C20: with options that are not accepted the register command makes no request. Otherwise its first
  request, if it makes any, applies the Cluster with the trimmed token and endpoint, it then only reads that
  Cluster and sleeps, and it succeeds exactly when the last read showed the token as exchanged.\<close>

theorem RunRegister_outcome:
  assumes "run_state (RunRegister E inCluster kubeConfig client_New n args) w = (Some (out, err), w')"
  shows "case registerOptions E args of
      Inl e \<Rightarrow> err = Some e \<and> w' = w
    | Inr f \<Rightarrow> err \<noteq> None \<and> w' = w
        \<or> (\<exists>cs. hist w' = cs @ ApplyCluster (registrationCluster f) # hist w \<and> list_all (waits (rf_clusterName f)) cs
              \<and> (err = None \<longleftrightarrow> exchange_seen E (hist w')))"
proof (cases "registerOptions E args")
  case (Inl e)
  with assms show ?thesis by (simp add: RunRegister_def go_run)
next
  case (Inr f)
  let ?c = "registrationCluster f"
  let ?w = "w\<lparr>hist := ApplyCluster ?c # hist w\<rparr>"
  have name: "Name (cl_meta ?c) = rf_clusterName f" by (simp add: registrationCluster_def)
  show ?thesis
  proof (cases "restConfig inCluster kubeConfig")
    case (Inl e)
    with assms Inr show ?thesis by (auto simp: RunRegister_def go_run)
  next
    case cfg: (Inr cfg)
    show ?thesis
    proof (cases "client_New cfg")
      case (Some e)
      with assms Inr cfg show ?thesis by (auto simp: RunRegister_def go_run)
    next
      case None
      note run = assms [unfolded run_RunRegister [where client_New = client_New, OF Inr cfg None]]
      show ?thesis
      proof (cases "write_result E (hist ?w)")
        case (Some e)
        with run Inr show ?thesis by auto
      next
        case None
        with run obtain out' where "run_state (register_loop E n (rf_clusterName f) (clock E (hist ?w) + seconds 120)) ?w = (Some (out', err), w')"
          by (auto split: prod.splits)
        from register_loop_outcome [OF this] Inr show ?thesis by auto
      qed
    qed
  qed
qed

text \<open>The command does not look at which token was exchanged: when the Cluster was registered before, it
  reports success at once, with the new token still unused.\<close>

theorem register_accepts_old_exchange:
  assumes "registerOptions E args = Inr f" and "restConfig inCluster kubeConfig = Inr cfg" and "client_New cfg = None"
    and "h = ApplyCluster (registrationCluster f) # hist w" and "write_result E h = None"
    and "get_cluster E (GetCluster '''' (rf_clusterName f) # h) = Inr latest" and "tokenConsumed latest"
    and "ObservedToken (cl_Status latest) \<noteq> tokenFingerprint (TrimSpace (rf_token f))"
  shows "run_state (RunRegister E inCluster kubeConfig client_New (Suc n) args) w =
    (Some (register_line (registrationCluster f) # registered_lines latest, None),
     w\<lparr>hist := GetCluster '''' (rf_clusterName f) # h\<rparr>)"
  unfolding run_RunRegister [where client_New = client_New, OF assms(1-3)]
  using assms(4-7) by (simp add: register_loop.simps(2) go_run seconds_def)

section \<open>The options\<close>

definition render_flags :: "RegisterFlags \<Rightarrow> string list" where
  "render_flags f =
     [''--token='' @ rf_token f, ''--control-plane-endpoint='' @ rf_controlPlaneURL f, ''--cluster-name'', rf_clusterName f,
      ''-cluster-id='' @ rf_clusterID f]"

lemma flag_arg_value:
  "flag_arg (''--token='' @ v) = Flag ''token'' (Some v)"
  "flag_arg (''--control-plane-endpoint='' @ v) = Flag ''control-plane-endpoint'' (Some v)"
  "flag_arg ''--cluster-name'' = Flag ''cluster-name'' None"
  "flag_arg (''-cluster-id='' @ v) = Flag ''cluster-id'' (Some v)"
  by (simp_all add: flag_arg_def)

text \<open>Options written as flags are read back, and they give a Cluster from which the Cluster
  controller takes just that token, inline, and that endpoint.\<close>

theorem register_options_roundtrip:
  assumes "TrimSpace (rf_token f) \<noteq> ''''" and "TrimSpace (rf_controlPlaneURL f) \<noteq> ''''"
    and "TrimSpace (rf_clusterName f) \<noteq> ''''" and "TrimSpace (rf_clusterID f) \<noteq> ''''"
    and "cl_Spec cluster = cl_Spec (registrationCluster f)"
  shows "registerOptions E (render_flags f) = Inr f
    \<and> run_state (resolveRegistrationToken E cluster ns) w = (Inr (TrimSpace (rf_token f), tokenSourceInline), w)
    \<and> controlPlaneEndpoint cluster = TrimSpace (rf_controlPlaneURL f)"
proof -
  have "Parse register_flags (render_flags f) \<lparr>rf_token = '''', rf_controlPlaneURL = '''', rf_clusterName = '''', rf_clusterID = ''''\<rparr> = Inr f"
    by (cases f) (simp add: render_flags_def register_flags_def string_flag_def set_flag_def flag_arg_value del: append.simps)
  with assms have "registerOptions E (render_flags f) = Inr f" by (simp add: registerOptions_def)
  with assms show ?thesis
    by (simp add: resolveRegistrationToken_def controlPlaneEndpoint_def registrationCluster_def Let_def)
qed

section \<open>Witnesses\<close>

lemma slept_sleep_laws: "sleep_laws (demo_env\<lparr>clock := slept\<rparr>)"
proof -
  have "slept h \<le> slept (c # h)" for c h by (cases c) auto
  then show ?thesis by (simp add: sleep_laws_def)
qed

abbreviation demo_args :: "string list" where
  "demo_args \<equiv> [''--token'', ''tok'', ''--control-plane-endpoint=https://cp'', ''--cluster-id=c1'']"

lemma demo_options:
  "registerOptions demo_env demo_args = Inr \<lparr>rf_token = ''tok'', rf_controlPlaneURL = ''https://cp'',
     rf_clusterName = ''cluster-local'', rf_clusterID = ''c1''\<rparr>"
  by code_simp

theorem RunRegister_returns_witness:
  "\<exists>out err w'. run_state (RunRegister (demo_env\<lparr>clock := slept, get_cluster := (\<lambda>_. Inr registered_cluster)\<rparr>)
       (Inr ()) (Inr ()) (\<lambda>_. None) 61 demo_args) demo_world = (Some (out, err), w') \<and> length (hist w') \<le> 121"
proof -
  let ?E = "demo_env\<lparr>clock := slept, get_cluster := (\<lambda>_. Inr registered_cluster)\<rparr>"
  have "sleep_laws ?E" using slept_sleep_laws by (simp add: sleep_laws_def)
  from RunRegister_returns [OF this, of "Inr ()" "Inr ()" "\<lambda>_. None" demo_args demo_world] show ?thesis
    by (simp add: demo_world_def)
qed

text \<open>A server on which the operator has exchanged the token at once.\<close>

definition exchanged_cluster :: Cluster where
  "exchanged_cluster = registered_cluster\<lparr>cl_Status := (cl_Status registered_cluster)\<lparr>CredentialStatus :=
     Some \<lparr>SecretName = DefaultCredentialsSecret, SecretNamespace = ''vworkspace-system'', RegisteredAt = None,
       RegistrationTokenConsumed = True\<rparr>\<rparr>\<rparr>"

theorem RunRegister_outcome_witness:
  "let E = demo_env\<lparr>get_cluster := (\<lambda>_. Inr exchanged_cluster)\<rparr>;
       w' = snd (run_state (RunRegister E (Inr ()) (Inr ()) (\<lambda>_. None) 1 demo_args) demo_world) in
   exchange_seen E (hist w') \<and> length (hist w') = 2"
proof -
  let ?E = "demo_env\<lparr>get_cluster := (\<lambda>_. Inr exchanged_cluster)\<rparr>"
  let ?f = "\<lparr>rf_token = ''tok'', rf_controlPlaneURL = ''https://cp'', rf_clusterName = ''cluster-local'', rf_clusterID = ''c1''\<rparr>"
  let ?w' = "demo_world\<lparr>hist := [GetCluster [] ''cluster-local'', ApplyCluster (registrationCluster ?f)]\<rparr>"
  have "Getenv ?E = Getenv demo_env" by simp
  then have f: "registerOptions ?E demo_args = Inr ?f" using demo_options by (simp only: registerOptions_def)
  have used: "tokenConsumed exchanged_cluster" by (simp add: tokenConsumed_def exchanged_cluster_def)
  have cfg: "restConfig (Inr ()) (Inr ()) = Inr ()" by (simp add: restConfig_def)
  have "write_result ?E h = None" for h by (simp add: demo_env_def)
  then have run: "\<exists>out. run_state (RunRegister ?E (Inr ()) (Inr ()) (\<lambda>_. None) 1 demo_args) demo_world = (Some (out, None), ?w')"
    unfolding run_RunRegister [where client_New = "\<lambda>_. None", OF f cfg refl]
    by (simp add: register_loop.simps go_run used demo_world_def demo_env_def seconds_def)
  then obtain out where run: "run_state (RunRegister ?E (Inr ()) (Inr ()) (\<lambda>_. None) 1 demo_args) demo_world = (Some (out, None), ?w')"
    by blast
  have "exchange_seen ?E (hist ?w')" using RunRegister_outcome [OF run, unfolded f] by auto
  then show ?thesis unfolding Let_def run snd_conv by simp
qed

theorem register_options_roundtrip_witness:
  "let f = \<lparr>rf_token = ''tok '', rf_controlPlaneURL = ''https://cp'', rf_clusterName = ''c'', rf_clusterID = ''c1''\<rparr> in
   registerOptions demo_env (render_flags f) = Inr f \<and> controlPlaneEndpoint (registrationCluster f) = ''https://cp''
   \<and> run_state (resolveRegistrationToken demo_env (registrationCluster f) ''ns'') demo_world = (Inr (''tok'', tokenSourceInline), demo_world)"
proof -
  let ?f = "\<lparr>rf_token = ''tok '', rf_controlPlaneURL = ''https://cp'', rf_clusterName = ''c'', rf_clusterID = ''c1''\<rparr>"
  have trim: "TrimSpace ''tok '' = ''tok''" "TrimSpace ''https://cp'' = ''https://cp''" "TrimSpace ''c'' = ''c''" "TrimSpace ''c1'' = ''c1''"
    by code_simp+
  from register_options_roundtrip [of ?f "registrationCluster ?f" demo_env "''ns''" demo_world] show ?thesis
    by (simp add: trim Let_def)
qed


end
