(* ===== verification/Operator_Main.thy ===== *)
theory Operator_Main
  imports Event_Delivery Register_Cli Operation_Controller
begin

text \<open>
  The main program (\<^verbatim>\<open>cmd/main.go\<close>): the choice between the register command and the operator, the
  command line of the operator, and how its parts are put together. \<open>wire\<close> gives the reconcilers, the hooks of
  the event buffer and the configuration of the agent runtime as \<^verbatim>\<open>main\<close> builds them from the options.

  Third-party code enters as arguments: \<^verbatim>\<open>retry.RetryOnConflict\<close>, the REST mapper that knows which resources
  exist, the flags that zap and controller-runtime add to the command line, and the verdict of each step of
  the set-up, named by the message that \<^verbatim>\<open>main\<close> logs when it fails. \<^verbatim>\<open>time.ParseDuration\<close> is an argument, too,
  because it computes with floating-point numbers. Starting the manager ends the model: from then on the
  reconcilers, the runtime and the buffer run as the other theories describe them.
\<close>

section \<open>The command line\<close>

record Options =
  metricsAddr :: string
  probeAddr :: string
  enableLeaderElection :: bool
  secureMetrics :: bool
  webhookCertPath :: string
  webhookCertName :: string
  webhookCertKey :: string
  metricsCertPath :: string
  metricsCertName :: string
  metricsCertKey :: string
  enableHTTP2 :: bool
  agentPollInterval :: int
  agentCredentialsSecret :: string
  agentCredentialsNamespace :: string
  enableWebhooks :: bool
  enableSeaweedWatches :: bool
  approvalClaimSecret :: string
  veleroNS :: string

definition ParseBool :: "string \<Rightarrow> bool result" where
  "ParseBool s =
     (if s \<in> set [''1'', ''t'', ''T'', ''true'', ''TRUE'', ''True''] then Inr True
      else if s \<in> set [''0'', ''f'', ''F'', ''false'', ''FALSE'', ''False''] then Inr False
      else Inl (Errorf ''parse error''))"

definition parsed_flag :: "string \<Rightarrow> bool \<Rightarrow> (string \<Rightarrow> 'a result) \<Rightarrow> (('a \<Rightarrow> 'a) \<Rightarrow> 'o \<Rightarrow> 'o) \<Rightarrow> 'o flag" where
  "parsed_flag name is_bool parse update =
     (name, is_bool, \<lambda>v opts. case parse v of Inl err \<Rightarrow> Inl err | Inr x \<Rightarrow> Inr (update (\<lambda>_. x) opts))"

abbreviation bool_flag :: "string \<Rightarrow> ((bool \<Rightarrow> bool) \<Rightarrow> 'o \<Rightarrow> 'o) \<Rightarrow> 'o flag" where
  "bool_flag name update \<equiv> parsed_flag name True ParseBool update"

definition defaultOptions :: "env \<Rightarrow> Options" where
  "defaultOptions E =
     \<lparr>metricsAddr = ''0'', probeAddr = '':8081'', enableLeaderElection = False, secureMetrics = True,
      webhookCertPath = '''', webhookCertName = ''tls.crt'', webhookCertKey = ''tls.key'',
      metricsCertPath = '''', metricsCertName = ''tls.crt'', metricsCertKey = ''tls.key'', enableHTTP2 = False,
      agentPollInterval = seconds 30, agentCredentialsSecret = DefaultCredentialsSecret,
      agentCredentialsNamespace = Getenv E ''POD_NAMESPACE'', enableWebhooks = False, enableSeaweedWatches = False,
      approvalClaimSecret = Getenv E ''VWORKSPACE_APPROVAL_CLAIM_SECRET'',
      veleroNS = (let v = TrimSpace (Getenv E ''VELERO_NAMESPACE'') in if v \<noteq> '''' then v else DefaultVeleroNamespace)\<rparr>"

definition operator_flags :: "(string \<Rightarrow> int result) \<Rightarrow> Options flag list" where
  "operator_flags ParseDuration =
     [string_flag ''metrics-bind-address'' metricsAddr_update, string_flag ''health-probe-bind-address'' probeAddr_update,
      bool_flag ''leader-elect'' enableLeaderElection_update, bool_flag ''metrics-secure'' secureMetrics_update,
      string_flag ''webhook-cert-path'' webhookCertPath_update, string_flag ''webhook-cert-name'' webhookCertName_update,
      string_flag ''webhook-cert-key'' webhookCertKey_update, string_flag ''metrics-cert-path'' metricsCertPath_update,
      string_flag ''metrics-cert-name'' metricsCertName_update, string_flag ''metrics-cert-key'' metricsCertKey_update,
      bool_flag ''enable-http2'' enableHTTP2_update,
      parsed_flag ''agent-poll-interval'' False ParseDuration agentPollInterval_update,
      string_flag ''agent-credentials-secret'' agentCredentialsSecret_update,
      string_flag ''agent-credentials-namespace'' agentCredentialsNamespace_update,
      bool_flag ''webhooks-enabled'' enableWebhooks_update, bool_flag ''seaweed-watches-enabled'' enableSeaweedWatches_update,
      string_flag ''approval-claim-secret'' approvalClaimSecret_update, string_flag ''velero-namespace'' veleroNS_update]"

text \<open>A flag of another package leaves these options alone.\<close>

definition foreign_flags :: "(string \<times> bool \<times> (string \<Rightarrow> go_error option)) list \<Rightarrow> Options flag list" where
  "foreign_flags fs = map (\<lambda>(name, is_bool, check). (name, is_bool, \<lambda>v opts. case check v of Some err \<Rightarrow> Inl err | None \<Rightarrow> Inr opts)) fs"

definition operatorOptions ::
  "env \<Rightarrow> (string \<Rightarrow> int result) \<Rightarrow> (string \<times> bool \<times> (string \<Rightarrow> go_error option)) list \<Rightarrow> string list \<Rightarrow> Options result" where
  "operatorOptions E ParseDuration foreign args =
     Parse (operator_flags ParseDuration @ foreign_flags foreign) args (defaultOptions E)"

section \<open>The parts\<close>

record MetricsServerOptions =
  so_BindAddress :: string
  so_SecureServing :: bool
  so_Authenticated :: bool
  so_CertDir :: string
  so_CertName :: string
  so_KeyName :: string
  so_NextProtos :: "string list option"

text \<open>HTTP/2 is off unless it is asked for.\<close>

definition nextProtos :: "Options \<Rightarrow> string list option" where
  "nextProtos opts = (if enableHTTP2 opts then None else Some [''http/1.1''])"

definition metricsServerOptions :: "Options \<Rightarrow> MetricsServerOptions" where
  "metricsServerOptions opts =
     (let own = (length (metricsCertPath opts) > 0) in
      \<lparr>so_BindAddress = metricsAddr opts, so_SecureServing = secureMetrics opts, so_Authenticated = secureMetrics opts,
       so_CertDir = (if own then metricsCertPath opts else ''''), so_CertName = (if own then metricsCertName opts else ''''),
       so_KeyName = (if own then metricsCertKey opts else ''''), so_NextProtos = nextProtos opts\<rparr>)"

record WebhookServerOptions =
  ws_CertDir :: string
  ws_CertName :: string
  ws_KeyName :: string
  ws_NextProtos :: "string list option"

definition webhookServerOptions :: "Options \<Rightarrow> WebhookServerOptions" where
  "webhookServerOptions opts =
     \<lparr>ws_CertDir = webhookCertPath opts, ws_CertName = webhookCertName opts, ws_KeyName = webhookCertKey opts,
      ws_NextProtos = nextProtos opts\<rparr>"

record ManagerOptions =
  mgr_Metrics :: MetricsServerOptions
  mgr_WebhookServer :: WebhookServerOptions
  mgr_HealthProbeBindAddress :: string
  mgr_LeaderElection :: bool
  mgr_LeaderElectionID :: string

definition managerOptions :: "Options \<Rightarrow> ManagerOptions" where
  "managerOptions opts =
     \<lparr>mgr_Metrics = metricsServerOptions opts, mgr_WebhookServer = webhookServerOptions opts,
      mgr_HealthProbeBindAddress = probeAddr opts, mgr_LeaderElection = enableLeaderElection opts,
      mgr_LeaderElectionID = ''dad03b25.vworkspace.io''\<rparr>"

definition credNamespace :: "Options \<Rightarrow> string" where
  "credNamespace opts =
     (let ns = TrimSpace (agentCredentialsNamespace opts) in if ns = '''' then ''vworkspace-system'' else ns)"

record Operator =
  main_Manager :: ManagerOptions
  main_App :: ApplicationInstanceReconciler
  main_SeaweedWatches :: bool
  main_Hooks :: flush_hooks
  main_Operation :: OperationReconciler
  main_Cluster :: ClusterReconciler
  main_WebhookSecret :: "string option"
  main_Runtime :: RuntimeConfig

definition wire ::
  "env \<Rightarrow> (go_error option prog \<Rightarrow> go_error option prog) \<Rightarrow> (gvk \<Rightarrow> go_error option) option \<Rightarrow> Options \<Rightarrow> Operator" where
  "wire E retry mapper opts =
     \<lparr>main_Manager = managerOptions opts,
      main_App = \<lparr>air_Engine = Some (FluxEngine E), air_SeaweedEngine = Some (SeaweedEngine E)\<rparr>,
      main_SeaweedWatches = CRDsAvailable mapper,
      main_Hooks = storage_hooks E,
      main_Operation = \<lparr>or_Registry = Some (engineRegistry E (veleroNS opts)),
        ApprovalClaimSecret = TrimSpace (approvalClaimSecret opts)\<rparr>,
      main_Cluster = \<lparr>rec_AgentClient = None, RegistrationClient = None, CredentialsSecret = agentCredentialsSecret opts,
        OperatorNamespace = credNamespace opts, Recorder = True, RetryOnConflict = retry\<rparr>,
      main_WebhookSecret = (if enableWebhooks opts then Some (TrimSpace (approvalClaimSecret opts)) else None),
      main_Runtime = \<lparr>rc_SecretNamespace = credNamespace opts, rc_SecretName = agentCredentialsSecret opts,
        PollInterval = agentPollInterval opts,
        rc_Idempotency = Some \<lparr>is_Namespace = credNamespace opts, is_Name = DefaultIdempotencyConfigMap\<rparr>,
        rc_EventBatcher = True\<rparr>\<rparr>"

section \<open>The program\<close>

text \<open>The fallible steps of the set-up, in their order.\<close>

definition setup_steps :: "Options \<Rightarrow> string list" where
  "setup_steps opts =
     [''unable to start manager'', ''unable to create controller ApplicationInstance'',
      ''unable to create controller Operation'', ''unable to create controller Cluster''] @
     (if enableWebhooks opts
      then [''unable to create operation webhook'', ''unable to register operation webhook'',
            ''unable to create applicationinstance webhook'', ''unable to register applicationinstance webhook''] else []) @
     [''unable to set up health check'', ''unable to set up ready check'']"

datatype main_end = Exited int | Started Operator

definition main ::
  "env \<Rightarrow> (go_error option prog \<Rightarrow> go_error option prog) \<Rightarrow> (gvk \<Rightarrow> go_error option) option \<Rightarrow> (string \<Rightarrow> int result) \<Rightarrow>
   (string \<times> bool \<times> (string \<Rightarrow> go_error option)) list \<Rightarrow> (string \<Rightarrow> go_error option) \<Rightarrow>
   'cfg result \<Rightarrow> 'cfg result \<Rightarrow> ('cfg \<Rightarrow> go_error option) \<Rightarrow> nat \<Rightarrow> string list \<Rightarrow> main_end option prog" where
  "main E retry mapper ParseDuration foreign step inCluster kubeConfig client_New n args =
     (if args \<noteq> [] \<and> hd args = ''register'' then do {
        registered \<leftarrow> RunRegister E inCluster kubeConfig client_New n (tl args);
        State_Monad.return (map_option (\<lambda>(_, err). Exited (if err = None then 0 else 1)) registered)
      }
      else State_Monad.return (Some
        (case operatorOptions E ParseDuration foreign args of
           Inl err \<Rightarrow> Exited (if err = ErrHelp then 0 else 2)
         | Inr opts \<Rightarrow>
             if list_ex (\<lambda>what. step what \<noteq> None) (setup_steps opts) then Exited 1
             else Started (wire E retry mapper opts))))"

section \<open>The parts agree\<close>

text \<open>No flag is defined twice, which package \<^verbatim>\<open>flag\<close> answers with a panic.\<close>

lemma operator_flags_distinct: "distinct (map fst (operator_flags ParseDuration))"
  by (simp add: operator_flags_def string_flag_def parsed_flag_def)

lemma credNamespace_trimmed: "TrimSpace (credNamespace opts) = credNamespace opts" "credNamespace opts \<noteq> ''''"
proof -
  have "TrimSpace ''vworkspace-system'' = ''vworkspace-system''" by code_simp
  then show "TrimSpace (credNamespace opts) = credNamespace opts" "credNamespace opts \<noteq> ''''"
    by (simp_all add: credNamespace_def Let_def)
qed

lemma wired_namespace: "operatorNamespace E (main_Cluster (wire E' retry mapper opts)) = credNamespace opts"
  by (simp add: operatorNamespace_def wire_def credNamespace_trimmed)

lemma main_Started:
  assumes "run_state (main E retry mapper ParseDuration foreign step inCluster kubeConfig client_New n args) w = (Some (Started op), w')"
  obtains opts where "op = wire E retry mapper opts" and "operatorOptions E ParseDuration foreign args = Inr opts"
    and "\<forall>what \<in> set (setup_steps opts). step what = None" and "w' = w"
proof -
  have "\<not> (args \<noteq> [] \<and> hd args = ''register'')"
    using assms by (auto simp: main_def go_run split: prod.splits)
  then have "(case operatorOptions E ParseDuration foreign args of
           Inl err \<Rightarrow> Exited (if err = ErrHelp then 0 else 2)
         | Inr opts \<Rightarrow> if list_ex (\<lambda>what. step what \<noteq> None) (setup_steps opts) then Exited 1
             else Started (wire E retry mapper opts)) = Started op" and "w' = w"
    using assms unfolding main_def by (simp_all only: if_False run_state_return prod.inject option.inject)
  then show ?thesis
    by (cases "operatorOptions E ParseDuration foreign args") (auto simp: list_ex_iff intro: that split: if_splits)
qed

text \<open>C11: when the operator starts, its parts agree on where the credentials of the cluster are. The agent
  runtime looks, for a Cluster that names no Secret, at the namespace and the name the Cluster controller
  stores them under; the keys of applied jobs are kept in the same namespace, which is never blank; and the
  webhook, if it is enabled, verifies approval claims with the secret of the Operation controller.\<close>

theorem operator_parts_agree:
  assumes "run_state (main E retry mapper ParseDuration foreign step inCluster kubeConfig client_New n args) w = (Some (Started op), w')"
    and "list_clusters E2 (ListClusters # hist v) = Inr (cluster # clusters)"
    and "\<not> being_deleted (cl_meta cluster)" and "CredentialsSecretRef (cl_Status cluster) = None"
  shows "run_state (resolveCredentialsTarget E2 (main_Runtime op)) v =
      (Inr (operatorNamespace E3 (main_Cluster op), TrimSpace (credentialsSecretName (main_Cluster op)), True),
       v\<lparr>hist := ListClusters # hist v\<rparr>)
    \<and> map_option is_Namespace (rc_Idempotency (main_Runtime op)) = Some (operatorNamespace E3 (main_Cluster op))
    \<and> TrimSpace (operatorNamespace E3 (main_Cluster op)) \<noteq> ''''
    \<and> main_WebhookSecret op \<in> {None, Some (ApprovalClaimSecret (main_Operation op))}"
proof -
  obtain opts where op: "op = wire E retry mapper opts" using main_Started [OF assms(1)] by blast
  have ns: "operatorNamespace E3 (main_Cluster op) = credNamespace opts" unfolding op by (rule wired_namespace)
  have "TrimSpace DefaultCredentialsSecret = DefaultCredentialsSecret" by code_simp
  then have "run_state (resolveCredentialsTarget E2 (main_Runtime op)) v =
      (Inr (credNamespace opts, TrimSpace (credentialsSecretName (main_Cluster op)), True), v\<lparr>hist := ListClusters # hist v\<rparr>)"
    using assms(2-4) by (simp add: resolveCredentialsTarget_def go_run op wire_def credNamespace_trimmed credentialsSecretName_def)
  then show ?thesis unfolding ns by (simp add: op wire_def credNamespace_trimmed)
qed

section \<open>Witnesses\<close>

lemma demo_operator_options:
  "operatorOptions demo_env (\<lambda>_. Inr 0) [] [''--webhooks-enabled'', ''-agent-credentials-namespace'', '' agents ''] =
     Inr ((defaultOptions demo_env)\<lparr>agentCredentialsNamespace := '' agents '', enableWebhooks := True\<rparr>)"
  by code_simp

theorem operator_parts_agree_witness:
  "\<exists>op :: Operator. fst (run_state (main demo_env (attempts 4) None (\<lambda>_. Inr 0) [] (\<lambda>_. None) (Inr ()) (Inr ()) (\<lambda>_. None) 0
       [''--webhooks-enabled'', ''-agent-credentials-namespace'', '' agents '']) demo_world) = Some (Started op)
     \<and> operatorNamespace demo_env (main_Cluster op) = ''agents''
     \<and> fst (run_state (resolveCredentialsTarget (demo_env\<lparr>list_clusters := (\<lambda>_. Inr [registered_cluster])\<rparr>) (main_Runtime op)) demo_world)
         = Inr (''agents'', DefaultCredentialsSecret, True)"
proof -
  let ?opts = "(defaultOptions demo_env)\<lparr>agentCredentialsNamespace := '' agents '', enableWebhooks := True\<rparr>"
  let ?op = "wire demo_env (attempts 4) None ?opts"
  let ?E = "demo_env\<lparr>list_clusters := (\<lambda>_. Inr [registered_cluster])\<rparr>"
  have run: "run_state (main demo_env (attempts 4) None (\<lambda>_. Inr 0) [] (\<lambda>_. None) (Inr ()) (Inr ()) (\<lambda>_. None) 0
       [''--webhooks-enabled'', ''-agent-credentials-namespace'', '' agents '']) demo_world = (Some (Started ?op), demo_world)"
    unfolding main_def demo_operator_options by (simp add: list_ex_iff)
  have cluster: "list_clusters ?E (ListClusters # hist demo_world) = Inr (registered_cluster # [])"
    "\<not> being_deleted (cl_meta registered_cluster)" "CredentialsSecretRef (cl_Status registered_cluster) = None"
    by (simp_all add: registered_cluster_def being_deleted_def meta0_def)
  have "TrimSpace '' agents '' = ''agents''" "TrimSpace DefaultCredentialsSecret = DefaultCredentialsSecret" by code_simp+
  then have names: "operatorNamespace demo_env (main_Cluster ?op) = ''agents''"
    "TrimSpace (credentialsSecretName (main_Cluster ?op)) = DefaultCredentialsSecret"
    unfolding wired_namespace by (simp_all add: credNamespace_def wire_def credentialsSecretName_def defaultOptions_def)
  from operator_parts_agree [OF run cluster, where ?E3.0 = demo_env] run names show ?thesis
    by (intro exI [of _ ?op]) (simp only: fst_conv)
qed

end
