(* ===== verification/Spec2Isabelle.thy ===== *)
theory Spec2Isabelle
  imports Operator_Main Admission
begin

text \<open>
  A verification of vworkspace-operator, the Kubernetes operator that runs application instances and
  operations on them for a remote control plane. Paths below are relative to \<^verbatim>\<open>src/\<close>.

  \<^bold>\<open>The program.\<close> An agent inside the operator polls the control plane for jobs, applies them as custom
  resources and reports back (\<^verbatim>\<open>internal/agent\<close>). Three controllers reconcile the resources
  (\<^verbatim>\<open>internal/controller\<close>): Operations run through engines that create Jobs, Workflows, Velero objects or
  patch HelmReleases (\<^verbatim>\<open>internal/engines\<close>), ApplicationInstances become HelmReleases or Seaweed
  resources (\<^verbatim>\<open>internal/helmengine\<close>, \<^verbatim>\<open>internal/seaweedengine\<close>), and the Cluster resource holds the
  registration and the heartbeat. Admission webhooks check both user-facing kinds (\<^verbatim>\<open>internal/webhook\<close>).
  Conditions that change are queued as events and posted in batches.

  \<^bold>\<open>How code is translated.\<close> A Go string is a list of bytes, an error is a value of \<open>go_error\<close> and a
  fallible result is \<open>go_error + 'a\<close>; a nil pointer is \<open>None\<close>. A function that talks to the API server or
  the control plane is a program \<open>'a prog\<close>, a state monad over the \<open>world\<close>: the history of requests, the
  event buffer and the maps that the reconcilers keep in memory. The answers come from the record \<open>env\<close>,
  whose fields map the history up to and including a request to its answer, so nothing is assumed about
  the server, and two equal requests may be answered differently. Third-party code (controller-runtime
  helpers, the JSON-schema compiler, YAML, the decoding of Kubernetes objects, the client-go retry loop)
  is a field of \<open>env\<close> or an argument; what is relied on of it is a named law such as \<open>finalizer_laws\<close>,
  \<open>nested_laws\<close>, \<open>owner_laws\<close>, \<open>schema_sound\<close> or \<open>retry_laws\<close>, and every property that uses one has a
  witness in which it holds. The Go standard library is modelled as far as it is used: text functions,
  JSON values and text, SHA-256, HMAC, hex and base64. A panic that controller-runtime recovers is the
  error \<open>nil_dereference\<close>.

  \<^bold>\<open>Theories\<close>, in the order of their imports.
  \<^item> \<^verbatim>\<open>Go_Prelude\<close>: errors, results, time, text functions and the generic lemmas on them.
  \<^item> \<^verbatim>\<open>Go_Json\<close>, \<^verbatim>\<open>Go_Json_Text\<close>: JSON values, decoding into maps and structs, parsing and printing.
  \<^item> \<^verbatim>\<open>Go_Codec\<close>: SHA-256, HMAC, hex and base64url.
  \<^item> \<^verbatim>\<open>Api_Types\<close>: the custom resources of \<^verbatim>\<open>api/apps\<close> and \<^verbatim>\<open>api/ops\<close>, labels and annotations.
  \<^item> \<^verbatim>\<open>Conditions\<close>: \<^verbatim>\<open>internal/conditions\<close>, with the contract of a condition store.
  \<^item> \<^verbatim>\<open>Events\<close>: the event buffer and the reporter (\<^verbatim>\<open>agent/events.go\<close>, \<^verbatim>\<open>agent/reporter.go\<close>). \<open>Flush\<close> is
    split at its critical sections and \<open>buf_step\<close> interleaves them with other goroutines.
  \<^item> \<^verbatim>\<open>Templates\<close>, \<^verbatim>\<open>Approvals\<close>, \<^verbatim>\<open>Concurrency\<close>: \<^verbatim>\<open>internal/operations\<close>.
  \<^item> \<^verbatim>\<open>Kube\<close>: requests, \<open>env\<close>, \<open>world\<close>, \<open>CreateOrUpdate\<close>, and the two ways of reasoning about programs,
    \<open>wp\<close> (results) and \<open>emits\<close> (requests).
  \<^item> \<^verbatim>\<open>Engines_Common\<close>, \<^verbatim>\<open>Engine_Jobs\<close>, \<^verbatim>\<open>Engine_Objects\<close>: \<^verbatim>\<open>internal/engines\<close>; the locale
    \<open>operation_engine\<close> is the contract of the five engines.
  \<^item> \<^verbatim>\<open>Operation_Controller\<close>: \<^verbatim>\<open>controller/operation_controller.go\<close> and the life cycle it refines.
  \<^item> \<^verbatim>\<open>Admission\<close>: \<^verbatim>\<open>internal/webhook\<close> and \<^verbatim>\<open>controller/validation.go\<close>.
  \<^item> \<^verbatim>\<open>Agent_Client\<close>, \<^verbatim>\<open>Agent\<close>: the HTTP client, registration, credentials, idempotency store, applier,
    poller and runtime of \<^verbatim>\<open>internal/agent\<close>.
  \<^item> \<^verbatim>\<open>Cluster_Controller\<close>: \<^verbatim>\<open>controller/cluster_controller.go\<close>.
  \<^item> \<^verbatim>\<open>App_Engines\<close>: \<^verbatim>\<open>internal/helmengine\<close> and \<^verbatim>\<open>internal/seaweedengine\<close>.
  \<^item> \<^verbatim>\<open>App_Controller\<close>: \<^verbatim>\<open>controller/applicationinstance_controller.go\<close>; the locales \<open>uninstaller\<close> and
    \<open>workload_engine\<close> are what it relies on of the two engines.
  \<^item> \<^verbatim>\<open>Event_Delivery\<close>: \<^verbatim>\<open>Flush\<close> and \<^verbatim>\<open>Start\<close> of the event buffer over the HTTP client and the hooks of that
    controller; the locale \<open>batch_hooks\<close> is what the buffer relies on of the hooks.
  \<^item> \<^verbatim>\<open>Register_Cli\<close>: command-line flags and \<^verbatim>\<open>internal/cli/register.go\<close>.
  \<^item> \<^verbatim>\<open>Operator_Main\<close>: \<^verbatim>\<open>cmd/main.go\<close>, the options and how the parts are put together (\<open>wire\<close>).
  The properties at the end of this theory span components: from registration to a running agent, and from
  admission to the approval gate.

  Every operation keeps its Go name; a suffix or prefix tells apart operations of equal name
  (\<open>App_Reconcile\<close>, \<open>Flux_SyncStatus\<close>). A long function is cut into a few definitions at its branches, in
  the order of the source.

  \<^bold>\<open>What is shown.\<close>
  \<^item> Operations: which requests a reconcile makes; that status writes follow the life cycle; that engine
    results are recorded; that finalizers go only after cancellation; the grace period of a missing
    workload; and the behaviours of the conflict check and of terminal operations that contradict the
    intent (a running operation put back to Pending, a succeeded one that fails later, an upgrade that
    never ends).
  \<^item> Application instances: the finalizer goes only after the workload is gone; Ready=True is written only
    after the workload was read and found ready; storage credentials are claimed before they are queued
    and not queued twice while they are on their way; what the stored HelmRelease and Seaweed resource
    contain; which credential is chosen. \<open>extracted_credentials_queued_again\<close> shows the gap in which they
    are queued twice, \<open>instance_without_release_stuck\<close> an instance that cannot be deleted.
  \<^item> Cluster: a registered cluster is not registered again; an exchanged token is recorded with the
    credentials; the heartbeat decides the connectivity condition; every write keeps the status typed.
  \<^item> Agent: a job is acknowledged, applied and reported in this order; a redelivered job is not applied
    twice, also after a restart; the wait for a backup location ends.
  \<^item> Events: order, conservation and bound of the buffer under every interleaving.
  \<^item> Approvals and admission: exactly which claims, operations, instances and inline values are accepted.
  \<^item> Engines: what the created workloads may contain, that materializing is idempotent, and that writes are
    confined to the objects of the operation.
  \<^item> Composition: the flush refines the buffer's \<open>Flush\<close>, and credentials that were queued are, after a flush,
    still in the buffer or settled, and not queued again; the register command ends, makes only the requests
    it should and gives a Cluster whose token the Cluster controller exchanges; the parts that the main
    program builds agree on credentials and secrets; a registration starts the agent; an admitted approval claim
    opens the gate until it expires.

  \<^bold>\<open>Bounds.\<close> Recursion is structural or has a termination proof. The wait for a backup storage location takes fuel
  and is shown to return with 47 rounds, as 90 seconds are polled every 2 seconds; the wait of
  the register command returns with 61, as two minutes are polled every 2 seconds; the loops of the poller, the runtime and
  the flush run until their context ends and take the number of rounds as fuel; the poll loop is unfolded
  round by round; the acknowledgement of a storage delivery makes at most three attempts, as the code
  does; the retry loop of client-go is a parameter that behaves as some finite number of attempts. Times are integers in
  nanoseconds and Go integers are unbounded where the code cannot come near their width; SHA-256 works on
  32-bit words.

  \<^bold>\<open>Not modelled.\<close> Logging and metrics, which decide nothing; the registration of controllers and webhooks with
  the manager, its watches and work queues, and what runs after \<^verbatim>\<open>mgr.Start\<close> as a whole: the reconcilers, the
  agent and the flush are modelled one run at a time, with interleavings for the event buffer only; the
  scheme and the generated deep copies; \<^verbatim>\<open>time.ParseDuration\<close>, an argument of the command line because it
  computes with floating-point numbers; the mock control plane and helpers under \<^verbatim>\<open>test/\<close>, which are not part of the
  operator; charts, manifests and documentation. The mutexes appear as the atomicity of the operations they guard; data races
  outside them are not considered. A write that succeeds is taken to leave the object as it was sent.
\<close>

section \<open>From registration to a running agent\<close>

lemma target_of_registered:
  assumes "list_clusters E (ListClusters # hist w) = Inr (fresh # clusters)" and "\<not> being_deleted (cl_meta fresh)"
    and "CredentialsSecretRef (cl_Status fresh) = Some \<lparr>sr_Name = name, sr_Namespace = ns\<rparr>" and "TrimSpace name \<noteq> ''''"
    and "TrimSpace ns \<noteq> ''''"
  shows "run_state (resolveCredentialsTarget E cfg) w = (Inr (TrimSpace ns, TrimSpace name, True), w\<lparr>hist := ListClusters # hist w\<rparr>)"
  using assms by (simp add: resolveCredentialsTarget_def go_run)

lemma wired_secret_name: "TrimSpace (credentialsSecretName r) \<noteq> ''''"
proof -
  have "TrimSpace DefaultCredentialsSecret = DefaultCredentialsSecret" by code_simp
  then show ?thesis by (simp add: credentialsSecretName_def)
qed


section \<open>From admission to the approval gate\<close>

lemma claim_valid_until:
  assumes "claim_valid t secret claim name"
  shows "\<exists>exp. Unix t \<le> exp \<and> (\<forall>now. claim_valid now secret claim name \<longleftrightarrow> Unix now \<le> exp)"
proof -
  obtain body payload where claim: "claim = Prefix @ ''.'' @ body @ ''.'' @ hmacSHA256Hex secret body" "CHR ''.'' \<notin> set body"
    and payload: "decodePayload body = Inr payload" "pl_Version payload = 1"
      "TrimSpace (OperationName payload) = TrimSpace name" "Unix t \<le> pl_ExpiresAt payload"
    using assms unfolding claim_valid_def by blast
  have "body' = body" if "claim = Prefix @ ''.'' @ body' @ ''.'' @ hmacSHA256Hex secret body'" "CHR ''.'' \<notin> set body'" for body'
  proof -
    have "body' @ CHR ''.'' # hmacSHA256Hex secret body' = body @ CHR ''.'' # hmacSHA256Hex secret body" using that claim by simp
    then have "hd (Split (CHR ''.'') (body' @ CHR ''.'' # hmacSHA256Hex secret body')) =
        hd (Split (CHR ''.'') (body @ CHR ''.'' # hmacSHA256Hex secret body))" by (rule arg_cong)
    then show ?thesis using that(2) claim(2) by (simp only: Split_append list.sel not_False_eq_True)
  qed
  then have "claim_valid now secret claim name \<longleftrightarrow> Unix now \<le> pl_ExpiresAt payload" for now
    unfolding claim_valid_def using claim payload by (metis sum.inject(2))
  with payload(4) show ?thesis by blast
qed

text \<open>C10: in the operator that the main program builds with webhooks enabled, an Operation that was admitted
  with an approval claim passes the approval gate of the Operation controller until the claim expires, which
  is not before its admission, and not afterwards.\<close>

theorem admitted_claim_opens_gate:
  assumes "op = wire E retry mapper opts" and "main_WebhookSecret op = Some secret"
    and "fst (run_state (ValidateCreate E2 secret operation) w) = None"
    and "approvals_Claim (Some operation) \<noteq> ''''" and "approvals_Required (Some operation)"
  shows "\<exists>exp. Unix (clock E2 (GetApplicationInstance (Namespace (op_meta operation)) (tr_Name (os_TargetRef (op_Spec operation)))
              # GetNamespace (Namespace (op_meta operation)) # hist w)) \<le> exp
    \<and> (\<forall>now. fst (BlockReason now operation (ApprovalClaimSecret (main_Operation op))) = False \<longleftrightarrow> Unix now \<le> exp)"
proof -
  let ?t = "clock E2 (GetApplicationInstance (Namespace (op_meta operation)) (tr_Name (os_TargetRef (op_Spec operation)))
              # GetNamespace (Namespace (op_meta operation)) # hist w)"
  have same: "ApprovalClaimSecret (main_Operation op) = secret" "TrimSpace secret = secret"
    using assms(1,2) by (auto simp: wire_def split: if_splits)
  have trimmed: "TrimSpace (approvals_Claim (Some operation)) = approvals_Claim (Some operation)"
    by (simp add: approvals_Claim_def split: option.split)
  have "ValidateClaim ?t secret (approvals_Claim (Some operation)) (Name (op_meta operation)) = None"
    using assms(3,4) unfolding ValidateCreate_def validateOperation_None Let_def by blast
  then have valid: "secret \<noteq> ''''" "claim_valid ?t secret (approvals_Claim (Some operation)) (Name (op_meta operation))"
    using assms(4) by (simp_all add: ValidateClaim_def Verify_iff trimmed same)
  from claim_valid_until [OF valid(2)] show ?thesis
    unfolding same BlockReason_iff using valid(1) assms(5) same by simp
qed

section \<open>Witnesses\<close>


text \<open>A backup with a claim that the control plane has issued for it.\<close>

definition approved_backup :: "string \<Rightarrow> Operation" where
  "approved_backup claim =
     (let op = live_op OperationTypeBackup EngineVelero '''' None in
      op\<lparr>op_Spec := (op_Spec op)\<lparr>Approvals := Some \<lparr>Required = True, Claim = claim, ApprovedBy = '''', ApprovedAt = ''''\<rparr>\<rparr>\<rparr>)"

lemma approved_backup_checks:
  "ValidateOperationSpec (Some (approved_backup claim)) = None" "validateOperationParameters backup_server (approved_backup claim) = None"
  "approvals_Claim (Some (approved_backup claim)) = TrimSpace claim" "Name (op_meta (approved_backup claim)) = ''run''"
  "os_Type (op_Spec (approved_backup claim)) = OperationTypeBackup" "os_Engine (op_Spec (approved_backup claim)) = EngineVelero"
  "approvals_Required (Some (approved_backup claim))"
proof -
  show "ValidateOperationSpec (Some (approved_backup claim)) = None" by code_simp
  have "validateOperationParameters demo_env (live_op OperationTypeBackup EngineVelero '''' None) = None" by code_simp
  then show "validateOperationParameters backup_server (approved_backup claim) = None"
    by (simp add: validateOperationParameters_def approved_backup_def op_server_def Let_def)
qed (simp_all add: approved_backup_def approvals_Claim_def approvals_Required_def live_op_def demo_op_def Let_def)

theorem admitted_claim_opens_gate_witness:
  "\<exists>claim exp. \<exists>op :: Operator. main_WebhookSecret op = Some ''key''
     \<and> fst (run_state (ValidateCreate backup_server ''key'' (approved_backup claim)) demo_world) = None
     \<and> (\<forall>now. fst (BlockReason now (approved_backup claim) (ApprovalClaimSecret (main_Operation op))) = False \<longleftrightarrow> Unix now \<le> exp)"
proof -
  let ?opts = "(defaultOptions demo_env)\<lparr>enableWebhooks := True, approvalClaimSecret := '' key ''\<rparr>"
  let ?op = "wire demo_env (attempts 4) None ?opts"
  have key: "TrimSpace '' key '' = ''key''" "TrimSpace ''key'' = ''key''" "TrimSpace ''velero'' = ''velero''" by code_simp+
  have secret: "main_WebhookSecret ?op = Some ''key''" by (simp add: wire_def key)
  let ?t = "clock backup_server (GetApplicationInstance ''ns'' ''app'' # GetNamespace ''ns'' # hist demo_world)"
  obtain claim where claim: "Verify ?t ''key'' claim ''run'' = None"
    using issue_verify [of "''key''" "demo_payload\<lparr>OperationName := ''run''\<rparr>" ?t]
    by (auto simp: demo_payload_def rune_size_def in_width_def Unix_def seconds_def key op_server_def demo_env_def demo_world_def)
  then have present: "TrimSpace claim \<noteq> ''''" by (auto simp: Verify_iff claim_valid_def)
  have srv: "get_namespace backup_server h = Inl (ApiStatus NotFound ''not found'')" "list_operations backup_server h = Inr []" for h
    by (simp_all add: op_server_def demo_env_def)
  have names: "Namespace (op_meta (approved_backup claim)) = ''ns''" "tr_Name (os_TargetRef (op_Spec (approved_backup claim))) = ''app''"
    by (simp_all add: approved_backup_def live_op_def demo_op_def Let_def)
  have "ValidateClaim ?t ''key'' (TrimSpace claim) ''run'' = None"
    using claim by (simp add: ValidateClaim_def Verify_iff)
  then have admitted: "fst (run_state (ValidateCreate backup_server ''key'' (approved_backup claim)) demo_world) = None"
    unfolding ValidateCreate_def validateOperation_None Let_def srv approved_backup_checks names
    by (simp add: Lookup_builtin builtin_def backup_target_def key)
  have "approvals_Claim (Some (approved_backup claim)) \<noteq> ''''" using present by (simp add: approved_backup_checks)
  from admitted_claim_opens_gate [OF refl secret admitted this approved_backup_checks(7)] secret admitted show ?thesis by blast
qed

end
